(* ===== verification/Rclp_Prelude.thy ===== *)
theory Rclp_Prelude
  imports Complex_Main "HOL-Library.List_Lexorder" "HOL-Library.Char_ord"
begin

text \<open>
  Shared vocabulary of the development: Python exceptions as values and the result type of code
  that may raise, the early-return combinators that the checking functions of the program use
  throughout (\<^verbatim>\<open>if reason := check(): return reason\<close>), Python strings, and the collections of
  rewrite rules the component proofs draw on.
\<close>

named_theorems res_simps \<open>rewriting of results, early returns and their outcomes\<close>

section \<open>Exceptions as values\<close>

text \<open>
  The exceptions the modelled code raises or lets through. \<open>ValueError\<close> carries its message.
  \<open>BinasciiError\<close> and \<open>UnicodeEncodeError\<close> are subclasses of \<open>ValueError\<close> in Python; the code that catches
  \<open>ValueError\<close> catches them too.
\<close>

datatype exn =
    ValueError string
  | KeyError string
  | TypeError
  | OverflowError
  | IntegrityError
  | BinasciiError
  | AssertionError
  | AttributeError
  | UnicodeEncodeError

type_synonym 'a res = "exn + 'a"
type_synonym reason = string
type_synonym violation = "reason option"

definition bindr :: "'a res \<Rightarrow> ('a \<Rightarrow> 'b res) \<Rightarrow> 'b res" where
  "bindr m f = (case m of Inl e \<Rightarrow> Inl e | Inr a \<Rightarrow> f a)"

text \<open>
  \<open>guardr c k rest\<close> is \<^verbatim>\<open>if reason := c(): return k(reason)\<close> followed by \<open>rest\<close>, where \<open>c\<close> may raise;
  \<open>guardv\<close> is the same for a check that cannot raise.
\<close>

definition guardr :: "violation res \<Rightarrow> (reason \<Rightarrow> 'b) \<Rightarrow> 'b res \<Rightarrow> 'b res" where
  "guardr c k rest =
     (case c of Inl e \<Rightarrow> Inl e | Inr v \<Rightarrow> (case v of Some r \<Rightarrow> Inr (k r) | None \<Rightarrow> rest))"

definition guardv :: "violation \<Rightarrow> (reason \<Rightarrow> 'b) \<Rightarrow> 'b \<Rightarrow> 'b" where
  "guardv v k rest = (case v of Some r \<Rightarrow> k r | None \<Rightarrow> rest)"

lemma bindr_simps [simp]:
  "bindr (Inl e) f = Inl e"
  "bindr (Inr a) f = f a"
  by (simp_all add: bindr_def)

lemma bindr_cong [fundef_cong]:
  "m = m' \<Longrightarrow> (\<And>a. m' = Inr a \<Longrightarrow> f a = f' a) \<Longrightarrow> bindr m f = bindr m' f'"
  by (cases m') simp_all

lemma guardr_simps [simp]:
  "guardr (Inl e) k rest = Inl e"
  "guardr (Inr (Some r)) k rest = Inr (k r)"
  "guardr (Inr None) k rest = rest"
  by (simp_all add: guardr_def)

lemma guardv_simps [simp]:
  "guardv (Some r) k rest = k r"
  "guardv None k rest = rest"
  by (simp_all add: guardv_def)

lemma bindr_Inr_iff [res_simps]:
  "bindr m f = Inr b \<longleftrightarrow> (\<exists>a. m = Inr a \<and> f a = Inr b)"
  by (cases m) auto

lemma bindr_Inl_iff [res_simps]:
  "bindr m f = Inl e \<longleftrightarrow> m = Inl e \<or> (\<exists>a. m = Inr a \<and> f a = Inl e)"
  by (cases m) auto

lemma guardr_Inr_iff [res_simps]:
  "guardr c k rest = Inr b \<longleftrightarrow>
     (\<exists>r. c = Inr (Some r) \<and> b = k r) \<or> c = Inr None \<and> rest = Inr b"
  by (auto simp: guardr_def split: sum.splits option.splits)

lemma guardr_Inl_iff [res_simps]:
  "guardr c k rest = Inl e \<longleftrightarrow> c = Inl e \<or> c = Inr None \<and> rest = Inl e"
  by (auto simp: guardr_def split: sum.splits option.splits)

lemma guardv_eq_iff [res_simps]:
  "guardv v k rest = b \<longleftrightarrow> (\<exists>r. v = Some r \<and> k r = b) \<or> v = None \<and> rest = b"
  by (cases v) auto

text \<open>
  A chain of checks that returns its own reasons accepts exactly when every link accepts.
\<close>

lemma guardv_None_iff [res_simps]:
  "guardv v Some rest = None \<longleftrightarrow> v = None \<and> rest = None"
  by (cases v) auto

lemma guardr_None_iff [res_simps]:
  "guardr c Some rest = Inr None \<longleftrightarrow> c = Inr None \<and> rest = Inr None"
  by (auto simp: guardr_def split: sum.splits option.splits)

text \<open>A check of the shape \<^verbatim>\<open>for x in xs: if reason := f(x): return reason\<close>.\<close>

fun first_violation :: "('a \<Rightarrow> violation res) \<Rightarrow> 'a list \<Rightarrow> violation res" where
  "first_violation f [] = Inr None"
| "first_violation f (x # xs) = guardr (f x) Some (first_violation f xs)"

lemma first_violation_None_iff [res_simps]:
  "first_violation f xs = Inr None \<longleftrightarrow> (\<forall>x \<in> set xs. f x = Inr None)"
  by (induction xs) (auto simp: guardr_None_iff)

section \<open>Python strings\<close>

text \<open>
  A Python \<^verbatim>\<open>str\<close> is represented by its UTF-8 encoding, one \<^typ>\<open>char\<close> per byte, so that
  \<^verbatim>\<open>len(s.encode("utf-8"))\<close> is \<^const>\<open>length\<close> and string equality is equality. The \<^verbatim>\<open>bytes\<close> type has the
  same representation. A lone surrogate in a \<^verbatim>\<open>str\<close> is represented by the three bytes that the same scheme
  gives its code point; encoding such a string raises. A field that a message class declares as \<^verbatim>\<open>str\<close> never
  holds one, because its construction refuses it; the values of an untyped \<^verbatim>\<open>dict\<close> and an argument that no
  class validates may.
\<close>

abbreviation (input) byte_of :: "char \<Rightarrow> nat" where
  "byte_of c \<equiv> of_char c"

text \<open>The first byte of a surrogate is 0xED, and the second tells it from the code points before U+D800.\<close>

fun utf8_encodable :: "string \<Rightarrow> bool" where
  "utf8_encodable (c # d # s) = (\<not> (byte_of c = 237 \<and> 160 \<le> byte_of d) \<and> utf8_encodable (d # s))"
| "utf8_encodable _ = True"

text \<open>\<^verbatim>\<open>s.encode("utf-8")\<close>.\<close>

definition utf8_encode :: "string \<Rightarrow> string res" where
  "utf8_encode s = (if utf8_encodable s then Inr s else Inl UnicodeEncodeError)"

definition ascii_space :: "char \<Rightarrow> bool" where
  "ascii_space c \<longleftrightarrow> 9 \<le> byte_of c \<and> byte_of c \<le> 13 \<or> 28 \<le> byte_of c \<and> byte_of c \<le> 32"

text \<open>The white space that \<^verbatim>\<open>str.strip\<close> removes beyond ASCII, in UTF-8: U+0085, U+00A0; U+1680,
  U+2000 to U+200A, U+2028, U+2029, U+202F, U+205F, U+3000.\<close>

definition two_byte_space :: "char \<Rightarrow> char \<Rightarrow> bool" where
  "two_byte_space c d \<longleftrightarrow> byte_of c = 194 \<and> (byte_of d = 133 \<or> byte_of d = 160)"

definition three_byte_space :: "char \<Rightarrow> char \<Rightarrow> char \<Rightarrow> bool" where
  "three_byte_space c d e \<longleftrightarrow>
     byte_of c = 225 \<and> byte_of d = 154 \<and> byte_of e = 128 \<or>
     byte_of c = 226 \<and> byte_of d = 128 \<and>
       (128 \<le> byte_of e \<and> byte_of e \<le> 138 \<or> byte_of e = 168 \<or> byte_of e = 169 \<or> byte_of e = 175) \<or>
     byte_of c = 226 \<and> byte_of d = 129 \<and> byte_of e = 159 \<or>
     byte_of c = 227 \<and> byte_of d = 128 \<and> byte_of e = 128"

text \<open>\<open>py_blank s\<close> is \<^verbatim>\<open>not s.strip()\<close>.\<close>

fun py_blank :: "string \<Rightarrow> bool" where
  "py_blank [] = True"
| "py_blank (c # cs) =
     (if ascii_space c then py_blank cs
      else case cs of
          [] \<Rightarrow> False
        | d # ds \<Rightarrow>
            if two_byte_space c d then py_blank ds
            else (case ds of [] \<Rightarrow> False | e # es \<Rightarrow> three_byte_space c d e \<and> py_blank es))"

text \<open>\<open>or_str o d\<close> is \<^verbatim>\<open>o or d\<close> for an optional string \<open>o\<close>: \<^verbatim>\<open>None\<close> and the empty string are falsy.\<close>

definition or_str :: "string option \<Rightarrow> string \<Rightarrow> string" where
  "or_str v d = (case v of Some s \<Rightarrow> (if s = [] then d else s) | None \<Rightarrow> d)"

definition startswith :: "string \<Rightarrow> string \<Rightarrow> bool" where
  "startswith s p \<longleftrightarrow> take (length p) s = p"

lemma startswith_append [simp]: "startswith (p @ s) p"
  by (simp add: startswith_def)

fun join_with :: "string \<Rightarrow> string list \<Rightarrow> string" where
  "join_with sep [] = []"
| "join_with sep [x] = x"
| "join_with sep (x # y # xs) = x @ sep @ join_with sep (y # xs)"

fun nat_str :: "nat \<Rightarrow> string" where
  "nat_str n = (if n < 10 then [char_of (48 + n)] else nat_str (n div 10) @ [char_of (48 + n mod 10)])"

declare nat_str.simps [simp del]

definition int_str :: "int \<Rightarrow> string" where
  "int_str i = (if i < 0 then CHR ''-'' # nat_str (nat (- i)) else nat_str (nat i))"

text \<open>
  \<^verbatim>\<open>str\<close> of an integer: the interpreter refuses to print more than 4300 digits
  (\<^verbatim>\<open>sys.int_info.default_max_str_digits\<close>).
\<close>

definition MAX_STR_DIGITS :: nat where
  "MAX_STR_DIGITS = 4300"

definition too_many_digits :: exn where
  "too_many_digits = ValueError ''Exceeds the limit (4300 digits) for integer string conversion''"

definition str_of_int :: "int \<Rightarrow> string res" where
  "str_of_int i = (if MAX_STR_DIGITS < length (nat_str (nat \<bar>i\<bar>)) then Inl too_many_digits else Inr (int_str i))"

definition pad0 :: "nat \<Rightarrow> nat \<Rightarrow> string" where
  "pad0 k n = (let s = nat_str n in replicate (k - length s) CHR ''0'' @ s)"

definition bool_str :: "bool \<Rightarrow> string" where
  "bool_str b = (if b then ''True'' else ''False'')"

lemma length_nat_str: "n < 10 ^ Suc k \<Longrightarrow> length (nat_str n) \<le> Suc k"
proof (induction k arbitrary: n)
  case 0
  then show ?case by (subst nat_str.simps) simp
next
  case (Suc k)
  then have "n div 10 < 10 ^ Suc k" by (simp add: less_mult_imp_div_less)
  with Suc.IH show ?case by (subst nat_str.simps) simp
qed

lemma less_length_nat_str: "10 ^ Suc k \<le> n \<Longrightarrow> Suc k < length (nat_str n)"
proof (induction k arbitrary: n)
  case 0
  then have "length (nat_str (n div 10)) \<noteq> 0" by (subst nat_str.simps) simp
  with 0 show ?case by (subst nat_str.simps) simp
next
  case (Suc k)
  then have step: "10 ^ Suc k \<le> n div 10" by (simp add: less_eq_div_iff_mult_less_eq mult.commute)
  have "(0::nat) < 10 ^ Suc k" by simp
  with step have "0 < n div 10" by (rule less_le_trans [rotated])
  then have "nat_str n = nat_str (n div 10) @ [char_of (48 + n mod 10)]" by (subst nat_str.simps) simp
  with Suc.IH [OF step] show ?case by simp
qed

text \<open>The limit as a bound on the number.\<close>

lemma str_of_int_Inr: "str_of_int i = Inr s \<longleftrightarrow> \<bar>i\<bar> < 10 ^ MAX_STR_DIGITS \<and> s = int_str i"
proof -
  have digits: "length (nat_str n) \<le> Suc k \<longleftrightarrow> n < 10 ^ Suc k" for n k
    using length_nat_str less_length_nat_str by (metis linorder_not_less)
  obtain k where k: "MAX_STR_DIGITS = Suc k" by (simp add: MAX_STR_DIGITS_def)
  have "nat \<bar>i\<bar> < 10 ^ Suc k \<longleftrightarrow> \<bar>i\<bar> < 10 ^ Suc k" by (simp add: nat_less_iff)
  with digits [of "nat \<bar>i\<bar>" k] have "length (nat_str (nat \<bar>i\<bar>)) \<le> MAX_STR_DIGITS \<longleftrightarrow> \<bar>i\<bar> < 10 ^ MAX_STR_DIGITS"
    unfolding k by blast
  then show ?thesis by (auto simp: str_of_int_def not_less)
qed

section \<open>Facts on lists, options and maps that several components use\<close>

text \<open>Sets of a list, no two of which share an element.\<close>

fun pairwise_disjoint_list :: "'a set list \<Rightarrow> bool" where
  "pairwise_disjoint_list [] = True"
| "pairwise_disjoint_list (a # as) \<longleftrightarrow> (\<forall>b \<in> set as. a \<inter> b = {}) \<and> pairwise_disjoint_list as"

end
