(* ===== verification/Py_Values.thy ===== *)
theory Py_Values
  imports Rclp_Prelude
begin

text \<open>
  The Python values the program computes with: floats with their infinities and NaN, JSON values
  (command payloads, audit payloads, dumped messages) with Python's equality and the canonical
  printer of \<^verbatim>\<open>json.dumps\<close>, and \<^verbatim>\<open>datetime\<close>/\<^verbatim>\<open>timedelta\<close> with their range checks and the errors that
  mixing naive and aware values raises.
\<close>

section \<open>Floats\<close>

text \<open>
  A finite double is a rational number; the program only compares floats, so no rounding occurs
  except in \<^verbatim>\<open>float(n)\<close> for a Python integer. The two zeros are identified.
\<close>

datatype pyfloat = Fin rat | PInf | NInf | NaN

fun flt_lt :: "pyfloat \<Rightarrow> pyfloat \<Rightarrow> bool" where
  "flt_lt NaN _ = False"
| "flt_lt _ NaN = False"
| "flt_lt (Fin a) (Fin b) = (a < b)"
| "flt_lt NInf b = (b \<noteq> NInf)"
| "flt_lt _ NInf = False"
| "flt_lt PInf _ = False"
| "flt_lt _ PInf = True"

fun isfinite :: "pyfloat \<Rightarrow> bool" where
  "isfinite (Fin _) = True"
| "isfinite _ = False"

fun flt_eq :: "pyfloat \<Rightarrow> pyfloat \<Rightarrow> bool" where
  "flt_eq NaN _ = False"
| "flt_eq a b = (a = b)"

definition flt_le :: "pyfloat \<Rightarrow> pyfloat \<Rightarrow> bool" where
  "flt_le a b \<longleftrightarrow> flt_lt a b \<or> flt_eq a b"

lemma flt_le_Fin [simp]: "flt_le (Fin a) (Fin b) \<longleftrightarrow> a \<le> b"
  by (auto simp: flt_le_def)

lemma flt_lt_irrefl [simp]: "\<not> flt_lt a a"
  by (cases a) auto

lemma isfinite_iff: "isfinite x \<longleftrightarrow> (\<exists>q. x = Fin q)"
  by (cases x) auto

text \<open>
  \<^verbatim>\<open>float(n)\<close>: exact up to 53 significant bits, then rounded half to even; \<open>OverflowError\<close> when the
  rounded value does not fit a double.
\<close>

function bit_length :: "int \<Rightarrow> nat" where
  "bit_length n = (if n \<le> 0 then 0 else Suc (bit_length (n div 2)))"
  by pat_completeness auto
termination
  by (relation "measure nat") auto

declare bit_length.simps [simp del]

definition round_half_even :: "int \<Rightarrow> int \<Rightarrow> int" where
  "round_half_even a b =
     (let q = a div b; r = a mod b
      in if 2 * r < b \<or> 2 * r = b \<and> even q then q else q + 1)"

definition float_of_int :: "int \<Rightarrow> pyfloat res" where
  "float_of_int n =
     (let a = \<bar>n\<bar> in
      if a < 2 ^ 53 then Inr (Fin (of_int n))
      else
        let s = 2 ^ (bit_length a - 53);
            m = round_half_even a s * s
        in if 2 ^ 1024 \<le> m then Inl OverflowError else Inr (Fin (of_int (sgn n * m))))"

lemma bit_length_lower: "0 < n \<Longrightarrow> 2 ^ (bit_length n - 1) \<le> n"
proof (induction n rule: bit_length.induct)
  case (1 n)
  show ?case
  proof (cases "n = 1")
    case True
    then show ?thesis by (simp add: bit_length.simps)
  next
    case False
    with 1 have "0 < n div 2" and IH: "2 ^ (bit_length (n div 2) - 1) \<le> n div 2" by auto
    then obtain k where k: "bit_length (n div 2) = Suc k"
      by (subst (asm) bit_length.simps) (cases "bit_length (n div 2)", auto simp: bit_length.simps)
    with IH have "2 ^ Suc k \<le> n" by auto
    with k 1(2) show ?thesis by (subst bit_length.simps) simp
  qed
qed

lemma round_half_even_ge:
  assumes "0 < b" and "k * b \<le> a"
  shows "k \<le> round_half_even a b"
proof -
  from assms have "k * b div b \<le> a div b" by (intro zdiv_mono1)
  with assms(1) have "k \<le> a div b" by simp
  then show ?thesis by (simp add: round_half_even_def Let_def)
qed

lemma float_of_int_overflow:
  assumes "2 ^ 1024 \<le> \<bar>n\<bar>"
  shows "float_of_int n = Inl OverflowError"
proof -
  define j where "j = bit_length \<bar>n\<bar> - 53"
  let ?s = "2 ^ j :: int"
  have "(2::int) ^ 53 \<le> 2 ^ 1024" by (rule power_increasing) auto
  with assms have big: "2 ^ 53 \<le> \<bar>n\<bar>" by (rule order_trans [rotated])
  then have pos: "0 < \<bar>n\<bar>" by (rule less_le_trans [rotated]) simp
  have "?s \<le> 2 ^ (bit_length \<bar>n\<bar> - 1)"
    unfolding j_def by (rule power_increasing) auto
  with bit_length_lower [OF pos] have s: "?s \<le> \<bar>n\<bar>" by linarith
  have "2 ^ 1024 \<le> round_half_even \<bar>n\<bar> ?s * ?s"
  proof (cases "j \<le> 1024")
    case True
    then have eq: "(2::int) ^ 1024 = 2 ^ (1024 - j) * ?s"
      by (simp add: power_add [symmetric])
    with assms have "2 ^ (1024 - j) * ?s \<le> \<bar>n\<bar>" by (simp only: eq)
    then have "2 ^ (1024 - j) \<le> round_half_even \<bar>n\<bar> ?s"
      by (intro round_half_even_ge) auto
    then show ?thesis unfolding eq by (intro mult_right_mono) auto
  next
    case False
    then have "(2::int) ^ 1024 \<le> ?s" by (intro power_increasing) auto
    moreover from s have "1 \<le> round_half_even \<bar>n\<bar> ?s"
      by (intro round_half_even_ge) auto
    then have "1 * ?s \<le> round_half_even \<bar>n\<bar> ?s * ?s" by (intro mult_right_mono) auto
    ultimately show ?thesis by linarith
  qed
  with big show ?thesis
    unfolding float_of_int_def Let_def j_def by presburger
qed

section \<open>JSON values\<close>

datatype json =
    JNull
  | JBool bool
  | JInt int
  | JFloat pyfloat
  | JStr string
  | JList "json list"
  | JDict "(string \<times> json) list"

definition jopt :: "('a \<Rightarrow> json) \<Rightarrow> 'a option \<Rightarrow> json" where
  "jopt f v = (case v of None \<Rightarrow> JNull | Some a \<Rightarrow> f a)"

abbreviation jstr_opt :: "string option \<Rightarrow> json" where
  "jstr_opt \<equiv> jopt JStr"

text \<open>A dict is an association list with distinct keys in insertion order.\<close>

fun json_wf :: "json \<Rightarrow> bool" where
  "json_wf (JList xs) = list_all json_wf xs"
| "json_wf (JDict kvs) = (distinct (map fst kvs) \<and> list_all (\<lambda>kv. json_wf (snd kv)) kvs)"
| "json_wf _ = True"

text \<open>\<^verbatim>\<open>d.get(k)\<close> on a dict.\<close>

definition dict_get :: "(string \<times> json) list \<Rightarrow> string \<Rightarrow> json option" where
  "dict_get d k = map_of d k"

text \<open>The numeric value of a number, with booleans counting as 0 and 1 as they do in Python.\<close>

fun num_val :: "json \<Rightarrow> pyfloat option" where
  "num_val (JBool b) = Some (Fin (if b then 1 else 0))"
| "num_val (JInt n) = Some (Fin (of_int n))"
| "num_val (JFloat x) = Some x"
| "num_val _ = None"

lemma size_json_zip: "p \<in> set (zip xs ys) \<Longrightarrow> size (fst p) \<le> size_list size xs"
  for xs :: "json list"
  by (rule size_list_estimation' [of "fst p"]) (cases p, auto dest: set_zip_leftD)

lemma size_json_dict: "p \<in> set d \<Longrightarrow> size (snd p) \<le> size_list (size_prod (\<lambda>k. 0) size) d"
  for d :: "(string \<times> json) list"
  by (rule size_list_estimation' [of p]) (auto split: prod.splits simp: size_prod_simp)

text \<open>Python's \<^verbatim>\<open>==\<close>: numbers by value, containers by content, otherwise values of one type only.\<close>

function py_eq :: "json \<Rightarrow> json \<Rightarrow> bool" where
  "py_eq x y =
     (case (x, y) of
        (JNull, JNull) \<Rightarrow> True
      | (JStr s, JStr t) \<Rightarrow> s = t
      | (JList xs, JList ys) \<Rightarrow>
          length xs = length ys \<and> (\<forall>p \<in> set (zip xs ys). py_eq (fst p) (snd p))
      | (JDict d, JDict e) \<Rightarrow>
          length d = length e \<and>
          (\<forall>p \<in> set d. \<exists>q \<in> set e. fst p = fst q \<and> py_eq (snd p) (snd q))
      | _ \<Rightarrow> (case (num_val x, num_val y) of (Some a, Some b) \<Rightarrow> flt_eq a b | _ \<Rightarrow> False))"
  by pat_completeness auto
termination
  by (relation "measure (\<lambda>(x, y). size x)")
    (auto simp: less_Suc_eq_le dest: size_json_zip size_json_dict)

declare py_eq.simps [simp del]

section \<open>The canonical JSON printer\<close>

text \<open>
  \<^verbatim>\<open>json.dumps(..., sort_keys=True, separators=(",", ":"))\<close> with its default \<^verbatim>\<open>ensure_ascii=True\<close>.
  A string is decoded to code points first; everything outside printable ASCII is escaped, code
  points beyond the BMP as a surrogate pair. \<open>repr\<close> is the shortest round-trip representation of a
  finite double, a parameter of the printer.
\<close>

fun utf8_decode :: "string \<Rightarrow> nat list" where
  "utf8_decode [] = []"
| "utf8_decode (a # s) =
     (if byte_of a < 128 then byte_of a # utf8_decode s
      else case s of
        [] \<Rightarrow> []
      | b # s1 \<Rightarrow>
          if byte_of a < 224 then ((byte_of a - 192) * 64 + (byte_of b - 128)) # utf8_decode s1
          else (case s1 of
            [] \<Rightarrow> []
          | c # s2 \<Rightarrow>
              if byte_of a < 240
              then ((byte_of a - 224) * 4096 + (byte_of b - 128) * 64 + (byte_of c - 128)) # utf8_decode s2
              else (case s2 of
                [] \<Rightarrow> []
              | d # s3 \<Rightarrow>
                  ((byte_of a - 240) * 262144 + (byte_of b - 128) * 4096 + (byte_of c - 128) * 64
                    + (byte_of d - 128)) # utf8_decode s3)))"

definition hex_digit :: "nat \<Rightarrow> char" where
  "hex_digit n = (if n < 10 then char_of (48 + n) else char_of (87 + n))"

definition hex4 :: "nat \<Rightarrow> string" where
  "hex4 n = [hex_digit (n div 4096 mod 16), hex_digit (n div 256 mod 16),
             hex_digit (n div 16 mod 16), hex_digit (n mod 16)]"

definition json_escape :: "nat \<Rightarrow> string" where
  "json_escape n =
     (if n = 34 then [CHR 0x5C, CHR 0x22]
      else if n = 92 then [CHR 0x5C, CHR 0x5C]
      else if n = 10 then [CHR 0x5C, CHR ''n'']
      else if n = 13 then [CHR 0x5C, CHR ''r'']
      else if n = 9 then [CHR 0x5C, CHR ''t'']
      else if n = 12 then [CHR 0x5C, CHR ''f'']
      else if n = 8 then [CHR 0x5C, CHR ''b'']
      else if 32 \<le> n \<and> n < 127 then [char_of n]
      else if n < 65536 then [CHR 0x5C, CHR ''u''] @ hex4 n
      else let v = n - 65536
           in [CHR 0x5C, CHR ''u''] @ hex4 (55296 + v div 1024)
              @ [CHR 0x5C, CHR ''u''] @ hex4 (56320 + v mod 1024))"

definition json_string :: "string \<Rightarrow> string" where
  "json_string s = CHR 0x22 # concat (map json_escape (utf8_decode s)) @ [CHR 0x22]"

fun json_float :: "(rat \<Rightarrow> string) \<Rightarrow> pyfloat \<Rightarrow> string" where
  "json_float repr (Fin q) = repr q"
| "json_float repr PInf = ''Infinity''"
| "json_float repr NInf = ''-Infinity''"
| "json_float repr NaN = ''NaN''"

fun json_dumps :: "(rat \<Rightarrow> string) \<Rightarrow> json \<Rightarrow> string" where
  "json_dumps repr JNull = ''null''"
| "json_dumps repr (JBool b) = (if b then ''true'' else ''false'')"
| "json_dumps repr (JInt n) = int_str n"
| "json_dumps repr (JFloat x) = json_float repr x"
| "json_dumps repr (JStr s) = json_string s"
| "json_dumps repr (JList xs) = ''['' @ join_with '','' (map (json_dumps repr) xs) @ '']''"
| "json_dumps repr (JDict d) =
     ''{'' @ join_with '','' (map (\<lambda>kv. json_string (fst kv) @ '':'' @ snd kv)
       (sort_key fst (map (\<lambda>kv. (fst kv, json_dumps repr (snd kv))) d))) @ ''}''"

text \<open>\<^verbatim>\<open>str(x)\<close> of a float.\<close>

fun flt_str :: "(rat \<Rightarrow> string) \<Rightarrow> pyfloat \<Rightarrow> string" where
  "flt_str repr (Fin q) = repr q"
| "flt_str repr PInf = ''inf''"
| "flt_str repr NInf = ''-inf''"
| "flt_str repr NaN = ''nan''"

section \<open>Dates and durations\<close>

text \<open>
  A \<^verbatim>\<open>datetime\<close> is its wall-clock reading, in microseconds since 0001-01-01 00:00, and its UTC offset
  in microseconds; the offset is absent for a naive value (\<^verbatim>\<open>tzinfo is None\<close> or
  \<^verbatim>\<open>utcoffset() is None\<close>). A \<^verbatim>\<open>timedelta\<close> is a number of microseconds.
\<close>

record datetime =
  wall :: int
  utcoff :: "int option"

definition dt_naive :: "datetime \<Rightarrow> bool" where
  "dt_naive t \<longleftrightarrow> utcoff t = None"

definition utc :: "int \<Rightarrow> datetime" where
  "utc w = \<lparr>wall = w, utcoff = Some 0\<rparr>"

definition instant :: "datetime \<Rightarrow> int" where
  "instant t = wall t - (case utcoff t of Some d \<Rightarrow> d | None \<Rightarrow> 0)"

definition dt_limit :: int where
  "dt_limit = 3652059 * 86400000000"

definition td_limit :: int where
  "td_limit = 1000000000 * 86400000000"

definition td_check :: "int \<Rightarrow> int res" where
  "td_check us = (if - td_limit + 86400000000 \<le> us \<and> us < td_limit then Inr us else Inl OverflowError)"

definition timedelta_s :: "int \<Rightarrow> int res" where
  "timedelta_s s = td_check (s * 1000000)"

definition td_add :: "int \<Rightarrow> int \<Rightarrow> int res" where
  "td_add a b = td_check (a + b)"

definition dt_add :: "datetime \<Rightarrow> int \<Rightarrow> datetime res" where
  "dt_add t d =
     (if 0 \<le> wall t + d \<and> wall t + d < dt_limit then Inr (t\<lparr>wall := wall t + d\<rparr>) else Inl OverflowError)"

text \<open>Ordering and subtracting a naive and an aware value raises \<open>TypeError\<close>.\<close>

definition dt_lt :: "datetime \<Rightarrow> datetime \<Rightarrow> bool res" where
  "dt_lt a b = (if dt_naive a \<noteq> dt_naive b then Inl TypeError else Inr (instant a < instant b))"

definition dt_le :: "datetime \<Rightarrow> datetime \<Rightarrow> bool res" where
  "dt_le a b = (if dt_naive a \<noteq> dt_naive b then Inl TypeError else Inr (instant a \<le> instant b))"

definition dt_sub :: "datetime \<Rightarrow> datetime \<Rightarrow> int res" where
  "dt_sub a b = (if dt_naive a \<noteq> dt_naive b then Inl TypeError else Inr (instant a - instant b))"

lemma dt_naive_utc [simp]: "\<not> dt_naive (utc w)"
  by (simp add: dt_naive_def utc_def)

lemma instant_utc [simp]: "instant (utc w) = w"
  by (simp add: instant_def utc_def)

lemma wall_utc [simp]: "wall (utc w) = w"
  by (simp add: utc_def)

lemma dt_add_Inr_iff:
  "dt_add t d = Inr u \<longleftrightarrow> 0 \<le> wall t + d \<and> wall t + d < dt_limit \<and> u = t\<lparr>wall := wall t + d\<rparr>"
  by (auto simp: dt_add_def)

lemma instant_add [simp]: "instant (t\<lparr>wall := wall t + d\<rparr>) = instant t + d"
  by (simp add: instant_def)

lemma naive_add [simp]: "dt_naive (t\<lparr>wall := w\<rparr>) = dt_naive t"
  by (simp add: dt_naive_def)

text \<open>The calendar date of a day number (day 0 is 0001-01-01), for \<^verbatim>\<open>isoformat\<close> and \<^verbatim>\<open>str\<close>.\<close>

definition civil_of_day :: "int \<Rightarrow> int \<times> int \<times> int" where
  "civil_of_day n =
     (let z = n + 306;
          era = z div 146097;
          doe = z mod 146097;
          yoe = (doe - doe div 1460 + doe div 36524 - doe div 146096) div 365;
          doy = doe - (365 * yoe + yoe div 4 - yoe div 100);
          mp = (5 * doy + 2) div 153;
          d = doy - (153 * mp + 2) div 5 + 1;
          m = (if mp < 10 then mp + 3 else mp - 9);
          y = yoe + era * 400 + (if m \<le> 2 then 1 else 0)
      in (y, m, d))"

abbreviation (input) pad_int :: "nat \<Rightarrow> int \<Rightarrow> string" where
  "pad_int k i \<equiv> pad0 k (nat i)"

definition offset_str :: "int \<Rightarrow> string" where
  "offset_str off =
     (let a = \<bar>off\<bar>; s = a div 1000000; us = a mod 1000000
      in (if off < 0 then ''-'' else ''+'') @ pad_int 2 (s div 3600) @ '':'' @ pad_int 2 (s div 60 mod 60)
         @ (if s mod 60 = 0 \<and> us = 0 then [] else '':'' @ pad_int 2 (s mod 60))
         @ (if us = 0 then [] else ''.'' @ pad_int 6 us))"

definition isoformat_sep :: "string \<Rightarrow> datetime \<Rightarrow> string" where
  "isoformat_sep sep t =
     (let (y, m, d) = civil_of_day (wall t div 86400000000);
          r = wall t mod 86400000000;
          s = r div 1000000; us = r mod 1000000
      in pad_int 4 y @ ''-'' @ pad_int 2 m @ ''-'' @ pad_int 2 d @ sep
         @ pad_int 2 (s div 3600) @ '':'' @ pad_int 2 (s div 60 mod 60) @ '':'' @ pad_int 2 (s mod 60)
         @ (if us = 0 then [] else ''.'' @ pad_int 6 us)
         @ (case utcoff t of None \<Rightarrow> [] | Some off \<Rightarrow> offset_str off))"

definition isoformat :: "datetime \<Rightarrow> string" where
  "isoformat = isoformat_sep ''T''"

definition datetime_str :: "datetime \<Rightarrow> string" where
  "datetime_str = isoformat_sep '' ''"

section \<open>What the program takes from outside\<close>

text \<open>
  Code the program calls and does not contain: CPython's shortest representation of a double, the
  SHA-256 of \<^verbatim>\<open>hashlib\<close> (as hexadecimal text), the Ed25519 operations of the \<^verbatim>\<open>cryptography\<close> package
  (\<open>ed25519_pk_ok\<close> tells whether \<^verbatim>\<open>from_public_bytes\<close> accepts the raw key), pydantic's JSON rendering of
  a date, the system clock and \<^verbatim>\<open>uuid4().hex\<close>. The clock and the generator are read repeatedly and
  give the next value each time.
\<close>

record env =
  float_repr :: "rat \<Rightarrow> string"
  sha256_hex :: "string \<Rightarrow> string"
  ed25519_pk_ok :: "string \<Rightarrow> bool"
  ed25519_verify :: "string \<Rightarrow> string \<Rightarrow> string \<Rightarrow> bool"
  ed25519_sign :: "string \<Rightarrow> string \<Rightarrow> string"
  ed25519_public :: "string \<Rightarrow> string"
  datetime_json :: "datetime \<Rightarrow> string"
  clock :: "nat \<Rightarrow> datetime"
  uuid4_hex :: "nat \<Rightarrow> string"

record world =
  clock_reads :: nat
  uuid_draws :: nat

definition tick :: "world \<Rightarrow> world" where
  "tick w = w\<lparr>clock_reads := Suc (clock_reads w)\<rparr>"

definition draw :: "world \<Rightarrow> world" where
  "draw w = w\<lparr>uuid_draws := Suc (uuid_draws w)\<rparr>"

definition utc_now :: "env \<Rightarrow> world \<Rightarrow> datetime" where
  "utc_now E w = clock E (clock_reads w)"

definition uuid_text :: "env \<Rightarrow> string \<Rightarrow> world \<Rightarrow> string" where
  "uuid_text E p w = p @ uuid4_hex E (uuid_draws w)"

text \<open>\<^verbatim>\<open>now or datetime.now(timezone.utc)\<close>: the clock is read only when no time was passed.\<close>

definition now_or_clock :: "env \<Rightarrow> datetime option \<Rightarrow> world \<Rightarrow> datetime \<times> world" where
  "now_or_clock E now w = (case now of Some t \<Rightarrow> (t, w) | None \<Rightarrow> (utc_now E w, tick w))"

end
