(* ===== verification/Models.thy ===== *)
theory Models
  imports Py_Values
begin

text \<open>
  The protocol's data model (\<^verbatim>\<open>rclp_core/models.py\<close>): the enumerations, one record per message class,
  the validators that run on construction, and the JSON dump of every message that is signed or
  hashed. Inheritance from \<^verbatim>\<open>BaseMessage\<close> is record extension; the fields \<^verbatim>\<open>signature_alg\<close> and
  \<^verbatim>\<open>signature\<close>, which every signed class declares, and the set of explicitly given fields that pydantic
  keeps (\<^verbatim>\<open>model_fields_set\<close>), form the intermediate record \<open>signed_message\<close>. The constant
  \<^verbatim>\<open>message_type\<close> of a class appears in its dump.
\<close>

section \<open>Constants and enumerations\<close>

definition SUPPORTED_PROTOCOL_VERSION :: string where
  "SUPPORTED_PROTOCOL_VERSION = ''0.0.1-draft''"

definition ED25519_SIGNATURE_ALGORITHM :: string where
  "ED25519_SIGNATURE_ALGORITHM = ''RCLP-DEV-ED25519''"

datatype capability = REMOTE_ASSIST | MISSION_CONTINUE | AUTONOMY_ESCALATION

fun capability_str :: "capability \<Rightarrow> string" where
  "capability_str REMOTE_ASSIST = ''remote_assist''"
| "capability_str MISSION_CONTINUE = ''mission_continue''"
| "capability_str AUTONOMY_ESCALATION = ''autonomy_escalation''"

datatype decision = ALLOW | DENY | DEGRADE

fun decision_str :: "decision \<Rightarrow> string" where
  "decision_str ALLOW = ''allow''"
| "decision_str DENY = ''deny''"
| "decision_str DEGRADE = ''degrade''"

datatype fallback_action =
    LOCAL_AUTONOMY_ONLY | CRAWL_TO_SAFE_ZONE | HOLD_POSITION | REVOKE_REMOTE_ASSIST | ESCALATE_TO_HUMAN

fun fallback_action_str :: "fallback_action \<Rightarrow> string" where
  "fallback_action_str LOCAL_AUTONOMY_ONLY = ''local_autonomy_only''"
| "fallback_action_str CRAWL_TO_SAFE_ZONE = ''crawl_to_safe_zone''"
| "fallback_action_str HOLD_POSITION = ''hold_position''"
| "fallback_action_str REVOKE_REMOTE_ASSIST = ''revoke_remote_assist''"
| "fallback_action_str ESCALATE_TO_HUMAN = ''escalate_to_human''"

datatype audit_event_type =
    DEMO_SETUP | CAPABILITY_REQUESTED | NETWORK_STATE_ASSERTED | CAPABILITY_ALLOWED
  | CAPABILITY_DENIED | CAPABILITY_DEGRADED | COMMAND_ALLOWED | COMMAND_REJECTED
  | LEASE_REVOKED | REVOCATION_REJECTED | FALLBACK_DECLARED | DIAGNOSTIC

fun audit_event_type_str :: "audit_event_type \<Rightarrow> string" where
  "audit_event_type_str DEMO_SETUP = ''demo_setup''"
| "audit_event_type_str CAPABILITY_REQUESTED = ''capability_requested''"
| "audit_event_type_str NETWORK_STATE_ASSERTED = ''network_state_asserted''"
| "audit_event_type_str CAPABILITY_ALLOWED = ''capability_allowed''"
| "audit_event_type_str CAPABILITY_DENIED = ''capability_denied''"
| "audit_event_type_str CAPABILITY_DEGRADED = ''capability_degraded''"
| "audit_event_type_str COMMAND_ALLOWED = ''command_allowed''"
| "audit_event_type_str COMMAND_REJECTED = ''command_rejected''"
| "audit_event_type_str LEASE_REVOKED = ''lease_revoked''"
| "audit_event_type_str REVOCATION_REJECTED = ''revocation_rejected''"
| "audit_event_type_str FALLBACK_DECLARED = ''fallback_declared''"
| "audit_event_type_str DIAGNOSTIC = ''diagnostic''"

datatype safety_state = NOMINAL | SAFETY_DEGRADED | EMERGENCY

fun safety_state_str :: "safety_state \<Rightarrow> string" where
  "safety_state_str NOMINAL = ''nominal''"
| "safety_state_str SAFETY_DEGRADED = ''degraded''"
| "safety_state_str EMERGENCY = ''emergency''"

datatype network_profile = NET_UNKNOWN | NORMAL | DEGRADED_TELEOP | UPLINK_BAD | PARTITION

fun network_profile_str :: "network_profile \<Rightarrow> string" where
  "network_profile_str NET_UNKNOWN = ''unknown''"
| "network_profile_str NORMAL = ''normal''"
| "network_profile_str DEGRADED_TELEOP = ''degraded_teleop''"
| "network_profile_str UPLINK_BAD = ''uplink_bad''"
| "network_profile_str PARTITION = ''partition''"

datatype control_plane_reachability = CP_UNKNOWN | CP_REACHABLE | CP_DEGRADED | CP_PARTITIONED

fun control_plane_reachability_str :: "control_plane_reachability \<Rightarrow> string" where
  "control_plane_reachability_str CP_UNKNOWN = ''unknown''"
| "control_plane_reachability_str CP_REACHABLE = ''reachable''"
| "control_plane_reachability_str CP_DEGRADED = ''degraded''"
| "control_plane_reachability_str CP_PARTITIONED = ''partitioned''"

text \<open>The value of an enumeration identifies the member.\<close>

lemma capability_str_inject [simp]: "capability_str a = capability_str b \<longleftrightarrow> a = b"
  by (cases a; cases b) auto

lemma fallback_action_str_inject [simp]: "fallback_action_str a = fallback_action_str b \<longleftrightarrow> a = b"
  by (cases a; cases b) auto

lemma fallback_action_not_blank [simp]: "\<not> py_blank (fallback_action_str a)"
  by (cases a) (simp_all add: ascii_space_def two_byte_space_def three_byte_space_def)

section \<open>Strict scalar validation\<close>

text \<open>
  The \<^verbatim>\<open>mode="before"\<close> field validators: a boolean, integer or number field takes a JSON value of exactly
  that kind, so that neither a string nor a boolean is coerced into a number.
\<close>

definition reject_coerced_bool :: "json \<Rightarrow> json res" where
  "reject_coerced_bool v =
     (case v of JBool _ \<Rightarrow> Inr v
      | _ \<Rightarrow> Inl (ValueError ''authority boolean fields must be JSON booleans''))"

definition reject_coerced_int :: "json \<Rightarrow> json res" where
  "reject_coerced_int v =
     (case v of JInt _ \<Rightarrow> Inr v
      | _ \<Rightarrow> Inl (ValueError ''authority integer fields must be JSON integers''))"

definition reject_coerced_number :: "json \<Rightarrow> json res" where
  "reject_coerced_number v =
     (case v of JInt _ \<Rightarrow> Inr v | JFloat _ \<Rightarrow> Inr v
      | _ \<Rightarrow> Inl (ValueError ''authority numeric fields must be JSON numbers''))"

definition reject_coerced_optional_number :: "json \<Rightarrow> json res" where
  "reject_coerced_optional_number v =
     (case v of JNull \<Rightarrow> Inr v | _ \<Rightarrow> reject_coerced_number v)"

text \<open>The pydantic constraint \<^verbatim>\<open>ge=0, allow_inf_nan=False\<close>, optionally with \<^verbatim>\<open>le=hi\<close>.\<close>

definition float_field_ok :: "rat option \<Rightarrow> pyfloat \<Rightarrow> bool" where
  "float_field_ok hi x =
     (case x of Fin q \<Rightarrow> 0 \<le> q \<and> (case hi of None \<Rightarrow> True | Some h \<Rightarrow> q \<le> h) | _ \<Rightarrow> False)"

definition opt_float_field_ok :: "rat option \<Rightarrow> pyfloat option \<Rightarrow> bool" where
  "opt_float_field_ok hi v = (case v of None \<Rightarrow> True | Some x \<Rightarrow> float_field_ok hi x)"

section \<open>Messages\<close>

record base_message =
  protocol_version :: string
  message_id :: string
  correlation_id :: string
  created_at :: datetime

record signed_message = base_message +
  fields_set :: "string set"
  signature_alg :: string
  signature :: "string option"

definition validate_protocol_version :: "('a base_message_scheme) \<Rightarrow> unit res" where
  "validate_protocol_version m =
     (if protocol_version m \<noteq> SUPPORTED_PROTOCOL_VERSION
      then Inl (ValueError (''unsupported protocol_version: '' @ protocol_version m)) else Inr ())"

text \<open>The variadic \<^verbatim>\<open>protocol_version_violation(*messages)\<close> takes the versions of its messages.\<close>

fun protocol_version_violation :: "string list \<Rightarrow> violation" where
  "protocol_version_violation [] = None"
| "protocol_version_violation (v # vs) =
     (if v \<noteq> SUPPORTED_PROTOCOL_VERSION then Some ''PROTOCOL_VERSION_UNSUPPORTED''
      else protocol_version_violation vs)"

lemma protocol_version_violation_None [res_simps]:
  "protocol_version_violation vs = None \<longleftrightarrow> (\<forall>v \<in> set vs. v = SUPPORTED_PROTOCOL_VERSION)"
  by (induction vs) auto

definition signature_algorithm_violation ::
  "('a signed_message_scheme) \<Rightarrow> reason \<Rightarrow> reason \<Rightarrow> violation" where
  "signature_algorithm_violation m missing_reason unsupported_reason =
     (if ''signature_alg'' \<notin> fields_set m then Some missing_reason
      else if signature_alg m \<noteq> ED25519_SIGNATURE_ALGORITHM then Some unsupported_reason
      else None)"

lemma signature_algorithm_violation_None [res_simps]:
  "signature_algorithm_violation m a b = None \<longleftrightarrow>
     ''signature_alg'' \<in> fields_set m \<and> signature_alg m = ED25519_SIGNATURE_ALGORITHM"
  by (simp add: signature_algorithm_violation_def)

record agent_attestation = signed_message +
  att_agent_id :: string
  att_authenticated_agent_id :: "string option"
  att_kind :: string
  att_manifest_digest :: string
  att_public_key_id :: string
  att_trust_tier :: string
  att_revoked :: bool

record robot_identity =
  rid_robot_id :: string
  rid_hardware_id :: string
  rid_edge_agent_id :: string

record mission_context =
  mc_mission_id :: string
  mc_mission_type :: string
  mc_human_operator_available :: bool

record network_state =
  net_fields_set :: "string set"
  net_profile :: network_profile
  attached :: bool
  latency_ms_p95 :: pyfloat
  packet_loss_pct :: pyfloat
  uplink_mbps :: pyfloat
  net_observed_at :: datetime

definition network_state_valid :: "network_state \<Rightarrow> bool" where
  "network_state_valid n \<longleftrightarrow>
     float_field_ok None (latency_ms_p95 n) \<and>
     float_field_ok (Some 100) (packet_loss_pct n) \<and>
     float_field_ok None (uplink_mbps n)"

record geofence_state =
  gf_geofence_id :: string
  inside :: bool
  verified_at :: datetime

record robot_state_assertion = signed_message +
  st_robot_id :: string
  st_edge_agent_id :: string
  st_authenticated_edge_agent_id :: "string option"
  st_mission_id :: string
  st_safety_state :: safety_state
  st_network_state :: network_state
  st_geofence_state :: geofence_state
  st_observed_at :: datetime
  st_human_operator_available :: bool

record network_state_assertion = signed_message +
  na_edge_agent_id :: string
  na_robot_id :: string
  na_mission_id :: string
  na_profile :: network_profile
  na_attached :: bool
  na_latency_ms_p95 :: pyfloat
  na_packet_loss_pct :: pyfloat
  na_uplink_mbps :: pyfloat
  na_observed_at :: datetime
  na_measurement_window_seconds :: int
  na_source :: string

record control_plane_reachability_assertion = signed_message +
  cp_edge_agent_id :: string
  cp_authenticated_edge_agent_id :: "string option"
  cp_robot_id :: string
  cp_mission_id :: string
  cp_reachability :: control_plane_reachability
  cp_reachable :: bool
  cp_observed_at :: datetime
  cp_measurement_window_seconds :: int
  cp_source :: string

record lease_constraints =
  con_fields_set :: "string set"
  con_geofence_id :: "string option"
  con_max_latency_ms_p95 :: "pyfloat option"
  con_max_packet_loss_pct :: "pyfloat option"
  con_min_uplink_mbps :: "pyfloat option"
  con_fallback_on_degrade :: fallback_action
  con_max_speed_mps :: "pyfloat option"

definition lease_constraints_valid :: "lease_constraints \<Rightarrow> bool" where
  "lease_constraints_valid c \<longleftrightarrow>
     opt_float_field_ok None (con_max_latency_ms_p95 c) \<and>
     opt_float_field_ok (Some 100) (con_max_packet_loss_pct c) \<and>
     opt_float_field_ok None (con_min_uplink_mbps c) \<and>
     opt_float_field_ok None (con_max_speed_mps c)"

record capability_request = signed_message +
  rq_requesting_agent_id :: string
  rq_authenticated_agent_id :: "string option"
  rq_edge_agent_id :: string
  rq_robot_id :: string
  rq_mission_id :: string
  rq_capability :: capability
  rq_reason :: string
  rq_requested_duration_seconds :: int
  rq_requested_constraints :: "lease_constraints option"
  rq_request_nonce :: string

record capability_constraint_requirement =
  crq_capability :: capability
  require_geofence_id :: bool
  require_network_thresholds :: bool
  require_fallback_on_degrade :: bool
  require_max_speed_mps :: bool

record capability_constraint_bounds =
  cb_capability :: capability
  cb_geofence_id :: "string option"
  cb_max_latency_ms_p95 :: "pyfloat option"
  cb_max_packet_loss_pct :: "pyfloat option"
  cb_min_uplink_mbps :: "pyfloat option"
  cb_fallback_on_degrade :: "fallback_action option"
  cb_max_speed_mps :: "pyfloat option"

record capability_lease = signed_message +
  lease_id :: string
  lease_issuer_id :: string
  lease_agent_id :: string
  lease_edge_agent_id :: string
  lease_robot_id :: string
  lease_mission_id :: string
  lease_capability :: capability
  lease_constraints :: lease_constraints
  issued_at :: datetime
  expires_at :: datetime
  lease_nonce :: string
  lease_policy_id :: string
  lease_policy_digest :: string

text \<open>\<^verbatim>\<open>CapabilityLease.validate_time_window\<close>.\<close>

definition validate_time_window :: "capability_lease \<Rightarrow> unit res" where
  "validate_time_window l =
     (if py_blank (lease_policy_id l) \<or> py_blank (lease_policy_digest l)
      then Inl (ValueError ''lease policy provenance must be non-empty'')
      else if dt_naive (issued_at l) \<or> dt_naive (expires_at l)
      then Inl (ValueError ''lease timestamps must be timezone-aware'')
      else bindr (dt_le (expires_at l) (issued_at l)) (\<lambda>bad.
        if bad then Inl (ValueError ''lease expires_at must be after issued_at'') else Inr ()))"

record capability_decision = signed_message +
  dec_request_id :: string
  dec_decision :: decision
  dec_reason_code :: reason
  dec_deciding_actor_id :: string
  dec_policy_id :: "string option"
  dec_policy_digest :: "string option"
  dec_lease :: "capability_lease option"
  dec_safe_alternatives :: "fallback_action list"
  dec_audit_id :: string

record lease_revocation = signed_message +
  rev_lease_id :: string
  rev_revoked_by :: string
  rev_edge_agent_id :: string
  rev_reason_code :: reason
  rev_revoked_at :: datetime
  rev_fallback_action :: fallback_action
  rev_robot_id :: "string option"
  rev_mission_id :: "string option"
  rev_capability :: "capability option"

record fallback_declaration = signed_message +
  fb_robot_id :: string
  fb_edge_agent_id :: string
  fb_mission_id :: string
  fb_trigger :: string
  fb_fallback_action :: fallback_action
  fb_declared_by :: string
  fb_authenticated_declared_by :: "string option"
  fb_lease_id :: "string option"
  fb_decision_id :: "string option"
  fb_revocation_id :: "string option"

definition stable_json_hash :: "env \<Rightarrow> json \<Rightarrow> string" where
  "stable_json_hash E payload = ''sha256:'' @ sha256_hex E (json_dumps (float_repr E) payload)"

record audit_commit = base_message +
  audit_id :: string
  event_type :: audit_event_type
  ac_actor_id :: string
  ac_robot_id :: "string option"
  ac_mission_id :: "string option"
  ac_summary :: string
  ac_payload :: "(string \<times> json) list"
  payload_hash :: "string option"
  authority_relevant :: bool
  integrity_profile :: string
  integrity_proof :: "string option"
  previous_audit_hash :: "string option"
  ac_policy_id :: "string option"
  ac_policy_digest :: "string option"
  state_refs :: "string list"
  related_message_ids :: "string list"

definition commit_payload_hash :: "env \<Rightarrow> audit_commit \<Rightarrow> audit_commit" where
  "commit_payload_hash E e =
     (if payload_hash e = None
      then e\<lparr>payload_hash := Some (stable_json_hash E (JDict (ac_payload e)))\<rparr> else e)"

record audit_batch_commit = signed_message +
  bat_batch_id :: string
  bat_audit_ids :: "string list"
  bat_event_count :: int
  bat_chain_head :: string
  bat_batch_hash :: string
  bat_signed_by :: string
  bat_authenticated_signed_by :: "string option"

definition validate_batch_commit :: "audit_batch_commit \<Rightarrow> unit res" where
  "validate_batch_commit b =
     (if bat_audit_ids b = [] then Inl (ValueError ''audit batch must include at least one audit_id'')
      else if bat_event_count b \<noteq> int (length (bat_audit_ids b))
      then Inl (ValueError ''audit batch event_count must match audit_ids'')
      else if \<not> startswith (bat_chain_head b) ''sha256:''
      then Inl (ValueError ''audit batch chain_head must be a sha256 reference'')
      else if \<not> startswith (bat_batch_hash b) ''sha256:''
      then Inl (ValueError ''audit batch_hash must be a sha256 reference'')
      else if py_blank (bat_signed_by b) then Inl (ValueError ''audit batch signed_by is required'')
      else Inr ())"

end
