(* ===== verification/Wire.thy ===== *)
theory Wire
  imports Models
begin

text \<open>
  The JSON form of the messages: what \<^verbatim>\<open>model_dump(mode="json")\<close> of pydantic gives for each class of
  \<^verbatim>\<open>rclp_core/models.py\<close>. This is what is signed, hashed and written to audit payloads. A dump is the
  association list of the class's fields; an enumeration member is its value, a date its rendering by
  the parameter \<^const>\<open>datetime_json\<close>.
\<close>

type_synonym dump = "(string \<times> json) list"

definition base_dump :: "env \<Rightarrow> string \<Rightarrow> ('a base_message_scheme) \<Rightarrow> dump" where
  "base_dump E mtype m =
     [(''protocol_version'', JStr (protocol_version m)),
      (''message_id'', JStr (message_id m)),
      (''correlation_id'', JStr (correlation_id m)),
      (''created_at'', JStr (datetime_json E (created_at m))),
      (''message_type'', JStr mtype)]"

definition signature_dump :: "('a signed_message_scheme) \<Rightarrow> dump" where
  "signature_dump m =
     [(''signature_alg'', JStr (signature_alg m)), (''signature'', jstr_opt (signature m))]"

definition network_state_dump :: "env \<Rightarrow> network_state \<Rightarrow> dump" where
  "network_state_dump E n =
     [(''profile'', JStr (network_profile_str (net_profile n))),
      (''attached'', JBool (attached n)),
      (''latency_ms_p95'', JFloat (latency_ms_p95 n)),
      (''packet_loss_pct'', JFloat (packet_loss_pct n)),
      (''uplink_mbps'', JFloat (uplink_mbps n)),
      (''observed_at'', JStr (datetime_json E (net_observed_at n)))]"

definition geofence_state_dump :: "env \<Rightarrow> geofence_state \<Rightarrow> dump" where
  "geofence_state_dump E g =
     [(''geofence_id'', JStr (gf_geofence_id g)),
      (''inside'', JBool (inside g)),
      (''verified_at'', JStr (datetime_json E (verified_at g)))]"

definition lease_constraints_dump :: "lease_constraints \<Rightarrow> dump" where
  "lease_constraints_dump c =
     [(''geofence_id'', jstr_opt (con_geofence_id c)),
      (''max_latency_ms_p95'', jopt JFloat (con_max_latency_ms_p95 c)),
      (''max_packet_loss_pct'', jopt JFloat (con_max_packet_loss_pct c)),
      (''min_uplink_mbps'', jopt JFloat (con_min_uplink_mbps c)),
      (''fallback_on_degrade'', JStr (fallback_action_str (con_fallback_on_degrade c))),
      (''max_speed_mps'', jopt JFloat (con_max_speed_mps c))]"

definition attestation_dump :: "env \<Rightarrow> agent_attestation \<Rightarrow> dump" where
  "attestation_dump E a = base_dump E ''agent_attestation'' a @
     [(''agent_id'', JStr (att_agent_id a)),
      (''authenticated_agent_id'', jstr_opt (att_authenticated_agent_id a)),
      (''kind'', JStr (att_kind a)),
      (''manifest_digest'', JStr (att_manifest_digest a)),
      (''public_key_id'', JStr (att_public_key_id a)),
      (''trust_tier'', JStr (att_trust_tier a)),
      (''revoked'', JBool (att_revoked a))] @ signature_dump a"

definition robot_state_dump :: "env \<Rightarrow> robot_state_assertion \<Rightarrow> dump" where
  "robot_state_dump E s = base_dump E ''robot_state_assertion'' s @
     [(''robot_id'', JStr (st_robot_id s)),
      (''edge_agent_id'', JStr (st_edge_agent_id s)),
      (''authenticated_edge_agent_id'', jstr_opt (st_authenticated_edge_agent_id s)),
      (''mission_id'', JStr (st_mission_id s)),
      (''safety_state'', JStr (safety_state_str (st_safety_state s))),
      (''network_state'', JDict (network_state_dump E (st_network_state s))),
      (''geofence_state'', JDict (geofence_state_dump E (st_geofence_state s))),
      (''observed_at'', JStr (datetime_json E (st_observed_at s))),
      (''human_operator_available'', JBool (st_human_operator_available s))] @ signature_dump s"

definition control_plane_dump :: "env \<Rightarrow> control_plane_reachability_assertion \<Rightarrow> dump" where
  "control_plane_dump E a = base_dump E ''control_plane_reachability_assertion'' a @
     [(''edge_agent_id'', JStr (cp_edge_agent_id a)),
      (''authenticated_edge_agent_id'', jstr_opt (cp_authenticated_edge_agent_id a)),
      (''robot_id'', JStr (cp_robot_id a)),
      (''mission_id'', JStr (cp_mission_id a)),
      (''reachability'', JStr (control_plane_reachability_str (cp_reachability a))),
      (''reachable'', JBool (cp_reachable a)),
      (''observed_at'', JStr (datetime_json E (cp_observed_at a))),
      (''measurement_window_seconds'', JInt (cp_measurement_window_seconds a)),
      (''source'', JStr (cp_source a))] @ signature_dump a"

definition request_dump :: "env \<Rightarrow> capability_request \<Rightarrow> dump" where
  "request_dump E r = base_dump E ''capability_request'' r @
     [(''requesting_agent_id'', JStr (rq_requesting_agent_id r)),
      (''authenticated_agent_id'', jstr_opt (rq_authenticated_agent_id r)),
      (''edge_agent_id'', JStr (rq_edge_agent_id r)),
      (''robot_id'', JStr (rq_robot_id r)),
      (''mission_id'', JStr (rq_mission_id r)),
      (''capability'', JStr (capability_str (rq_capability r))),
      (''reason'', JStr (rq_reason r)),
      (''requested_duration_seconds'', JInt (rq_requested_duration_seconds r)),
      (''requested_constraints'',
         jopt (\<lambda>c. JDict (lease_constraints_dump c)) (rq_requested_constraints r)),
      (''request_nonce'', JStr (rq_request_nonce r))] @ signature_dump r"

definition lease_dump :: "env \<Rightarrow> capability_lease \<Rightarrow> dump" where
  "lease_dump E l = base_dump E ''capability_lease'' l @
     [(''lease_id'', JStr (lease_id l)),
      (''issuer_id'', JStr (lease_issuer_id l)),
      (''agent_id'', JStr (lease_agent_id l)),
      (''edge_agent_id'', JStr (lease_edge_agent_id l)),
      (''robot_id'', JStr (lease_robot_id l)),
      (''mission_id'', JStr (lease_mission_id l)),
      (''capability'', JStr (capability_str (lease_capability l))),
      (''constraints'', JDict (lease_constraints_dump (lease_constraints l))),
      (''issued_at'', JStr (datetime_json E (issued_at l))),
      (''expires_at'', JStr (datetime_json E (expires_at l))),
      (''nonce'', JStr (lease_nonce l)),
      (''policy_id'', JStr (lease_policy_id l)),
      (''policy_digest'', JStr (lease_policy_digest l))] @ signature_dump l"

definition revocation_dump :: "env \<Rightarrow> lease_revocation \<Rightarrow> dump" where
  "revocation_dump E r = base_dump E ''lease_revocation'' r @
     [(''lease_id'', JStr (rev_lease_id r)),
      (''revoked_by'', JStr (rev_revoked_by r)),
      (''edge_agent_id'', JStr (rev_edge_agent_id r)),
      (''reason_code'', JStr (rev_reason_code r)),
      (''revoked_at'', JStr (datetime_json E (rev_revoked_at r))),
      (''fallback_action'', JStr (fallback_action_str (rev_fallback_action r))),
      (''robot_id'', jstr_opt (rev_robot_id r)),
      (''mission_id'', jstr_opt (rev_mission_id r)),
      (''capability'', jopt (\<lambda>c. JStr (capability_str c)) (rev_capability r))] @ signature_dump r"

definition fallback_dump :: "env \<Rightarrow> fallback_declaration \<Rightarrow> dump" where
  "fallback_dump E d = base_dump E ''fallback_declaration'' d @
     [(''robot_id'', JStr (fb_robot_id d)),
      (''edge_agent_id'', JStr (fb_edge_agent_id d)),
      (''mission_id'', JStr (fb_mission_id d)),
      (''trigger'', JStr (fb_trigger d)),
      (''fallback_action'', JStr (fallback_action_str (fb_fallback_action d))),
      (''declared_by'', JStr (fb_declared_by d)),
      (''authenticated_declared_by'', jstr_opt (fb_authenticated_declared_by d)),
      (''lease_id'', jstr_opt (fb_lease_id d)),
      (''decision_id'', jstr_opt (fb_decision_id d)),
      (''revocation_id'', jstr_opt (fb_revocation_id d))] @ signature_dump d"

definition audit_commit_dump :: "env \<Rightarrow> audit_commit \<Rightarrow> dump" where
  "audit_commit_dump E e = base_dump E ''audit_commit'' e @
     [(''audit_id'', JStr (audit_id e)),
      (''event_type'', JStr (audit_event_type_str (event_type e))),
      (''actor_id'', JStr (ac_actor_id e)),
      (''robot_id'', jstr_opt (ac_robot_id e)),
      (''mission_id'', jstr_opt (ac_mission_id e)),
      (''summary'', JStr (ac_summary e)),
      (''payload'', JDict (ac_payload e)),
      (''payload_hash'', jstr_opt (payload_hash e)),
      (''authority_relevant'', JBool (authority_relevant e)),
      (''integrity_profile'', JStr (integrity_profile e)),
      (''integrity_proof'', jstr_opt (integrity_proof e)),
      (''previous_audit_hash'', jstr_opt (previous_audit_hash e)),
      (''policy_id'', jstr_opt (ac_policy_id e)),
      (''policy_digest'', jstr_opt (ac_policy_digest e)),
      (''state_refs'', JList (map JStr (state_refs e))),
      (''related_message_ids'', JList (map JStr (related_message_ids e)))]"

definition audit_batch_dump :: "env \<Rightarrow> audit_batch_commit \<Rightarrow> dump" where
  "audit_batch_dump E b = base_dump E ''audit_batch_commit'' b @
     [(''batch_id'', JStr (bat_batch_id b)),
      (''audit_ids'', JList (map JStr (bat_audit_ids b))),
      (''event_count'', JInt (bat_event_count b)),
      (''chain_head'', JStr (bat_chain_head b)),
      (''batch_hash'', JStr (bat_batch_hash b)),
      (''signed_by'', JStr (bat_signed_by b)),
      (''authenticated_signed_by'', jstr_opt (bat_authenticated_signed_by b))] @ signature_dump b"

lemmas dump_defs =
  base_dump_def signature_dump_def network_state_dump_def geofence_state_dump_def
  lease_constraints_dump_def attestation_dump_def robot_state_dump_def control_plane_dump_def
  request_dump_def lease_dump_def revocation_dump_def fallback_dump_def audit_commit_dump_def
  audit_batch_dump_def

end
