(* ===== verification/Crypto.thy ===== *)
theory Crypto
  imports Wire
begin

text \<open>
  Signing and verification (\<^verbatim>\<open>rclp_core/crypto.py\<close>): the canonical JSON that is signed, the URL-safe
  base64 codec with its canonicity check, the demo key pair and signature verification over the
  Ed25519 operations of the environment. The theory also has the text budget that every module
  applies to a message before it verifies the signature.
\<close>

section \<open>Canonical JSON\<close>

text \<open>\<open>canonical_json\<close> of a message drops the top-level field \<^verbatim>\<open>signature\<close> from its dump.\<close>

definition canonical_json :: "env \<Rightarrow> dump \<Rightarrow> string" where
  "canonical_json E d =
     json_dumps (float_repr E) (JDict (filter (\<lambda>kv. fst kv \<noteq> ''signature'') d))"

lemma canonical_json_signature_dump:
  "canonical_json E (d @ signature_dump (m\<lparr>signature := s\<rparr>)) = canonical_json E (d @ signature_dump m)"
  by (simp add: canonical_json_def signature_dump_def)

section \<open>Base64\<close>

definition b64_char :: "nat \<Rightarrow> char" where
  "b64_char n =
     (if n < 26 then char_of (65 + n)
      else if n < 52 then char_of (71 + n)
      else if n < 62 then char_of (n - 4)
      else if n = 62 then CHR ''-'' else CHR ''_'')"

fun b64 :: "string \<Rightarrow> string" where
  "b64 [] = []"
| "b64 [a] =
     [b64_char (byte_of a div 4), b64_char (byte_of a mod 4 * 16), CHR ''='', CHR ''='']"
| "b64 [a, b] =
     [b64_char (byte_of a div 4), b64_char (byte_of a mod 4 * 16 + byte_of b div 16),
      b64_char (byte_of b mod 16 * 4), CHR ''='']"
| "b64 (a # b # c # r) =
     b64_char (byte_of a div 4) # b64_char (byte_of a mod 4 * 16 + byte_of b div 16) #
     b64_char (byte_of b mod 16 * 4 + byte_of c div 64) # b64_char (byte_of c mod 64) # b64 r"

text \<open>
  \<^verbatim>\<open>base64.b64decode(encoded, altchars=b"-_", validate=True)\<close>: the alternative characters are mapped to
  the standard ones, which stay valid themselves; anything else is an error, as is padding that does
  not end the input. Left-over bits of the last group are dropped.
\<close>

definition b64_val :: "char \<Rightarrow> nat option" where
  "b64_val c =
     (let n = byte_of c in
      if 65 \<le> n \<and> n \<le> 90 then Some (n - 65)
      else if 97 \<le> n \<and> n \<le> 122 then Some (n - 71)
      else if 48 \<le> n \<and> n \<le> 57 then Some (n + 4)
      else if c = CHR ''-'' \<or> c = CHR ''+'' then Some 62
      else if c = CHR ''_'' \<or> c = CHR ''/'' then Some 63
      else None)"

fun b64decode :: "string \<Rightarrow> string res" where
  "b64decode [] = Inr []"
| "b64decode (w # x # y # z # r) =
     (case (b64_val w, b64_val x) of
        (Some i, Some j) \<Rightarrow>
          (case b64_val y of
             None \<Rightarrow>
               if y = CHR ''='' \<and> z = CHR ''='' \<and> r = [] then Inr [char_of (i * 4 + j div 16)]
               else Inl BinasciiError
           | Some k \<Rightarrow>
             (case b64_val z of
                None \<Rightarrow>
                  if z = CHR ''='' \<and> r = []
                  then Inr [char_of (i * 4 + j div 16), char_of (j mod 16 * 16 + k div 4)]
                  else Inl BinasciiError
              | Some l \<Rightarrow>
                  bindr (b64decode r) (\<lambda>bs. Inr
                    (char_of (i * 4 + j div 16) # char_of (j mod 16 * 16 + k div 4) #
                     char_of (k mod 4 * 64 + l) # bs))))
      | _ \<Rightarrow> Inl BinasciiError)"
| "b64decode _ = Inl BinasciiError"

definition unb64 :: "string \<Rightarrow> string res" where
  "unb64 data =
     (if \<exists>c \<in> set data. 128 \<le> byte_of c then Inl BinasciiError
      else bindr (b64decode data) (\<lambda>decoded.
        if b64 decoded \<noteq> data then Inl BinasciiError else Inr decoded))"

lemma byte_lt_256 [simp]: "byte_of c < 256"
  by (cases c) (simp add: of_char_def horner_sum_simps)

lemma b64_val_char:
  assumes "n < 64"
  shows "b64_val (b64_char n) = Some n"
proof -
  consider "n < 26" | "26 \<le> n" "n < 52" | "52 \<le> n" "n < 62" | "n = 62" | "n = 63"
    using assms by linarith
  then show ?thesis
    by cases (auto simp add: b64_val_def b64_char_def Let_def)
qed

lemma b64_char_ascii: "n < 64 \<Longrightarrow> byte_of (b64_char n) < 128"
  by (auto simp: b64_char_def)

text \<open>The six-bit groups of three bytes, and that regrouping them loses nothing.\<close>

lemma sixbit_bounds [simp]:
  fixes a b c :: char
  shows "byte_of a div 4 < (64::nat)"
    and "byte_of a mod 4 * 16 < (64::nat)"
    and "byte_of a mod 4 * 16 + byte_of b div 16 < (64::nat)"
    and "byte_of b mod 16 * 4 < (64::nat)"
    and "byte_of b mod 16 * 4 + byte_of c div 64 < (64::nat)"
    and "byte_of c mod 64 < (64::nat)"
  using byte_lt_256 [of a] byte_lt_256 [of b] byte_lt_256 [of c] by linarith+

lemma sixbit_regroup [simp]:
  fixes b c :: char
  shows "byte_of b div 16 div 16 = (0::nat)"
    and "byte_of b div 16 mod 16 = (byte_of b div 16 :: nat)"
    and "byte_of c div 64 div 4 = (0::nat)"
    and "byte_of c div 64 mod 4 = (byte_of c div 64 :: nat)"
  using byte_lt_256 [of b] byte_lt_256 [of c] by (simp_all add: less_mult_imp_div_less)

lemma b64_ascii: "c \<in> set (b64 d) \<Longrightarrow> byte_of c < 128"
  by (induction d rule: b64.induct) (auto intro: b64_char_ascii)

lemma b64_val_pad [simp]: "b64_val CHR ''='' = None"
  by (simp add: b64_val_def)

lemma b64decode_b64: "b64decode (b64 d) = Inr d"
  by (induction d rule: b64.induct) (simp_all add: b64_val_char)

lemma unb64_Inr_iff: "unb64 s = Inr d \<longleftrightarrow> s = b64 d"
proof
  assume "unb64 s = Inr d"
  then show "s = b64 d"
    by (auto simp: unb64_def bindr_Inr_iff split: if_splits)
next
  assume "s = b64 d"
  then show "unb64 s = Inr d"
    by (auto simp: unb64_def b64decode_b64 dest: b64_ascii)
qed

lemma b64_inject [simp]: "b64 a = b64 b \<longleftrightarrow> a = b"
  using unb64_Inr_iff by (metis sum.inject(2))

lemma unb64_Inl: "unb64 s = Inl e \<Longrightarrow> e = BinasciiError"
proof -
  have "b64decode t = Inl e \<Longrightarrow> e = BinasciiError" for t
    by (induction t rule: b64decode.induct)
      (auto simp: bindr_Inl_iff split: option.splits if_splits)
  then show "unb64 s = Inl e \<Longrightarrow> e = BinasciiError"
    by (auto simp: unb64_def bindr_Inl_iff split: if_splits)
qed

section \<open>Keys and signatures\<close>

text \<open>
  A \<^verbatim>\<open>DemoKeyPair\<close> is its private key; the model identifies the key object with the bytes the parameter
  operations take.
\<close>

text \<open>
  The constructor takes the key it is given or \<open>generated\<close>, the one that the package would make; the export
  of a key is the operation \<open>private_bytes\<close> of the package, in the format PKCS8 without encryption.
\<close>

definition DemoKeyPair :: "string \<Rightarrow> string option \<Rightarrow> string" where
  "DemoKeyPair generated private_key = (case private_key of None \<Rightarrow> generated | Some k \<Rightarrow> k)"

definition private_key_pem :: "(string \<Rightarrow> string) \<Rightarrow> string \<Rightarrow> string" where
  "private_key_pem private_bytes sk = private_bytes sk"

definition public_key_b64 :: "env \<Rightarrow> string \<Rightarrow> string" where
  "public_key_b64 E sk = b64 (ed25519_public E sk)"

definition key_sign :: "env \<Rightarrow> string \<Rightarrow> dump \<Rightarrow> string" where
  "key_sign E sk payload = b64 (ed25519_sign E sk (canonical_json E payload))"

definition key_verify :: "env \<Rightarrow> string \<Rightarrow> dump \<Rightarrow> string \<Rightarrow> bool" where
  "key_verify E sk payload sig =
     (case unb64 sig of
        Inl _ \<Rightarrow> False
      | Inr raw \<Rightarrow> ed25519_verify E (ed25519_public E sk) raw (canonical_json E payload))"

definition public_key_from_b64 :: "env \<Rightarrow> string \<Rightarrow> string res" where
  "public_key_from_b64 E pk =
     bindr (unb64 pk) (\<lambda>raw.
       if ed25519_pk_ok E raw then Inr raw else Inl (ValueError ''invalid public key''))"

definition verify_with_public_key_b64 :: "env \<Rightarrow> dump \<Rightarrow> string \<Rightarrow> string \<Rightarrow> bool" where
  "verify_with_public_key_b64 E payload sig pk =
     (case public_key_from_b64 E pk of
        Inl _ \<Rightarrow> False
      | Inr key \<Rightarrow>
          (case unb64 sig of
             Inl _ \<Rightarrow> False
           | Inr raw \<Rightarrow> ed25519_verify E key raw (canonical_json E payload)))"

lemma verify_with_public_key_b64_iff:
  "verify_with_public_key_b64 E payload sig pk \<longleftrightarrow>
     (\<exists>key raw. pk = b64 key \<and> sig = b64 raw \<and> ed25519_pk_ok E key \<and>
        ed25519_verify E key raw (canonical_json E payload))"
proof
  assume "verify_with_public_key_b64 E payload sig pk"
  then obtain key raw where "public_key_from_b64 E pk = Inr key" and "unb64 sig = Inr raw"
    and "ed25519_verify E key raw (canonical_json E payload)"
    by (auto simp: verify_with_public_key_b64_def split: sum.splits)
  then show "\<exists>key raw. pk = b64 key \<and> sig = b64 raw \<and> ed25519_pk_ok E key \<and>
        ed25519_verify E key raw (canonical_json E payload)"
    by (auto simp: public_key_from_b64_def bindr_Inr_iff unb64_Inr_iff split: if_splits)
next
  assume "\<exists>key raw. pk = b64 key \<and> sig = b64 raw \<and> ed25519_pk_ok E key \<and>
        ed25519_verify E key raw (canonical_json E payload)"
  then obtain key raw where "unb64 pk = Inr key" "unb64 sig = Inr raw" "ed25519_pk_ok E key"
    and "ed25519_verify E key raw (canonical_json E payload)"
    by (auto simp: unb64_Inr_iff)
  then show "verify_with_public_key_b64 E payload sig pk"
    by (simp add: verify_with_public_key_b64_def public_key_from_b64_def)
qed

lemma length_b64: "length (b64 d) = 4 * ((length d + 2) div 3)"
proof (induction d rule: b64.induct)
  case (4 a b c r)
  then show ?case using div_add_self2 [of 3 "length r + 2"] by simp
qed simp_all

text \<open>
  What the Ed25519 implementation documents: a key's own signature over a message is 64 bytes long and
  verifies.
\<close>

definition ed25519_correct :: "env \<Rightarrow> bool" where
  "ed25519_correct E \<longleftrightarrow>
     (\<forall>sk msg. ed25519_pk_ok E (ed25519_public E sk) \<and> length (ed25519_sign E sk msg) = 64 \<and>
        ed25519_verify E (ed25519_public E sk) (ed25519_sign E sk msg) msg)"

lemma length_key_sign: "ed25519_correct E \<Longrightarrow> length (key_sign E sk payload) = 88"
  by (simp add: key_sign_def length_b64 ed25519_correct_def)

lemma verify_key_sign:
  assumes "ed25519_correct E"
    and "canonical_json E payload' = canonical_json E payload"
  shows "verify_with_public_key_b64 E payload' (key_sign E sk payload) (public_key_b64 E sk)"
  using assms
  by (auto simp: verify_with_public_key_b64_iff key_sign_def public_key_b64_def ed25519_correct_def)

text \<open>The verification of a key pair is the one with its public key as a text.\<close>

lemma key_verify_public:
  assumes "ed25519_correct E"
  shows "key_verify E sk payload sig \<longleftrightarrow> verify_with_public_key_b64 E payload sig (public_key_b64 E sk)"
proof -
  have "public_key_from_b64 E (public_key_b64 E sk) = Inr (ed25519_public E sk)"
    using assms unb64_Inr_iff [THEN iffD2, OF refl, of "ed25519_public E sk"]
    by (simp add: public_key_from_b64_def public_key_b64_def ed25519_correct_def)
  then show ?thesis by (simp add: key_verify_def verify_with_public_key_b64_def)
qed

lemma new_key_verifies:
  "ed25519_correct E \<Longrightarrow>
     key_verify E (DemoKeyPair generated k) payload (key_sign E (DemoKeyPair generated k) payload)"
  by (simp add: key_verify_public verify_key_sign)

section \<open>The signed-text budget\<close>

text \<open>
  Each module has its own copy of \<^verbatim>\<open>_SignedTextBudget\<close>; they agree. The state is the number of bytes
  seen so far.
\<close>

definition MAX_SIGNED_TEXT_FIELD_BYTES :: nat where
  "MAX_SIGNED_TEXT_FIELD_BYTES = 1024"

definition MAX_SIGNED_TEXT_TOTAL_BYTES :: nat where
  "MAX_SIGNED_TEXT_TOTAL_BYTES = 16384"

definition ED25519_SIGNATURE_B64_MAX_TEXT_BYTES :: nat where
  "ED25519_SIGNATURE_B64_MAX_TEXT_BYTES = 4 * ((64 + 2) div 3)"

definition budget_exceeded :: "nat \<Rightarrow> string option \<Rightarrow> bool \<times> nat" where
  "budget_exceeded used v =
     (case v of
        None \<Rightarrow> (False, used)
      | Some s \<Rightarrow>
          (let size = length s; used' = used + size
           in (MAX_SIGNED_TEXT_FIELD_BYTES < size \<or> MAX_SIGNED_TEXT_TOTAL_BYTES < used', used')))"

fun budget_loop :: "nat \<Rightarrow> string option list \<Rightarrow> bool" where
  "budget_loop used [] = False"
| "budget_loop used (v # vs) =
     (let (over, used') = budget_exceeded used v in if over then True else budget_loop used' vs)"

text \<open>What the loop decides: some field is too long, or all fields together are.\<close>

definition text_over_budget :: "string option list \<Rightarrow> bool" where
  "text_over_budget vs \<longleftrightarrow>
     (\<exists>s. Some s \<in> set vs \<and> MAX_SIGNED_TEXT_FIELD_BYTES < length s) \<or>
     MAX_SIGNED_TEXT_TOTAL_BYTES < sum_list (map (\<lambda>v. case v of None \<Rightarrow> 0 | Some s \<Rightarrow> length s) vs)"

lemma budget_loop_eq_aux:
  assumes "used \<le> MAX_SIGNED_TEXT_TOTAL_BYTES"
  shows "budget_loop used vs \<longleftrightarrow>
     (\<exists>s. Some s \<in> set vs \<and> MAX_SIGNED_TEXT_FIELD_BYTES < length s) \<or>
     MAX_SIGNED_TEXT_TOTAL_BYTES <
       used + sum_list (map (\<lambda>v. case v of None \<Rightarrow> 0 | Some s \<Rightarrow> length s) vs)"
  using assms
proof (induction vs arbitrary: used)
  case Nil
  then show ?case by simp
next
  case (Cons v vs)
  show ?case
  proof (cases v)
    case None
    with Cons show ?thesis by (simp add: budget_exceeded_def)
  next
    case (Some s)
    with Cons.IH [of "used + length s"] show ?thesis
      by (auto simp: budget_exceeded_def Let_def not_less add.assoc)
  qed
qed

lemma budget_loop_eq: "budget_loop 0 vs \<longleftrightarrow> text_over_budget vs"
  by (simp add: budget_loop_eq_aux text_over_budget_def)

section \<open>Properties\<close>

text \<open>
  C39. The text form of keys and signatures is canonical: decoding undoes encoding, every other text is
  refused, and a signature verifies exactly when its text and that of the key are the encodings of bytes
  that Ed25519 accepts, so no signature has a second accepted spelling.
\<close>

theorem canonical_base64_exact:
  "(unb64 s = Inr d \<longleftrightarrow> s = b64 d) \<and>
   (verify_with_public_key_b64 E payload s pk \<longleftrightarrow>
     (\<exists>key raw. pk = b64 key \<and> s = b64 raw \<and> ed25519_pk_ok E key \<and>
        ed25519_verify E key raw (canonical_json E payload)))"
  by (simp add: unb64_Inr_iff verify_with_public_key_b64_iff)

end
