(* ===== verification/Freshness.thy ===== *)
theory Freshness
  imports Crypto
begin

text \<open>
  Two contracts that most components rely on, stated once. A freshness check accepts a message when
  every timestamp it carries lies in a window around the current time; an authentication check
  accepts a message when the actor it names has a registered key under which the signature over the
  canonical form verifies. The functions of the program that implement them are interpreted in their
  own theories.
\<close>

section \<open>The window test on one timestamp\<close>

text \<open>
  The body that the time checks share: \<^verbatim>\<open>tzinfo\<close> test, \<^verbatim>\<open>t > now + timedelta(seconds=ahead)\<close>, then
  \<^verbatim>\<open>now - t > timedelta(seconds=behind)\<close>; computing a bound can overflow, comparing with a naive \<^verbatim>\<open>now\<close>
  raises \<open>TypeError\<close>.
\<close>

definition stamp_violation ::
  "reason \<Rightarrow> reason \<Rightarrow> reason \<Rightarrow> int \<Rightarrow> int \<Rightarrow> datetime \<Rightarrow> datetime \<Rightarrow> violation res" where
  "stamp_violation invalid not_yet stale ahead behind now t =
     (if dt_naive t then Inr (Some invalid)
      else bindr (timedelta_s ahead) (\<lambda>skew.
        bindr (dt_add now skew) (\<lambda>latest.
        bindr (dt_lt latest t) (\<lambda>early.
          if early then Inr (Some not_yet)
          else bindr (dt_sub now t) (\<lambda>age.
            bindr (timedelta_s behind) (\<lambda>max_age.
              if max_age < age then Inr (Some stale) else Inr None))))))"

definition fresh :: "int \<Rightarrow> int \<Rightarrow> datetime \<Rightarrow> datetime \<Rightarrow> bool" where
  "fresh ahead behind now t \<longleftrightarrow>
     \<not> dt_naive now \<and> \<not> dt_naive t \<and>
     instant t \<le> instant now + ahead * 1000000 \<and>
     instant now - instant t \<le> behind * 1000000"

text \<open>The bounds of the window can be computed at \<open>now\<close>.\<close>

definition window_ok :: "int \<Rightarrow> int \<Rightarrow> datetime \<Rightarrow> bool" where
  "window_ok ahead behind now \<longleftrightarrow>
     timedelta_s ahead = Inr (ahead * 1000000) \<and> timedelta_s behind = Inr (behind * 1000000) \<and>
     0 \<le> wall now + ahead * 1000000 \<and> wall now + ahead * 1000000 < dt_limit"

lemma timedelta_s_Inr: "timedelta_s s = Inr d \<Longrightarrow> d = s * 1000000"
  by (auto simp: timedelta_s_def td_check_def split: if_splits)

lemma stamp_violation_None_iff:
  "stamp_violation i n s ahead behind now t = Inr None \<longleftrightarrow>
     fresh ahead behind now t \<and> window_ok ahead behind now"
proof
  assume "stamp_violation i n s ahead behind now t = Inr None"
  then show "fresh ahead behind now t \<and> window_ok ahead behind now"
    by (auto simp: stamp_violation_def fresh_def window_ok_def bindr_Inr_iff dt_add_Inr_iff dt_lt_def
        dt_sub_def split: if_splits dest: timedelta_s_Inr)
next
  assume "fresh ahead behind now t \<and> window_ok ahead behind now"
  then show "stamp_violation i n s ahead behind now t = Inr None"
    by (auto simp: stamp_violation_def fresh_def window_ok_def dt_add_def dt_lt_def dt_sub_def)
qed

lemma stamp_violation_Some:
  "stamp_violation i n s ahead behind now t = Inr (Some r) \<Longrightarrow> r = i \<or> r = n \<or> r = s"
  by (auto simp: stamp_violation_def bindr_Inr_iff split: if_splits)

section \<open>Freshness of a message\<close>

locale freshness_check =
  fixes check :: "datetime \<Rightarrow> 'm \<Rightarrow> violation res"
    and stamps :: "'m \<Rightarrow> datetime list"
    and ahead :: int
    and behind :: int
    and consistent :: "'m \<Rightarrow> bool"
  assumes sound: "check now m = Inr None \<Longrightarrow> t \<in> set (stamps m) \<Longrightarrow> fresh ahead behind now t"
    and complete: "window_ok ahead behind now \<Longrightarrow> \<forall>t \<in> set (stamps m). fresh ahead behind now t \<Longrightarrow>
      consistent m \<Longrightarrow> check now m = Inr None"
    and stamped: "stamps m \<noteq> []"
begin

lemma accepted_aware: "check now m = Inr None \<Longrightarrow> \<not> dt_naive now"
  using sound [of now m "hd (stamps m)"] stamped [of m] by (simp add: fresh_def)

text \<open>A message can be accepted only during a period of \<open>ahead + behind\<close> seconds.\<close>

lemma acceptance_period:
  assumes "check now m = Inr None" and "check now' m = Inr None"
  shows "\<bar>instant now' - instant now\<bar> \<le> (ahead + behind) * 1000000"
  using assms [THEN sound, of "hd (stamps m)"] stamped [of m]
  by (simp add: fresh_def abs_le_iff algebra_simps)

text \<open>Once too old, a message stays too old.\<close>

lemma expiry_is_final:
  assumes "t \<in> set (stamps m)" and "instant now - instant t > behind * 1000000"
    and "instant now \<le> instant now'"
  shows "check now' m \<noteq> Inr None"
  using assms sound [of now' m t] by (auto simp: fresh_def)

text \<open>The acceptance period has no gaps.\<close>

lemma acceptance_convex:
  assumes "check n1 m = Inr None" and "check n3 m = Inr None"
    and "instant n1 \<le> instant n2" and "instant n2 \<le> instant n3"
    and "\<not> dt_naive n2" and "window_ok ahead behind n2" and "consistent m"
  shows "check n2 m = Inr None"
proof (rule complete)
  show "\<forall>t \<in> set (stamps m). fresh ahead behind n2 t"
    using assms(3-5) sound [OF assms(1)] sound [OF assms(2)] by (force simp: fresh_def)
qed (fact assms)+

end

section \<open>Authentication of a message\<close>

text \<open>\<open>accepted\<close> is the answer that means no violation; the answers of a check that may raise are results.\<close>

locale authentication_check =
  fixes E :: env
    and check :: "(string \<rightharpoonup> string) \<Rightarrow> 'm \<Rightarrow> 'r"
    and accepted :: 'r
    and claimed :: "'m \<Rightarrow> string"
    and sig :: "'m \<Rightarrow> string option"
    and payload :: "'m \<Rightarrow> dump"
  assumes sound: "check keys m = accepted \<Longrightarrow>
      \<exists>pk s. keys (claimed m) = Some pk \<and> sig m = Some s \<and> verify_with_public_key_b64 E (payload m) s pk"
    and local: "keys (claimed m) = keys' (claimed m) \<Longrightarrow> check keys m = check keys' m"
begin

lemma unregistered_rejected: "keys (claimed m) = None \<Longrightarrow> check keys m \<noteq> accepted"
  using sound [of keys m] by auto

text \<open>Other actors' keys never help or harm.\<close>

lemma other_keys_irrelevant: "a \<noteq> claimed m \<Longrightarrow> check (keys(a := v)) m = check keys m"
  by (rule local) simp

text \<open>An accepted signature has exactly one textual form: the canonical base64 of its bytes.\<close>

lemma accepted_signature_canonical:
  assumes "check keys m = accepted"
  shows "\<exists>raw. sig m = Some (b64 raw)"
  using sound [OF assms] by (auto simp: verify_with_public_key_b64_iff)

text \<open>
  Authenticity: where a signature that verifies under a registered key only exists for what the key's
  owner signed, an accepted message is one that its claimed author signed.
\<close>

lemma authentic:
  assumes "check keys m = accepted"
    and "\<And>a key raw msg. keys a = Some (b64 key) \<Longrightarrow> ed25519_verify E key raw msg \<Longrightarrow> msg \<in> signed_by a"
  shows "canonical_json E (payload m) \<in> signed_by (claimed m)"
proof -
  from sound [OF assms(1)] obtain key raw where "keys (claimed m) = Some (b64 key)"
    and "ed25519_verify E key raw (canonical_json E (payload m))"
    by (auto simp: verify_with_public_key_b64_iff)
  then show ?thesis by (rule assms(2))
qed

end

end
