(* ===== verification/Effects.thy ===== *)
theory Effects
  imports Rclp_Prelude
begin

text \<open>
  Operations on a state that may raise: an operation returns its result or exception together with
  the state it leaves behind, so that what was written before an exception stays written. Two
  contracts follow. The locale \<open>effect_relation\<close> carries a relation between the states before and after
  (an invariant, a monotone store, a frame) through the operations composed in the source's order; the
  locale \<open>replay_guard\<close> states what the program's stores of used identifiers promise.
\<close>

type_synonym ('s, 'a) op = "'s \<Rightarrow> 'a res \<times> 's"

definition ret :: "'a \<Rightarrow> ('s, 'a) op" where
  "ret a s = (Inr a, s)"

definition raise :: "exn \<Rightarrow> ('s, 'a) op" where
  "raise e s = (Inl e, s)"

definition liftr :: "'a res \<Rightarrow> ('s, 'a) op" where
  "liftr r s = (r, s)"

definition gets :: "('s \<Rightarrow> 'a) \<Rightarrow> ('s, 'a) op" where
  "gets f s = (Inr (f s), s)"

definition modify :: "('s \<Rightarrow> 's) \<Rightarrow> ('s, unit) op" where
  "modify f s = (Inr (), f s)"

definition bindo :: "('s, 'a) op \<Rightarrow> ('a \<Rightarrow> ('s, 'b) op) \<Rightarrow> ('s, 'b) op" where
  "bindo m f s = (case m s of (r, s') \<Rightarrow> (case r of Inl e \<Rightarrow> (Inl e, s') | Inr a \<Rightarrow> f a s'))"

definition seqo :: "('s, 'a) op \<Rightarrow> ('s, 'b) op \<Rightarrow> ('s, 'b) op" where
  "seqo m k = bindo m (\<lambda>_. k)"

text \<open>\<open>checko v k rest\<close> is \<^verbatim>\<open>if reason := v: <k reason>\<close> followed by \<open>rest\<close>.\<close>

definition checko :: "violation \<Rightarrow> (reason \<Rightarrow> ('s, 'a) op) \<Rightarrow> ('s, 'a) op \<Rightarrow> ('s, 'a) op" where
  "checko v k rest = (case v of Some r \<Rightarrow> k r | None \<Rightarrow> rest)"

lemma op_simps [simp]:
  "ret a s = (Inr a, s)"
  "raise e s = (Inl e, s)"
  "liftr r s = (r, s)"
  "gets f s = (Inr (f s), s)"
  "modify g s = (Inr (), g s)"
  by (simp_all add: ret_def raise_def liftr_def gets_def modify_def)

lemma checko_simps [simp]:
  "checko (Some r) k rest = k r"
  "checko None k rest = rest"
  by (simp_all add: checko_def)

lemma bindo_eq [res_simps]:
  "bindo m f s = (r, t) \<longleftrightarrow>
     (\<exists>e. m s = (Inl e, t) \<and> r = Inl e) \<or> (\<exists>a u. m s = (Inr a, u) \<and> f a u = (r, t))"
  by (auto simp: bindo_def split: prod.splits sum.splits)

lemma bindo_Inr [res_simps]:
  "bindo m f s = (Inr b, t) \<longleftrightarrow> (\<exists>a u. m s = (Inr a, u) \<and> f a u = (Inr b, t))"
  by (auto simp: bindo_eq)

lemma bindo_run:
  "m s = (Inr a, u) \<Longrightarrow> bindo m f s = f a u"
  "m s = (Inl e, u) \<Longrightarrow> bindo m f s = (Inl e, u)"
  by (simp_all add: bindo_def)

section \<open>Relations that operations respect\<close>

definition keeps :: "('s \<Rightarrow> 's \<Rightarrow> bool) \<Rightarrow> ('s, 'a) op \<Rightarrow> bool" where
  "keeps R m \<longleftrightarrow> (\<forall>s. R s (snd (m s)))"

lemma keepsD: "keeps R m \<Longrightarrow> m s = (r, t) \<Longrightarrow> R s t"
  unfolding keeps_def by (metis snd_conv)

lemma keepsI: "(\<And>s r t. m s = (r, t) \<Longrightarrow> R s t) \<Longrightarrow> keeps R m"
  unfolding keeps_def by (metis prod.collapse)

locale effect_relation =
  fixes R :: "'s \<Rightarrow> 's \<Rightarrow> bool"
  assumes R_refl: "R s s"
    and R_trans: "R s t \<Longrightarrow> R t u \<Longrightarrow> R s u"
begin

lemma keeps_pure:
  "keeps R (ret a)" "keeps R (raise e)" "keeps R (liftr r)" "keeps R (gets f)"
  by (simp_all add: keeps_def R_refl)

lemma keeps_modify: "(\<And>s. R s (f s)) \<Longrightarrow> keeps R (modify f)"
  by (simp add: keeps_def)

lemma keeps_bindo:
  assumes "keeps R m" and "\<And>a. keeps R (f a)"
  shows "keeps R (bindo m f)"
proof (rule keepsI)
  fix s r t assume "bindo m f s = (r, t)"
  then consider "\<exists>e. m s = (Inl e, t)" | a u where "m s = (Inr a, u)" "f a u = (r, t)"
    by (auto simp: bindo_eq)
  then show "R s t"
    by cases (blast intro: keepsD [OF assms(1)] keepsD [OF assms(2)] R_trans)+
qed

lemma keeps_seqo: "keeps R m \<Longrightarrow> keeps R k \<Longrightarrow> keeps R (seqo m k)"
  unfolding seqo_def by (rule keeps_bindo)

lemma keeps_checko:
  "(\<And>r. keeps R (k r)) \<Longrightarrow> keeps R rest \<Longrightarrow> keeps R (checko v k rest)"
  by (cases v) simp_all

lemma keeps_if: "keeps R m \<Longrightarrow> keeps R k \<Longrightarrow> keeps R (if b then m else k)"
  by simp

lemma keeps_case_option:
  "keeps R m \<Longrightarrow> (\<And>a. keeps R (k a)) \<Longrightarrow> keeps R (case v of None \<Rightarrow> m | Some a \<Rightarrow> k a)"
  by (cases v) simp_all

lemma keeps_case_prod: "(\<And>a b. keeps R (k a b)) \<Longrightarrow> keeps R (case p of (a, b) \<Rightarrow> k a b)"
  by (cases p) simp

lemmas keeps_rules =
  keeps_pure keeps_bindo keeps_seqo keeps_checko keeps_if keeps_case_option
  keeps_case_prod

end

section \<open>Stores of used identifiers\<close>

text \<open>
  \<open>consume m s\<close> tries to use up the identifiers \<open>keys m\<close> and tells whether that succeeded. It succeeds
  exactly when none of them was used, and then they all are; otherwise nothing changes.
\<close>

locale replay_guard =
  fixes consume :: "'m \<Rightarrow> 's \<Rightarrow> bool \<times> 's"
    and keys :: "'m \<Rightarrow> 'k set"
    and seen :: "'s \<Rightarrow> 'k set"
    and usable :: "'s \<Rightarrow> bool"
  assumes accepts: "usable s \<Longrightarrow> fst (consume m s) \<longleftrightarrow> keys m \<inter> seen s = {}"
    and effect: "usable s \<Longrightarrow>
      seen (snd (consume m s)) = (if fst (consume m s) then seen s \<union> keys m else seen s)"
    and stays_usable: "usable s \<Longrightarrow> usable (snd (consume m s))"
    and keyed: "keys m \<noteq> {}"
begin

lemma monotone: "usable s \<Longrightarrow> seen s \<subseteq> seen (snd (consume m s))"
  by (simp add: effect)

lemma refused_unchanged: "usable s \<Longrightarrow> \<not> fst (consume m s) \<Longrightarrow> seen (snd (consume m s)) = seen s"
  by (simp add: effect)

lemma used_up: "usable s \<Longrightarrow> fst (consume m s) \<Longrightarrow> keys m \<subseteq> seen (snd (consume m s))"
  by (simp add: effect)

text \<open>A run of attempts, and those that succeeded.\<close>

fun run :: "'m list \<Rightarrow> 's \<Rightarrow> 'm list \<times> 's" where
  "run [] s = ([], s)"
| "run (m # ms) s =
     (let (ok, s1) = consume m s; (acc, s2) = run ms s1 in (if ok then m # acc else acc, s2))"

lemma run_invariant:
  assumes "usable s"
  shows "usable (snd (run ms s)) \<and> seen s \<subseteq> seen (snd (run ms s)) \<and>
    (\<forall>m \<in> set (fst (run ms s)). keys m \<inter> seen s = {} \<and> keys m \<subseteq> seen (snd (run ms s)))"
  using assms
proof (induction ms arbitrary: s)
  case (Cons m ms)
  obtain ok s1 where c: "consume m s = (ok, s1)" by (cases "consume m s")
  obtain acc s2 where r: "run ms s1 = (acc, s2)" by (cases "run ms s1")
  from Cons.prems have s1: "usable s1" "seen s1 = (if ok then seen s \<union> keys m else seen s)"
    using stays_usable [of s m] effect [of s m] by (simp_all add: c)
  from Cons.IH [OF s1(1)] have ih: "usable s2" "seen s1 \<subseteq> seen s2"
    "\<forall>m' \<in> set acc. keys m' \<inter> seen s1 = {} \<and> keys m' \<subseteq> seen s2" by (simp_all add: r)
  have "ok \<Longrightarrow> keys m \<inter> seen s = {}" using accepts [of s m] Cons.prems by (simp add: c)
  then show ?case using ih s1(2) by (auto simp: c r split: if_splits)
qed simp

text \<open>No identifier is used twice: the successes of a run have pairwise disjoint identifiers.\<close>

lemma run_disjoint:
  assumes "usable s"
  shows "pairwise_disjoint_list (map keys (fst (run ms s)))"
  using assms
proof (induction ms arbitrary: s)
  case (Cons m ms)
  obtain ok s1 where c: "consume m s = (ok, s1)" by (cases "consume m s")
  obtain acc s2 where r: "run ms s1 = (acc, s2)" by (cases "run ms s1")
  from Cons.prems have s1: "usable s1" "ok \<Longrightarrow> keys m \<subseteq> seen s1"
    using stays_usable [of s m] used_up [of s m] by (simp_all add: c)
  from run_invariant [OF s1(1), of ms] have "\<forall>m' \<in> set acc. keys m' \<inter> seen s1 = {}" by (simp add: r)
  with s1 Cons.IH [OF s1(1)] show ?case by (fastforce simp: c r)
qed simp

text \<open>A second attempt with a used identifier fails, however much happened in between.\<close>

lemma replay_refused:
  assumes "usable s" and "fst (consume m s)" and "keys m \<inter> keys m' \<noteq> {}"
  shows "\<not> fst (consume m' (snd (run ms (snd (consume m s)))))"
proof -
  let ?s1 = "snd (consume m s)"
  have u: "usable ?s1" using assms(1) by (rule stays_usable)
  note inv = run_invariant [OF u, of ms]
  from used_up [OF assms(1,2)] inv have "keys m \<subseteq> seen (snd (run ms ?s1))" by blast
  with assms(3) inv accepts [of "snd (run ms ?s1)" m'] show ?thesis by blast
qed

end

end
