(* ===== verification/Gate_Stores.thy ===== *)
theory Gate_Stores
  imports Freshness Effects "HOL-Library.AList"
begin

text \<open>
  The parts of the command gate (\<^verbatim>\<open>rclp_ros2/command_gate.py\<close>) below the gate class: the command message,
  the budgets for signed material and for the shape of a payload, bounded diagnostic text, the durable
  store of revocations and the durable cache of used command identifiers. SQLite tables are maps from
  their primary key, or association lists in row order where a scan order matters; a statement that
  violates the primary key rolls its transaction back.
\<close>

definition MAX_DIAGNOSTIC_TEXT_BYTES :: nat where
  "MAX_DIAGNOSTIC_TEXT_BYTES = 256"

definition MAX_COMMAND_PAYLOAD_DEPTH :: nat where
  "MAX_COMMAND_PAYLOAD_DEPTH = 32"

definition MAX_COMMAND_PAYLOAD_NODES :: nat where
  "MAX_COMMAND_PAYLOAD_NODES = 2048"

definition MAX_COMMAND_PAYLOAD_ESTIMATED_BYTES :: nat where
  "MAX_COMMAND_PAYLOAD_ESTIMATED_BYTES = 65536"

section \<open>The command\<close>

record edge_command = signed_message +
  command_id :: string
  cmd_agent_id :: string
  cmd_authenticated_agent_id :: "string option"
  cmd_edge_agent_id :: string
  cmd_robot_id :: string
  cmd_mission_id :: string
  cmd_capability :: string
  command_nonce :: string
  cmd_payload :: dump

definition command_dump :: "env \<Rightarrow> edge_command \<Rightarrow> dump" where
  "command_dump E c = base_dump E ''edge_command'' c @
     [(''command_id'', JStr (command_id c)),
      (''agent_id'', JStr (cmd_agent_id c)),
      (''authenticated_agent_id'', jstr_opt (cmd_authenticated_agent_id c)),
      (''edge_agent_id'', JStr (cmd_edge_agent_id c)),
      (''robot_id'', JStr (cmd_robot_id c)),
      (''mission_id'', JStr (cmd_mission_id c)),
      (''capability'', JStr (cmd_capability c)),
      (''command_nonce'', JStr (command_nonce c)),
      (''payload'', JDict (cmd_payload c))] @ signature_dump c"

section \<open>Budgets\<close>

text \<open>
  \<open>repr\<close> prints a finite double. The payload is an untyped \<^verbatim>\<open>dict\<close>: encoding a text with a lone surrogate and
  printing an integer of too many digits raise, and nothing catches it.
\<close>

fun estimated_payload_bytes :: "(rat \<Rightarrow> string) \<Rightarrow> json \<Rightarrow> nat res" where
  "estimated_payload_bytes repr JNull = Inr 4"
| "estimated_payload_bytes repr (JBool b) = Inr (if b then 4 else 5)"
| "estimated_payload_bytes repr (JStr s) = bindr (utf8_encode s) (\<lambda>bytes. Inr (length bytes + 2))"
| "estimated_payload_bytes repr (JInt n) = bindr (str_of_int n) (\<lambda>digits. Inr (length digits))"
| "estimated_payload_bytes repr (JFloat x) = Inr (length (flt_str repr x))"
| "estimated_payload_bytes repr (JDict d) = Inr 2"
| "estimated_payload_bytes repr (JList xs) = Inr 2"

text \<open>The inner loop over the items of a dict: the bytes counted so far, or \<open>None\<close> beyond the limit.\<close>

fun dict_key_bytes :: "(rat \<Rightarrow> string) \<Rightarrow> nat \<Rightarrow> dump \<Rightarrow> nat option res" where
  "dict_key_bytes repr b [] = Inr (Some b)"
| "dict_key_bytes repr b (kv # kvs) =
     bindr (estimated_payload_bytes repr (JStr (fst kv))) (\<lambda>n.
       if MAX_COMMAND_PAYLOAD_ESTIMATED_BYTES < b + n then Inr None else dict_key_bytes repr (b + n) kvs)"

fun json_nodes :: "json \<Rightarrow> nat" where
  "json_nodes (JList xs) = Suc (sum_list (map json_nodes xs))"
| "json_nodes (JDict d) = Suc (sum_list (map (\<lambda>kv. json_nodes (snd kv)) d))"
| "json_nodes _ = 1"

fun json_children :: "json \<Rightarrow> json list" where
  "json_children (JList xs) = xs"
| "json_children (JDict d) = map snd d"
| "json_children _ = []"

lemma json_nodes_children: "json_nodes v = Suc (sum_list (map json_nodes (json_children v)))"
  by (cases v) (simp_all add: comp_def)

lemma json_nodes_children_less: "sum_list (map json_nodes (json_children v)) < json_nodes v"
  by (simp add: json_nodes_children [of v])

text \<open>The \<^verbatim>\<open>while stack\<close> loop; the top of the stack is the head, and children are pushed in order.\<close>

function payload_budget_loop :: "(rat \<Rightarrow> string) \<Rightarrow> (json \<times> nat) list \<Rightarrow> nat \<Rightarrow> nat \<Rightarrow> bool res" where
  "payload_budget_loop repr [] node_count estimated_bytes = Inr False"
| "payload_budget_loop repr ((value, depth) # stack) node_count estimated_bytes =
     (if MAX_COMMAND_PAYLOAD_DEPTH < depth then Inr True
      else if MAX_COMMAND_PAYLOAD_NODES < Suc node_count then Inr True
      else
        bindr (estimated_payload_bytes repr value) (\<lambda>n.
        let b = estimated_bytes + n in
        if MAX_COMMAND_PAYLOAD_ESTIMATED_BYTES < b then Inr True
        else bindr (case value of JDict d \<Rightarrow> dict_key_bytes repr b d | _ \<Rightarrow> Inr (Some b)) (\<lambda>counted.
          case counted of
            None \<Rightarrow> Inr True
          | Some b' \<Rightarrow>
              payload_budget_loop repr (rev (map (\<lambda>c. (c, Suc depth)) (json_children value)) @ stack)
                (Suc node_count) b')))"
  by pat_completeness auto
termination
  by (relation "measure (\<lambda>(repr, stack, n, b). sum_list (map (\<lambda>vd. json_nodes (fst vd)) stack))")
    (simp_all add: rev_map [symmetric] json_nodes_children_less comp_def)

definition command_payload_budget_violation :: "(rat \<Rightarrow> string) \<Rightarrow> json \<Rightarrow> bool res" where
  "command_payload_budget_violation repr payload = payload_budget_loop repr [(payload, 1)] 0 0"

definition command_texts :: "edge_command \<Rightarrow> string option list" where
  "command_texts c =
     [Some (protocol_version c), Some (message_id c), Some (correlation_id c), Some ''edge_command'',
      Some (command_id c), Some (cmd_agent_id c), cmd_authenticated_agent_id c,
      Some (cmd_edge_agent_id c), Some (cmd_robot_id c), Some (cmd_mission_id c),
      Some (cmd_capability c), Some (command_nonce c), Some (signature_alg c), signature c]"

definition signed_command_material_budget_violation :: "env \<Rightarrow> edge_command \<Rightarrow> bool res" where
  "signed_command_material_budget_violation E c =
     (if budget_loop 0 (command_texts c) then Inr True
      else command_payload_budget_violation (float_repr E) (JDict (cmd_payload c)))"

definition revocation_texts :: "lease_revocation \<Rightarrow> string option list" where
  "revocation_texts r =
     [Some (protocol_version r), Some (message_id r), Some (correlation_id r),
      Some (isoformat (created_at r)), Some ''lease_revocation'', Some (rev_lease_id r),
      Some (rev_revoked_by r), Some (rev_edge_agent_id r), Some (rev_reason_code r),
      Some (isoformat (rev_revoked_at r)), Some (fallback_action_str (rev_fallback_action r)),
      rev_robot_id r, rev_mission_id r, map_option capability_str (rev_capability r),
      Some (signature_alg r), signature r]"

definition signed_revocation_material_budget_violation :: "lease_revocation \<Rightarrow> bool" where
  "signed_revocation_material_budget_violation r = budget_loop 0 (revocation_texts r)"

text \<open>An optional string that goes into a diagnostic payload.\<close>

definition bounded_diagnostic_text :: "env \<Rightarrow> string option \<Rightarrow> json" where
  "bounded_diagnostic_text E v =
     (case v of
        None \<Rightarrow> JNull
      | Some text \<Rightarrow>
          if length text \<le> MAX_DIAGNOSTIC_TEXT_BYTES then JStr text
          else JDict [(''byte_length'', JInt (int (length text))),
                      (''sha256'', JStr (''sha256:'' @ sha256_hex E text)),
                      (''truncated'', JBool True)])"

section \<open>The revocation store\<close>

record revoked_lease =
  rl_lease_id :: string
  rl_issuer_id :: string
  rl_agent_id :: string
  rl_edge_agent_id :: string
  rl_robot_id :: string
  rl_mission_id :: string
  rl_capability :: string
  rl_reason_code :: reason
  rl_fallback_action :: "fallback_action option"
  rl_revocation_id :: "string option"
  rl_correlation_id :: "string option"

text \<open>Rows carry the time of recording beside the record; the tables are in row order.\<close>

type_synonym revoked_table = "(string \<times> (revoked_lease \<times> string)) list"
type_synonym message_table = "(string \<times> (string \<times> string)) list"

record revocation_store =
  rs_store_path :: "string option"
  rs_durable :: bool
  rs_revoked_leases :: revoked_table
  rs_messages :: message_table

text \<open>\<^verbatim>\<open>INSERT OR IGNORE INTO revocation_messages ... SELECT ... FROM revoked_leases\<close>.\<close>

fun backfill_messages :: "revoked_table \<Rightarrow> message_table \<Rightarrow> message_table" where
  "backfill_messages [] ms = ms"
| "backfill_messages ((lid, (r, recorded_at)) # rows) ms =
     backfill_messages rows
       (case rl_revocation_id r of
          None \<Rightarrow> ms
        | Some rid \<Rightarrow> if map_of ms rid \<noteq> None then ms else ms @ [(rid, (lid, recorded_at))])"

definition RevocationStore ::
  "string option \<Rightarrow> bool option \<Rightarrow> revoked_table \<Rightarrow> message_table \<Rightarrow> revocation_store res" where
  "RevocationStore store_path durable revoked messages =
     (let d = (case durable of None \<Rightarrow> store_path \<noteq> None | Some b \<Rightarrow> b)
      in if d \<and> store_path = None
         then Inl (ValueError ''durable revocation store requires a store path'')
         else if store_path = None
         then Inr \<lparr>rs_store_path = None, rs_durable = d, rs_revoked_leases = [], rs_messages = []\<rparr>
         else Inr \<lparr>rs_store_path = store_path, rs_durable = d, rs_revoked_leases = revoked,
                   rs_messages = backfill_messages revoked messages\<rparr>)"

definition RevocationStore_temporary :: "string \<Rightarrow> revocation_store res" where
  "RevocationStore_temporary path = RevocationStore (Some path) (Some False) [] []"

definition revocation_store_durable :: "revocation_store \<Rightarrow> bool" where
  "revocation_store_durable st \<longleftrightarrow> rs_durable st \<and> rs_store_path st \<noteq> None"

definition load_all :: "revocation_store \<Rightarrow> (string \<rightharpoonup> revoked_lease)" where
  "load_all st =
     (if rs_store_path st = None then Map.empty
      else map_of (map (\<lambda>(lid, (r, t)). (lid, r)) (rs_revoked_leases st)))"

text \<open>The two inserts of the transaction, the second with \<^verbatim>\<open>ON CONFLICT(lease_id) DO UPDATE\<close>.\<close>

definition insert_revocation :: "revoked_lease \<Rightarrow> string \<Rightarrow> string \<Rightarrow> revocation_store \<Rightarrow> bool \<times> revocation_store" where
  "insert_revocation r rid recorded_at st =
     (if map_of (rs_messages st) rid \<noteq> None then (False, st)
      else (True, st\<lparr>rs_messages := rs_messages st @ [(rid, (rl_lease_id r, recorded_at))],
                     rs_revoked_leases := AList.update (rl_lease_id r) (r, recorded_at) (rs_revoked_leases st)\<rparr>))"

definition revocation_record ::
  "env \<Rightarrow> revoked_lease \<Rightarrow> revocation_store \<Rightarrow> world \<Rightarrow> bool res \<times> revocation_store \<times> world" where
  "revocation_record E r st w =
     (if rs_store_path st = None then (Inl (ValueError ''revocation store has no durable store''), st, w)
      else (case rl_revocation_id r of
        None \<Rightarrow> (Inl (ValueError ''revocation_id is required for durable revocation records''), st, w)
      | Some rid \<Rightarrow>
          (let (ok, st') = insert_revocation r rid (isoformat (utc_now E w)) st in (Inr ok, st', tick w))))"

lemma dom_map_of_snoc: "dom (map_of (xs @ [(k, v)])) = insert k (dom (map_of xs))"
  by (auto simp: dom_map_of_conv_image_fst)

interpretation revocation_replay: replay_guard
  "\<lambda>m. insert_revocation (fst m) (snd m) at_time" "\<lambda>m. {snd m}"
  "\<lambda>st. dom (map_of (rs_messages st))" "\<lambda>st. True"
  for at_time
  by unfold_locales (simp_all add: insert_revocation_def dom_map_of_snoc domIff)

section \<open>The command replay cache\<close>

record command_replay_row =
  cr_command_id :: string
  cr_command_nonce :: string
  cr_created_at :: string
  cr_consumed_at :: string

type_synonym replay_key = "string \<times> string \<times> string"

record command_replay_cache =
  cc_store_path :: "string option"
  cc_durable :: bool
  cc_seen_command_ids :: "(string \<times> string) set"
  cc_seen_nonces :: "(string \<times> string) set"
  cc_seen_lease_nonces :: "string set"
  cc_entries :: "replay_key \<rightharpoonup> command_replay_row"

definition CommandReplayCache ::
  "string option \<Rightarrow> bool option \<Rightarrow> (replay_key \<rightharpoonup> command_replay_row) \<Rightarrow> command_replay_cache res" where
  "CommandReplayCache store_path durable entries =
     (let d = (case durable of None \<Rightarrow> store_path \<noteq> None | Some b \<Rightarrow> b)
      in if d \<and> store_path = None
         then Inl (ValueError ''durable command replay cache requires a store path'')
         else Inr \<lparr>cc_store_path = store_path, cc_durable = d, cc_seen_command_ids = {},
                   cc_seen_nonces = {}, cc_seen_lease_nonces = {},
                   cc_entries = (if store_path = None then Map.empty else entries)\<rparr>)"

definition CommandReplayCache_temporary :: "string \<Rightarrow> command_replay_cache res" where
  "CommandReplayCache_temporary path = CommandReplayCache (Some path) (Some False) Map.empty"

definition command_cache_durable :: "command_replay_cache \<Rightarrow> bool" where
  "command_cache_durable c \<longleftrightarrow> cc_durable c \<and> cc_store_path c \<noteq> None"

definition lease_nonce_replay_scope :: string where
  "lease_nonce_replay_scope = ''__lease_nonce__''"

definition replay_row :: "edge_command \<Rightarrow> string \<Rightarrow> command_replay_row" where
  "replay_row cmd consumed_at =
     \<lparr>cr_command_id = command_id cmd, cr_command_nonce = command_nonce cmd,
      cr_created_at = isoformat (created_at cmd), cr_consumed_at = consumed_at\<rparr>"

text \<open>Inserting entries in order inside one transaction; the first conflict's reason is the result.\<close>

fun insert_entries ::
  "(replay_key \<times> reason) list \<Rightarrow> command_replay_row \<Rightarrow> (replay_key \<rightharpoonup> command_replay_row)
    \<Rightarrow> reason + (replay_key \<rightharpoonup> command_replay_row)" where
  "insert_entries [] row m = Inr m"
| "insert_entries ((k, reason) # es) row m =
     (if m k \<noteq> None then Inl reason else insert_entries es row (m(k \<mapsto> row)))"

definition command_entries :: "string \<Rightarrow> edge_command \<Rightarrow> (replay_key \<times> reason) list" where
  "command_entries a cmd =
     [((a, ''command_id'', command_id cmd), ''COMMAND_REPLAYED''),
      ((a, ''command_nonce'', command_nonce cmd), ''COMMAND_REPLAYED'')]"

definition remember ::
  "env \<Rightarrow> edge_command \<Rightarrow> command_replay_cache \<Rightarrow> world \<Rightarrow> bool \<times> command_replay_cache \<times> world" where
  "remember E cmd c w =
     (case cmd_authenticated_agent_id cmd of
        None \<Rightarrow> (False, c, w)
      | Some a \<Rightarrow>
          if cc_store_path c \<noteq> None then
            (case insert_entries (command_entries a cmd) (replay_row cmd (isoformat (utc_now E w))) (cc_entries c) of
               Inl _ \<Rightarrow> (False, c, tick w)
             | Inr m \<Rightarrow> (True, c\<lparr>cc_entries := m\<rparr>, tick w))
          else if (a, command_id cmd) \<in> cc_seen_command_ids c \<or> (a, command_nonce cmd) \<in> cc_seen_nonces c
          then (False, c, w)
          else (True, c\<lparr>cc_seen_command_ids := insert (a, command_id cmd) (cc_seen_command_ids c),
                        cc_seen_nonces := insert (a, command_nonce cmd) (cc_seen_nonces c)\<rparr>, w))"

definition use_entries :: "string \<Rightarrow> edge_command \<Rightarrow> capability_lease \<Rightarrow> (replay_key \<times> reason) list" where
  "use_entries a cmd l = command_entries a cmd @
     [((lease_nonce_replay_scope, ''lease_nonce'', lease_nonce l), ''LEASE_NONCE_REPLAYED'')]"

definition remember_authorized_use ::
  "env \<Rightarrow> edge_command \<Rightarrow> capability_lease \<Rightarrow> command_replay_cache \<Rightarrow> world
    \<Rightarrow> (bool \<times> reason) \<times> command_replay_cache \<times> world" where
  "remember_authorized_use E cmd l c w =
     (case cmd_authenticated_agent_id cmd of
        None \<Rightarrow> ((False, ''COMMAND_REPLAYED''), c, w)
      | Some a \<Rightarrow>
          if cc_store_path c \<noteq> None then
            (case insert_entries (use_entries a cmd l) (replay_row cmd (isoformat (utc_now E w))) (cc_entries c) of
               Inl reason \<Rightarrow> ((False, reason), c, tick w)
             | Inr m \<Rightarrow> ((True, ''LEASE_VALID''), c\<lparr>cc_entries := m\<rparr>, tick w))
          else if (a, command_id cmd) \<in> cc_seen_command_ids c \<or> (a, command_nonce cmd) \<in> cc_seen_nonces c
          then ((False, ''COMMAND_REPLAYED''), c, w)
          else if lease_nonce l \<in> cc_seen_lease_nonces c then ((False, ''LEASE_NONCE_REPLAYED''), c, w)
          else ((True, ''LEASE_VALID''),
                c\<lparr>cc_seen_command_ids := insert (a, command_id cmd) (cc_seen_command_ids c),
                  cc_seen_nonces := insert (a, command_nonce cmd) (cc_seen_nonces c),
                  cc_seen_lease_nonces := insert (lease_nonce l) (cc_seen_lease_nonces c)\<rparr>, w))"

definition contains :: "edge_command \<Rightarrow> command_replay_cache \<Rightarrow> bool" where
  "contains cmd c =
     (case cmd_authenticated_agent_id cmd of
        None \<Rightarrow> False
      | Some a \<Rightarrow>
          if cc_store_path c \<noteq> None
          then cc_entries c (a, ''command_id'', command_id cmd) \<noteq> None \<or>
               cc_entries c (a, ''command_nonce'', command_nonce cmd) \<noteq> None
          else (a, command_id cmd) \<in> cc_seen_command_ids c \<or> (a, command_nonce cmd) \<in> cc_seen_nonces c)"

section \<open>Transactions on the replay table\<close>

lemma insert_entries_Inr_iff:
  assumes "distinct (map fst es)"
  shows "(\<exists>m'. insert_entries es row m = Inr m') \<longleftrightarrow> set (map fst es) \<inter> dom m = {}"
  using assms
proof (induction es arbitrary: m)
  case (Cons e es)
  obtain k reason where e: "e = (k, reason)" by (cases e)
  with Cons.prems have d: "distinct (map fst es)" "k \<notin> fst ` set es" by simp_all
  show ?case
  proof (cases "m k")
    case None
    then have "set (map fst es) \<inter> dom (m(k \<mapsto> row)) = {} \<longleftrightarrow> set (map fst (e # es)) \<inter> dom m = {}"
      using d(2) by (auto simp: e)
    moreover have "insert_entries (e # es) row m = insert_entries es row (m(k \<mapsto> row))"
      using None by (simp add: e)
    ultimately show ?thesis using Cons.IH [OF d(1), of "m(k \<mapsto> row)"] by metis
  next
    case (Some v)
    then show ?thesis by (auto simp: e)
  qed
qed simp

lemma insert_entries_dom:
  "insert_entries es row m = Inr m' \<Longrightarrow> dom m' = dom m \<union> set (map fst es)"
  by (induction es row m rule: insert_entries.induct) (auto split: if_splits)

text \<open>A transaction that inserts all entries or none.\<close>

definition insert_all ::
  "(replay_key \<times> reason) list \<Rightarrow> command_replay_row \<Rightarrow> (replay_key \<rightharpoonup> command_replay_row)
    \<Rightarrow> bool \<times> (replay_key \<rightharpoonup> command_replay_row)" where
  "insert_all es row m = (case insert_entries es row m of Inl _ \<Rightarrow> (False, m) | Inr m' \<Rightarrow> (True, m'))"

lemma insert_all_accepts:
  "distinct (map fst es) \<Longrightarrow> fst (insert_all es row m) \<longleftrightarrow> set (map fst es) \<inter> dom m = {}"
  using insert_entries_Inr_iff [of es row m] by (auto simp: insert_all_def split: sum.splits)

lemma insert_all_dom:
  "dom (snd (insert_all es row m)) =
     (if fst (insert_all es row m) then dom m \<union> set (map fst es) else dom m)"
  by (auto simp: insert_all_def insert_entries_dom split: sum.splits)

lemma entries_distinct [simp]:
  "distinct (map fst (command_entries a cmd))" "distinct (map fst (use_entries a cmd l))"
  by (simp_all add: command_entries_def use_entries_def)

interpretation command_replay: replay_guard
  "\<lambda>m. insert_all (command_entries (fst m) (snd m)) (replay_row (snd m) at_time)"
  "\<lambda>m. set (map fst (command_entries (fst m) (snd m)))" dom "\<lambda>_. True"
  for at_time
  by unfold_locales (simp_all only: insert_all_accepts insert_all_dom entries_distinct simp_thms,
      simp_all add: command_entries_def)

interpretation use_replay: replay_guard
  "\<lambda>m. insert_all (use_entries (fst m) (fst (snd m)) (snd (snd m))) (replay_row (fst (snd m)) at_time)"
  "\<lambda>m. set (map fst (use_entries (fst m) (fst (snd m)) (snd (snd m))))" dom "\<lambda>_. True"
  for at_time
  by unfold_locales (simp_all only: insert_all_accepts insert_all_dom entries_distinct simp_thms,
      simp_all add: use_entries_def)

text \<open>The two methods in terms of the transaction, on a cache with a store.\<close>

lemma remember_store:
  assumes "cmd_authenticated_agent_id cmd = Some a" and "cc_store_path c \<noteq> None"
  shows "remember E cmd c w =
    (let (ok, m) = insert_all (command_entries a cmd) (replay_row cmd (isoformat (utc_now E w))) (cc_entries c)
     in (ok, c\<lparr>cc_entries := m\<rparr>, tick w))"
  using assms by (auto simp: remember_def insert_all_def split: sum.splits)

lemma remember_use_store:
  assumes "cmd_authenticated_agent_id cmd = Some a" and "cc_store_path c \<noteq> None"
    and "remember_authorized_use E cmd l c w = ((ok, r), c', w')"
  shows "(ok, cc_entries c') =
      insert_all (use_entries a cmd l) (replay_row cmd (isoformat (utc_now E w))) (cc_entries c)"
    and "c' = c\<lparr>cc_entries := cc_entries c'\<rparr>" and "w' = tick w" and "ok \<longleftrightarrow> r = ''LEASE_VALID''"
proof -
  have reasons: "insert_entries (use_entries a cmd l) row m = Inl x \<Longrightarrow> x \<noteq> ''LEASE_VALID''" for row m x
    by (auto simp: use_entries_def command_entries_def split: if_splits)
  show "(ok, cc_entries c') =
      insert_all (use_entries a cmd l) (replay_row cmd (isoformat (utc_now E w))) (cc_entries c)"
    "c' = c\<lparr>cc_entries := cc_entries c'\<rparr>" "w' = tick w" "ok \<longleftrightarrow> r = ''LEASE_VALID''"
    using assms by (auto simp: remember_authorized_use_def insert_all_def split: sum.splits dest: reasons)
qed

lemma remember_use_seen:
  assumes "cmd_authenticated_agent_id cmd = Some a" and "cc_store_path c \<noteq> None"
    and "remember_authorized_use E cmd l c w = ((True, r), c', w')"
  shows "set (map fst (use_entries a cmd l)) \<inter> dom (cc_entries c) = {}"
    and "dom (cc_entries c') = dom (cc_entries c) \<union> set (map fst (use_entries a cmd l))"
proof -
  let ?t = "insert_all (use_entries a cmd l) (replay_row cmd (isoformat (utc_now E w))) (cc_entries c)"
  from remember_use_store(1) [OF assms] have t: "fst ?t" "snd ?t = cc_entries c'" by (metis fst_conv, metis snd_conv)
  from t(1) show "set (map fst (use_entries a cmd l)) \<inter> dom (cc_entries c) = {}"
    by (simp add: insert_all_accepts)
  from t insert_all_dom [of "use_entries a cmd l" "replay_row cmd (isoformat (utc_now E w))" "cc_entries c"]
  show "dom (cc_entries c') = dom (cc_entries c) \<union> set (map fst (use_entries a cmd l))" by simp
qed

lemma contains_store:
  assumes "cmd_authenticated_agent_id cmd = Some a" and "cc_store_path c \<noteq> None"
  shows "contains cmd c \<longleftrightarrow> set (map fst (command_entries a cmd)) \<inter> dom (cc_entries c) \<noteq> {}"
  using assms by (auto simp: contains_def command_entries_def)

section \<open>The revocation tables\<close>

text \<open>Every revocation that took effect is known as a message, so that it cannot be replayed.\<close>

definition store_ok :: "revocation_store \<Rightarrow> bool" where
  "store_ok st \<longleftrightarrow>
     (\<forall>lid r t rid. (lid, (r, t)) \<in> set (rs_revoked_leases st) \<longrightarrow> rl_revocation_id r = Some rid \<longrightarrow>
        rid \<in> dom (map_of (rs_messages st)))"

lemma backfill_mono: "dom (map_of ms) \<subseteq> dom (map_of (backfill_messages rows ms))"
proof (induction rows ms rule: backfill_messages.induct)
  case (2 lid r t rows ms)
  then show ?case by (auto simp: dom_map_of_snoc split: option.splits if_splits)
qed simp

lemma backfill_covers:
  "(lid, (r, t)) \<in> set rows \<Longrightarrow> rl_revocation_id r = Some rid \<Longrightarrow>
     rid \<in> dom (map_of (backfill_messages rows ms))"
proof (induction rows ms rule: backfill_messages.induct)
  case (2 lid' r' t' rows ms)
  show ?case
  proof (cases "(lid, (r, t)) \<in> set rows")
    case True
    with 2 show ?thesis by auto
  next
    case False
    with 2 have "rl_revocation_id r' = Some rid" by auto
    then show ?thesis
      using backfill_mono [of "if map_of ms rid \<noteq> None then ms else ms @ [(rid, (lid', t'))]" rows]
      by (auto simp: dom_map_of_snoc split: if_splits)
  qed
qed simp

lemma RevocationStore_ok: "RevocationStore path durable revoked messages = Inr st \<Longrightarrow> store_ok st"
proof (cases path)
  case (Some p)
  assume "RevocationStore path durable revoked messages = Inr st"
  with Some have "rs_revoked_leases st = revoked" "rs_messages st = backfill_messages revoked messages"
    by (auto simp: RevocationStore_def Let_def)
  then show ?thesis by (metis store_ok_def backfill_covers)
qed (auto simp: RevocationStore_def store_ok_def Let_def split: if_splits)

lemma AList_update_set: "x \<in> set (AList.update k v xs) \<Longrightarrow> x \<in> set xs \<or> x = (k, v)"
  by (induction xs) (auto split: if_splits)

lemma insert_revocation_ok:
  assumes "store_ok st" and "insert_revocation r rid t st = (ok, st')" and "rl_revocation_id r = Some rid"
  shows "store_ok st'"
proof (cases "map_of (rs_messages st) rid")
  case None
  with assms(2) have st': "st' = st\<lparr>rs_messages := rs_messages st @ [(rid, (rl_lease_id r, t))],
      rs_revoked_leases := AList.update (rl_lease_id r) (r, t) (rs_revoked_leases st)\<rparr>"
    by (auto simp: insert_revocation_def)
  have "x \<in> set (rs_revoked_leases st) \<or> x = (rl_lease_id r, (r, t))"
    if "x \<in> set (AList.update (rl_lease_id r) (r, t) (rs_revoked_leases st))" for x
    using that by (rule AList_update_set)
  then have rows: "x \<in> set (rs_revoked_leases st) \<or> x = (rl_lease_id r, (r, t))"
    if "x \<in> set (rs_revoked_leases st')" for x using that by (simp add: st')
  have msgs: "dom (map_of (rs_messages st')) = insert rid (dom (map_of (rs_messages st)))"
    by (simp add: st' dom_map_of_snoc)
  show ?thesis
    unfolding store_ok_def
  proof (intro allI impI)
    fix lid r' t' rid' assume row: "(lid, (r', t')) \<in> set (rs_revoked_leases st')" "rl_revocation_id r' = Some rid'"
    from rows [OF row(1)] show "rid' \<in> dom (map_of (rs_messages st'))"
    proof
      assume "(lid, r', t') \<in> set (rs_revoked_leases st)"
      with assms(1) row(2) have "rid' \<in> dom (map_of (rs_messages st))" unfolding store_ok_def by metis
      then show ?thesis by (simp add: msgs)
    next
      assume "(lid, r', t') = (rl_lease_id r, r, t)"
      with row(2) assms(3) show ?thesis by (simp add: msgs)
    qed
  qed
qed (use assms in \<open>auto simp: insert_revocation_def\<close>)

lemma load_all_eq:
  "load_all st = (if rs_store_path st = None then Map.empty else map_option fst \<circ> map_of (rs_revoked_leases st))"
proof -
  have "map_of (map (\<lambda>(lid, (r, t)). (lid, r)) xs) = map_option fst \<circ> map_of xs" for xs :: revoked_table
    by (induction xs) (auto simp: fun_eq_iff)
  then show ?thesis by (simp add: load_all_def)
qed

lemma load_all_insert:
  assumes "insert_revocation r rid t st = (True, st')" and "rs_store_path st \<noteq> None"
  shows "load_all st' = (load_all st)(rl_lease_id r \<mapsto> r)"
  using assms by (auto simp: insert_revocation_def load_all_eq update_conv' fun_eq_iff split: if_splits)

section \<open>The payload budget by structure\<close>

fun json_depth :: "json \<Rightarrow> nat" where
  "json_depth (JList xs) = Suc (foldr max (map json_depth xs) 0)"
| "json_depth (JDict d) = Suc (foldr max (map (\<lambda>kv. json_depth (snd kv)) d) 0)"
| "json_depth _ = 1"

text \<open>The size of one value as far as it has one, and whether it has: \<open>value_ok\<close> for the value and its keys alone.\<close>

fun value_bytes :: "(rat \<Rightarrow> string) \<Rightarrow> json \<Rightarrow> nat" where
  "value_bytes repr JNull = 4"
| "value_bytes repr (JBool b) = (if b then 4 else 5)"
| "value_bytes repr (JStr s) = length s + 2"
| "value_bytes repr (JInt n) = length (int_str n)"
| "value_bytes repr (JFloat x) = length (flt_str repr x)"
| "value_bytes repr _ = 2"

fun json_bytes :: "(rat \<Rightarrow> string) \<Rightarrow> json \<Rightarrow> nat" where
  "json_bytes repr (JList xs) = 2 + sum_list (map (json_bytes repr) xs)"
| "json_bytes repr (JDict d) =
     2 + sum_list (map (\<lambda>kv. length (fst kv) + 2) d) + sum_list (map (\<lambda>kv. json_bytes repr (snd kv)) d)"
| "json_bytes repr v = value_bytes repr v"

definition key_bytes :: "json \<Rightarrow> nat" where
  "key_bytes v = (case v of JDict d \<Rightarrow> sum_list (map (\<lambda>kv. length (fst kv) + 2) d) | _ \<Rightarrow> 0)"

fun scalar_printable :: "json \<Rightarrow> bool" where
  "scalar_printable (JStr s) = utf8_encodable s"
| "scalar_printable (JInt n) = (\<bar>n\<bar> < 10 ^ MAX_STR_DIGITS)"
| "scalar_printable _ = True"

definition keys_printable :: "json \<Rightarrow> bool" where
  "keys_printable v = (case v of JDict d \<Rightarrow> list_all (\<lambda>kv. utf8_encodable (fst kv)) d | _ \<Rightarrow> True)"

text \<open>A value that can be written out: no lone surrogate in a text or a key, no integer of more than 4300 digits.\<close>

fun json_printable :: "json \<Rightarrow> bool" where
  "json_printable (JList xs) = list_all json_printable xs"
| "json_printable (JDict d) = list_all (\<lambda>kv. utf8_encodable (fst kv) \<and> json_printable (snd kv)) d"
| "json_printable v = scalar_printable v"

lemma json_printable_children:
  "json_printable v \<longleftrightarrow> scalar_printable v \<and> keys_printable v \<and> list_all json_printable (json_children v)"
  by (cases v) (auto simp: keys_printable_def list_all_iff)

definition unprintable_errors :: "exn set" where
  "unprintable_errors = {UnicodeEncodeError, too_many_digits}"

lemma estimated_payload_bytes_cases:
  "estimated_payload_bytes repr v = Inr n \<longleftrightarrow> scalar_printable v \<and> n = value_bytes repr v"
  "estimated_payload_bytes repr v = Inl e \<Longrightarrow> \<not> scalar_printable v \<and> e \<in> unprintable_errors"
proof -
  show "estimated_payload_bytes repr v = Inr n \<longleftrightarrow> scalar_printable v \<and> n = value_bytes repr v"
    by (cases v) (auto simp: utf8_encode_def bindr_Inr_iff str_of_int_Inr)
  show "\<not> scalar_printable v \<and> e \<in> unprintable_errors" if "estimated_payload_bytes repr v = Inl e"
  proof (cases v)
    case (JInt i)
    with that have "str_of_int i = Inl e" by (simp add: bindr_Inl_iff)
    moreover from this have "\<not> \<bar>i\<bar> < 10 ^ MAX_STR_DIGITS" using str_of_int_Inr [of i "int_str i"] by auto
    ultimately show ?thesis by (simp add: JInt str_of_int_def unprintable_errors_def split: if_splits)
  qed (use that in \<open>auto simp: utf8_encode_def unprintable_errors_def split: if_splits\<close>)
qed

lemma json_bytes_children:
  "json_bytes repr v = value_bytes repr v + key_bytes v + sum_list (map (json_bytes repr) (json_children v))"
  by (cases v) (simp_all add: key_bytes_def comp_def)

lemma json_depth_children: "json_depth v = Suc (foldr max (map json_depth (json_children v)) 0)"
  by (cases v) (simp_all add: comp_def)

lemma foldr_max_less: "n < foldr max ds 0 \<longleftrightarrow> (\<exists>d \<in> set ds. (n::nat) < d)"
  by (induction ds) (auto simp: less_max_iff_disj)

lemma dict_key_bytes_cases:
  assumes "b \<le> MAX_COMMAND_PAYLOAD_ESTIMATED_BYTES"
  shows "dict_key_bytes repr b d = Inr (Some b') \<longleftrightarrow>
      list_all (\<lambda>kv. utf8_encodable (fst kv)) d \<and> b' = b + key_bytes (JDict d) \<and> b' \<le> MAX_COMMAND_PAYLOAD_ESTIMATED_BYTES"
    "dict_key_bytes repr b d = Inr None \<Longrightarrow> MAX_COMMAND_PAYLOAD_ESTIMATED_BYTES < b + key_bytes (JDict d)"
    "dict_key_bytes repr b d = Inl e \<Longrightarrow>
      \<not> list_all (\<lambda>kv. utf8_encodable (fst kv)) d \<and> e \<in> unprintable_errors"
  using assms
  by (induction repr b d rule: dict_key_bytes.induct)
    (auto simp: utf8_encode_def unprintable_errors_def key_bytes_def add.assoc not_less split: if_splits)

lemma key_bytes_cases:
  fixes repr v b
  assumes "b \<le> MAX_COMMAND_PAYLOAD_ESTIMATED_BYTES"
  defines "counted \<equiv> (case v of JDict d \<Rightarrow> dict_key_bytes repr b d | _ \<Rightarrow> Inr (Some b))"
  obtains (counted) "counted = Inr (Some (b + key_bytes v))" "keys_printable v"
      "b + key_bytes v \<le> MAX_COMMAND_PAYLOAD_ESTIMATED_BYTES"
    | (over) "counted = Inr None" "MAX_COMMAND_PAYLOAD_ESTIMATED_BYTES < b + key_bytes v"
    | (raised) e where "counted = Inl e" "\<not> keys_printable v" "e \<in> unprintable_errors"
proof (cases counted)
  case (Inl e)
  with dict_key_bytes_cases(3) [OF assms(1)] show ?thesis
    by (intro raised) (auto simp: counted_def keys_printable_def split: json.splits)
next
  case (Inr x)
  show ?thesis
  proof (cases x)
    case None
    with Inr dict_key_bytes_cases(2) [OF assms(1)] show ?thesis
      by (intro over) (auto simp: counted_def key_bytes_def split: json.splits)
  next
    case (Some b')
    with Inr dict_key_bytes_cases(1) [OF assms(1)] assms(1) show ?thesis
      by (intro counted) (auto simp: counted_def key_bytes_def keys_printable_def split: json.splits)
  qed
qed

text \<open>What the loop decides from the middle: the values still on the stack, at their depths.\<close>

definition over_budget :: "(rat \<Rightarrow> string) \<Rightarrow> (json \<times> nat) list \<Rightarrow> nat \<Rightarrow> nat \<Rightarrow> bool" where
  "over_budget repr stack n b \<longleftrightarrow>
     (\<exists>(v, d) \<in> set stack. MAX_COMMAND_PAYLOAD_DEPTH < d + json_depth v - 1) \<or>
     MAX_COMMAND_PAYLOAD_NODES < n + sum_list (map (\<lambda>vd. json_nodes (fst vd)) stack) \<or>
     MAX_COMMAND_PAYLOAD_ESTIMATED_BYTES < b + sum_list (map (\<lambda>vd. json_bytes repr (fst vd)) stack)"

lemma over_budget_pop:
  assumes "d \<le> MAX_COMMAND_PAYLOAD_DEPTH"
  shows "over_budget repr ((v, d) # stack) n b \<longleftrightarrow>
    over_budget repr (rev (map (\<lambda>c. (c, Suc d)) (json_children v)) @ stack) (Suc n)
      (b + value_bytes repr v + key_bytes v)"
proof -
  have depth: "MAX_COMMAND_PAYLOAD_DEPTH < d + json_depth v - 1 \<longleftrightarrow>
      (\<exists>c \<in> set (json_children v). MAX_COMMAND_PAYLOAD_DEPTH < Suc d + json_depth c - 1)"
    using assms foldr_max_less [of "MAX_COMMAND_PAYLOAD_DEPTH - d" "map json_depth (json_children v)"]
    by (auto simp: json_depth_children [of v] less_diff_conv2 add.commute [of d])
  let ?new = "rev (map (\<lambda>c. (c, Suc d)) (json_children v)) @ stack"
  have "(\<exists>(w, e) \<in> set ((v, d) # stack). MAX_COMMAND_PAYLOAD_DEPTH < e + json_depth w - 1) \<longleftrightarrow>
      (\<exists>(w, e) \<in> set ?new. MAX_COMMAND_PAYLOAD_DEPTH < e + json_depth w - 1)"
    using depth by (auto simp: bex_Un image_iff)
  moreover have "n + sum_list (map (\<lambda>vd. json_nodes (fst vd)) ((v, d) # stack)) =
      Suc n + sum_list (map (\<lambda>vd. json_nodes (fst vd)) ?new)"
    by (simp add: json_nodes_children [of v] rev_map [symmetric] comp_def)
  moreover have "b + sum_list (map (\<lambda>vd. json_bytes repr (fst vd)) ((v, d) # stack)) =
      b + value_bytes repr v + key_bytes v + sum_list (map (\<lambda>vd. json_bytes repr (fst vd)) ?new)"
    by (simp add: json_bytes_children [of repr v] rev_map [symmetric] comp_def)
  ultimately show ?thesis unfolding over_budget_def by (simp only:)
qed

text \<open>
  The outcomes of the loop from the middle. It passes only when everything left is printable and inside the
  budget; it reports a violation only when there is one; and it raises only for something unprintable.
\<close>

definition loop_outcome :: "(rat \<Rightarrow> string) \<Rightarrow> (json \<times> nat) list \<Rightarrow> nat \<Rightarrow> nat \<Rightarrow> bool res \<Rightarrow> bool" where
  "loop_outcome repr stack n b r \<longleftrightarrow>
     (case r of
        Inl e \<Rightarrow> e \<in> unprintable_errors \<and> \<not> list_all (\<lambda>vd. json_printable (fst vd)) stack
      | Inr True \<Rightarrow> over_budget repr stack n b
      | Inr False \<Rightarrow> list_all (\<lambda>vd. json_printable (fst vd)) stack \<and> \<not> over_budget repr stack n b)"

lemma loop_outcome_pop:
  assumes "d \<le> MAX_COMMAND_PAYLOAD_DEPTH" and "scalar_printable v" "keys_printable v"
  shows "loop_outcome repr ((v, d) # stack) n b r \<longleftrightarrow>
    loop_outcome repr (rev (map (\<lambda>c. (c, Suc d)) (json_children v)) @ stack) (Suc n)
      (b + value_bytes repr v + key_bytes v) r"
proof -
  have "list_all (\<lambda>vd. json_printable (fst vd)) ((v, d) # stack) \<longleftrightarrow>
      list_all (\<lambda>vd. json_printable (fst vd)) (rev (map (\<lambda>c. (c, Suc d)) (json_children v)) @ stack)"
    using assms(2,3) by (auto simp: json_printable_children [of v] list_all_iff ball_Un)
  then show ?thesis
    unfolding loop_outcome_def over_budget_pop [OF assms(1)] by (simp split: sum.split bool.split)
qed

lemma payload_budget_loop_outcome:
  assumes "n \<le> MAX_COMMAND_PAYLOAD_NODES" and "b \<le> MAX_COMMAND_PAYLOAD_ESTIMATED_BYTES"
  shows "loop_outcome repr stack n b (payload_budget_loop repr stack n b)"
  using assms
proof (induction repr stack n b rule: payload_budget_loop.induct)
  case (1 repr n b)
  then show ?case by (simp add: over_budget_def loop_outcome_def)
next
  case (2 repr v d stack n b)
  let ?b = "b + value_bytes repr v"
  note printable = json_printable_children [of v]
  consider (deep) "MAX_COMMAND_PAYLOAD_DEPTH < d" | (many) "d \<le> MAX_COMMAND_PAYLOAD_DEPTH" "MAX_COMMAND_PAYLOAD_NODES < Suc n"
    | (raised) e where "d \<le> MAX_COMMAND_PAYLOAD_DEPTH" "Suc n \<le> MAX_COMMAND_PAYLOAD_NODES"
        "estimated_payload_bytes repr v = Inl e"
    | (large) "d \<le> MAX_COMMAND_PAYLOAD_DEPTH" "Suc n \<le> MAX_COMMAND_PAYLOAD_NODES"
        "estimated_payload_bytes repr v = Inr (value_bytes repr v)" "MAX_COMMAND_PAYLOAD_ESTIMATED_BYTES < ?b"
    | (keys) "d \<le> MAX_COMMAND_PAYLOAD_DEPTH" "Suc n \<le> MAX_COMMAND_PAYLOAD_NODES"
        "estimated_payload_bytes repr v = Inr (value_bytes repr v)" "scalar_printable v"
        "?b \<le> MAX_COMMAND_PAYLOAD_ESTIMATED_BYTES"
    using estimated_payload_bytes_cases(1) [of repr v] by (cases "estimated_payload_bytes repr v") force+
  then show ?case
  proof cases
    case deep
    then show ?thesis by (simp add: loop_outcome_def over_budget_def json_depth_children [of v])
  next
    case many
    then show ?thesis by (simp add: loop_outcome_def over_budget_def json_nodes_children [of v])
  next
    case raised
    then show ?thesis using estimated_payload_bytes_cases(2) printable by (fastforce simp: loop_outcome_def)
  next
    case large
    then show ?thesis by (simp add: loop_outcome_def over_budget_def json_bytes_children [of repr v])
  next
    case keys
    show ?thesis
    proof (rule key_bytes_cases [OF keys(5), of repr v])
      assume counted: "(case v of JDict d \<Rightarrow> dict_key_bytes repr ?b d | _ \<Rightarrow> Inr (Some ?b)) = Inr (Some (?b + key_bytes v))"
        "keys_printable v" "?b + key_bytes v \<le> MAX_COMMAND_PAYLOAD_ESTIMATED_BYTES"
      with keys "2.IH" [OF _ _ keys(3) refl _ counted(1) refl] show ?thesis
        by (simp add: loop_outcome_pop not_less)
    next
      assume "(case v of JDict d \<Rightarrow> dict_key_bytes repr ?b d | _ \<Rightarrow> Inr (Some ?b)) = Inr None"
        "MAX_COMMAND_PAYLOAD_ESTIMATED_BYTES < ?b + key_bytes v"
      with keys show ?thesis by (simp add: loop_outcome_def over_budget_def json_bytes_children [of repr v] not_less)
    next
      fix e
      assume "(case v of JDict d \<Rightarrow> dict_key_bytes repr ?b d | _ \<Rightarrow> Inr (Some ?b)) = Inl e" "\<not> keys_printable v"
        "e \<in> unprintable_errors"
      with keys printable show ?thesis by (simp add: loop_outcome_def not_less)
    qed
  qed
qed

text \<open>The whole payload.\<close>

definition payload_over_budget :: "(rat \<Rightarrow> string) \<Rightarrow> json \<Rightarrow> bool" where
  "payload_over_budget repr payload \<longleftrightarrow>
     MAX_COMMAND_PAYLOAD_DEPTH < json_depth payload \<or> MAX_COMMAND_PAYLOAD_NODES < json_nodes payload \<or>
     MAX_COMMAND_PAYLOAD_ESTIMATED_BYTES < json_bytes repr payload"

lemma payload_budget_cases:
  obtains (decided) over where "command_payload_budget_violation repr payload = Inr over"
      "over \<longleftrightarrow> payload_over_budget repr payload" "over \<or> json_printable payload"
    | (raised) e where "command_payload_budget_violation repr payload = Inl e" "\<not> json_printable payload"
      "e \<in> unprintable_errors"
proof -
  have over: "over_budget repr [(payload, Suc 0)] 0 0 \<longleftrightarrow> payload_over_budget repr payload"
    by (simp add: over_budget_def payload_over_budget_def)
  have "loop_outcome repr [(payload, 1)] 0 0 (command_payload_budget_violation repr payload)"
    unfolding command_payload_budget_violation_def by (rule payload_budget_loop_outcome) simp_all
  then show thesis
    using decided [of True] decided [of False] raised
    by (cases "command_payload_budget_violation repr payload")
      (auto simp: loop_outcome_def over split: bool.splits)
qed

section \<open>Properties\<close>

text \<open>
  C27. The payload budget is what its structure says: the loop with its explicit stack ends. It lets a payload
  pass exactly when the payload can be written out, nests at most 32 levels deep, has at most 2048 values and
  an estimated size with all keys of at most 65536 bytes. For a payload that can be written out it reports a
  violation exactly when one of these limits is exceeded. For any other payload it reports a violation only
  then, and otherwise raises: the error for a lone surrogate or the one for too many digits.
\<close>

theorem payload_budget_exact:
  "(command_payload_budget_violation repr payload = Inr False \<longleftrightarrow> json_printable payload \<and> \<not> payload_over_budget repr payload) \<and>
    (json_printable payload \<longrightarrow> command_payload_budget_violation repr payload = Inr (payload_over_budget repr payload)) \<and>
    (case command_payload_budget_violation repr payload of
       Inl e \<Rightarrow> \<not> json_printable payload \<and> e \<in> {UnicodeEncodeError, too_many_digits}
     | Inr violation \<Rightarrow> violation \<longleftrightarrow> payload_over_budget repr payload)"
  unfolding unprintable_errors_def [symmetric]
  by (rule payload_budget_cases [of repr payload]) auto

end
