(* ===== verification/Audit_Log.thy ===== *)
theory Audit_Log
  imports Freshness "HOL-Library.Multiset"
begin

text \<open>
  The audit log (\<^verbatim>\<open>rclp_core/audit.py\<close>): the hash-chained log with its append and record operations,
  the two validators of a finished chain (signed batches and the JSONL import), batch signing and
  authentication, and the replay view. An operation that raises leaves the log as it was; it returns
  the exception and the log.
\<close>

section \<open>The log\<close>

record audit_log =
  events :: "audit_commit list"
  audit_ids :: "string set"

definition AuditLog :: audit_log where
  "AuditLog = \<lparr>events = [], audit_ids = {}\<rparr>"

fun authority_event :: "audit_event_type \<Rightarrow> bool" where
  "authority_event DEMO_SETUP = False"
| "authority_event DIAGNOSTIC = False"
| "authority_event _ = True"

definition chain_head :: "audit_log \<Rightarrow> string option" where
  "chain_head lg = (if events lg = [] then None else integrity_proof (last (events lg)))"

definition validate_context :: "audit_commit \<Rightarrow> unit res" where
  "validate_context e =
     (if authority_event (event_type e) then
        if \<not> authority_relevant e
        then Inl (ValueError ''authority event type must be authority_relevant'')
        else if ac_robot_id e = None \<or> ac_mission_id e = None
        then Inl (ValueError ''authority-relevant audit event requires robot_id and mission_id'')
        else Inr ()
      else Inr ())"

definition validate_payload_hash :: "env \<Rightarrow> audit_commit \<Rightarrow> unit res" where
  "validate_payload_hash E e =
     (if payload_hash e \<noteq> Some (stable_json_hash E (JDict (ac_payload e)))
      then Inl (ValueError ''payload_hash does not match audit payload'') else Inr ())"

text \<open>The creation date is not a JSON value; \<^verbatim>\<open>default=str\<close> prints it.\<close>

definition integrity_material :: "audit_commit \<Rightarrow> string option \<Rightarrow> json" where
  "integrity_material e previous_hash = JDict
     [(''audit_id'', JStr (audit_id e)),
      (''message_id'', JStr (message_id e)),
      (''message_type'', JStr ''audit_commit''),
      (''protocol_version'', JStr (protocol_version e)),
      (''correlation_id'', JStr (correlation_id e)),
      (''created_at'', JStr (datetime_str (created_at e))),
      (''event_type'', JStr (audit_event_type_str (event_type e))),
      (''actor_id'', JStr (ac_actor_id e)),
      (''robot_id'', jstr_opt (ac_robot_id e)),
      (''mission_id'', jstr_opt (ac_mission_id e)),
      (''summary'', JStr (ac_summary e)),
      (''payload_hash'', jstr_opt (payload_hash e)),
      (''authority_relevant'', JBool (authority_relevant e)),
      (''integrity_profile'', JStr (integrity_profile e)),
      (''policy_id'', jstr_opt (ac_policy_id e)),
      (''policy_digest'', jstr_opt (ac_policy_digest e)),
      (''state_refs'', JList (map JStr (state_refs e))),
      (''related_message_ids'', JList (map JStr (related_message_ids e))),
      (''previous_audit_hash'', jstr_opt previous_hash)]"

definition integrity_proof_of :: "env \<Rightarrow> audit_commit \<Rightarrow> string option \<Rightarrow> string" where
  "integrity_proof_of E e previous_hash = stable_json_hash E (integrity_material e previous_hash)"

text \<open>\<^verbatim>\<open>event.previous_audit_hash or previous_hash\<close>.\<close>

definition or_hash :: "string option \<Rightarrow> string option \<Rightarrow> string option" where
  "or_hash a b = (case a of Some s \<Rightarrow> if s = [] then b else Some s | None \<Rightarrow> b)"

definition committed_event :: "env \<Rightarrow> audit_commit \<Rightarrow> string option \<Rightarrow> audit_commit" where
  "committed_event E e previous_hash =
     e\<lparr>previous_audit_hash := or_hash (previous_audit_hash e) previous_hash,
       integrity_proof := Some (integrity_proof_of E e previous_hash)\<rparr>"

definition audit_append :: "env \<Rightarrow> audit_commit \<Rightarrow> audit_log \<Rightarrow> audit_commit res \<times> audit_log" where
  "audit_append E e lg =
     (let previous_hash = chain_head lg;
          expected_proof = integrity_proof_of E e previous_hash
      in case
        (if audit_id e \<in> audit_ids lg then Inl (ValueError (''duplicate audit_id: '' @ audit_id e))
         else bindr (validate_context e) (\<lambda>_.
           bindr (validate_payload_hash E e) (\<lambda>_.
             if previous_audit_hash e \<notin> {None, previous_hash}
             then Inl (ValueError ''previous_audit_hash does not match audit chain'')
             else if integrity_proof e \<noteq> None \<and> integrity_proof e \<noteq> Some expected_proof
             then Inl (ValueError ''integrity_proof does not match audit event'')
             else Inr (committed_event E e previous_hash)))) of
        Inl x \<Rightarrow> (Inl x, lg)
      | Inr committed \<Rightarrow>
          (Inr committed,
           \<lparr>events = events lg @ [committed], audit_ids = insert (audit_id committed) (audit_ids lg)\<rparr>))"

text \<open>The keyword arguments of \<^verbatim>\<open>record\<close>, defaults filled in.\<close>

record audit_entry =
  en_event_type :: audit_event_type
  en_actor_id :: string
  en_summary :: string
  en_correlation_id :: string
  en_robot_id :: "string option"
  en_mission_id :: "string option"
  en_payload :: dump
  en_authority_relevant :: bool
  en_policy_id :: "string option"
  en_policy_digest :: "string option"
  en_state_refs :: "string list"
  en_related_message_ids :: "string list"

definition audit_commit_of :: "env \<Rightarrow> audit_entry \<Rightarrow> world \<Rightarrow> audit_commit" where
  "audit_commit_of E n w = commit_payload_hash E
     \<lparr>protocol_version = SUPPORTED_PROTOCOL_VERSION, message_id = uuid_text E ''msg_'' w,
      correlation_id = en_correlation_id n, created_at = utc_now E w,
      audit_id = uuid_text E ''audit_'' (draw w), event_type = en_event_type n,
      ac_actor_id = en_actor_id n, ac_robot_id = en_robot_id n, ac_mission_id = en_mission_id n,
      ac_summary = en_summary n, ac_payload = en_payload n, payload_hash = None,
      authority_relevant = en_authority_relevant n, integrity_profile = ''local_hash_chain_v0'',
      integrity_proof = None, previous_audit_hash = None, ac_policy_id = en_policy_id n,
      ac_policy_digest = en_policy_digest n, state_refs = en_state_refs n,
      related_message_ids = en_related_message_ids n\<rparr>"

definition audit_record ::
  "env \<Rightarrow> audit_entry \<Rightarrow> audit_log \<Rightarrow> world \<Rightarrow> audit_commit res \<times> audit_log \<times> world" where
  "audit_record E n lg w =
     (let (r, lg') = audit_append E (audit_commit_of E n w) lg
      in (r, lg', draw (tick (draw w))))"

section \<open>Validating a finished chain\<close>

fun chain_violation_loop ::
  "env \<Rightarrow> string set \<Rightarrow> string option \<Rightarrow> audit_commit list \<Rightarrow> violation" where
  "chain_violation_loop E ids previous_hash [] = None"
| "chain_violation_loop E ids previous_hash (e # es) =
     (if audit_id e \<in> ids then Some ''AUDIT_BATCH_DUPLICATE_AUDIT_ID''
      else if validate_context e \<noteq> Inr () then Some ''AUDIT_BATCH_EVENT_CONTEXT_INVALID''
      else if payload_hash e \<noteq> Some (stable_json_hash E (JDict (ac_payload e)))
      then Some ''AUDIT_BATCH_EVENT_PAYLOAD_HASH_INVALID''
      else if previous_audit_hash e \<noteq> previous_hash then Some ''AUDIT_BATCH_PREVIOUS_HASH_MISMATCH''
      else if integrity_proof e \<noteq> Some (integrity_proof_of E e previous_hash)
      then Some ''AUDIT_BATCH_INTEGRITY_PROOF_INVALID''
      else chain_violation_loop E (insert (audit_id e) ids) (integrity_proof e) es)"

definition audit_batch_chain_violation :: "env \<Rightarrow> audit_commit list \<Rightarrow> violation" where
  "audit_batch_chain_violation E es =
     (if es = [] then Some ''AUDIT_BATCH_EVENTS_REQUIRED'' else chain_violation_loop E {} None es)"

definition audit_batch_payload :: "env \<Rightarrow> audit_commit list \<Rightarrow> dump res" where
  "audit_batch_payload E es =
     (case audit_batch_chain_violation E es of
        Some r \<Rightarrow> Inl (ValueError r)
      | None \<Rightarrow> Inr
          [(''message_type'', JStr ''audit_batch_payload_v0''),
           (''audit_ids'', JList (map (\<lambda>e. JStr (audit_id e)) es)),
           (''event_count'', JInt (int (length es))),
           (''chain_head'', jstr_opt (integrity_proof (last es))),
           (''events'', JList (map (\<lambda>e. JDict (audit_commit_dump E e)) es))])"

definition audit_batch_hash :: "env \<Rightarrow> audit_commit list \<Rightarrow> string res" where
  "audit_batch_hash E es = bindr (audit_batch_payload E es) (\<lambda>p. Inr (stable_json_hash E (JDict p)))"

definition batch_fields :: "string set" where
  "batch_fields = {''audit_ids'', ''event_count'', ''chain_head'', ''batch_hash'', ''signed_by'',
     ''authenticated_signed_by'', ''signature_alg'', ''signature''}"

definition audit_batch_of ::
  "env \<Rightarrow> audit_commit list \<Rightarrow> dump \<Rightarrow> string \<Rightarrow> string \<Rightarrow> string option \<Rightarrow> world \<Rightarrow> audit_batch_commit" where
  "audit_batch_of E es payload head signed_by authenticated_signed_by w =
     \<lparr>protocol_version = SUPPORTED_PROTOCOL_VERSION, message_id = uuid_text E ''msg_'' w,
      correlation_id = uuid_text E ''corr_'' (draw w), created_at = utc_now E w,
      fields_set = batch_fields, signature_alg = ED25519_SIGNATURE_ALGORITHM,
      signature = None, bat_batch_id = uuid_text E ''audit_batch_'' (draw (draw w)),
      bat_audit_ids = map audit_id es, bat_event_count = int (length es),
      bat_chain_head = head, bat_batch_hash = stable_json_hash E (JDict payload),
      bat_signed_by = signed_by,
      bat_authenticated_signed_by = Some (or_str authenticated_signed_by signed_by)\<rparr>"

text \<open>
  A chain that the payload call accepted has a proof on every event; a missing one would be rejected
  by the constructor as a null \<^verbatim>\<open>chain_head\<close>.
\<close>

definition create_signed_audit_batch ::
  "env \<Rightarrow> audit_commit list \<Rightarrow> string \<Rightarrow> (audit_batch_commit \<Rightarrow> string) \<Rightarrow> string option \<Rightarrow> world
    \<Rightarrow> audit_batch_commit res \<times> world" where
  "create_signed_audit_batch E es signed_by signer authenticated_signed_by w =
     (case audit_batch_payload E es of
        Inl x \<Rightarrow> (Inl x, w)
      | Inr payload \<Rightarrow>
          (case integrity_proof (last es) of
             None \<Rightarrow> (Inl (ValueError ''chain_head''), w)
           | Some head \<Rightarrow>
               let b = audit_batch_of E es payload head signed_by authenticated_signed_by w;
                   w' = draw (draw (draw (tick w)))
               in (case bindr (validate_protocol_version b) (\<lambda>_. validate_batch_commit b) of
                     Inl x \<Rightarrow> (Inl x, w')
                   | Inr _ \<Rightarrow> (Inr (b\<lparr>signature := Some (signer b)\<rparr>), w'))))"

definition audit_batch_event_violation ::
  "env \<Rightarrow> audit_batch_commit \<Rightarrow> audit_commit list \<Rightarrow> violation res" where
  "audit_batch_event_violation E b es =
     guardr (Inr (audit_batch_chain_violation E es)) Some
     (if bat_audit_ids b \<noteq> map audit_id es then Inr (Some ''AUDIT_BATCH_EVENT_IDS_MISMATCH'')
      else if bat_event_count b \<noteq> int (length es) then Inr (Some ''AUDIT_BATCH_EVENT_COUNT_MISMATCH'')
      else if Some (bat_chain_head b) \<noteq> integrity_proof (last es)
      then Inr (Some ''AUDIT_BATCH_CHAIN_HEAD_MISMATCH'')
      else bindr (audit_batch_hash E es) (\<lambda>h.
        if bat_batch_hash b \<noteq> h then Inr (Some ''AUDIT_BATCH_HASH_MISMATCH'') else Inr None))"

definition batch_texts :: "audit_batch_commit \<Rightarrow> string option list" where
  "batch_texts b =
     [Some (protocol_version b), Some (message_id b), Some (correlation_id b),
      Some (isoformat (created_at b)), Some ''audit_batch_commit'', Some (bat_batch_id b),
      Some (join_with '','' (bat_audit_ids b)), Some (int_str (bat_event_count b)),
      Some (bat_chain_head b), Some (bat_batch_hash b), Some (bat_signed_by b),
      bat_authenticated_signed_by b, Some (signature_alg b), signature b]"

definition audit_batch_signed_material_too_large :: "audit_batch_commit \<Rightarrow> bool" where
  "audit_batch_signed_material_too_large b = budget_loop 0 (batch_texts b)"

definition audit_batch_auth_violation ::
  "env \<Rightarrow> (string \<rightharpoonup> string) \<Rightarrow> audit_batch_commit \<Rightarrow> violation" where
  "audit_batch_auth_violation E public_keys_by_signer_id b =
     guardv (signature_algorithm_violation b ''AUDIT_BATCH_SIGNATURE_ALGORITHM_MISSING''
               ''AUDIT_BATCH_SIGNATURE_ALGORITHM_UNSUPPORTED'') Some
     (if py_blank (bat_signed_by b) then Some ''AUDIT_BATCH_SIGNER_MISSING''
      else (case bat_authenticated_signed_by b of
        None \<Rightarrow> Some ''AUDIT_BATCH_AUTHENTICATED_SIGNER_MISSING''
      | Some a \<Rightarrow>
          if a \<noteq> bat_signed_by b then Some ''AUDIT_BATCH_AUTHENTICATED_SIGNER_MISMATCH''
          else (case signature b of
            None \<Rightarrow> Some ''AUDIT_BATCH_SIGNATURE_MISSING''
          | Some sig \<Rightarrow>
              (case public_keys_by_signer_id a of
                 None \<Rightarrow> Some ''AUDIT_BATCH_SIGNER_KEY_NOT_TRUSTED''
               | Some public_key \<Rightarrow>
                   if audit_batch_signed_material_too_large b
                   then Some ''AUDIT_BATCH_SIGNED_MATERIAL_TOO_LARGE''
                   else if \<not> verify_with_public_key_b64 E (audit_batch_dump E b) sig public_key
                   then Some ''AUDIT_BATCH_SIGNATURE_INVALID''
                   else None))))"

section \<open>Importing\<close>

definition LOAD_REQUIRED_FIELDS :: "string list" where
  "LOAD_REQUIRED_FIELDS =
     [''protocol_version'', ''message_id'', ''audit_id'', ''correlation_id'', ''created_at'',
      ''message_type'', ''event_type'', ''actor_id'', ''summary'', ''payload'', ''payload_hash'',
      ''authority_relevant'', ''integrity_profile'', ''integrity_proof'']"

definition required_fields_check :: "dump \<Rightarrow> unit res" where
  "required_fields_check raw =
     (let missing = sort (filter (\<lambda>f. dict_get raw f = None) LOAD_REQUIRED_FIELDS);
          null = sort (filter (\<lambda>f. dict_get raw f \<in> {None, Some JNull}) LOAD_REQUIRED_FIELDS)
      in if missing \<noteq> []
         then Inl (ValueError (''audit event missing required fields: '' @ join_with '', '' missing))
         else if null \<noteq> []
         then Inl (ValueError (''audit event required fields cannot be null: '' @ join_with '', '' null))
         else Inr ())"

text \<open>
  The loop of \<^verbatim>\<open>load_jsonl\<close> over the lines of the file that are not blank. A line is the outcome of
  \<^verbatim>\<open>json.loads\<close> on it, and \<open>model_validate\<close> is pydantic's construction of an \<^verbatim>\<open>AuditCommit\<close> from a dict.
  The accumulator holds the events read so far and whether one of them is an authority event.
\<close>

fun load_loop ::
  "env \<Rightarrow> (dump \<Rightarrow> audit_commit res) \<Rightarrow> string set \<Rightarrow> string option \<Rightarrow> bool \<Rightarrow> dump res list
    \<Rightarrow> (audit_commit list \<times> string option \<times> bool) res" where
  "load_loop E model_validate ids previous_hash authority [] = Inr ([], previous_hash, authority)"
| "load_loop E model_validate ids previous_hash authority (line # lines) =
     bindr line (\<lambda>raw.
       bindr (required_fields_check raw) (\<lambda>_.
         bindr (model_validate raw) (\<lambda>e.
           if audit_id e \<in> ids then Inl (ValueError (''duplicate audit_id: '' @ audit_id e))
           else bindr (validate_context e) (\<lambda>_.
             bindr (validate_payload_hash E e) (\<lambda>_.
               if previous_audit_hash e \<noteq> previous_hash
               then Inl (ValueError ''previous_audit_hash does not match audit chain'')
               else if integrity_proof e \<noteq> Some (integrity_proof_of E e previous_hash)
               then Inl (ValueError ''integrity_proof does not match audit event'')
               else bindr (load_loop E model_validate (insert (audit_id e) ids) (integrity_proof e)
                     (authority \<or> authority_relevant e \<or> authority_event (event_type e)) lines)
                 (\<lambda>(es, h, a). Inr (e # es, h, a)))))))"

definition load_jsonl ::
  "env \<Rightarrow> (dump \<Rightarrow> audit_commit res) \<Rightarrow> dump res list \<Rightarrow> string option \<Rightarrow> string \<Rightarrow> audit_commit list res" where
  "load_jsonl E model_validate lines trusted_chain_head import_profile =
     (if import_profile \<notin> {''authority_chain'', ''diagnostic_only''}
      then Inl (ValueError (''unsupported audit import profile: '' @ import_profile))
      else bindr (load_loop E model_validate {} None False lines) (\<lambda>(es, previous_hash, authority).
        if import_profile = ''diagnostic_only'' then
          if authority then Inl (ValueError ''diagnostic-only audit import cannot include authority events'')
          else Inr es
        else if es \<noteq> [] \<and> trusted_chain_head = None
        then Inl (ValueError ''trusted audit chain head required for audit import'')
        else if es \<noteq> [] \<and> trusted_chain_head \<noteq> previous_hash
        then Inl (ValueError ''trusted audit chain head does not match audit chain'')
        else Inr es))"

section \<open>Replay\<close>

record replay_item =
  ri_audit_id :: string
  ri_event_type :: audit_event_type
  ri_actor_id :: string
  ri_reason_code :: "string option"
  ri_command_id :: "string option"
  ri_lease_id :: "string option"
  ri_request_id :: "string option"
  ri_state_id :: "string option"
  ri_declaration_id :: "string option"
  ri_fallback_action :: "string option"
  ri_state_refs :: "string list"
  ri_related_message_ids :: "string list"

record correlation_replay =
  rp_correlation_id :: string
  rp_requests :: "replay_item list"
  rp_states :: "replay_item list"
  rp_decisions :: "replay_item list"
  rp_enforcement :: "replay_item list"
  rp_revocations :: "replay_item list"
  rp_fallbacks :: "replay_item list"
  rp_diagnostics :: "replay_item list"

text \<open>The truth value of a payload entry, and an entry that has to be a string or null.\<close>

fun json_truthy :: "json \<Rightarrow> bool" where
  "json_truthy JNull = False"
| "json_truthy (JBool b) = b"
| "json_truthy (JInt n) = (n \<noteq> 0)"
| "json_truthy (JFloat x) = (x \<noteq> Fin 0)"
| "json_truthy (JStr s) = (s \<noteq> [])"
| "json_truthy (JList xs) = (xs \<noteq> [])"
| "json_truthy (JDict d) = (d \<noteq> [])"

definition str_entry :: "json option \<Rightarrow> string option res" where
  "str_entry v =
     (case v of
        None \<Rightarrow> Inr None
      | Some j \<Rightarrow> (case j of JNull \<Rightarrow> Inr None | JStr s \<Rightarrow> Inr (Some s)
                    | _ \<Rightarrow> Inl (ValueError ''Input should be a valid string'')))"

definition or_entry :: "json option \<Rightarrow> json option \<Rightarrow> json option" where
  "or_entry a b = (case a of Some v \<Rightarrow> if json_truthy v then a else b | None \<Rightarrow> b)"

definition replay_item_of :: "audit_commit \<Rightarrow> replay_item res" where
  "replay_item_of e =
     (let get = dict_get (ac_payload e);
          request_id = (if event_type e = CAPABILITY_REQUESTED then get ''message_id'' else get ''request_id'');
          state_id = (if event_type e = NETWORK_STATE_ASSERTED then get ''message_id''
                      else get ''state_assertion_id'');
          declaration_id = (if event_type e = FALLBACK_DECLARED then get ''message_id'' else None)
      in bindr (str_entry (or_entry (get ''reason_code'') (get ''trigger''))) (\<lambda>reason.
         bindr (str_entry (get ''command_id'')) (\<lambda>command.
         bindr (str_entry (get ''lease_id'')) (\<lambda>lease.
         bindr (str_entry request_id) (\<lambda>request.
         bindr (str_entry state_id) (\<lambda>state.
         bindr (str_entry declaration_id) (\<lambda>declaration.
         bindr (str_entry (get ''fallback_action'')) (\<lambda>fallback.
           Inr \<lparr>ri_audit_id = audit_id e, ri_event_type = event_type e, ri_actor_id = ac_actor_id e,
                ri_reason_code = reason, ri_command_id = command, ri_lease_id = lease,
                ri_request_id = request, ri_state_id = state, ri_declaration_id = declaration,
                ri_fallback_action = fallback, ri_state_refs = state_refs e,
                ri_related_message_ids = related_message_ids e\<rparr>))))))))"

text \<open>A dict of lists in insertion order.\<close>

fun group_add :: "string \<Rightarrow> 'a \<Rightarrow> (string \<times> 'a list) list \<Rightarrow> (string \<times> 'a list) list" where
  "group_add k x [] = [(k, [x])]"
| "group_add k x ((k', xs) # gs) = (if k = k' then (k', xs @ [x]) # gs else (k', xs) # group_add k x gs)"

definition by_correlation_id :: "audit_log \<Rightarrow> (string \<times> audit_commit list) list" where
  "by_correlation_id lg = fold (\<lambda>e. group_add (correlation_id e) e) (events lg) []"

definition replay_add :: "audit_commit \<Rightarrow> correlation_replay \<Rightarrow> correlation_replay res" where
  "replay_add e g =
     bindr (replay_item_of e) (\<lambda>item. Inr
       (case event_type e of
          CAPABILITY_REQUESTED \<Rightarrow> g\<lparr>rp_requests := rp_requests g @ [item]\<rparr>
        | NETWORK_STATE_ASSERTED \<Rightarrow> g\<lparr>rp_states := rp_states g @ [item]\<rparr>
        | CAPABILITY_ALLOWED \<Rightarrow> g\<lparr>rp_decisions := rp_decisions g @ [item]\<rparr>
        | CAPABILITY_DENIED \<Rightarrow> g\<lparr>rp_decisions := rp_decisions g @ [item]\<rparr>
        | CAPABILITY_DEGRADED \<Rightarrow> g\<lparr>rp_decisions := rp_decisions g @ [item]\<rparr>
        | COMMAND_ALLOWED \<Rightarrow> g\<lparr>rp_enforcement := rp_enforcement g @ [item]\<rparr>
        | COMMAND_REJECTED \<Rightarrow> g\<lparr>rp_enforcement := rp_enforcement g @ [item]\<rparr>
        | LEASE_REVOKED \<Rightarrow> g\<lparr>rp_revocations := rp_revocations g @ [item]\<rparr>
        | REVOCATION_REJECTED \<Rightarrow> g\<lparr>rp_revocations := rp_revocations g @ [item]\<rparr>
        | FALLBACK_DECLARED \<Rightarrow> g\<lparr>rp_fallbacks := rp_fallbacks g @ [item]\<rparr>
        | _ \<Rightarrow> g\<lparr>rp_diagnostics := rp_diagnostics g @ [item]\<rparr>))"

fun replay_group :: "audit_commit list \<Rightarrow> correlation_replay \<Rightarrow> correlation_replay res" where
  "replay_group [] g = Inr g"
| "replay_group (e # es) g = bindr (replay_add e g) (replay_group es)"

definition CorrelationReplay :: "string \<Rightarrow> correlation_replay" where
  "CorrelationReplay i =
     \<lparr>rp_correlation_id = i, rp_requests = [], rp_states = [], rp_decisions = [], rp_enforcement = [],
      rp_revocations = [], rp_fallbacks = [], rp_diagnostics = []\<rparr>"

fun replay_groups :: "(string \<times> audit_commit list) list \<Rightarrow> (string \<times> correlation_replay) list res" where
  "replay_groups [] = Inr []"
| "replay_groups ((i, es) # gs) =
     bindr (replay_group es (CorrelationReplay i)) (\<lambda>g.
       bindr (replay_groups gs) (\<lambda>rest. Inr ((i, g) # rest)))"

definition replay :: "audit_log \<Rightarrow> (string \<times> correlation_replay) list res" where
  "replay lg = replay_groups (by_correlation_id lg)"

definition detail :: "string \<Rightarrow> string option \<Rightarrow> string list" where
  "detail label v = (case v of None \<Rightarrow> [] | Some s \<Rightarrow> [label @ ''='' @ s])"

definition replay_details :: "replay_item \<Rightarrow> string" where
  "replay_details item =
     (let parts = detail ''reason'' (ri_reason_code item) @ detail ''command'' (ri_command_id item)
            @ detail ''lease'' (ri_lease_id item) @ detail ''request'' (ri_request_id item)
            @ detail ''state'' (ri_state_id item) @ detail ''declaration'' (ri_declaration_id item)
            @ detail ''fallback'' (ri_fallback_action item)
            @ (if ri_state_refs item = [] then []
               else [''state_refs='' @ join_with '','' (ri_state_refs item)])
            @ (if ri_related_message_ids item = [] then []
               else [''related='' @ join_with '','' (ri_related_message_ids item)])
      in if parts = [] then [] else '' '' @ join_with '' '' parts)"

definition summary_section :: "string \<times> replay_item list \<Rightarrow> string list" where
  "summary_section s =
     (if snd s = [] then []
      else (''  '' @ fst s @ '':'')
        # map (\<lambda>item. ''    - '' @ audit_event_type_str (ri_event_type item) @ '' audit='' @ ri_audit_id item
                 @ replay_details item) (snd s))"

definition replay_sections :: "correlation_replay \<Rightarrow> (string \<times> replay_item list) list" where
  "replay_sections g =
     [(''requests'', rp_requests g), (''states'', rp_states g), (''decisions'', rp_decisions g),
      (''enforcement'', rp_enforcement g), (''revocations'', rp_revocations g),
      (''fallbacks'', rp_fallbacks g), (''diagnostics'', rp_diagnostics g)]"

definition replay_summary :: "audit_log \<Rightarrow> string res" where
  "replay_summary lg =
     bindr (replay lg) (\<lambda>groups. Inr (join_with [CHR 0x0A]
       (concat (map (\<lambda>(i, g). (''Correlation '' @ i @ '':'')
                  # concat (map summary_section (replay_sections g))) groups))))"

section \<open>The chain\<close>

text \<open>An event that is in place after the event whose proof is \<open>prev\<close>, and a chain of them.\<close>

definition in_place :: "env \<Rightarrow> string option \<Rightarrow> audit_commit \<Rightarrow> bool" where
  "in_place E prev e \<longleftrightarrow>
     validate_context e = Inr () \<and>
     payload_hash e = Some (stable_json_hash E (JDict (ac_payload e))) \<and>
     previous_audit_hash e = prev \<and> integrity_proof e = Some (integrity_proof_of E e prev)"

fun chained :: "env \<Rightarrow> string option \<Rightarrow> audit_commit list \<Rightarrow> bool" where
  "chained E prev [] = True"
| "chained E prev (e # es) \<longleftrightarrow> in_place E prev e \<and> chained E (integrity_proof e) es"

definition last_proof :: "string option \<Rightarrow> audit_commit list \<Rightarrow> string option" where
  "last_proof prev es = (if es = [] then prev else integrity_proof (last es))"

lemma last_proof_simps [simp]:
  "last_proof prev [] = prev"
  "last_proof prev (e # es) = last_proof (integrity_proof e) es"
  "last_proof prev (es @ [e]) = integrity_proof e"
  by (auto simp: last_proof_def)

lemma chained_append [simp]:
  "chained E prev (es @ fs) \<longleftrightarrow> chained E prev es \<and> chained E (last_proof prev es) fs"
  by (induction es arbitrary: prev) auto

definition log_ok :: "env \<Rightarrow> audit_log \<Rightarrow> bool" where
  "log_ok E lg \<longleftrightarrow>
     chained E None (events lg) \<and> distinct (map audit_id (events lg)) \<and>
     audit_ids lg = audit_id ` set (events lg)"

lemma chain_head_eq: "chain_head lg = last_proof None (events lg)"
  by (simp add: chain_head_def last_proof_def)

text \<open>Every proof is a non-empty text, so \<^verbatim>\<open>or\<close> never falls through a proof.\<close>

lemma integrity_proof_of_nonempty [simp]: "integrity_proof_of E e p \<noteq> []"
  by (simp add: integrity_proof_of_def stable_json_hash_def)

lemma integrity_material_update [simp]:
  "integrity_material (e\<lparr>previous_audit_hash := a, integrity_proof := b\<rparr>) p = integrity_material e p"
  by (simp add: integrity_material_def)

lemma validate_context_update [simp]:
  "validate_context (e\<lparr>previous_audit_hash := a, integrity_proof := b\<rparr>) = validate_context e"
  by (simp add: validate_context_def)

lemma in_place_committed:
  assumes "validate_context e = Inr ()" and "validate_payload_hash E e = Inr ()"
    and "previous_audit_hash e \<in> {None, prev}" and "prev \<noteq> Some []"
  shows "in_place E prev (committed_event E e prev)"
  using assms
  by (auto simp: in_place_def committed_event_def or_hash_def validate_payload_hash_def
      integrity_proof_of_def split: option.splits if_splits)

lemma chained_last_nonempty: "chained E p es \<Longrightarrow> p \<noteq> Some [] \<Longrightarrow> last_proof p es \<noteq> Some []"
  by (induction es arbitrary: p) (auto simp: in_place_def)

text \<open>Appending: what an outcome means.\<close>

lemma audit_append_Inl: "audit_append E e lg = (Inl x, lg') \<Longrightarrow> lg' = lg"
  by (auto simp: audit_append_def Let_def split: sum.splits)

lemma audit_append_Inr:
  "audit_append E e lg = (Inr c, lg') \<Longrightarrow>
     audit_id e \<notin> audit_ids lg \<and> validate_context e = Inr () \<and> validate_payload_hash E e = Inr () \<and>
     previous_audit_hash e \<in> {None, chain_head lg} \<and> c = committed_event E e (chain_head lg) \<and>
     lg' = \<lparr>events = events lg @ [c], audit_ids = insert (audit_id c) (audit_ids lg)\<rparr>"
  by (auto simp: audit_append_def Let_def res_simps split: sum.splits if_splits)

lemma audit_append_log_ok:
  assumes "log_ok E lg" and "audit_append E e lg = (r, lg')"
  shows "log_ok E lg'"
proof (cases r)
  case (Inl x)
  with assms show ?thesis by (auto dest: audit_append_Inl)
next
  case (Inr c)
  from audit_append_Inr [OF assms(2) [unfolded Inr]]
  have new: "audit_id e \<notin> audit_ids lg" and c: "c = committed_event E e (chain_head lg)"
    and lg': "lg' = \<lparr>events = events lg @ [c], audit_ids = insert (audit_id c) (audit_ids lg)\<rparr>"
    and ok: "validate_context e = Inr ()" "validate_payload_hash E e = Inr ()"
      "previous_audit_hash e \<in> {None, chain_head lg}" by auto
  from assms(1) have "chain_head lg \<noteq> Some []"
    by (auto simp: log_ok_def chain_head_eq dest!: chained_last_nonempty)
  from in_place_committed [OF ok this] have "in_place E (chain_head lg) c" by (simp add: c)
  moreover have "audit_id c = audit_id e" by (simp add: c committed_event_def)
  ultimately show ?thesis
    using assms(1) new lg' by (auto simp: log_ok_def chain_head_eq)
qed

text \<open>
  Recording: every identifier in the log was drawn from the generator, so that with a generator that
  never repeats itself a recording can fail only on the context of the event.
\<close>

definition log_drawn :: "env \<Rightarrow> audit_log \<Rightarrow> world \<Rightarrow> bool" where
  "log_drawn E lg w \<longleftrightarrow> (\<forall>i \<in> audit_ids lg. \<exists>n < uuid_draws w. i = ''audit_'' @ uuid4_hex E n)"

lemma audit_commit_of_fields [simp]:
  "audit_id (audit_commit_of E n w) = ''audit_'' @ uuid4_hex E (Suc (uuid_draws w))"
  "event_type (audit_commit_of E n w) = en_event_type n"
  "previous_audit_hash (audit_commit_of E n w) = None"
  "integrity_proof (audit_commit_of E n w) = None"
  "ac_payload (audit_commit_of E n w) = en_payload n"
  "correlation_id (audit_commit_of E n w) = en_correlation_id n"
  "ac_actor_id (audit_commit_of E n w) = en_actor_id n"
  "ac_robot_id (audit_commit_of E n w) = en_robot_id n"
  "ac_mission_id (audit_commit_of E n w) = en_mission_id n"
  "authority_relevant (audit_commit_of E n w) = en_authority_relevant n"
  "validate_payload_hash E (audit_commit_of E n w) = Inr ()"
  by (simp_all add: audit_commit_of_def commit_payload_hash_def uuid_text_def draw_def
      validate_payload_hash_def)

definition recorded :: "env \<Rightarrow> audit_entry \<Rightarrow> audit_log \<Rightarrow> world \<Rightarrow> audit_commit" where
  "recorded E n lg w = committed_event E (audit_commit_of E n w) (chain_head lg)"

lemma audit_record_ok:
  assumes "inj_on (uuid4_hex E) {..Suc (uuid_draws w)}" and "log_drawn E lg w"
    and "authority_event (en_event_type n) \<Longrightarrow>
      en_authority_relevant n \<and> en_robot_id n \<noteq> None \<and> en_mission_id n \<noteq> None"
  shows "audit_record E n lg w =
     (Inr (recorded E n lg w),
      \<lparr>events = events lg @ [recorded E n lg w],
       audit_ids = insert (''audit_'' @ uuid4_hex E (Suc (uuid_draws w))) (audit_ids lg)\<rparr>,
      draw (tick (draw w)))"
proof -
  have "''audit_'' @ uuid4_hex E (Suc (uuid_draws w)) \<notin> audit_ids lg"
    using assms(1,2) by (fastforce simp: log_drawn_def dest: inj_onD)
  moreover have "validate_context (audit_commit_of E n w) = Inr ()"
    using assms(3) by (cases "authority_event (en_event_type n)") (simp_all add: validate_context_def)
  ultimately show ?thesis
    by (simp add: audit_record_def audit_append_def Let_def recorded_def committed_event_def)
qed

lemma log_drawn_record:
  assumes "log_drawn E lg w" and "audit_record E n lg w = (r, lg', w')"
  shows "log_drawn E lg' w'"
proof -
  from assms(2) have w': "w' = draw (tick (draw w))"
    and app: "audit_append E (audit_commit_of E n w) lg = (r, lg')"
    by (auto simp: audit_record_def Let_def split: prod.splits)
  have ids: "audit_ids lg' \<subseteq> insert (''audit_'' @ uuid4_hex E (Suc (uuid_draws w))) (audit_ids lg)"
  proof (cases r)
    case (Inl x)
    with app show ?thesis by (auto dest: audit_append_Inl)
  next
    case (Inr c)
    with app show ?thesis by (auto dest!: audit_append_Inr simp: committed_event_def)
  qed
  show ?thesis
    unfolding log_drawn_def
  proof
    fix i assume "i \<in> audit_ids lg'"
    with ids assms(1) show "\<exists>n < uuid_draws w'. i = ''audit_'' @ uuid4_hex E n"
      by (auto simp: log_drawn_def w' draw_def tick_def less_Suc_eq)
  qed
qed

lemma audit_record_log_ok:
  assumes "log_ok E lg" and "audit_record E n lg w = (r, lg', w')"
  shows "log_ok E lg'"
  using assms by (auto simp: audit_record_def Let_def split: prod.splits intro: audit_append_log_ok)

lemma AuditLog_ok: "log_ok E AuditLog" "log_drawn E AuditLog w"
  by (simp_all add: log_ok_def AuditLog_def log_drawn_def)

section \<open>The two validators accept exactly the chains\<close>

lemma chain_violation_loop_None:
  "chain_violation_loop E ids prev es = None \<longleftrightarrow>
     chained E prev es \<and> distinct (map audit_id es) \<and> ids \<inter> audit_id ` set es = {}"
  by (induction es arbitrary: ids prev) (auto simp: in_place_def)

lemma batch_chain_accepts:
  "audit_batch_chain_violation E es = None \<longleftrightarrow>
     es \<noteq> [] \<and> chained E None es \<and> distinct (map audit_id es)"
  by (auto simp: audit_batch_chain_violation_def chain_violation_loop_None)

lemma load_loop_Inr:
  assumes "load_loop E mv ids prev a lines = Inr (es, h, a')"
  shows "chained E prev es \<and> distinct (map audit_id es) \<and> ids \<inter> audit_id ` set es = {} \<and>
    h = last_proof prev es \<and>
    (a' \<longleftrightarrow> a \<or> (\<exists>e \<in> set es. authority_relevant e \<or> authority_event (event_type e))) \<and>
    length es = length lines"
  using assms
proof (induction lines arbitrary: ids prev a es h a')
  case Nil
  then show ?case by simp
next
  case (Cons line lines)
  from Cons.prems obtain e es1 h1 a1 where
    rec: "load_loop E mv (insert (audit_id e) ids) (integrity_proof e)
      (a \<or> authority_relevant e \<or> authority_event (event_type e)) lines = Inr (es1, h1, a1)"
    and e: "audit_id e \<notin> ids" "in_place E prev e" and out: "es = e # es1" "h = h1" "a' = a1"
    by (auto simp: res_simps in_place_def validate_payload_hash_def split: if_splits prod.splits)
  from Cons.IH [OF rec] e show ?case by (auto simp: out)
qed

lemma load_jsonl_Inr:
  assumes "load_jsonl E mv lines head profile = Inr es"
  shows "chained E None es \<and> distinct (map audit_id es) \<and>
    (profile = ''authority_chain'' \<and> (es \<noteq> [] \<longrightarrow> head \<noteq> None \<and> head = last_proof None es) \<or>
     profile = ''diagnostic_only'' \<and>
       (\<forall>e \<in> set es. \<not> authority_relevant e \<and> \<not> authority_event (event_type e)))"
proof -
  obtain h a where loop: "load_loop E mv {} None False lines = Inr (es, h, a)"
    and fin: "(if profile = ''diagnostic_only'' then \<not> a
      else profile = ''authority_chain'' \<and> (es \<noteq> [] \<longrightarrow> head \<noteq> None \<and> head = h))"
  proof (cases "load_loop E mv {} None False lines")
    case (Inl x)
    with assms show thesis by (simp add: load_jsonl_def split: if_splits)
  next
    case (Inr t)
    then show thesis
      using assms that by (cases t) (simp add: load_jsonl_def split: if_splits, blast)
  qed
  from load_loop_Inr [OF loop] fin show ?thesis
    by (cases "profile = ''diagnostic_only''") auto
qed

text \<open>
  The interface of everything that vouches for a list of events: the accepted lists are chains with
  distinct identifiers.
\<close>

locale chain_source =
  fixes E :: env
    and accepts :: "audit_commit list \<Rightarrow> bool"
  assumes accepts_chained: "accepts es \<Longrightarrow> chained E None es"
    and accepts_distinct: "accepts es \<Longrightarrow> distinct (map audit_id es)"
begin

text \<open>Each event carries the proof of the one before it.\<close>

lemma linked:
  assumes "accepts (pre @ [e, f] @ post)"
  shows "previous_audit_hash f = integrity_proof e" and "integrity_proof e \<noteq> None"
  using accepts_chained [OF assms] by (auto simp: in_place_def)

text \<open>
  Tampering with one event shows: when the event \<open>e\<close> of an accepted list is replaced by \<open>f\<close>, the list is
  accepted again with the same last proof only if \<open>f\<close> has the same proof, that is, the hash of its
  content after its predecessor is the hash of \<open>e\<close>'s.
\<close>

lemma replaced_event:
  assumes "accepts (pre @ [e] @ post)" and "accepts (pre @ [f] @ post)"
    and "last_proof None (pre @ [e] @ post) = last_proof None (pre @ [f] @ post)"
  shows "integrity_proof e = integrity_proof f \<and>
    integrity_proof_of E e (last_proof None pre) = integrity_proof_of E f (last_proof None pre)"
proof -
  have pe: "in_place E (last_proof None pre) e" "chained E (integrity_proof e) post"
    and pf: "in_place E (last_proof None pre) f" "chained E (integrity_proof f) post"
    using assms(1,2) [THEN accepts_chained] by auto
  have "integrity_proof e = integrity_proof f"
  proof (cases post)
    case Nil
    with assms(3) show ?thesis by (simp add: last_proof_def)
  next
    case (Cons g gs)
    with pe(2) pf(2) show ?thesis by (auto simp: in_place_def)
  qed
  with pe(1) pf(1) show ?thesis by (simp add: in_place_def)
qed

text \<open>Removing an event in front of another one shows as well.\<close>

lemma removed_event:
  assumes "accepts (pre @ [e, f] @ post)" and "accepts (pre @ [f] @ post)"
  shows "integrity_proof e = last_proof None pre"
  using assms [THEN accepts_chained] by (auto simp: in_place_def)

end

interpretation batch_chain: chain_source E "\<lambda>es. audit_batch_chain_violation E es = None" for E
  by unfold_locales (simp_all add: batch_chain_accepts)

interpretation import_chain: chain_source E "\<lambda>es. load_jsonl E mv lines head profile = Inr es"
  for E mv lines head profile
  by unfold_locales (simp_all add: load_jsonl_Inr)

interpretation log_chain: chain_source E "\<lambda>es. \<exists>lg. log_ok E lg \<and> events lg = es" for E
  by unfold_locales (auto simp: log_ok_def)

interpretation batch_auth: authentication_check E "audit_batch_auth_violation E" None
  bat_signed_by signature "audit_batch_dump E"
  for E
  by unfold_locales
    (auto simp: audit_batch_auth_violation_def guardv_def split: if_splits option.splits)

section \<open>Batches\<close>

lemma batch_canonical_signature:
  "canonical_json E (audit_batch_dump E (b\<lparr>signature := s\<rparr>)) = canonical_json E (audit_batch_dump E b)"
  by (simp add: canonical_json_def dump_defs)

lemma startswith_hash [simp]: "startswith (stable_json_hash E p) ''sha256:''"
  by (simp add: stable_json_hash_def startswith_def)

lemma chained_last_proof:
  assumes "chained E None es" and "es \<noteq> []"
  obtains p where "integrity_proof (last es) = Some (stable_json_hash E p)"
proof -
  from assms(2) have "es = butlast es @ [last es]" by simp
  with assms(1) have "chained E None (butlast es @ [last es])" by metis
  then show thesis by (intro that) (auto simp: in_place_def integrity_proof_of_def)
qed

lemma create_signed_audit_batch_InrE:
  assumes "create_signed_audit_batch E es signer_id signer auth w = (Inr b, w')"
  obtains p head b0 where "audit_batch_payload E es = Inr p" "integrity_proof (last es) = Some head"
    "b0 = audit_batch_of E es p head signer_id auth w" "validate_batch_commit b0 = Inr ()"
    "b = b0\<lparr>signature := Some (signer b0)\<rparr>"
  using assms
  by (auto simp: create_signed_audit_batch_def Let_def res_simps split: sum.splits option.splits)

lemma create_signed_audit_batch_Inr:
  assumes "create_signed_audit_batch E es signer_id signer auth w = (Inr b, w')"
  shows "audit_batch_event_violation E b es = Inr None"
    and "signature_algorithm_violation b m u = None" and "\<not> py_blank (bat_signed_by b)"
    and "bat_signed_by b = signer_id" and "bat_authenticated_signed_by b = Some (or_str auth signer_id)"
    and "bat_audit_ids b = map audit_id es"
proof -
  obtain p head b0 where p: "audit_batch_payload E es = Inr p" and head: "integrity_proof (last es) = Some head"
    and b0: "b0 = audit_batch_of E es p head signer_id auth w" and ok: "validate_batch_commit b0 = Inr ()"
    and b: "b = b0\<lparr>signature := Some (signer b0)\<rparr>"
    by (rule create_signed_audit_batch_InrE [OF assms])
  from p have "audit_batch_chain_violation E es = None"
    by (auto simp: audit_batch_payload_def split: option.splits)
  then show "audit_batch_event_violation E b es = Inr None"
    by (simp add: audit_batch_event_violation_def audit_batch_hash_def p head b b0 audit_batch_of_def)
  show "signature_algorithm_violation b m u = None" "bat_signed_by b = signer_id"
    "bat_authenticated_signed_by b = Some (or_str auth signer_id)" "bat_audit_ids b = map audit_id es"
    by (simp_all add: b b0 audit_batch_of_def signature_algorithm_violation_None batch_fields_def)
  from ok show "\<not> py_blank (bat_signed_by b)"
    by (auto simp: b validate_batch_commit_def split: if_splits)
qed

text \<open>The joined identifiers of a batch count as one text field.\<close>

lemma length_join_with:
  "xs \<noteq> [] \<Longrightarrow> length (join_with sep xs) = sum_list (map length xs) + length sep * (length xs - 1)"
  by (induction sep xs rule: join_with.induct) auto

lemma batch_ids_too_long:
  assumes "MAX_SIGNED_TEXT_FIELD_BYTES < length (join_with '','' (bat_audit_ids b))"
  shows "audit_batch_signed_material_too_large b"
proof -
  have "Some (join_with '','' (bat_audit_ids b)) \<in> set (batch_texts b)" by (simp add: batch_texts_def)
  with assms show ?thesis
    unfolding audit_batch_signed_material_too_large_def budget_loop_eq text_over_budget_def by blast
qed

lemma large_batch_rejected:
  assumes "audit_batch_signed_material_too_large b"
  shows "audit_batch_auth_violation E keys b \<noteq> None"
  using assms by (auto simp: audit_batch_auth_violation_def guardv_def split: option.splits)

section \<open>Replay loses and invents nothing\<close>

definition replay_items :: "correlation_replay \<Rightarrow> replay_item list" where
  "replay_items g = concat (map snd (replay_sections g))"

lemma group_add_lookup:
  "map_of (group_add k x gs) i = (if i = k then Some (case map_of gs k of None \<Rightarrow> [x] | Some xs \<Rightarrow> xs @ [x])
     else map_of gs i)"
  by (induction k x gs rule: group_add.induct) auto

lemma group_add_set: "fst ` set (group_add k x gs) = insert k (fst ` set gs)"
  by (induction k x gs rule: group_add.induct) auto

lemma group_add_distinct: "distinct (map fst gs) \<Longrightarrow> distinct (map fst (group_add k x gs))"
  by (induction k x gs rule: group_add.induct) (auto simp: group_add_set)

lemma by_correlation_fold:
  assumes "distinct (map fst gs)"
  shows "distinct (map fst (fold (\<lambda>e. group_add (correlation_id e) e) es gs))"
    and "map_of (fold (\<lambda>e. group_add (correlation_id e) e) es gs) i =
      (case map_of gs i of
         Some xs \<Rightarrow> Some (xs @ filter (\<lambda>e. correlation_id e = i) es)
       | None \<Rightarrow> (case filter (\<lambda>e. correlation_id e = i) es of [] \<Rightarrow> None | ys \<Rightarrow> Some ys))"
  using assms
  by (induction es arbitrary: gs)
    (auto simp: group_add_lookup group_add_distinct split: option.splits list.splits)

lemma by_correlation_id_lookup:
  "distinct (map fst (by_correlation_id lg))"
  "(i, es) \<in> set (by_correlation_id lg) \<longleftrightarrow>
     es = filter (\<lambda>e. correlation_id e = i) (events lg) \<and> es \<noteq> []"
proof -
  show d: "distinct (map fst (by_correlation_id lg))"
    unfolding by_correlation_id_def by (rule by_correlation_fold) simp
  have "(i, es) \<in> set (by_correlation_id lg) \<longleftrightarrow> map_of (by_correlation_id lg) i = Some es"
    using d by simp
  also have "\<dots> \<longleftrightarrow> es = filter (\<lambda>e. correlation_id e = i) (events lg) \<and> es \<noteq> []"
    unfolding by_correlation_id_def by (subst by_correlation_fold) (auto split: list.splits)
  finally show "(i, es) \<in> set (by_correlation_id lg) \<longleftrightarrow>
     es = filter (\<lambda>e. correlation_id e = i) (events lg) \<and> es \<noteq> []" .
qed

lemma replay_item_of_id: "replay_item_of e = Inr it \<Longrightarrow> ri_audit_id it = audit_id e \<and> ri_event_type it = event_type e"
  by (auto simp: replay_item_of_def Let_def res_simps)

lemma replay_add_items:
  assumes "replay_add e g = Inr g'"
  shows "mset (map ri_audit_id (replay_items g')) = mset (map ri_audit_id (replay_items g)) + {#audit_id e#} \<and>
    rp_correlation_id g' = rp_correlation_id g"
  using assms
  by (cases "event_type e")
    (auto simp: replay_add_def res_simps replay_items_def replay_sections_def dest!: replay_item_of_id)

lemma replay_group_items:
  assumes "replay_group es g = Inr g'"
  shows "mset (map ri_audit_id (replay_items g')) =
      mset (map ri_audit_id (replay_items g)) + mset (map audit_id es) \<and>
    rp_correlation_id g' = rp_correlation_id g"
  using assms
proof (induction es arbitrary: g)
  case (Cons e es)
  from Cons.prems obtain g1 where "replay_add e g = Inr g1" "replay_group es g1 = Inr g'"
    by (auto simp: res_simps)
  with Cons.IH [of g1] replay_add_items [of e g g1] show ?case by simp
qed simp

lemma replay_groups_items:
  assumes "replay_groups gs = Inr out"
  shows "map fst out = map fst gs \<and>
    list_all2 (\<lambda>(i, es) (j, g). i = j \<and> rp_correlation_id g = i \<and>
      mset (map ri_audit_id (replay_items g)) = mset (map audit_id es)) gs out"
  using assms
proof (induction gs arbitrary: out)
  case (Cons p gs)
  obtain i es where p: "p = (i, es)" by (cases p)
  with Cons.prems obtain g rest where g: "replay_group es (CorrelationReplay i) = Inr g"
    and rest: "replay_groups gs = Inr rest" "out = (i, g) # rest"
    by (auto simp: res_simps)
  from Cons.IH [OF rest(1)] replay_group_items [OF g] show ?case
    by (simp add: p rest(2) CorrelationReplay_def replay_items_def replay_sections_def)
qed simp

lemma replay_exact:
  assumes "replay lg = Inr out"
  shows "set (map fst out) = correlation_id ` set (events lg) \<and> distinct (map fst out) \<and>
    (\<forall>(i, g) \<in> set out. mset (map ri_audit_id (replay_items g)) =
       mset (map audit_id (filter (\<lambda>e. correlation_id e = i) (events lg))))"
proof -
  note gs = replay_groups_items [OF assms [unfolded replay_def]]
  have keys: "map fst out = map fst (by_correlation_id lg)" using gs by simp
  have set_keys: "fst ` set (by_correlation_id lg) = correlation_id ` set (events lg)"
  proof (intro equalityI subsetI)
    fix i assume "i \<in> fst ` set (by_correlation_id lg)"
    then show "i \<in> correlation_id ` set (events lg)"
      by (auto simp: by_correlation_id_lookup filter_empty_conv)
  next
    fix i assume "i \<in> correlation_id ` set (events lg)"
    then have "(i, filter (\<lambda>e. correlation_id e = i) (events lg)) \<in> set (by_correlation_id lg)"
      by (auto simp: by_correlation_id_lookup filter_empty_conv)
    then show "i \<in> fst ` set (by_correlation_id lg)" by (rule rev_image_eqI) simp
  qed
  have "mset (map ri_audit_id (replay_items g)) =
      mset (map audit_id (filter (\<lambda>e. correlation_id e = i) (events lg)))" if ig: "(i, g) \<in> set out" for i g
  proof -
    from ig obtain n where n: "n < length out" "out ! n = (i, g)" by (auto simp: in_set_conv_nth)
    obtain j es where p: "by_correlation_id lg ! n = (j, es)" by (cases "by_correlation_id lg ! n")
    from n(1) keys have "n < length (by_correlation_id lg)" by (metis length_map)
    then have "(j, es) \<in> set (by_correlation_id lg)" unfolding p [symmetric] by (rule nth_mem)
    moreover have "j = i" "mset (map ri_audit_id (replay_items g)) = mset (map audit_id es)"
      using list_all2_nthD2 [OF conjunct2 [OF gs] n(1)] by (simp_all add: p n(2))
    ultimately have "(i, es) \<in> set (by_correlation_id lg)"
      "mset (map ri_audit_id (replay_items g)) = mset (map audit_id es)" by simp_all
    then show ?thesis by (simp add: by_correlation_id_lookup)
  qed
  then show ?thesis
    unfolding keys set_map set_keys using by_correlation_id_lookup(1) [of lg] by auto
qed

lemma appends_log_ok:
  "log_ok E lg \<Longrightarrow> log_ok E (fold (\<lambda>e lg. snd (audit_append E e lg)) es lg)"
  by (induction es arbitrary: lg) (auto intro: audit_append_log_ok [OF _ prod.collapse [symmetric]])

lemma signed_batch_verifies:
  assumes "ed25519_correct E"
    and "create_signed_audit_batch E es signer_id (\<lambda>b. key_sign E sk (audit_batch_dump E b)) None w = (Inr b, w')"
    and "\<not> text_over_budget (batch_texts b)"
  shows "audit_batch_auth_violation E [signer_id \<mapsto> public_key_b64 E sk] b = None"
proof -
  obtain b0 where b: "b = b0\<lparr>signature := Some (key_sign E sk (audit_batch_dump E b0))\<rparr>"
    by (rule create_signed_audit_batch_InrE [OF assms(2)])
  have "verify_with_public_key_b64 E (audit_batch_dump E b) (key_sign E sk (audit_batch_dump E b0))
      (public_key_b64 E sk)"
    unfolding b by (rule verify_key_sign [OF assms(1)]) (rule batch_canonical_signature)
  then show ?thesis
    using create_signed_audit_batch_Inr [OF assms(2)] assms(3)
    by (simp add: audit_batch_auth_violation_def or_str_def b audit_batch_signed_material_too_large_def
        budget_loop_eq)
qed

section \<open>Properties\<close>

text \<open>
  C20. However a log is driven, accepted and refused appends alike, it stays a hash chain: after any
  sequence of append calls on an empty log, every event follows its predecessor's proof, the identifiers
  are distinct and equal to the set the log keeps, and a log that holds anything at all passes the batch
  validator.
\<close>

theorem append_keeps_chain:
  "let lg = fold (\<lambda>e lg. snd (audit_append E e lg)) es AuditLog
   in log_ok E lg \<and> (events lg = [] \<or> audit_batch_chain_violation E (events lg) = None)"
  using appends_log_ok [OF AuditLog_ok(1), of E es]
  by (auto simp: batch_chain_accepts log_ok_def Let_def)

text \<open>
  C21. The batch validator is exact: it accepts a list of events precisely when it is a non-empty hash
  chain from the start, with valid contexts and payload hashes and without a repeated identifier.
\<close>

theorem batch_validator_exact:
  "audit_batch_chain_violation E es = None \<longleftrightarrow>
     es \<noteq> [] \<and> chained E None es \<and> distinct (map audit_id es)"
  by (rule batch_chain_accepts)

text \<open>
  C22. What the JSONL import returns is a hash chain with distinct identifiers; under the authority
  profile its last proof is the head the caller trusts, and under the diagnostic profile no event of it
  is an authority event or marked authority relevant.
\<close>

theorem import_sound:
  assumes "load_jsonl E model_validate lines trusted_head profile = Inr es"
  shows "chained E None es \<and> distinct (map audit_id es) \<and>
    (profile = ''authority_chain'' \<and> (es \<noteq> [] \<longrightarrow> trusted_head \<noteq> None \<and> trusted_head = last_proof None es) \<or>
     profile = ''diagnostic_only'' \<and>
       (\<forall>e \<in> set es. \<not> authority_relevant e \<and> \<not> authority_event (event_type e)))"
  using assms by (rule load_jsonl_Inr)

text \<open>
  C24. A batch that a signer creates with its own key matches the events it was made from and, inside the
  text budget, authenticates against that key.
\<close>

theorem signed_batch_accepted:
  assumes "ed25519_correct E"
    and "create_signed_audit_batch E es signer_id (\<lambda>b. key_sign E sk (audit_batch_dump E b)) None w = (Inr b, w')"
    and "\<not> text_over_budget (batch_texts b)"
  shows "audit_batch_event_violation E b es = Inr None \<and>
    audit_batch_auth_violation E [signer_id \<mapsto> public_key_b64 E sk] b = None"
  using create_signed_audit_batch_Inr(1) [OF assms(2)] signed_batch_verifies [OF assms] by simp

text \<open>
  C32. The budget counts the joined identifiers of a batch as one text field, so a batch of more than 26
  events with generated identifiers (38 bytes each) never authenticates, whoever signed it, although
  creating and signing it succeeds.
\<close>

theorem large_batch_never_authenticates:
  assumes "create_signed_audit_batch E es signer_id signer auth w = (Inr b, w')"
    and "26 < length es" and "\<forall>e \<in> set es. length (audit_id e) = 38"
  shows "audit_batch_auth_violation E keys b \<noteq> None"
proof (rule large_batch_rejected, rule batch_ids_too_long)
  have ids: "bat_audit_ids b = map audit_id es" by (rule create_signed_audit_batch_Inr [OF assms(1)])
  have "sum_list (map length (map audit_id es)) = 38 * length es"
    using assms(3) by (induction es) auto
  moreover have "map audit_id es \<noteq> []" using assms(2) by auto
  ultimately show "MAX_SIGNED_TEXT_FIELD_BYTES < length (join_with '','' (bat_audit_ids b))"
    using assms(2) by (simp add: ids length_join_with MAX_SIGNED_TEXT_FIELD_BYTES_def)
qed

end
