(* ===== verification/Leases.thy ===== *)
theory Leases
  imports Freshness
begin

text \<open>
  Capability leases (\<^verbatim>\<open>rclp_core/leases.py\<close>): issuing, the validity window, the signature and its
  budget, the context a lease is bound to, and the constraint requirements and policy bounds a gate
  holds it against.
\<close>

section \<open>Issuing\<close>

definition lease_issued_fields :: "string set" where
  "lease_issued_fields =
     {''protocol_version'', ''message_id'', ''correlation_id'', ''created_at'', ''message_type'',
      ''issuer_id'', ''agent_id'', ''edge_agent_id'', ''robot_id'', ''mission_id'', ''capability'',
      ''constraints'', ''issued_at'', ''expires_at'', ''nonce'', ''policy_id'', ''policy_digest'',
      ''signature_alg'', ''signature''}"

text \<open>
  The clock is read once; the identifiers are drawn in the order in which the constructor call
  evaluates them: message id, nonce, then the default of \<^verbatim>\<open>lease_id\<close>. \<open>lease_of_request\<close> is the object
  that the constructor call builds from the draws after \<open>w\<close>. The lease is validated by its model
  validators, then signed, and the assignment of the signature adds \<^verbatim>\<open>signature\<close> to the fields set.
\<close>

definition lease_of_request ::
  "env \<Rightarrow> capability_request \<Rightarrow> lease_constraints \<Rightarrow> string \<Rightarrow> string \<Rightarrow> string \<Rightarrow> datetime \<Rightarrow> datetime
    \<Rightarrow> world \<Rightarrow> capability_lease" where
  "lease_of_request E request constraints issuer_id policy_id policy_digest now expires w =
     \<lparr>protocol_version = SUPPORTED_PROTOCOL_VERSION, message_id = uuid_text E ''msg_'' w,
      correlation_id = correlation_id request, created_at = now, fields_set = lease_issued_fields,
      signature_alg = ED25519_SIGNATURE_ALGORITHM, signature = None,
      lease_id = uuid_text E ''lease_'' (draw (draw w)), lease_issuer_id = issuer_id,
      lease_agent_id = rq_requesting_agent_id request,
      lease_edge_agent_id = rq_edge_agent_id request, lease_robot_id = rq_robot_id request,
      lease_mission_id = rq_mission_id request, lease_capability = rq_capability request,
      lease_constraints = constraints, issued_at = now, expires_at = expires,
      lease_nonce = uuid_text E ''lease_nonce_'' (draw w), lease_policy_id = policy_id,
      lease_policy_digest = policy_digest\<rparr>"

definition issue_lease ::
  "env \<Rightarrow> capability_request \<Rightarrow> lease_constraints \<Rightarrow> string \<Rightarrow> string \<Rightarrow> int \<Rightarrow> string \<Rightarrow> string \<Rightarrow> world
    \<Rightarrow> capability_lease res \<times> world" where
  "issue_lease E request constraints issuer_id issuer_key ttl_seconds policy_id policy_digest w =
     (if ttl_seconds \<le> 0 then (Inl (ValueError ''lease ttl must be positive''), w)
      else if rq_requested_duration_seconds request < ttl_seconds
      then (Inl (ValueError ''lease ttl cannot exceed requested duration''), w)
      else if py_blank policy_id \<or> py_blank policy_digest
      then (Inl (ValueError ''lease policy provenance is required''), w)
      else
        let now = utc_now E w; w1 = tick w
        in case bindr (timedelta_s ttl_seconds) (dt_add now) of
             Inl e \<Rightarrow> (Inl e, draw w1)
           | Inr expires \<Rightarrow>
               (let l = lease_of_request E request constraints issuer_id policy_id policy_digest now expires w1;
                    w4 = draw (draw (draw w1))
                in case bindr (validate_protocol_version l) (\<lambda>_. validate_time_window l) of
                     Inl e \<Rightarrow> (Inl e, w4)
                   | Inr _ \<Rightarrow> (Inr (l\<lparr>signature := Some (key_sign E issuer_key (lease_dump E l))\<rparr>), w4)))"

section \<open>The validity window\<close>

text \<open>Both take a time or read the clock.\<close>

definition is_expired :: "env \<Rightarrow> capability_lease \<Rightarrow> datetime option \<Rightarrow> world \<Rightarrow> bool res \<times> world" where
  "is_expired E l moment w = (let (now, w') = now_or_clock E moment w in (dt_le (expires_at l) now, w'))"

definition is_not_yet_valid :: "env \<Rightarrow> capability_lease \<Rightarrow> datetime option \<Rightarrow> world \<Rightarrow> bool res \<times> world" where
  "is_not_yet_valid E l moment w = (let (now, w') = now_or_clock E moment w in (dt_lt now (issued_at l), w'))"

definition lease_time_violation ::
  "capability_lease \<Rightarrow> datetime \<Rightarrow> int \<Rightarrow> int \<Rightarrow> int \<Rightarrow> violation res" where
  "lease_time_violation l now max_lease_age_seconds max_lease_ttl_seconds clock_skew_seconds =
     (if dt_naive now \<or> dt_naive (issued_at l) \<or> dt_naive (expires_at l)
      then Inr (Some ''LEASE_TIMESTAMP_INVALID'')
      else bindr (timedelta_s clock_skew_seconds) (\<lambda>skew.
        case dt_add now skew of
          Inl _ \<Rightarrow> Inr (Some ''LEASE_TIMESTAMP_INVALID'')
        | Inr latest_accepted_issued_at \<Rightarrow>
            bindr (dt_lt latest_accepted_issued_at (issued_at l)) (\<lambda>early.
              if early then Inr (Some ''LEASE_NOT_YET_VALID'')
              else bindr (dt_le (expires_at l) now) (\<lambda>expired.
                if expired then Inr (Some ''LEASE_EXPIRED'')
                else bindr (dt_le (expires_at l) (issued_at l)) (\<lambda>bad.
                  if bad then Inr (Some ''LEASE_TIME_WINDOW_INVALID'')
                  else bindr (dt_sub (expires_at l) (issued_at l)) (\<lambda>lease_ttl.
                    bindr (timedelta_s max_lease_ttl_seconds) (\<lambda>max_ttl.
                      if max_ttl < lease_ttl then Inr (Some ''LEASE_TTL_TOO_LONG'')
                      else bindr (dt_sub now (issued_at l)) (\<lambda>lease_age.
                        bindr (bindr (timedelta_s max_lease_age_seconds) (\<lambda>a. td_add a skew)) (\<lambda>max_age.
                          if max_age < lease_age then Inr (Some ''LEASE_STALE'') else Inr None)))))))))"

text \<open>The window as one condition on instants.\<close>

definition lease_in_window :: "capability_lease \<Rightarrow> datetime \<Rightarrow> int \<Rightarrow> int \<Rightarrow> int \<Rightarrow> bool" where
  "lease_in_window l now max_age max_ttl skew \<longleftrightarrow>
     \<not> dt_naive now \<and> \<not> dt_naive (issued_at l) \<and> \<not> dt_naive (expires_at l) \<and>
     instant (issued_at l) \<le> instant now + skew * 1000000 \<and>
     instant now < instant (expires_at l) \<and>
     instant (issued_at l) < instant (expires_at l) \<and>
     instant (expires_at l) - instant (issued_at l) \<le> max_ttl * 1000000 \<and>
     instant now - instant (issued_at l) \<le> (max_age + skew) * 1000000"

lemma lease_time_violation_None:
  assumes "lease_time_violation l now max_age max_ttl skew = Inr None"
  shows "lease_in_window l now max_age max_ttl skew"
  using assms
  by (auto simp: lease_time_violation_def lease_in_window_def res_simps dt_add_def dt_lt_def
      dt_le_def dt_sub_def td_add_def td_check_def distrib_right
      split: if_splits dest!: timedelta_s_Inr)

lemma lease_time_violation_complete:
  assumes "lease_in_window l now max_age max_ttl skew"
    and "window_ok skew (max_age + skew) now" and "timedelta_s max_ttl = Inr (max_ttl * 1000000)"
    and "timedelta_s max_age = Inr (max_age * 1000000)"
  shows "lease_time_violation l now max_age max_ttl skew = Inr None"
  using assms
  by (auto simp: lease_time_violation_def lease_in_window_def window_ok_def dt_add_def dt_lt_def
      dt_le_def dt_sub_def td_add_def timedelta_s_def distrib_right)

lemma lease_in_window_not_expired:
  assumes "lease_in_window l now max_age max_ttl skew"
  shows "is_expired E l (Some now) w = (Inr False, w)"
    "skew = 0 \<Longrightarrow> is_not_yet_valid E l (Some now) w = (Inr False, w)"
  using assms
  by (auto simp: lease_in_window_def is_expired_def is_not_yet_valid_def now_or_clock_def dt_le_def dt_lt_def)

section \<open>Signature and budget\<close>

definition verify_lease_signature :: "env \<Rightarrow> capability_lease \<Rightarrow> string \<Rightarrow> bool" where
  "verify_lease_signature E l issuer_public_key =
     (case signature l of
        None \<Rightarrow> False
      | Some s \<Rightarrow> if s = [] then False
                  else verify_with_public_key_b64 E (lease_dump E l) s issuer_public_key)"

definition lease_signature_algorithm_violation :: "capability_lease \<Rightarrow> violation" where
  "lease_signature_algorithm_violation l =
     signature_algorithm_violation l ''LEASE_SIGNATURE_ALGORITHM_MISSING''
       ''LEASE_SIGNATURE_ALGORITHM_UNSUPPORTED''"

definition lease_signature_material_too_large :: "capability_lease \<Rightarrow> bool" where
  "lease_signature_material_too_large l =
     (case signature l of None \<Rightarrow> False | Some s \<Rightarrow> ED25519_SIGNATURE_B64_MAX_TEXT_BYTES < length s)"

definition constraint_texts :: "env \<Rightarrow> lease_constraints \<Rightarrow> string option list" where
  "constraint_texts E c =
     [con_geofence_id c, map_option (flt_str (float_repr E)) (con_max_latency_ms_p95 c),
      map_option (flt_str (float_repr E)) (con_max_packet_loss_pct c),
      map_option (flt_str (float_repr E)) (con_min_uplink_mbps c),
      Some (fallback_action_str (con_fallback_on_degrade c)),
      map_option (flt_str (float_repr E)) (con_max_speed_mps c)]"

definition lease_texts :: "env \<Rightarrow> capability_lease \<Rightarrow> string option list" where
  "lease_texts E l =
     [Some (protocol_version l), Some (message_id l), Some (correlation_id l),
      Some (isoformat (created_at l)), Some ''capability_lease'', Some (lease_id l),
      Some (lease_issuer_id l), Some (lease_agent_id l), Some (lease_edge_agent_id l),
      Some (lease_robot_id l), Some (lease_mission_id l), Some (capability_str (lease_capability l))]
     @ constraint_texts E (lease_constraints l) @
     [Some (isoformat (issued_at l)), Some (isoformat (expires_at l)), Some (lease_nonce l),
      Some (lease_policy_id l), Some (lease_policy_digest l), Some (signature_alg l), signature l]"

definition lease_signed_material_too_large :: "env \<Rightarrow> capability_lease \<Rightarrow> bool" where
  "lease_signed_material_too_large E l =
     (if lease_signature_material_too_large l then True else budget_loop 0 (lease_texts E l))"

section \<open>Context\<close>

definition lease_matches_context ::
  "capability_lease \<Rightarrow> string \<Rightarrow> string \<Rightarrow> string \<Rightarrow> string \<Rightarrow> string \<Rightarrow> bool" where
  "lease_matches_context l agent_id edge_agent_id robot_id mission_id capability \<longleftrightarrow>
     lease_agent_id l = agent_id \<and> lease_edge_agent_id l = edge_agent_id \<and>
     lease_robot_id l = robot_id \<and> lease_mission_id l = mission_id \<and>
     capability_str (lease_capability l) = capability"

section \<open>Constraint requirements and bounds\<close>

definition capability_constraints_missing ::
  "lease_constraints \<Rightarrow> capability_constraint_requirement \<Rightarrow> bool" where
  "capability_constraints_missing c r \<longleftrightarrow>
     require_geofence_id r \<and> con_geofence_id c = None \<or>
     require_network_thresholds r \<and>
       (con_max_latency_ms_p95 c = None \<or> con_max_packet_loss_pct c = None \<or> con_min_uplink_mbps c = None) \<or>
     require_fallback_on_degrade r \<and>
       (''fallback_on_degrade'' \<notin> con_fields_set c \<or>
        py_blank (fallback_action_str (con_fallback_on_degrade c))) \<or>
     require_max_speed_mps r \<and> con_max_speed_mps c = None"

definition max_field_exceeds_policy :: "pyfloat option \<Rightarrow> pyfloat option \<Rightarrow> bool" where
  "max_field_exceeds_policy v bound =
     (case v of None \<Rightarrow> False
      | Some x \<Rightarrow> (case bound of None \<Rightarrow> True | Some b \<Rightarrow> flt_lt b x))"

definition min_field_exceeds_policy :: "pyfloat option \<Rightarrow> pyfloat option \<Rightarrow> bool" where
  "min_field_exceeds_policy v bound =
     (case v of None \<Rightarrow> False
      | Some x \<Rightarrow> (case bound of None \<Rightarrow> True | Some b \<Rightarrow> flt_lt x b))"

definition fallback_exceeds_policy ::
  "lease_constraints \<Rightarrow> capability_constraint_bounds \<Rightarrow> bool" where
  "fallback_exceeds_policy c b =
     (case cb_fallback_on_degrade b of
        None \<Rightarrow> ''fallback_on_degrade'' \<in> con_fields_set c
      | Some f \<Rightarrow> con_fallback_on_degrade c \<noteq> f)"

definition capability_constraints_exceed_bounds ::
  "lease_constraints \<Rightarrow> capability_constraint_bounds \<Rightarrow> bool" where
  "capability_constraints_exceed_bounds c b =
     (if cb_geofence_id b \<noteq> None \<and> con_geofence_id c \<noteq> cb_geofence_id b then True
      else max_field_exceeds_policy (con_max_latency_ms_p95 c) (cb_max_latency_ms_p95 b) \<or>
           max_field_exceeds_policy (con_max_packet_loss_pct c) (cb_max_packet_loss_pct b) \<or>
           min_field_exceeds_policy (con_min_uplink_mbps c) (cb_min_uplink_mbps b) \<or>
           max_field_exceeds_policy (con_max_speed_mps c) (cb_max_speed_mps b) \<or>
           fallback_exceeds_policy c b)"

definition capability_constraint_requirement_violation ::
  "capability_lease \<Rightarrow> (string \<rightharpoonup> capability_constraint_requirement) option \<Rightarrow> violation" where
  "capability_constraint_requirement_violation l requirements =
     (case requirements of
        None \<Rightarrow> Some ''CAPABILITY_CONSTRAINT_REQUIREMENTS_REQUIRED''
      | Some m \<Rightarrow>
          (case m (capability_str (lease_capability l)) of
             None \<Rightarrow> Some ''CAPABILITY_CONSTRAINT_REQUIREMENTS_REQUIRED''
           | Some r \<Rightarrow>
               if capability_str (crq_capability r) \<noteq> capability_str (lease_capability l)
               then Some ''CAPABILITY_CONSTRAINT_REQUIREMENTS_REQUIRED''
               else if capability_constraints_missing (lease_constraints l) r
               then Some ''LEASE_CONSTRAINTS_MISSING''
               else None))"

definition required_constraints_missing ::
  "capability_lease \<Rightarrow> (string \<rightharpoonup> capability_constraint_requirement) option \<Rightarrow> bool" where
  "required_constraints_missing l requirements \<longleftrightarrow>
     capability_constraint_requirement_violation l requirements = Some ''LEASE_CONSTRAINTS_MISSING''"

definition capability_constraint_bound_violation ::
  "capability_lease \<Rightarrow> (string \<rightharpoonup> capability_constraint_bounds) option \<Rightarrow> violation" where
  "capability_constraint_bound_violation l bounds =
     (case bounds of
        None \<Rightarrow> Some ''CAPABILITY_CONSTRAINT_BOUNDS_REQUIRED''
      | Some m \<Rightarrow>
          (case m (capability_str (lease_capability l)) of
             None \<Rightarrow> Some ''CAPABILITY_CONSTRAINT_BOUNDS_REQUIRED''
           | Some b \<Rightarrow>
               if capability_str (cb_capability b) \<noteq> capability_str (lease_capability l)
               then Some ''CAPABILITY_CONSTRAINT_BOUNDS_REQUIRED''
               else if capability_constraints_exceed_bounds (lease_constraints l) b
               then Some ''LEASE_CONSTRAINTS_EXCEED_POLICY''
               else None))"

lemma requirement_accepted:
  assumes "capability_constraint_requirement_violation l requirements = None"
  obtains m r where "requirements = Some m" "m (capability_str (lease_capability l)) = Some r"
    "crq_capability r = lease_capability l" "\<not> capability_constraints_missing (lease_constraints l) r"
  using assms
  by (auto simp: capability_constraint_requirement_violation_def split: option.splits if_splits)

lemma bound_accepted:
  assumes "capability_constraint_bound_violation l bounds = None"
  obtains m b where "bounds = Some m" "m (capability_str (lease_capability l)) = Some b"
    "cb_capability b = lease_capability l" "\<not> capability_constraints_exceed_bounds (lease_constraints l) b"
  using assms
  by (auto simp: capability_constraint_bound_violation_def split: option.splits if_splits)

lemma required_constraints_missing_iff:
  "required_constraints_missing l requirements \<longleftrightarrow>
     (\<exists>m r. requirements = Some m \<and> m (capability_str (lease_capability l)) = Some r \<and>
        crq_capability r = lease_capability l \<and> capability_constraints_missing (lease_constraints l) r)"
  by (auto simp: required_constraints_missing_def capability_constraint_requirement_violation_def
      split: option.splits if_splits)

text \<open>
  What staying inside the bounds means for a finite measurement: a value that satisfies the lease's
  threshold satisfies the policy's.
\<close>

lemma max_field_within:
  assumes "\<not> max_field_exceeds_policy (Some (Fin v)) bound" and "\<not> flt_lt (Fin v) x"
  shows "\<exists>b. bound = Some b \<and> \<not> flt_lt b (Fin v) \<and> (isfinite b \<longrightarrow> \<not> flt_lt b x)"
  using assms by (cases x; cases bound)
    (auto simp: max_field_exceeds_policy_def isfinite_iff split: option.splits)

lemma min_field_within:
  assumes "\<not> min_field_exceeds_policy (Some (Fin v)) bound" and "\<not> flt_lt x (Fin v)"
  shows "\<exists>b. bound = Some b \<and> \<not> flt_lt (Fin v) b \<and> (isfinite b \<longrightarrow> \<not> flt_lt x b)"
  using assms by (cases x; cases bound)
    (auto simp: min_field_exceeds_policy_def isfinite_iff split: option.splits)

section \<open>What issuing guarantees\<close>

lemma lease_canonical_signature:
  "canonical_json E (lease_dump E (l\<lparr>signature := s\<rparr>)) = canonical_json E (lease_dump E l)"
  by (simp add: canonical_json_def dump_defs)

text \<open>What a successful call returns, and what it needed.\<close>

lemma issue_lease_InrE:
  assumes "issue_lease E rq c issuer sk ttl pid pdg w = (Inr l, w')"
  obtains expires l0 where "0 < ttl" "ttl \<le> rq_requested_duration_seconds rq"
    "instant expires = instant (utc_now E w) + ttl * 1000000"
    "\<not> dt_naive (utc_now E w)" "\<not> dt_naive expires"
    "l0 = lease_of_request E rq c issuer pid pdg (utc_now E w) expires (tick w)"
    "l = l0\<lparr>signature := Some (key_sign E sk (lease_dump E l0))\<rparr>"
    "w' = draw (draw (draw (tick w)))"
proof -
  from assms obtain exp where ttl: "0 < ttl" "ttl \<le> rq_requested_duration_seconds rq"
    and exp: "bindr (timedelta_s ttl) (dt_add (utc_now E w)) = Inr exp"
    by (auto simp: issue_lease_def Let_def split: if_splits sum.splits)
  define l0 where "l0 = lease_of_request E rq c issuer pid pdg (utc_now E w) exp (tick w)"
  from assms ttl have ok: "bindr (validate_protocol_version l0) (\<lambda>_. validate_time_window l0) = Inr ()"
    and l: "l = l0\<lparr>signature := Some (key_sign E sk (lease_dump E l0))\<rparr>"
    and w: "w' = draw (draw (draw (tick w)))"
    by (auto simp: issue_lease_def Let_def exp l0_def split: if_splits sum.splits)
  from ok have aware: "\<not> dt_naive (issued_at l0)" "\<not> dt_naive (expires_at l0)"
    by (auto simp: res_simps validate_time_window_def split: if_splits)
  from exp have "instant exp = instant (utc_now E w) + ttl * 1000000"
    by (auto simp: res_simps dt_add_Inr_iff dest!: timedelta_s_Inr)
  with ttl aware l w show thesis
    by (intro that [of exp l0]) (simp_all add: l0_def lease_of_request_def)
qed

lemma issue_lease_Inr:
  assumes "issue_lease E rq c issuer sk ttl pid pdg w = (Inr l, w')"
  shows "lease_matches_context l (rq_requesting_agent_id rq) (rq_edge_agent_id rq) (rq_robot_id rq)
       (rq_mission_id rq) (capability_str (rq_capability rq))"
    and "lease_issuer_id l = issuer" and "lease_constraints l = c"
    and "lease_policy_id l = pid" and "lease_policy_digest l = pdg"
    and "protocol_version l = SUPPORTED_PROTOCOL_VERSION"
    and "lease_signature_algorithm_violation l = None"
    and "lease_id l = ''lease_'' @ uuid4_hex E (uuid_draws w + 2)"
    and "lease_nonce l = ''lease_nonce_'' @ uuid4_hex E (uuid_draws w + 1)"
    and "uuid_draws w' = uuid_draws w + 3"
  by (rule issue_lease_InrE [OF assms],
      simp add: lease_of_request_def lease_matches_context_def lease_signature_algorithm_violation_def
        signature_algorithm_violation_None lease_issued_fields_def tick_def draw_def uuid_text_def)+

lemma issue_lease_window:
  assumes "issue_lease E rq c issuer sk ttl pid pdg w = (Inr l, w')"
  shows "lease_in_window l now max_age max_ttl skew \<longleftrightarrow>
     \<not> dt_naive now \<and> instant (utc_now E w) \<le> instant now + skew * 1000000 \<and>
     instant now < instant (utc_now E w) + ttl * 1000000 \<and> ttl \<le> max_ttl \<and>
     instant now - instant (utc_now E w) \<le> (max_age + skew) * 1000000"
  by (rule issue_lease_InrE [OF assms]) (auto simp: lease_in_window_def lease_of_request_def)

lemma issued_lease_verifies:
  assumes "ed25519_correct E" and "issue_lease E rq c issuer sk ttl pid pdg w = (Inr l, w')"
  shows "verify_lease_signature E l (public_key_b64 E sk)" "\<not> lease_signature_material_too_large l"
proof -
  obtain l0 where l: "l = l0\<lparr>signature := Some (key_sign E sk (lease_dump E l0))\<rparr>"
    by (rule issue_lease_InrE [OF assms(2)])
  have "length (key_sign E sk (lease_dump E l0)) = 88"
    using assms(1) by (rule length_key_sign)
  moreover have "verify_with_public_key_b64 E (lease_dump E l) (key_sign E sk (lease_dump E l0))
      (public_key_b64 E sk)"
    unfolding l by (rule verify_key_sign [OF assms(1)]) (rule lease_canonical_signature)
  ultimately show "verify_lease_signature E l (public_key_b64 E sk)"
    "\<not> lease_signature_material_too_large l"
    using l by (auto simp: verify_lease_signature_def lease_signature_material_too_large_def
        ED25519_SIGNATURE_B64_MAX_TEXT_BYTES_def)
qed

end
