(* ===== verification/State_Assertions.thy ===== *)
theory State_Assertions
  imports Freshness
begin

text \<open>
  Robot-state and control-plane assertions (\<^verbatim>\<open>rclp_core/state.py\<close>): the signed-material budgets, the
  network authority test, the freshness checks and the authentication checks, with their
  interpretations of the two contracts of the theory \<open>Freshness\<close>. The callers inside the program
  always pass the current time, so the checks take it as an argument.
\<close>

definition DEFAULT_STATE_MAX_AGE_SECONDS :: int where
  "DEFAULT_STATE_MAX_AGE_SECONDS = 30"

definition STATE_CLOCK_SKEW_SECONDS :: int where
  "STATE_CLOCK_SKEW_SECONDS = 30"

definition ROBOT_STATE_REQUIRED_WIRE_FIELDS :: "string set" where
  "ROBOT_STATE_REQUIRED_WIRE_FIELDS = {''safety_state''}"

definition NETWORK_STATE_REQUIRED_WIRE_FIELDS :: "string set" where
  "NETWORK_STATE_REQUIRED_WIRE_FIELDS = {''attached''}"

definition CONTROL_PLANE_REACHABILITY_REQUIRED_WIRE_FIELDS :: "string set" where
  "CONTROL_PLANE_REACHABILITY_REQUIRED_WIRE_FIELDS = {''reachable''}"

section \<open>Signed material\<close>

definition robot_state_texts :: "env \<Rightarrow> robot_state_assertion \<Rightarrow> string option list" where
  "robot_state_texts E s =
     (let n = st_network_state s; g = st_geofence_state s in
      [Some (protocol_version s), Some (message_id s), Some (correlation_id s),
       Some (isoformat (created_at s)), Some ''robot_state_assertion'', Some (st_robot_id s),
       Some (st_edge_agent_id s), st_authenticated_edge_agent_id s, Some (st_mission_id s),
       Some (safety_state_str (st_safety_state s)), Some (network_profile_str (net_profile n)),
       Some (bool_str (attached n)), Some (flt_str (float_repr E) (latency_ms_p95 n)),
       Some (flt_str (float_repr E) (packet_loss_pct n)), Some (flt_str (float_repr E) (uplink_mbps n)),
       Some (isoformat (net_observed_at n)), Some (gf_geofence_id g), Some (bool_str (inside g)),
       Some (isoformat (verified_at g)), Some (isoformat (st_observed_at s)),
       Some (bool_str (st_human_operator_available s)), Some (signature_alg s), signature s])"

definition robot_state_signed_material_too_large :: "env \<Rightarrow> robot_state_assertion \<Rightarrow> bool" where
  "robot_state_signed_material_too_large E s = budget_loop 0 (robot_state_texts E s)"

definition control_plane_texts :: "control_plane_reachability_assertion \<Rightarrow> string option list" where
  "control_plane_texts a =
     [Some (protocol_version a), Some (message_id a), Some (correlation_id a),
      Some (isoformat (created_at a)), Some ''control_plane_reachability_assertion'',
      Some (cp_edge_agent_id a), cp_authenticated_edge_agent_id a, Some (cp_robot_id a),
      Some (cp_mission_id a), Some (control_plane_reachability_str (cp_reachability a)),
      Some (bool_str (cp_reachable a)), Some (isoformat (cp_observed_at a)),
      Some (int_str (cp_measurement_window_seconds a)), Some (cp_source a),
      Some (signature_alg a), signature a]"

definition control_plane_reachability_signed_material_too_large ::
  "control_plane_reachability_assertion \<Rightarrow> bool" where
  "control_plane_reachability_signed_material_too_large a = budget_loop 0 (control_plane_texts a)"

section \<open>Network authority\<close>

definition network_state_required_fields_missing :: "network_state \<Rightarrow> bool" where
  "network_state_required_fields_missing n =
     (\<not> NETWORK_STATE_REQUIRED_WIRE_FIELDS \<subseteq> net_fields_set n)"

definition network_state_authority_violation :: "network_state \<Rightarrow> violation" where
  "network_state_authority_violation n =
     (if net_profile n = NET_UNKNOWN then Some ''NETWORK_STATE_UNKNOWN''
      else if net_profile n = PARTITION then Some ''NETWORK_DETACHED''
      else if \<not> attached n then Some ''NETWORK_DETACHED''
      else None)"

lemma network_state_authority_None [res_simps]:
  "network_state_authority_violation n = None \<longleftrightarrow>
     net_profile n \<noteq> NET_UNKNOWN \<and> net_profile n \<noteq> PARTITION \<and> attached n"
  by (simp add: network_state_authority_violation_def)

section \<open>Freshness\<close>

definition state_timestamps :: "robot_state_assertion \<Rightarrow> datetime list" where
  "state_timestamps s =
     [created_at s, st_observed_at s, net_observed_at (st_network_state s),
      verified_at (st_geofence_state s)]"

definition state_time_violation :: "int \<Rightarrow> datetime \<Rightarrow> robot_state_assertion \<Rightarrow> violation res" where
  "state_time_violation max_age now s =
     first_violation
       (stamp_violation ''STATE_TIMESTAMP_INVALID'' ''STATE_NOT_YET_VALID'' ''STATE_STALE''
          STATE_CLOCK_SKEW_SECONDS (max_age + STATE_CLOCK_SKEW_SECONDS) now)
       (state_timestamps s)"

definition control_plane_timestamps :: "control_plane_reachability_assertion \<Rightarrow> datetime list" where
  "control_plane_timestamps a = [created_at a, cp_observed_at a]"

definition control_plane_reachability_time_violation ::
  "int \<Rightarrow> datetime \<Rightarrow> control_plane_reachability_assertion \<Rightarrow> violation res" where
  "control_plane_reachability_time_violation max_age now a =
     first_violation
       (stamp_violation ''CONTROL_PLANE_TIMESTAMP_INVALID'' ''CONTROL_PLANE_NOT_YET_VALID''
          ''CONTROL_PLANE_STATE_STALE'' STATE_CLOCK_SKEW_SECONDS (max_age + STATE_CLOCK_SKEW_SECONDS) now)
       (control_plane_timestamps a)"

interpretation state_fresh: freshness_check "state_time_violation max_age" state_timestamps
  STATE_CLOCK_SKEW_SECONDS "max_age + STATE_CLOCK_SKEW_SECONDS" "\<lambda>s. True"
  for max_age
  by unfold_locales
    (auto simp: state_time_violation_def state_timestamps_def first_violation_None_iff
      stamp_violation_None_iff guardr_None_iff)

interpretation control_plane_fresh: freshness_check "control_plane_reachability_time_violation max_age"
  control_plane_timestamps STATE_CLOCK_SKEW_SECONDS "max_age + STATE_CLOCK_SKEW_SECONDS" "\<lambda>a. True"
  for max_age
  by unfold_locales
    (auto simp: control_plane_reachability_time_violation_def control_plane_timestamps_def
      first_violation_None_iff stamp_violation_None_iff guardr_None_iff)

section \<open>Authentication\<close>

definition state_auth_violation ::
  "env \<Rightarrow> string set \<Rightarrow> (string \<rightharpoonup> string) \<Rightarrow> robot_state_assertion \<Rightarrow> violation" where
  "state_auth_violation E required_wire_fields edge_public_keys_by_id s =
     (if \<not> required_wire_fields \<subseteq> fields_set s then Some ''STATE_REQUIRED_FIELD_MISSING''
      else if network_state_required_fields_missing (st_network_state s)
      then Some ''STATE_REQUIRED_FIELD_MISSING''
      else guardv (signature_algorithm_violation s ''STATE_SIGNATURE_ALGORITHM_MISSING''
                     ''STATE_SIGNATURE_ALGORITHM_UNSUPPORTED'') Some
       (case st_authenticated_edge_agent_id s of
          None \<Rightarrow> Some ''STATE_AUTHENTICATED_EDGE_MISSING''
        | Some a \<Rightarrow>
            if a \<noteq> st_edge_agent_id s then Some ''STATE_AUTHENTICATED_EDGE_MISMATCH''
            else (case signature s of
                    None \<Rightarrow> Some ''STATE_SIGNATURE_MISSING''
                  | Some sig \<Rightarrow>
                      (case edge_public_keys_by_id a of
                         None \<Rightarrow> Some ''EDGE_STATE_KEY_NOT_TRUSTED''
                       | Some public_key \<Rightarrow>
                           if robot_state_signed_material_too_large E s
                           then Some ''STATE_SIGNED_MATERIAL_TOO_LARGE''
                           else if \<not> verify_with_public_key_b64 E (robot_state_dump E s) sig public_key
                           then Some ''STATE_SIGNATURE_INVALID''
                           else None))))"

definition control_plane_reachability_auth_violation ::
  "env \<Rightarrow> (string \<rightharpoonup> string) \<Rightarrow> control_plane_reachability_assertion \<Rightarrow> violation" where
  "control_plane_reachability_auth_violation E edge_public_keys_by_id a =
     (if \<not> CONTROL_PLANE_REACHABILITY_REQUIRED_WIRE_FIELDS \<subseteq> fields_set a
      then Some ''CONTROL_PLANE_REQUIRED_FIELD_MISSING''
      else guardv (signature_algorithm_violation a ''CONTROL_PLANE_SIGNATURE_ALGORITHM_MISSING''
                     ''CONTROL_PLANE_SIGNATURE_ALGORITHM_UNSUPPORTED'') Some
       (case cp_authenticated_edge_agent_id a of
          None \<Rightarrow> Some ''CONTROL_PLANE_AUTHENTICATED_EDGE_MISSING''
        | Some i \<Rightarrow>
            if i \<noteq> cp_edge_agent_id a then Some ''CONTROL_PLANE_AUTHENTICATED_EDGE_MISMATCH''
            else (case signature a of
                    None \<Rightarrow> Some ''CONTROL_PLANE_SIGNATURE_MISSING''
                  | Some sig \<Rightarrow>
                      (case edge_public_keys_by_id i of
                         None \<Rightarrow> Some ''CONTROL_PLANE_KEY_NOT_TRUSTED''
                       | Some public_key \<Rightarrow>
                           if control_plane_reachability_signed_material_too_large a
                           then Some ''CONTROL_PLANE_SIGNED_MATERIAL_TOO_LARGE''
                           else if \<not> verify_with_public_key_b64 E (control_plane_dump E a) sig public_key
                           then Some ''CONTROL_PLANE_SIGNATURE_INVALID''
                           else None))))"

interpretation state_auth: authentication_check E "state_auth_violation E required" None
  st_edge_agent_id signature "robot_state_dump E"
  for E required
  by unfold_locales
    (auto simp: state_auth_violation_def guardv_def split: if_splits option.splits)

interpretation control_plane_auth: authentication_check E "control_plane_reachability_auth_violation E" None
  cp_edge_agent_id signature "control_plane_dump E"
  for E
  by unfold_locales
    (auto simp: control_plane_reachability_auth_violation_def guardv_def split: if_splits option.splits)

lemma state_auth_accepted_fields:
  "state_auth_violation E required keys s = None \<Longrightarrow>
     required \<subseteq> fields_set s \<and> st_authenticated_edge_agent_id s = Some (st_edge_agent_id s) \<and>
     \<not> text_over_budget (robot_state_texts E s)"
  by (auto simp: state_auth_violation_def robot_state_signed_material_too_large_def budget_loop_eq
      guardv_def split: if_splits option.splits)

end
