(* ===== verification/Conformance.thy ===== *)
theory Conformance
  imports Leases State_Assertions
begin

text \<open>
  The conformance check of a lease for one command (\<^verbatim>\<open>rclp_core/conformance.py\<close>): provenance, scope,
  window, constraints, context, revocation, the current robot state and the command payload, in the
  order in which the program tests them and with the reason it gives for each refusal.
\<close>

definition DEFAULT_LEASE_MAX_AGE_SECONDS :: int where
  "DEFAULT_LEASE_MAX_AGE_SECONDS = 600"

definition DEFAULT_LEASE_MAX_TTL_SECONDS :: int where
  "DEFAULT_LEASE_MAX_TTL_SECONDS = 600"

definition LEASE_CLOCK_SKEW_SECONDS :: int where
  "LEASE_CLOCK_SKEW_SECONDS = 30"

definition SUPPORTED_SPEED_PAYLOAD_FIELDS :: "string set" where
  "SUPPORTED_SPEED_PAYLOAD_FIELDS = {''max_speed_mps'', ''speed_mps''}"

section \<open>Checks on the lease alone\<close>

definition issuer_key_registry ::
  "string set \<Rightarrow> string option \<Rightarrow> (string \<rightharpoonup> string) option \<Rightarrow> (string \<rightharpoonup> string)" where
  "issuer_key_registry trusted_issuer_ids issuer_public_key_b64 issuer_public_keys_by_id =
     (case issuer_public_keys_by_id of
        Some m \<Rightarrow> m
      | None \<Rightarrow>
          (case issuer_public_key_b64 of
             Some k \<Rightarrow> if card trusted_issuer_ids = 1 then [the_elem trusted_issuer_ids \<mapsto> k] else Map.empty
           | None \<Rightarrow> Map.empty))"

definition capability_scope_violation ::
  "capability_lease \<Rightarrow> string set option \<Rightarrow> (string \<rightharpoonup> string set) option \<Rightarrow> violation" where
  "capability_scope_violation l accepted_capabilities issuer_capability_scopes =
     (case (accepted_capabilities, issuer_capability_scopes) of
        (Some caps, Some scopes) \<Rightarrow>
          if caps = {} then Some ''CAPABILITY_SCOPE_REQUIRED''
          else if capability_str (lease_capability l) \<notin> caps then Some ''CAPABILITY_NOT_GRANTED''
          else if capability_str (lease_capability l) \<notin>
                    (case scopes (lease_issuer_id l) of None \<Rightarrow> {} | Some s \<Rightarrow> s)
          then Some ''CAPABILITY_NOT_GRANTED''
          else None
      | _ \<Rightarrow> Some ''CAPABILITY_SCOPE_REQUIRED'')"

definition lease_policy_provenance_violation ::
  "capability_lease \<Rightarrow> string option \<Rightarrow> string set option \<Rightarrow> violation" where
  "lease_policy_provenance_violation l accepted_policy_id accepted_policy_digests =
     (case (accepted_policy_id, accepted_policy_digests) of
        (Some pid, Some digests) \<Rightarrow>
          if pid = [] \<or> py_blank pid \<or> digests = {} then Some ''POLICY_PROVENANCE_REQUIRED''
          else if card {d \<in> digests. \<not> py_blank d} \<noteq> card digests
          then Some ''POLICY_PROVENANCE_REQUIRED''
          else if lease_policy_id l = [] \<or> py_blank (lease_policy_id l)
          then Some ''LEASE_POLICY_PROVENANCE_REQUIRED''
          else if lease_policy_digest l = [] \<or> py_blank (lease_policy_digest l)
          then Some ''LEASE_POLICY_PROVENANCE_REQUIRED''
          else if lease_policy_id l \<noteq> pid \<or> lease_policy_digest l \<notin> {d \<in> digests. \<not> py_blank d}
          then Some ''LEASE_POLICY_NOT_ACCEPTED''
          else None
      | _ \<Rightarrow> Some ''POLICY_PROVENANCE_REQUIRED'')"

definition lease_requires_current_state :: "capability_lease \<Rightarrow> bool" where
  "lease_requires_current_state l \<longleftrightarrow>
     lease_capability l = REMOTE_ASSIST \<or>
     con_geofence_id (lease_constraints l) \<noteq> None \<or>
     con_max_latency_ms_p95 (lease_constraints l) \<noteq> None \<or>
     con_max_packet_loss_pct (lease_constraints l) \<noteq> None \<or>
     con_min_uplink_mbps (lease_constraints l) \<noteq> None"

text \<open>Every caller passes a field declared \<^verbatim>\<open>float\<close>, for which the type test of the source is true.\<close>

definition finite_nonnegative_number :: "pyfloat \<Rightarrow> rat option \<Rightarrow> bool" where
  "finite_nonnegative_number x max_value =
     (if \<not> isfinite x \<or> flt_lt x (Fin 0) then False
      else (case max_value of None \<Rightarrow> True | Some h \<Rightarrow> flt_le x (Fin h)))"

definition lease_constraints_malformed :: "capability_lease \<Rightarrow> bool" where
  "lease_constraints_malformed l =
     (let c = lease_constraints l;
          ok = (\<lambda>v hi. case v of None \<Rightarrow> True | Some x \<Rightarrow> finite_nonnegative_number x hi)
      in \<not> (ok (con_max_latency_ms_p95 c) None \<and> ok (con_max_packet_loss_pct c) (Some 100) \<and>
            ok (con_min_uplink_mbps c) None \<and> ok (con_max_speed_mps c) None))"

definition network_state_malformed :: "robot_state_assertion \<Rightarrow> bool" where
  "network_state_malformed s =
     (let n = st_network_state s
      in \<not> (finite_nonnegative_number (latency_ms_p95 n) None \<and>
            finite_nonnegative_number (packet_loss_pct n) (Some 100) \<and>
            finite_nonnegative_number (uplink_mbps n) None))"

lemma finite_nonnegative_number_iff: "finite_nonnegative_number x hi \<longleftrightarrow> float_field_ok hi x"
  by (cases x) (auto simp: finite_nonnegative_number_def float_field_ok_def split: option.splits)

lemma finite_nonnegative_Fin:
  "finite_nonnegative_number x hi \<longleftrightarrow> (\<exists>q. x = Fin q \<and> 0 \<le> q \<and> (\<forall>h. hi = Some h \<longrightarrow> q \<le> h))"
  by (cases x) (auto simp: finite_nonnegative_number_def split: option.splits)

section \<open>Checks against the current state and the payload\<close>

definition validate_lease_against_state ::
  "capability_lease \<Rightarrow> robot_state_assertion \<Rightarrow> bool \<times> reason" where
  "validate_lease_against_state l s =
     (if st_robot_id s \<noteq> lease_robot_id l \<or> st_edge_agent_id s \<noteq> lease_edge_agent_id l \<or>
         st_mission_id s \<noteq> lease_mission_id l
      then (False, ''LEASE_STATE_MISMATCH'')
      else
        let c = lease_constraints l; n = st_network_state s; g = st_geofence_state s in
        if con_geofence_id c \<noteq> None \<and> \<not> inside g then (False, ''GEOFENCE_CONSTRAINT_VIOLATED'')
        else if con_geofence_id c \<noteq> None \<and> Some (gf_geofence_id g) \<noteq> con_geofence_id c
        then (False, ''GEOFENCE_CONSTRAINT_VIOLATED'')
        else if network_state_malformed s then (False, ''NETWORK_STATE_MALFORMED'')
        else guardv (network_state_authority_violation n) (\<lambda>r. (False, r))
          (if (case con_max_latency_ms_p95 c of None \<Rightarrow> False | Some m \<Rightarrow> flt_lt m (latency_ms_p95 n))
           then (False, ''NETWORK_LATENCY_TOO_HIGH'')
           else if (case con_max_packet_loss_pct c of None \<Rightarrow> False | Some m \<Rightarrow> flt_lt m (packet_loss_pct n))
           then (False, ''NETWORK_PACKET_LOSS_TOO_HIGH'')
           else if (case con_min_uplink_mbps c of None \<Rightarrow> False | Some m \<Rightarrow> flt_lt (uplink_mbps n) m)
           then (False, ''NETWORK_UPLINK_TOO_LOW'')
           else (True, ''LEASE_VALID'')))"

text \<open>
  The speed is read from the payload as any JSON value. \<^verbatim>\<open>float(raw_speed)\<close> of an integer beyond the
  range of a double raises \<open>OverflowError\<close>, which nothing catches.
\<close>

definition payload_speed :: "json \<Rightarrow> pyfloat option res" where
  "payload_speed raw =
     (case raw of
        JInt n \<Rightarrow> bindr (float_of_int n) (\<lambda>x. Inr (Some x))
      | JFloat x \<Rightarrow> Inr (Some x)
      | _ \<Rightarrow> Inr None)"

definition speed_verdict :: "pyfloat \<Rightarrow> json \<Rightarrow> (bool \<times> reason) res" where
  "speed_verdict max_speed raw_speed =
     (if raw_speed = JNull then Inr (False, ''COMMAND_SPEED_MISSING'')
      else bindr (payload_speed raw_speed) (\<lambda>sp.
        case sp of
          None \<Rightarrow> Inr (False, ''COMMAND_SPEED_MALFORMED'')
        | Some speed \<Rightarrow>
            if \<not> isfinite speed \<or> flt_lt speed (Fin 0)
            then Inr (False, ''COMMAND_SPEED_MALFORMED'')
            else if flt_lt max_speed speed then Inr (False, ''COMMAND_SPEED_TOO_HIGH'')
            else Inr (True, ''LEASE_VALID'')))"

definition validate_command_payload_against_constraints ::
  "capability_lease \<Rightarrow> dump option \<Rightarrow> (bool \<times> reason) res" where
  "validate_command_payload_against_constraints l command_payload =
     (case command_payload of
        None \<Rightarrow> Inr (False, ''COMMAND_PAYLOAD_SCHEMA_VIOLATION'')
      | Some p \<Rightarrow>
          if \<not> set (map fst p) \<subseteq> SUPPORTED_SPEED_PAYLOAD_FIELDS
          then Inr (False, ''COMMAND_PAYLOAD_SCHEMA_VIOLATION'')
          else (case con_max_speed_mps (lease_constraints l) of
            None \<Rightarrow> if p \<noteq> [] then Inr (False, ''COMMAND_PAYLOAD_SCHEMA_VIOLATION'')
                    else Inr (True, ''LEASE_VALID'')
          | Some max_speed \<Rightarrow>
              if \<not> finite_nonnegative_number max_speed None then Inr (False, ''LEASE_CONSTRAINT_MALFORMED'')
              else if (case (dict_get p ''max_speed_mps'', dict_get p ''speed_mps'') of
                         (Some a, Some b) \<Rightarrow> \<not> py_eq a b | _ \<Rightarrow> False)
              then Inr (False, ''COMMAND_SPEED_CONFLICT'')
              else speed_verdict max_speed
                (case dict_get p ''max_speed_mps'' of
                   Some v \<Rightarrow> v
                 | None \<Rightarrow> (case dict_get p ''speed_mps'' of Some v \<Rightarrow> v | None \<Rightarrow> JNull))))"

section \<open>The whole check\<close>

text \<open>The keyword arguments that configure the check, and those that describe the command.\<close>

record lease_checks =
  lc_issuer_public_key_b64 :: "string option"
  lc_issuer_public_keys_by_id :: "(string \<rightharpoonup> string) option"
  lc_trusted_issuer_ids :: "string set"
  lc_accepted_capabilities :: "string set option"
  lc_accepted_policy_id :: "string option"
  lc_accepted_policy_digests :: "string set option"
  lc_issuer_capability_scopes :: "(string \<rightharpoonup> string set) option"
  lc_requirements :: "(string \<rightharpoonup> capability_constraint_requirement) option"
  lc_bounds :: "(string \<rightharpoonup> capability_constraint_bounds) option"
  lc_state_public_keys_by_edge_id :: "(string \<rightharpoonup> string) option"
  lc_revoked_lease_ids :: "string set"
  lc_max_lease_age_seconds :: int
  lc_max_lease_ttl_seconds :: int
  lc_max_state_age_seconds :: int

record command_context =
  cc_agent_id :: string
  cc_edge_agent_id :: string
  cc_robot_id :: string
  cc_mission_id :: string
  cc_capability :: string
  cc_current_state :: "robot_state_assertion option"
  cc_command_payload :: "dump option"

abbreviation (input) refuse :: "reason \<Rightarrow> bool \<times> reason" where
  "refuse r \<equiv> (False, r)"

definition current_state_verdict ::
  "env \<Rightarrow> lease_checks \<Rightarrow> command_context \<Rightarrow> datetime \<Rightarrow> capability_lease \<Rightarrow> (bool \<times> reason) res" where
  "current_state_verdict E k c now l =
     (case cc_current_state c of
        None \<Rightarrow> if lease_requires_current_state l then Inr (refuse ''CURRENT_STATE_REQUIRED'')
                else Inr (True, ''LEASE_VALID'')
      | Some s \<Rightarrow>
          (case lc_state_public_keys_by_edge_id k of
             None \<Rightarrow> Inr (refuse ''STATE_AUTH_REQUIRED'')
           | Some keys \<Rightarrow>
               guardr (Inr (state_auth_violation E ROBOT_STATE_REQUIRED_WIRE_FIELDS keys s)) refuse
               (guardr (Inr (protocol_version_violation [protocol_version s])) refuse
               (guardr (state_time_violation (lc_max_state_age_seconds k) now s) refuse
               (Inr (validate_lease_against_state l s))))))"

definition validate_lease_for_command ::
  "env \<Rightarrow> lease_checks \<Rightarrow> command_context \<Rightarrow> datetime \<Rightarrow> capability_lease option \<Rightarrow> (bool \<times> reason) res" where
  "validate_lease_for_command E k c now lease =
     (case lease of
        None \<Rightarrow> Inr (refuse ''NO_LEASE'')
      | Some l \<Rightarrow>
        guardr (Inr (protocol_version_violation [protocol_version l])) refuse
        (if lease_issuer_id l \<notin> lc_trusted_issuer_ids k then Inr (refuse ''ISSUER_NOT_TRUSTED'')
         else (case issuer_key_registry (lc_trusted_issuer_ids k) (lc_issuer_public_key_b64 k)
                      (lc_issuer_public_keys_by_id k) (lease_issuer_id l) of
           None \<Rightarrow> Inr (refuse ''ISSUER_KEY_NOT_TRUSTED'')
         | Some issuer_public_key \<Rightarrow>
           guardr (Inr (lease_signature_algorithm_violation l)) refuse
           (if lease_signed_material_too_large E l then Inr (refuse ''LEASE_SIGNED_MATERIAL_TOO_LARGE'')
            else if \<not> verify_lease_signature E l issuer_public_key then Inr (refuse ''INVALID_SIGNATURE'')
            else
            guardr (Inr (lease_policy_provenance_violation l (lc_accepted_policy_id k)
                           (lc_accepted_policy_digests k))) refuse
            (guardr (Inr (capability_scope_violation l (lc_accepted_capabilities k)
                            (lc_issuer_capability_scopes k))) refuse
            (guardr (lease_time_violation l now (lc_max_lease_age_seconds k) (lc_max_lease_ttl_seconds k)
                       LEASE_CLOCK_SKEW_SECONDS) refuse
            (guardr (Inr (capability_constraint_requirement_violation l (lc_requirements k))) refuse
            (if lease_constraints_malformed l then Inr (refuse ''LEASE_CONSTRAINT_MALFORMED'')
             else
             guardr (Inr (capability_constraint_bound_violation l (lc_bounds k))) refuse
             (if \<not> lease_matches_context l (cc_agent_id c) (cc_edge_agent_id c) (cc_robot_id c)
                     (cc_mission_id c) (cc_capability c)
              then Inr (refuse ''LEASE_CONTEXT_MISMATCH'')
              else if lease_id l \<in> lc_revoked_lease_ids k then Inr (refuse ''LEASE_REVOKED'')
              else bindr (current_state_verdict E k c now l) (\<lambda>(ok, r).
                if \<not> ok then Inr (ok, r)
                else validate_command_payload_against_constraints l (cc_command_payload c)))))))))))"

section \<open>What acceptance means\<close>

text \<open>The state check accepts exactly the states that meet every constraint of the lease.\<close>

definition state_satisfies :: "capability_lease \<Rightarrow> robot_state_assertion \<Rightarrow> bool" where
  "state_satisfies l s \<longleftrightarrow>
     (let c = lease_constraints l; n = st_network_state s; g = st_geofence_state s in
      st_robot_id s = lease_robot_id l \<and> st_edge_agent_id s = lease_edge_agent_id l \<and>
      st_mission_id s = lease_mission_id l \<and>
      (\<forall>i. con_geofence_id c = Some i \<longrightarrow> inside g \<and> gf_geofence_id g = i) \<and>
      network_state_valid n \<and> net_profile n \<noteq> NET_UNKNOWN \<and> net_profile n \<noteq> PARTITION \<and> attached n \<and>
      (\<forall>m. con_max_latency_ms_p95 c = Some m \<longrightarrow> \<not> flt_lt m (latency_ms_p95 n)) \<and>
      (\<forall>m. con_max_packet_loss_pct c = Some m \<longrightarrow> \<not> flt_lt m (packet_loss_pct n)) \<and>
      (\<forall>m. con_min_uplink_mbps c = Some m \<longrightarrow> \<not> flt_lt (uplink_mbps n) m))"

lemma network_state_malformed_iff: "network_state_malformed s \<longleftrightarrow> \<not> network_state_valid (st_network_state s)"
  by (simp add: network_state_malformed_def network_state_valid_def finite_nonnegative_number_iff Let_def)

lemma lease_constraints_malformed_iff:
  "lease_constraints_malformed l \<longleftrightarrow> \<not> lease_constraints_valid (lease_constraints l)"
  by (simp add: lease_constraints_malformed_def lease_constraints_valid_def opt_float_field_ok_def
      finite_nonnegative_number_iff Let_def cong: option.case_cong)

lemma lease_against_state_accepts:
  "validate_lease_against_state l s = (True, r) \<longleftrightarrow> r = ''LEASE_VALID'' \<and> state_satisfies l s"
  by (auto simp: validate_lease_against_state_def state_satisfies_def Let_def guardv_eq_iff
      network_state_authority_None network_state_malformed_iff split: option.splits)

lemma lease_against_state_reason:
  "validate_lease_against_state l s = (ok, r) \<Longrightarrow> ok \<longleftrightarrow> r = ''LEASE_VALID''"
  by (auto simp: validate_lease_against_state_def network_state_authority_violation_def Let_def
      guardv_eq_iff split: if_splits option.splits)

text \<open>The payload check: the speed a command asks for, and when it is acceptable.\<close>

definition requested_speed :: "dump \<Rightarrow> json option" where
  "requested_speed p =
     (case dict_get p ''max_speed_mps'' of Some v \<Rightarrow> Some v | None \<Rightarrow> dict_get p ''speed_mps'')"

definition payload_authorized :: "lease_constraints \<Rightarrow> dump \<Rightarrow> bool" where
  "payload_authorized c p \<longleftrightarrow>
     set (map fst p) \<subseteq> {''max_speed_mps'', ''speed_mps''} \<and>
     (case con_max_speed_mps c of
        None \<Rightarrow> p = []
      | Some m \<Rightarrow>
          float_field_ok None m \<and>
          (\<forall>a b. dict_get p ''max_speed_mps'' = Some a \<longrightarrow> dict_get p ''speed_mps'' = Some b \<longrightarrow> py_eq a b) \<and>
          (\<exists>v q. requested_speed p = Some v \<and> payload_speed v = Inr (Some (Fin q)) \<and>
             0 \<le> q \<and> \<not> flt_lt m (Fin q)))"

lemma speed_verdict_accepts:
  "speed_verdict m v = Inr (True, r) \<longleftrightarrow>
     r = ''LEASE_VALID'' \<and> (\<exists>q. payload_speed v = Inr (Some (Fin q)) \<and> 0 \<le> q \<and> \<not> flt_lt m (Fin q))"
proof (cases "payload_speed v")
  case (Inl e)
  then show ?thesis by (simp add: speed_verdict_def)
next
  case (Inr sp)
  moreover have "payload_speed JNull = Inr None" by (simp add: payload_speed_def)
  ultimately show ?thesis
    by (cases sp; cases "the sp") (auto simp: speed_verdict_def isfinite_iff)
qed

lemma payload_check_accepts:
  "validate_command_payload_against_constraints l cp = Inr (True, r) \<longleftrightarrow>
     r = ''LEASE_VALID'' \<and> (\<exists>p. cp = Some p \<and> payload_authorized (lease_constraints l) p)"
proof (cases cp)
  case None
  then show ?thesis by (simp add: validate_command_payload_against_constraints_def)
next
  case (Some p)
  have "\<And>r. speed_verdict m JNull \<noteq> Inr (True, r)" for m
    by (simp add: speed_verdict_def)
  with Some show ?thesis
    by (auto simp: validate_command_payload_against_constraints_def payload_authorized_def
        requested_speed_def SUPPORTED_SPEED_PAYLOAD_FIELDS_def finite_nonnegative_number_iff
        speed_verdict_accepts split: option.splits)
qed

lemma payload_authorized_speed:
  assumes "payload_authorized c p" and "requested_speed p = Some v" and "payload_speed v = Inr (Some x)"
  obtains mx where "con_max_speed_mps c = Some mx" "float_field_ok None x" "\<not> flt_lt mx x"
proof -
  from assms(2) have "p \<noteq> []" by (auto simp: requested_speed_def dict_get_def)
  with assms that show thesis
    by (auto simp: payload_authorized_def float_field_ok_def split: option.splits)
qed

text \<open>A lease for a command, as one condition.\<close>

definition lease_window_computable :: "datetime \<Rightarrow> int \<Rightarrow> int \<Rightarrow> int \<Rightarrow> bool" where
  "lease_window_computable now max_age max_ttl skew \<longleftrightarrow>
     window_ok skew (max_age + skew) now \<and> timedelta_s max_ttl = Inr (max_ttl * 1000000) \<and>
     timedelta_s max_age = Inr (max_age * 1000000)"

lemma lease_time_violation_None_iff:
  "lease_time_violation l now max_age max_ttl skew = Inr None \<longleftrightarrow>
     lease_in_window l now max_age max_ttl skew \<and> lease_window_computable now max_age max_ttl skew"
proof
  assume *: "lease_time_violation l now max_age max_ttl skew = Inr None"
  then have "lease_window_computable now max_age max_ttl skew"
    by (auto simp: lease_time_violation_def lease_window_computable_def window_ok_def bindr_Inr_iff
        td_add_def td_check_def dt_add_def timedelta_s_def distrib_right split: if_splits)
  with * show "lease_in_window l now max_age max_ttl skew \<and> lease_window_computable now max_age max_ttl skew"
    by (simp add: lease_time_violation_None)
qed (simp add: lease_time_violation_complete lease_window_computable_def)

definition issuer_vouches :: "env \<Rightarrow> lease_checks \<Rightarrow> capability_lease \<Rightarrow> bool" where
  "issuer_vouches E k l \<longleftrightarrow>
     lease_issuer_id l \<in> lc_trusted_issuer_ids k \<and>
     lease_signature_algorithm_violation l = None \<and> \<not> lease_signed_material_too_large E l \<and>
     (\<exists>pk. issuer_key_registry (lc_trusted_issuer_ids k) (lc_issuer_public_key_b64 k)
             (lc_issuer_public_keys_by_id k) (lease_issuer_id l) = Some pk \<and>
           verify_lease_signature E l pk)"

definition policy_vouches :: "lease_checks \<Rightarrow> capability_lease \<Rightarrow> bool" where
  "policy_vouches k l \<longleftrightarrow>
     lease_policy_provenance_violation l (lc_accepted_policy_id k) (lc_accepted_policy_digests k) = None \<and>
     capability_scope_violation l (lc_accepted_capabilities k) (lc_issuer_capability_scopes k) = None \<and>
     capability_constraint_requirement_violation l (lc_requirements k) = None \<and>
     lease_constraints_valid (lease_constraints l) \<and>
     capability_constraint_bound_violation l (lc_bounds k) = None"

definition state_vouches ::
  "env \<Rightarrow> lease_checks \<Rightarrow> command_context \<Rightarrow> datetime \<Rightarrow> capability_lease \<Rightarrow> bool" where
  "state_vouches E k c now l \<longleftrightarrow>
     (case cc_current_state c of
        None \<Rightarrow> \<not> lease_requires_current_state l
      | Some s \<Rightarrow>
          (\<exists>keys. lc_state_public_keys_by_edge_id k = Some keys \<and>
             state_auth_violation E ROBOT_STATE_REQUIRED_WIRE_FIELDS keys s = None \<and>
             protocol_version s = SUPPORTED_PROTOCOL_VERSION \<and>
             state_time_violation (lc_max_state_age_seconds k) now s = Inr None \<and>
             state_satisfies l s))"

definition lease_authorizes ::
  "env \<Rightarrow> lease_checks \<Rightarrow> command_context \<Rightarrow> datetime \<Rightarrow> capability_lease \<Rightarrow> bool" where
  "lease_authorizes E k c now l \<longleftrightarrow>
     protocol_version l = SUPPORTED_PROTOCOL_VERSION \<and>
     issuer_vouches E k l \<and> policy_vouches k l \<and>
     lease_in_window l now (lc_max_lease_age_seconds k) (lc_max_lease_ttl_seconds k) LEASE_CLOCK_SKEW_SECONDS \<and>
     lease_window_computable now (lc_max_lease_age_seconds k) (lc_max_lease_ttl_seconds k)
       LEASE_CLOCK_SKEW_SECONDS \<and>
     lease_matches_context l (cc_agent_id c) (cc_edge_agent_id c) (cc_robot_id c) (cc_mission_id c)
       (cc_capability c) \<and>
     lease_id l \<notin> lc_revoked_lease_ids k \<and>
     state_vouches E k c now l \<and>
     (\<exists>p. cc_command_payload c = Some p \<and> payload_authorized (lease_constraints l) p)"

lemma guardr_accepts [res_simps]:
  "guardr v refuse rest = Inr (True, r) \<longleftrightarrow> v = Inr None \<and> rest = Inr (True, r)"
  by (auto simp: guardr_Inr_iff)

lemma current_state_verdict_accepts:
  "current_state_verdict E k c now l = Inr (True, r) \<longleftrightarrow> r = ''LEASE_VALID'' \<and> state_vouches E k c now l"
  by (auto simp: current_state_verdict_def state_vouches_def guardr_accepts lease_against_state_accepts
      protocol_version_violation_None split: option.splits if_splits)

lemma if_refuse_accepts [res_simps]:
  "(if b then Inr (refuse r') else rest) = Inr (True, r) \<longleftrightarrow> \<not> b \<and> rest = Inr (True, r)"
  by auto

lemma command_verdict_accepts:
  "bindr v (\<lambda>(ok, r). if \<not> ok then Inr (ok, r) else rest) = Inr (True, r) \<longleftrightarrow>
     (\<exists>r'. v = Inr (True, r')) \<and> rest = Inr (True, r)"
  by (cases v) (auto split: prod.splits)

lemma validate_lease_accepts:
  "validate_lease_for_command E k c now lease = Inr (True, r) \<longleftrightarrow>
     r = ''LEASE_VALID'' \<and> (\<exists>l. lease = Some l \<and> lease_authorizes E k c now l)"
proof (cases lease)
  case None
  then show ?thesis by (simp add: validate_lease_for_command_def)
next
  case (Some l)
  then show ?thesis
    by (cases "issuer_key_registry (lc_trusted_issuer_ids k) (lc_issuer_public_key_b64 k)
          (lc_issuer_public_keys_by_id k) (lease_issuer_id l)")
      (auto simp: validate_lease_for_command_def guardr_accepts if_refuse_accepts command_verdict_accepts
        current_state_verdict_accepts payload_check_accepts lease_authorizes_def issuer_vouches_def
        policy_vouches_def lease_time_violation_None_iff lease_constraints_malformed_iff
        protocol_version_violation_None)
qed

text \<open>With everything else in order, the verdict is the one on the payload.\<close>

lemma validate_reaches_payload:
  assumes "lease_authorizes E k c now l"
  shows "validate_lease_for_command E k (c\<lparr>cc_command_payload := p\<rparr>) now (Some l) =
    validate_command_payload_against_constraints l p"
proof -
  note auth = assms [unfolded lease_authorizes_def issuer_vouches_def policy_vouches_def]
  have "current_state_verdict E k (c\<lparr>cc_command_payload := p\<rparr>) now l = Inr (True, ''LEASE_VALID'')"
    using auth current_state_verdict_accepts [of E k c now l] by (simp add: current_state_verdict_def)
  moreover have "lease_time_violation l now (lc_max_lease_age_seconds k) (lc_max_lease_ttl_seconds k)
      LEASE_CLOCK_SKEW_SECONDS = Inr None"
    using auth by (simp add: lease_time_violation_None_iff)
  ultimately show ?thesis
    using auth by (auto simp: validate_lease_for_command_def lease_constraints_malformed_iff guardr_def)
qed

text \<open>
  What the bounds of the policy give for a command accepted under a lease. The bounds are objects of a
  validated class, so their numbers are finite.
\<close>

definition bounds_valid :: "capability_constraint_bounds \<Rightarrow> bool" where
  "bounds_valid b \<longleftrightarrow>
     opt_float_field_ok None (cb_max_latency_ms_p95 b) \<and>
     opt_float_field_ok (Some 100) (cb_max_packet_loss_pct b) \<and>
     opt_float_field_ok None (cb_min_uplink_mbps b) \<and>
     opt_float_field_ok None (cb_max_speed_mps b)"

text \<open>\<open>at_most v x\<close>: there is a finite bound \<open>v\<close> and the number \<open>x\<close> does not exceed it.\<close>

definition at_most :: "pyfloat option \<Rightarrow> pyfloat \<Rightarrow> bool" where
  "at_most v x \<longleftrightarrow> (\<exists>h. v = Some (Fin h) \<and> flt_le x (Fin h))"

definition at_least :: "pyfloat option \<Rightarrow> pyfloat \<Rightarrow> bool" where
  "at_least v x \<longleftrightarrow> (\<exists>h. v = Some (Fin h) \<and> flt_le (Fin h) x)"

lemma opt_field_Fin: "opt_float_field_ok hi (Some x) \<longleftrightarrow> (\<exists>q. x = Fin q \<and> 0 \<le> q \<and> (\<forall>h. hi = Some h \<longrightarrow> q \<le> h))"
  by (cases x) (auto simp: opt_float_field_ok_def float_field_ok_def split: option.splits)

lemma at_most_policy:
  assumes "opt_float_field_ok hi v" and "opt_float_field_ok hi' bound" and "float_field_ok hi'' x"
    and "\<not> max_field_exceeds_policy v bound" and "v = Some m" and "\<not> flt_lt m x"
  shows "at_most bound x"
  using assms by (cases x; cases m; cases bound)
    (auto simp: max_field_exceeds_policy_def at_most_def opt_field_Fin float_field_ok_def)

lemma at_least_policy:
  assumes "opt_float_field_ok hi v" and "opt_float_field_ok hi' bound" and "float_field_ok hi'' x"
    and "\<not> min_field_exceeds_policy v bound" and "v = Some m" and "\<not> flt_lt x m"
  shows "at_least bound x"
  using assms by (cases x; cases m; cases bound)
    (auto simp: min_field_exceeds_policy_def at_least_def opt_field_Fin float_field_ok_def)

lemma authorizes_bounds:
  assumes "lease_authorizes E k c now l"
    and "lc_bounds k = Some m" and "m (capability_str (lease_capability l)) = Some b"
  shows "\<not> capability_constraints_exceed_bounds (lease_constraints l) b"
    and "lease_constraints_valid (lease_constraints l)"
  using assms by (auto simp: lease_authorizes_def policy_vouches_def elim!: bound_accepted)

lemma authorizes_state:
  assumes "lease_authorizes E k c now l" and "cc_current_state c = Some s"
  shows "state_satisfies l s"
  using assms by (auto simp: lease_authorizes_def state_vouches_def)

lemma authorizes_requirement:
  assumes "lease_authorizes E k c now l"
  obtains m r where "lc_requirements k = Some m" "m (capability_str (lease_capability l)) = Some r"
    "crq_capability r = lease_capability l" "\<not> capability_constraints_missing (lease_constraints l) r"
  using assms by (auto simp: lease_authorizes_def policy_vouches_def elim!: requirement_accepted)

section \<open>Properties\<close>

text \<open>
  C12. The conformance check is exact: it accepts a command with a lease precisely when the lease is of
  this protocol version, vouched for by a trusted issuer's key and by the accepted policy, inside its
  validity window, bound to the command's context and not revoked, the authenticated fresh state meets
  its constraints, and the payload asks for no more than it grants. The reason is then LEASE_VALID.
\<close>

theorem lease_check_exact:
  "validate_lease_for_command E k c now lease = Inr (True, r) \<longleftrightarrow>
     r = ''LEASE_VALID'' \<and> (\<exists>l. lease = Some l \<and> lease_authorizes E k c now l)"
  by (rule validate_lease_accepts)


text \<open>
  The payload check does not always return: an integer speed of at least 2^1024 makes the conversion to a
  double raise OverflowError, where every other malformed speed is answered with COMMAND_SPEED_MALFORMED.
\<close>

lemma huge_integer_speed_raises:
  assumes "con_max_speed_mps (lease_constraints l) = Some m" and "float_field_ok None m"
    and "field \<in> SUPPORTED_SPEED_PAYLOAD_FIELDS" and "2 ^ 1024 \<le> \<bar>n\<bar>"
  shows "validate_command_payload_against_constraints l (Some [(field, JInt n)]) = Inl OverflowError"
  using assms
  by (auto simp: validate_command_payload_against_constraints_def SUPPORTED_SPEED_PAYLOAD_FIELDS_def
      finite_nonnegative_number_iff dict_get_def speed_verdict_def payload_speed_def float_of_int_overflow)

end
