(* ===== verification/Fallback.thy ===== *)
theory Fallback
  imports Freshness
begin

text \<open>
  Fallback declarations (\<^verbatim>\<open>rclp_core/fallback.py\<close>): signing by the edge agent and authentication, and
  the deterministic network profiles of \<^verbatim>\<open>rclp_core/network.py\<close>.
\<close>

section \<open>Fallback declarations\<close>

definition sign_fallback_declaration ::
  "env \<Rightarrow> fallback_declaration \<Rightarrow> string \<Rightarrow> string option \<Rightarrow> fallback_declaration" where
  "sign_fallback_declaration E d signer authenticated_declared_by =
     (let d1 = d\<lparr>fb_authenticated_declared_by := Some (or_str authenticated_declared_by (fb_declared_by d)),
                 signature_alg := ED25519_SIGNATURE_ALGORITHM, signature := None,
                 fields_set := fields_set d \<union> {''authenticated_declared_by'', ''signature_alg'', ''signature''}\<rparr>
      in d1\<lparr>signature := Some (key_sign E signer (fallback_dump E d1))\<rparr>)"

definition fallback_texts :: "fallback_declaration \<Rightarrow> string option list" where
  "fallback_texts d =
     [Some (protocol_version d), Some (message_id d), Some (correlation_id d),
      Some (isoformat (created_at d)), Some ''fallback_declaration'', Some (fb_robot_id d),
      Some (fb_edge_agent_id d), Some (fb_mission_id d), Some (fb_trigger d),
      Some (fallback_action_str (fb_fallback_action d)), Some (fb_declared_by d),
      fb_authenticated_declared_by d, fb_lease_id d, fb_decision_id d, fb_revocation_id d,
      Some (signature_alg d), signature d]"

definition fallback_declaration_signed_material_too_large :: "fallback_declaration \<Rightarrow> bool" where
  "fallback_declaration_signed_material_too_large d =
     (if (case signature d of None \<Rightarrow> False | Some s \<Rightarrow> ED25519_SIGNATURE_B64_MAX_TEXT_BYTES < length s)
      then True else budget_loop 0 (fallback_texts d))"

definition fallback_declaration_auth_violation ::
  "env \<Rightarrow> (string \<rightharpoonup> string) \<Rightarrow> fallback_declaration \<Rightarrow> violation" where
  "fallback_declaration_auth_violation E edge_public_keys_by_id d =
     guardv (signature_algorithm_violation d ''FALLBACK_SIGNATURE_ALGORITHM_MISSING''
               ''FALLBACK_SIGNATURE_ALGORITHM_UNSUPPORTED'') Some
     (case fb_authenticated_declared_by d of
        None \<Rightarrow> Some ''FALLBACK_AUTHENTICATED_DECLARED_BY_MISSING''
      | Some i \<Rightarrow>
          if i \<noteq> fb_declared_by d then Some ''FALLBACK_AUTHENTICATED_DECLARED_BY_MISMATCH''
          else (case signature d of
                  None \<Rightarrow> Some ''FALLBACK_SIGNATURE_MISSING''
                | Some sig \<Rightarrow>
                    (case edge_public_keys_by_id i of
                       None \<Rightarrow> Some ''FALLBACK_DECLARER_KEY_NOT_TRUSTED''
                     | Some public_key \<Rightarrow>
                         if fallback_declaration_signed_material_too_large d
                         then Some ''FALLBACK_SIGNED_MATERIAL_TOO_LARGE''
                         else if \<not> verify_with_public_key_b64 E (fallback_dump E d) sig public_key
                         then Some ''FALLBACK_SIGNATURE_INVALID''
                         else None)))"

interpretation fallback_auth: authentication_check E "fallback_declaration_auth_violation E" None
  fb_declared_by signature "fallback_dump E"
  for E
  by unfold_locales
    (auto simp: fallback_declaration_auth_violation_def guardv_def split: if_splits option.splits)

lemma fallback_canonical_signature:
  "canonical_json E (fallback_dump E (d\<lparr>signature := s\<rparr>)) = canonical_json E (fallback_dump E d)"
  by (simp add: canonical_json_def dump_defs)

section \<open>Network profiles\<close>

definition profile_state :: "network_profile \<Rightarrow> bool \<Rightarrow> rat \<Rightarrow> rat \<Rightarrow> rat \<Rightarrow> datetime \<Rightarrow> network_state" where
  "profile_state p att lat loss up t =
     \<lparr>net_fields_set = {''profile'', ''attached'', ''latency_ms_p95'', ''packet_loss_pct'', ''uplink_mbps''},
      net_profile = p, attached = att, latency_ms_p95 = Fin lat, packet_loss_pct = Fin loss,
      uplink_mbps = Fin up, net_observed_at = t\<rparr>"

text \<open>
  The table is built once, at import time: \<open>t p\<close> is the time at which the state of profile \<open>p\<close> was made,
  its default observation time. The decimal literals stand for the doubles nearest to them.
\<close>

definition PROFILES :: "(network_profile \<Rightarrow> datetime) \<Rightarrow> network_profile \<rightharpoonup> network_state" where
  "PROFILES t = [NORMAL \<mapsto> profile_state NORMAL True 45 0.1 8 (t NORMAL),
                 DEGRADED_TELEOP \<mapsto> profile_state DEGRADED_TELEOP True 180 3.5 1 (t DEGRADED_TELEOP),
                 UPLINK_BAD \<mapsto> profile_state UPLINK_BAD True 70 0.5 0.6 (t UPLINK_BAD),
                 PARTITION \<mapsto> profile_state PARTITION False 9999 100 0 (t PARTITION)]"

definition network_profile_of_str :: "string \<Rightarrow> network_profile option" where
  "network_profile_of_str s =
     find (\<lambda>p. network_profile_str p = s) [NET_UNKNOWN, NORMAL, DEGRADED_TELEOP, UPLINK_BAD, PARTITION]"

definition profile :: "(network_profile \<Rightarrow> datetime) \<Rightarrow> string \<Rightarrow> network_state res" where
  "profile t name =
     (case network_profile_of_str name of
        None \<Rightarrow> Inl (ValueError (name @ '' is not a valid NetworkProfile''))
      | Some p \<Rightarrow>
          (case PROFILES t p of
             None \<Rightarrow> Inl (KeyError (''unknown deterministic network profile: '' @ name))
           | Some n \<Rightarrow> Inr n))"

definition profile_names :: "string list" where
  "profile_names = map network_profile_str [NORMAL, DEGRADED_TELEOP, UPLINK_BAD, PARTITION]"

lemma network_profile_str_inject [simp]: "network_profile_str a = network_profile_str b \<longleftrightarrow> a = b"
  by (cases a; cases b) auto

lemma network_profile_of_str_Some [simp]:
  "network_profile_of_str s = Some p \<longleftrightarrow> s = network_profile_str p"
proof
  assume "network_profile_of_str s = Some p"
  then show "s = network_profile_str p"
    by (auto simp: network_profile_of_str_def split: if_splits)
next
  assume "s = network_profile_str p"
  then show "network_profile_of_str s = Some p"
    by (cases p) (simp_all add: network_profile_of_str_def)
qed

lemma profile_Inr_iff:
  "profile t name = Inr n \<longleftrightarrow> (\<exists>p. name = network_profile_str p \<and> PROFILES t p = Some n)"
proof -
  have "network_profile_of_str name = None \<Longrightarrow> name \<noteq> network_profile_str p" for p
    using network_profile_of_str_Some [of name p] by auto
  then show ?thesis
    by (auto simp: profile_def split: option.splits)
qed

lemma PROFILES_valid: "PROFILES t p = Some n \<Longrightarrow> network_state_valid n \<and> net_profile n = p"
  by (cases p) (auto simp: PROFILES_def profile_state_def network_state_valid_def float_field_ok_def)

lemma PROFILES_defined: "(\<exists>n. PROFILES t p = Some n) \<longleftrightarrow> p \<noteq> NET_UNKNOWN"
  by (cases p) (auto simp: PROFILES_def)

lemma profile_names_iff: "network_profile_str p \<in> set profile_names \<longleftrightarrow> p \<noteq> NET_UNKNOWN"
  by (cases p) (auto simp: profile_names_def)

lemma profile_defined_iff: "(\<exists>n. profile t name = Inr n) \<longleftrightarrow> name \<in> set profile_names"
proof -
  have "set profile_names \<subseteq> range network_profile_str"
    by (auto simp: profile_names_def simp del: network_profile_str.simps)
  then show ?thesis
    using PROFILES_defined [of t] profile_names_iff by (auto simp: profile_Inr_iff)
qed

end
