(* ===== verification/Command_Gate.thy ===== *)
theory Command_Gate
  imports Gate_Stores Audit_Log Conformance Fallback
begin

text \<open>
  The command gate (\<^verbatim>\<open>rclp_ros2/command_gate.py\<close>, class \<^verbatim>\<open>CommandGate\<close>) and the daemon that owns it
  (\<^verbatim>\<open>rclp_agents/edge_agent_daemon.py\<close>): the constructor's checks, revocation, and the evaluation of a
  command with every rejection path, audit record and fallback declaration. A handler is an operation
  on the gate's state; what it wrote before an exception stays.
\<close>

definition DEFAULT_REVOCATION_MAX_AGE_SECONDS :: int where
  "DEFAULT_REVOCATION_MAX_AGE_SECONDS = 300"

definition REVOCATION_CLOCK_SKEW_SECONDS :: int where
  "REVOCATION_CLOCK_SKEW_SECONDS = 30"

definition DEFAULT_COMMAND_MAX_AGE_SECONDS :: int where
  "DEFAULT_COMMAND_MAX_AGE_SECONDS = 30"

definition COMMAND_CLOCK_SKEW_SECONDS :: int where
  "COMMAND_CLOCK_SKEW_SECONDS = 30"

definition DEFAULT_LOCAL_FALLBACK_ACTIONS_BY_REASON :: "string \<rightharpoonup> fallback_action" where
  "DEFAULT_LOCAL_FALLBACK_ACTIONS_BY_REASON =
     [''NETWORK_LATENCY_TOO_HIGH'' \<mapsto> CRAWL_TO_SAFE_ZONE,
      ''NETWORK_PACKET_LOSS_TOO_HIGH'' \<mapsto> CRAWL_TO_SAFE_ZONE,
      ''NETWORK_UPLINK_TOO_LOW'' \<mapsto> CRAWL_TO_SAFE_ZONE,
      ''NETWORK_DETACHED'' \<mapsto> CRAWL_TO_SAFE_ZONE,
      ''NETWORK_STATE_UNKNOWN'' \<mapsto> CRAWL_TO_SAFE_ZONE,
      ''NETWORK_PROFILE_REVOKE'' \<mapsto> CRAWL_TO_SAFE_ZONE,
      ''NETWORK_DEGRADED_REVOKE'' \<mapsto> CRAWL_TO_SAFE_ZONE,
      ''GEOFENCE_CONSTRAINT_VIOLATED'' \<mapsto> HOLD_POSITION]"

definition STATE_FALLBACK_DENIAL_REASONS :: "string set" where
  "STATE_FALLBACK_DENIAL_REASONS =
     {''NETWORK_LATENCY_TOO_HIGH'', ''NETWORK_PACKET_LOSS_TOO_HIGH'', ''NETWORK_UPLINK_TOO_LOW'',
      ''NETWORK_DETACHED'', ''NETWORK_STATE_UNKNOWN'', ''GEOFENCE_CONSTRAINT_VIOLATED''}"

section \<open>Configuration and state\<close>

text \<open>
  What the constructor is given. The signer and the sink of fallback declarations are functions of the
  caller's that may raise.
\<close>

record gate_args =
  ga_issuer_public_key_b64 :: string
  ga_local_edge_agent_id :: string
  ga_trusted_issuer_ids :: "string set"
  ga_trusted_revoker_ids :: "string set"
  ga_accepted_capabilities :: "string set option"
  ga_accepted_policy_id :: "string option"
  ga_accepted_policy_digests :: "string set option"
  ga_issuer_capability_scopes :: "(string \<rightharpoonup> string set) option"
  ga_requirements :: "(string \<rightharpoonup> capability_constraint_requirement) option"
  ga_bounds :: "(string \<rightharpoonup> capability_constraint_bounds) option"
  ga_agent_public_keys_by_id :: "(string \<rightharpoonup> string) option"
  ga_issuer_public_keys_by_id :: "(string \<rightharpoonup> string) option"
  ga_revoker_public_keys_by_id :: "(string \<rightharpoonup> string) option"
  ga_revoker_edge_scopes_by_id :: "(string \<rightharpoonup> string set) option"
  ga_state_public_keys_by_edge_id :: "(string \<rightharpoonup> string) option"
  ga_fallback_sink :: "(fallback_declaration \<Rightarrow> unit res) option"
  ga_fallback_actions_by_reason :: "(string \<rightharpoonup> fallback_action) option"
  ga_max_lease_age_seconds :: int
  ga_max_lease_ttl_seconds :: int
  ga_max_state_age_seconds :: int
  ga_max_command_age_seconds :: int
  ga_max_revocation_age_seconds :: int
  ga_fallback_signer :: "(fallback_declaration \<Rightarrow> string res) option"
  ga_fallback_authenticated_declared_by :: "string option"

text \<open>What the gate keeps and never changes.\<close>

record command_gate =
  local_edge_agent_id :: string
  issuer_public_key_b64 :: string
  trusted_issuer_ids :: "string set"
  accepted_capabilities :: "string set"
  accepted_policy_id :: string
  accepted_policy_digests :: "string set"
  issuer_capability_scopes :: "string \<rightharpoonup> string set"
  capability_constraint_requirements :: "string \<rightharpoonup> capability_constraint_requirement"
  capability_constraint_bounds_by_id :: "string \<rightharpoonup> capability_constraint_bounds"
  agent_public_keys_by_id :: "string \<rightharpoonup> string"
  issuer_public_keys_by_id :: "string \<rightharpoonup> string"
  trusted_revoker_ids :: "string set"
  revoker_public_keys_by_id :: "string \<rightharpoonup> string"
  revoker_edge_scopes_by_id :: "string \<rightharpoonup> string set"
  state_public_keys_by_edge_id :: "string \<rightharpoonup> string"
  fallback_actions_by_reason :: "string \<rightharpoonup> fallback_action"
  max_lease_age_seconds :: int
  max_lease_ttl_seconds :: int
  max_state_age_seconds :: int
  max_command_age_seconds :: int
  max_revocation_age_seconds :: int
  fallback_sink :: "(fallback_declaration \<Rightarrow> unit res) option"
  fallback_signer :: "(fallback_declaration \<Rightarrow> string res) option"
  fallback_authenticated_declared_by :: "string option"

text \<open>
  What it changes. \<open>gs_delivered\<close> lists the declarations handed to the sink, in order; \<open>gs_world\<close> counts
  clock readings and drawn identifiers.
\<close>

record gate_state =
  gs_command_replay_cache :: command_replay_cache
  gs_revocation_store :: revocation_store
  gs_revocations :: "string \<rightharpoonup> revoked_lease"
  gs_fallback_events :: "fallback_declaration list"
  gs_audit_log :: audit_log
  gs_delivered :: "fallback_declaration list"
  gs_world :: world

text \<open>\<open>falsy_set v\<close> is \<^verbatim>\<open>not v\<close> for an optional set.\<close>

definition falsy_set :: "'a set option \<Rightarrow> bool" where
  "falsy_set v = (case v of None \<Rightarrow> True | Some s \<Rightarrow> s = {})"

definition or_map :: "('a \<rightharpoonup> 'b) option \<Rightarrow> ('a \<rightharpoonup> 'b) \<Rightarrow> ('a \<rightharpoonup> 'b)" where
  "or_map v d = (case v of None \<Rightarrow> d | Some m \<Rightarrow> if m = Map.empty then d else m)"

text \<open>
  The refusals of the constructor in order. The last two loops run over sets; when both tables have
  gaps, which of the two messages is raised depends on the iteration order.
\<close>

definition gate_args_violation ::
  "gate_args \<Rightarrow> command_replay_cache option \<Rightarrow> revocation_store option \<Rightarrow> violation" where
  "gate_args_violation a cache store =
     (if py_blank (ga_local_edge_agent_id a) then Some ''local_edge_agent_id is required''
      else if ga_trusted_issuer_ids a = {}
      then Some ''trusted_issuer_ids must name at least one lease issuer''
      else if ga_trusted_revoker_ids a = {}
      then Some ''trusted_revoker_ids must name at least one revocation actor''
      else if falsy_set (ga_accepted_capabilities a)
      then Some ''accepted_capabilities must name at least one local capability''
      else if (case ga_accepted_policy_id a of None \<Rightarrow> True | Some i \<Rightarrow> py_blank i)
      then Some ''accepted_policy_id is required''
      else if falsy_set (ga_accepted_policy_digests a)
      then Some ''accepted_policy_digests must name at least one accepted policy''
      else if (\<exists>d \<in> the (ga_accepted_policy_digests a). py_blank d)
      then Some ''accepted_policy_digests must not contain blank digests''
      else if ga_issuer_capability_scopes a = None then Some ''issuer_capability_scopes is required''
      else if ga_requirements a = None then Some ''capability_constraint_requirements is required''
      else if ga_bounds a = None then Some ''capability_constraint_bounds is required''
      else if (case ga_agent_public_keys_by_id a of None \<Rightarrow> True | Some m \<Rightarrow> m = Map.empty)
      then Some ''agent_public_keys_by_id must name at least one command agent key''
      else if (case cache of None \<Rightarrow> True | Some c \<Rightarrow> \<not> command_cache_durable c)
      then Some ''durable command_replay_cache is required''
      else if (case store of None \<Rightarrow> True | Some s \<Rightarrow> \<not> revocation_store_durable s)
      then Some ''durable revocation_store is required''
      else if ga_issuer_public_keys_by_id a = None \<and> card (ga_trusted_issuer_ids a) \<noteq> 1
      then Some ''issuer_public_keys_by_id is required for multiple lease issuers''
      else if (\<exists>i \<in> ga_trusted_issuer_ids a. falsy_set (the (ga_issuer_capability_scopes a) i))
      then Some ''issuer_capability_scopes must scope every trusted issuer''
      else if (\<exists>c \<in> the (ga_accepted_capabilities a).
                 case the (ga_requirements a) c of None \<Rightarrow> True
                 | Some r \<Rightarrow> capability_str (crq_capability r) \<noteq> c)
      then Some ''capability_constraint_requirements must cover every accepted capability''
      else if (\<exists>c \<in> the (ga_accepted_capabilities a).
                 case the (ga_bounds a) c of None \<Rightarrow> True
                 | Some b \<Rightarrow> capability_str (cb_capability b) \<noteq> c)
      then Some ''capability_constraint_bounds must cover every accepted capability''
      else None)"

definition revoker_scopes :: "gate_args \<Rightarrow> string \<rightharpoonup> string set" where
  "revoker_scopes a r =
     (if r \<in> ga_trusted_revoker_ids a
      then (case ga_revoker_edge_scopes_by_id a of
              None \<Rightarrow> Some {r}
            | Some m \<Rightarrow> (case m r of None \<Rightarrow> Some {r} | Some s \<Rightarrow> Some s))
      else None)"

text \<open>\<open>first_of\<close> is \<^verbatim>\<open>next(iter(s))\<close>, the element of a set that the interpreter iterates first.\<close>

definition gate_of_args :: "(string set \<Rightarrow> string) \<Rightarrow> gate_args \<Rightarrow> command_gate" where
  "gate_of_args first_of a =
     \<lparr>local_edge_agent_id = ga_local_edge_agent_id a,
      issuer_public_key_b64 = ga_issuer_public_key_b64 a,
      trusted_issuer_ids = ga_trusted_issuer_ids a,
      accepted_capabilities = the (ga_accepted_capabilities a),
      accepted_policy_id = the (ga_accepted_policy_id a),
      accepted_policy_digests = the (ga_accepted_policy_digests a),
      issuer_capability_scopes = the (ga_issuer_capability_scopes a),
      capability_constraint_requirements = the (ga_requirements a),
      capability_constraint_bounds_by_id = the (ga_bounds a),
      agent_public_keys_by_id = the (ga_agent_public_keys_by_id a),
      issuer_public_keys_by_id =
        or_map (ga_issuer_public_keys_by_id a)
          [first_of (ga_trusted_issuer_ids a) \<mapsto> ga_issuer_public_key_b64 a],
      trusted_revoker_ids = ga_trusted_revoker_ids a,
      revoker_public_keys_by_id = or_map (ga_revoker_public_keys_by_id a) Map.empty,
      revoker_edge_scopes_by_id = revoker_scopes a,
      state_public_keys_by_edge_id = or_map (ga_state_public_keys_by_edge_id a) Map.empty,
      fallback_actions_by_reason =
        DEFAULT_LOCAL_FALLBACK_ACTIONS_BY_REASON ++ or_map (ga_fallback_actions_by_reason a) Map.empty,
      max_lease_age_seconds = ga_max_lease_age_seconds a,
      max_lease_ttl_seconds = ga_max_lease_ttl_seconds a,
      max_state_age_seconds = ga_max_state_age_seconds a,
      max_command_age_seconds = ga_max_command_age_seconds a,
      max_revocation_age_seconds = ga_max_revocation_age_seconds a,
      fallback_sink = ga_fallback_sink a, fallback_signer = ga_fallback_signer a,
      fallback_authenticated_declared_by = ga_fallback_authenticated_declared_by a\<rparr>"

definition CommandGate ::
  "(string set \<Rightarrow> string) \<Rightarrow> gate_args \<Rightarrow> command_replay_cache option \<Rightarrow> revocation_store option
    \<Rightarrow> audit_log option \<Rightarrow> world \<Rightarrow> (command_gate \<times> gate_state) res" where
  "CommandGate first_of a cache store lg w =
     (case gate_args_violation a cache store of
        Some msg \<Rightarrow> Inl (ValueError msg)
      | None \<Rightarrow> Inr (gate_of_args first_of a,
          \<lparr>gs_command_replay_cache = the cache, gs_revocation_store = the store,
           gs_revocations = load_all (the store), gs_fallback_events = [],
           gs_audit_log = (case lg of None \<Rightarrow> AuditLog | Some x \<Rightarrow> x), gs_delivered = [],
           gs_world = w\<rparr>))"

definition revoked_lease_ids :: "gate_state \<Rightarrow> string set" where
  "revoked_lease_ids s = dom (gs_revocations s)"

section \<open>Primitive steps\<close>

definition gate_now :: "env \<Rightarrow> datetime option \<Rightarrow> (gate_state, datetime) op" where
  "gate_now E now s = (let (n, w) = now_or_clock E now (gs_world s) in (Inr n, s\<lparr>gs_world := w\<rparr>))"

definition gate_record :: "env \<Rightarrow> audit_entry \<Rightarrow> (gate_state, audit_commit) op" where
  "gate_record E n s =
     (let (r, lg, w) = audit_record E n (gs_audit_log s) (gs_world s)
      in (r, s\<lparr>gs_audit_log := lg, gs_world := w\<rparr>))"

text \<open>An audit entry of the gate with the defaults of \<^verbatim>\<open>record\<close> for what is not given.\<close>

definition gate_entry ::
  "audit_event_type \<Rightarrow> string \<Rightarrow> string \<Rightarrow> string \<Rightarrow> string \<Rightarrow> string \<Rightarrow> dump \<Rightarrow> string list \<Rightarrow> audit_entry" where
  "gate_entry ty actor robot mission corr summary payload related =
     \<lparr>en_event_type = ty, en_actor_id = actor, en_summary = summary, en_correlation_id = corr,
      en_robot_id = Some robot, en_mission_id = Some mission, en_payload = payload,
      en_authority_relevant = True, en_policy_id = None, en_policy_digest = None,
      en_state_refs = [], en_related_message_ids = related\<rparr>"

definition diagnostic_entry :: "string \<Rightarrow> string \<Rightarrow> dump \<Rightarrow> audit_entry" where
  "diagnostic_entry corr summary payload =
     \<lparr>en_event_type = DIAGNOSTIC, en_actor_id = ''local_command_gate'', en_summary = summary,
      en_correlation_id = corr, en_robot_id = None, en_mission_id = None, en_payload = payload,
      en_authority_relevant = False, en_policy_id = None, en_policy_digest = None,
      en_state_refs = [], en_related_message_ids = []\<rparr>"

definition remember_op :: "env \<Rightarrow> edge_command \<Rightarrow> (gate_state, bool) op" where
  "remember_op E cmd s =
     (let (ok, c, w) = remember E cmd (gs_command_replay_cache s) (gs_world s)
      in (Inr ok, s\<lparr>gs_command_replay_cache := c, gs_world := w\<rparr>))"

definition remember_use_op ::
  "env \<Rightarrow> edge_command \<Rightarrow> capability_lease \<Rightarrow> (gate_state, bool \<times> reason) op" where
  "remember_use_op E cmd l s =
     (let (r, c, w) = remember_authorized_use E cmd l (gs_command_replay_cache s) (gs_world s)
      in (Inr r, s\<lparr>gs_command_replay_cache := c, gs_world := w\<rparr>))"

definition revocation_record_op :: "env \<Rightarrow> revoked_lease \<Rightarrow> (gate_state, bool) op" where
  "revocation_record_op E r s =
     (let (res, st, w) = revocation_record E r (gs_revocation_store s) (gs_world s)
      in (res, s\<lparr>gs_revocation_store := st, gs_world := w\<rparr>))"

section \<open>Fallback declarations\<close>

definition local_fallback_action :: "command_gate \<Rightarrow> reason \<Rightarrow> fallback_action" where
  "local_fallback_action g reason =
     (case fallback_actions_by_reason g reason of None \<Rightarrow> LOCAL_AUTONOMY_ONLY | Some a \<Rightarrow> a)"

text \<open>The constructor call of a declaration: the message id is drawn, then the clock is read.\<close>

definition new_declaration ::
  "env \<Rightarrow> string \<Rightarrow> string \<Rightarrow> string \<Rightarrow> string \<Rightarrow> string \<Rightarrow> fallback_action \<Rightarrow> string option \<Rightarrow> string option
    \<Rightarrow> (gate_state, fallback_declaration) op" where
  "new_declaration E corr robot edge mission trigger action lid rid s =
     (let w = gs_world s in
      (Inr \<lparr>protocol_version = SUPPORTED_PROTOCOL_VERSION, message_id = uuid_text E ''msg_'' w,
            correlation_id = corr, created_at = utc_now E w,
            fields_set = {''correlation_id'', ''robot_id'', ''edge_agent_id'', ''mission_id'', ''trigger'',
              ''fallback_action'', ''declared_by'', ''lease_id'', ''revocation_id''},
            signature_alg = ED25519_SIGNATURE_ALGORITHM, signature = None,
            fb_robot_id = robot, fb_edge_agent_id = edge, fb_mission_id = mission, fb_trigger = trigger,
            fb_fallback_action = action, fb_declared_by = edge, fb_authenticated_declared_by = None,
            fb_lease_id = lid, fb_decision_id = None, fb_revocation_id = rid\<rparr>,
       s\<lparr>gs_world := tick (draw w)\<rparr>))"

text \<open>Signing changes the declaration the caller holds, so emitting returns it.\<close>

definition sign_declaration :: "command_gate \<Rightarrow> fallback_declaration \<Rightarrow> fallback_declaration res" where
  "sign_declaration g d =
     (case fallback_signer g of
        None \<Rightarrow> Inr d
      | Some signer \<Rightarrow>
          (let d1 = d\<lparr>fb_authenticated_declared_by :=
                        Some (or_str (fallback_authenticated_declared_by g) (fb_declared_by d)),
                      signature_alg := ED25519_SIGNATURE_ALGORITHM, signature := None,
                      fields_set := fields_set d \<union>
                        {''authenticated_declared_by'', ''signature_alg'', ''signature''}\<rparr>
           in bindr (signer d1) (\<lambda>sig. Inr (d1\<lparr>signature := Some sig\<rparr>))))"

definition deliver :: "command_gate \<Rightarrow> fallback_declaration \<Rightarrow> (gate_state, unit) op" where
  "deliver g d s =
     (case fallback_sink g of
        None \<Rightarrow> (Inr (), s)
      | Some sink \<Rightarrow> (sink d, s\<lparr>gs_delivered := gs_delivered s @ [d]\<rparr>))"

definition emit_fallback :: "env \<Rightarrow> command_gate \<Rightarrow> fallback_declaration \<Rightarrow> (gate_state, fallback_declaration) op" where
  "emit_fallback E g declaration =
     bindo (liftr (sign_declaration g declaration)) (\<lambda>d.
     bindo (modify (\<lambda>s. s\<lparr>gs_fallback_events := gs_fallback_events s @ [d]\<rparr>)) (\<lambda>_.
     bindo (gate_record E (gate_entry FALLBACK_DECLARED (fb_declared_by d) (fb_robot_id d) (fb_mission_id d)
              (correlation_id d)
              (''fallback '' @ fallback_action_str (fb_fallback_action d) @ '' declared after '' @ fb_trigger d)
              (fallback_dump E d)
              (List.map_filter id [fb_lease_id d, fb_decision_id d, fb_revocation_id d]))) (\<lambda>_.
     bindo (deliver g d) (\<lambda>_. ret d))))"

section \<open>Authentication of commands and revocations\<close>

definition command_time_violation :: "int \<Rightarrow> datetime \<Rightarrow> edge_command \<Rightarrow> violation res" where
  "command_time_violation max_age now cmd =
     stamp_violation ''COMMAND_TIMESTAMP_INVALID'' ''COMMAND_NOT_YET_VALID'' ''COMMAND_STALE''
       COMMAND_CLOCK_SKEW_SECONDS (max_age + COMMAND_CLOCK_SKEW_SECONDS) now (created_at cmd)"

text \<open>
  The part of \<^verbatim>\<open>_command_auth_violation\<close> before the time check. What measuring the payload raises, it raises.
\<close>

definition command_signature_violation ::
  "env \<Rightarrow> (string \<rightharpoonup> string) \<Rightarrow> edge_command \<Rightarrow> violation res" where
  "command_signature_violation E keys cmd =
     guardr (Inr (protocol_version_violation [protocol_version cmd])) Some
     (if py_blank (command_id cmd) then Inr (Some ''COMMAND_ID_MISSING'')
      else if py_blank (command_nonce cmd) then Inr (Some ''COMMAND_NONCE_MISSING'')
      else (case cmd_authenticated_agent_id cmd of
        None \<Rightarrow> Inr (Some ''COMMAND_AUTHENTICATED_AGENT_MISSING'')
      | Some a \<Rightarrow>
          if a \<noteq> cmd_agent_id cmd then Inr (Some ''COMMAND_AUTHENTICATED_AGENT_MISMATCH'')
          else (case keys a of
            None \<Rightarrow> Inr (Some ''COMMAND_AGENT_KEY_NOT_TRUSTED'')
          | Some public_key \<Rightarrow>
              guardr (Inr (signature_algorithm_violation cmd ''COMMAND_SIGNATURE_ALGORITHM_MISSING''
                        ''COMMAND_SIGNATURE_ALGORITHM_UNSUPPORTED'')) Some
              (case signature cmd of
                 None \<Rightarrow> Inr (Some ''COMMAND_SIGNATURE_MISSING'')
               | Some sig \<Rightarrow>
                   bindr (signed_command_material_budget_violation E cmd) (\<lambda>too_large.
                   if too_large then Inr (Some ''COMMAND_SIGNED_MATERIAL_TOO_LARGE'')
                   else if unb64 sig = Inl BinasciiError then Inr (Some ''COMMAND_SIGNATURE_INVALID'')
                   else if \<not> verify_with_public_key_b64 E (command_dump E cmd) sig public_key
                   then Inr (Some ''COMMAND_SIGNATURE_INVALID'')
                   else Inr None)))))"

definition command_auth_violation ::
  "env \<Rightarrow> command_gate \<Rightarrow> edge_command \<Rightarrow> datetime option \<Rightarrow> (gate_state, violation) op" where
  "command_auth_violation E g cmd now =
     bindo (liftr (command_signature_violation E (agent_public_keys_by_id g) cmd)) (\<lambda>signature_reason.
     checko signature_reason (\<lambda>r. ret (Some r))
     (bindo (gate_now E now) (\<lambda>n.
        liftr (command_time_violation (max_command_age_seconds g) n cmd))))"

definition revocation_time_violation :: "int \<Rightarrow> datetime \<Rightarrow> lease_revocation \<Rightarrow> violation res" where
  "revocation_time_violation max_age now r =
     guardr (first_violation
       (stamp_violation ''REVOCATION_TIMESTAMP_INVALID'' ''REVOCATION_NOT_YET_VALID'' ''REVOCATION_STALE''
          REVOCATION_CLOCK_SKEW_SECONDS (max_age + REVOCATION_CLOCK_SKEW_SECONDS) now)
       [created_at r, rev_revoked_at r]) Some
     (bindr (timedelta_s REVOCATION_CLOCK_SKEW_SECONDS) (\<lambda>skew.
        bindr (dt_add (created_at r) (- skew)) (\<lambda>earliest.
          bindr (dt_lt (rev_revoked_at r) earliest) (\<lambda>bad.
            if bad then Inr (Some ''REVOCATION_TIME_INCONSISTENT'') else Inr None))))"

interpretation command_fresh: freshness_check "command_time_violation max_age" "\<lambda>c. [created_at c]"
  COMMAND_CLOCK_SKEW_SECONDS "max_age + COMMAND_CLOCK_SKEW_SECONDS" "\<lambda>c. True"
  for max_age
  by unfold_locales (auto simp: command_time_violation_def stamp_violation_None_iff)

text \<open>The two dates of a revocation have to agree, and the earlier bound has to exist as a date.\<close>

definition revocation_consistent :: "lease_revocation \<Rightarrow> bool" where
  "revocation_consistent r \<longleftrightarrow>
     30000000 \<le> wall (created_at r) \<and> wall (created_at r) < dt_limit \<and>
     instant (created_at r) - 30000000 \<le> instant (rev_revoked_at r)"

interpretation revocation_fresh: freshness_check "revocation_time_violation max_age"
  "\<lambda>r. [created_at r, rev_revoked_at r]" REVOCATION_CLOCK_SKEW_SECONDS
  "max_age + REVOCATION_CLOCK_SKEW_SECONDS" revocation_consistent
  for max_age
proof unfold_locales
  fix now r t
  assume "revocation_time_violation max_age now r = Inr None" "t \<in> set [created_at r, rev_revoked_at r]"
  then show "fresh REVOCATION_CLOCK_SKEW_SECONDS (max_age + REVOCATION_CLOCK_SKEW_SECONDS) now t"
    by (auto simp: revocation_time_violation_def guardr_None_iff stamp_violation_None_iff)
next
  fix now r
  assume w: "window_ok REVOCATION_CLOCK_SKEW_SECONDS (max_age + REVOCATION_CLOCK_SKEW_SECONDS) now"
    and f: "\<forall>t \<in> set [created_at r, rev_revoked_at r].
      fresh REVOCATION_CLOCK_SKEW_SECONDS (max_age + REVOCATION_CLOCK_SKEW_SECONDS) now t"
    and c: "revocation_consistent r"
  from f have aware: "\<not> dt_naive (created_at r)" "\<not> dt_naive (rev_revoked_at r)" by (simp_all add: fresh_def)
  from w have skew: "timedelta_s REVOCATION_CLOCK_SKEW_SECONDS = Inr 30000000"
    by (simp add: window_ok_def REVOCATION_CLOCK_SKEW_SECONDS_def)
  show "revocation_time_violation max_age now r = Inr None"
    using w f c aware instant_add [of "created_at r" "- 30000000"]
    by (simp add: revocation_time_violation_def stamp_violation_None_iff guardr_None_iff skew dt_add_def
        dt_lt_def revocation_consistent_def)
qed simp

interpretation command_auth: authentication_check E "command_signature_violation E" "Inr None"
  cmd_agent_id signature "command_dump E"
  for E
  by unfold_locales
    (auto simp: command_signature_violation_def guardr_None_iff bindr_Inr_iff
      split: if_splits option.splits)

section \<open>Revocation\<close>

datatype revocation_arg = RawRevocation string | Revocation lease_revocation

definition revoked_lease_of :: "lease_revocation \<Rightarrow> capability_lease option \<Rightarrow> revoked_lease" where
  "revoked_lease_of r lease =
     (let f = (\<lambda>sel. case lease of None \<Rightarrow> [] | Some l \<Rightarrow> sel l) in
      \<lparr>rl_lease_id = rev_lease_id r, rl_issuer_id = f lease_issuer_id, rl_agent_id = f lease_agent_id,
       rl_edge_agent_id = f lease_edge_agent_id, rl_robot_id = f lease_robot_id,
       rl_mission_id = f lease_mission_id, rl_capability = f (\<lambda>l. capability_str (lease_capability l)),
       rl_reason_code = rev_reason_code r, rl_fallback_action = Some (rev_fallback_action r),
       rl_revocation_id = Some (message_id r), rl_correlation_id = Some (correlation_id r)\<rparr>)"

text \<open>\<^verbatim>\<open>[record.revocation_id] if record.revocation_id else []\<close>.\<close>

definition revocation_refs :: "lease_revocation \<Rightarrow> string list" where
  "revocation_refs r = (if message_id r = [] then [] else [message_id r])"

definition record_revocation_rejected ::
  "env \<Rightarrow> lease_revocation \<Rightarrow> capability_lease \<Rightarrow> reason \<Rightarrow> string \<Rightarrow> bool \<Rightarrow> (gate_state, audit_commit) op" where
  "record_revocation_rejected E r l reason_code summary authenticated_actor =
     gate_record E (gate_entry REVOCATION_REJECTED
       (if authenticated_actor then rev_revoked_by r else ''local_command_gate'')
       (lease_robot_id l) (lease_mission_id l) (or_str (Some (correlation_id r)) (lease_id l)) summary
       ([(''lease_id'', JStr (rev_lease_id r)), (''revocation_id'', JStr (message_id r))]
        @ (if authenticated_actor then [(''revoked_by'', JStr (rev_revoked_by r))]
           else [(''claimed_revoked_by'', bounded_diagnostic_text E (Some (rev_revoked_by r)))])
        @ [(''reason_code'', JStr reason_code)])
       (if authenticated_actor then [message_id r] else []))"

definition revocation_context_conflicts :: "lease_revocation \<Rightarrow> capability_lease \<Rightarrow> bool" where
  "revocation_context_conflicts r l \<longleftrightarrow>
     rev_edge_agent_id r \<noteq> lease_edge_agent_id l \<or>
     rev_robot_id r \<noteq> None \<and> rev_robot_id r \<noteq> Some (lease_robot_id l) \<or>
     rev_mission_id r \<noteq> None \<and> rev_mission_id r \<noteq> Some (lease_mission_id l) \<or>
     rev_capability r \<noteq> None \<and> rev_capability r \<noteq> Some (lease_capability l)"

abbreviation (input) reject_with :: "(gate_state, audit_commit) op \<Rightarrow> string \<Rightarrow> (gate_state, 'a) op" where
  "reject_with rec msg \<equiv> seqo rec (raise (ValueError msg))"

text \<open>The claimed identifier is the argument of the call, which no class has validated.\<close>

definition revoke_raw :: "env \<Rightarrow> string \<Rightarrow> capability_lease option \<Rightarrow> (gate_state, fallback_declaration option) op" where
  "revoke_raw E claimed lease =
     seqo (case lease of
        None \<Rightarrow> ret ()
      | Some l \<Rightarrow>
          bindo (liftr (utf8_encode claimed)) (\<lambda>_.
          bindo (gate_record E (gate_entry REVOCATION_REJECTED ''local_command_gate''
            (lease_robot_id l) (lease_mission_id l) (lease_id l)
            ''raw lease-id revocation rejected because protocol context is required''
            [(''claimed_lease_id'', bounded_diagnostic_text E (Some claimed)),
             (''reason_code'', JStr ''REVOCATION_CONTEXT_REQUIRED'')] [])) (\<lambda>_. ret ())))
     (raise (ValueError ''revocation requires a LeaseRevocation message''))"

text \<open>The entries that \<^verbatim>\<open>revoke\<close> writes itself, one per rejection it does not delegate.\<close>

definition revocation_no_lease_entry :: "env \<Rightarrow> lease_revocation \<Rightarrow> audit_entry" where
  "revocation_no_lease_entry E r =
     diagnostic_entry (or_str (Some (correlation_id r)) (rev_lease_id r))
       ''revocation rejected because lease context is required''
       [(''lease_id'', JStr (rev_lease_id r)), (''reason_code'', JStr ''REVOCATION_CONTEXT_REQUIRED''),
        (''revocation_id'', JStr (message_id r)),
        (''claimed_revoked_by'', bounded_diagnostic_text E (Some (rev_revoked_by r)))]"

definition revocation_edge_entry ::
  "env \<Rightarrow> command_gate \<Rightarrow> lease_revocation \<Rightarrow> capability_lease \<Rightarrow> audit_entry" where
  "revocation_edge_entry E g r l =
     gate_entry REVOCATION_REJECTED ''local_command_gate'' (lease_robot_id l) (lease_mission_id l)
       (or_str (Some (correlation_id r)) (rev_lease_id r))
       ''revocation rejected because edge context is not local''
       [(''lease_id'', JStr (rev_lease_id r)), (''revocation_id'', JStr (message_id r)),
        (''claimed_revoked_by'', bounded_diagnostic_text E (Some (rev_revoked_by r))),
        (''expected_edge_agent_id'', JStr (local_edge_agent_id g)),
        (''revocation_edge_agent_id'', bounded_diagnostic_text E (Some (rev_edge_agent_id r))),
        (''lease_edge_agent_id'', JStr (lease_edge_agent_id l)),
        (''reason_code'', JStr ''REVOCATION_EDGE_AGENT_MISMATCH'')] []"

definition revocation_untrusted_entry :: "env \<Rightarrow> lease_revocation \<Rightarrow> capability_lease \<Rightarrow> audit_entry" where
  "revocation_untrusted_entry E r l =
     gate_entry REVOCATION_REJECTED ''local_command_gate'' (lease_robot_id l) (lease_mission_id l)
       (or_str (Some (correlation_id r)) (rev_lease_id r))
       ''revocation rejected because actor is not trusted''
       [(''lease_id'', JStr (rev_lease_id r)), (''revocation_id'', JStr (message_id r)),
        (''claimed_revoked_by'', bounded_diagnostic_text E (Some (rev_revoked_by r))),
        (''reason_code'', JStr ''REVOCATION_ACTOR_NOT_TRUSTED'')] []"

definition revoker_scope :: "command_gate \<Rightarrow> string \<Rightarrow> string set" where
  "revoker_scope g i = (case revoker_edge_scopes_by_id g i of None \<Rightarrow> {} | Some s \<Rightarrow> s)"

definition revocation_scope_entry :: "command_gate \<Rightarrow> lease_revocation \<Rightarrow> capability_lease \<Rightarrow> audit_entry" where
  "revocation_scope_entry g r l =
     gate_entry REVOCATION_REJECTED (rev_revoked_by r) (lease_robot_id l) (lease_mission_id l)
       (or_str (Some (correlation_id r)) (rev_lease_id r))
       ''revocation rejected because actor is not scoped to lease edge''
       [(''lease_id'', JStr (rev_lease_id r)), (''revocation_id'', JStr (message_id r)),
        (''revoked_by'', JStr (rev_revoked_by r)),
        (''revoker_edge_scope'', JList (map JStr (sorted_list_of_set (revoker_scope g (rev_revoked_by r))))),
        (''revocation_edge_agent_id'', JStr (rev_edge_agent_id r)),
        (''lease_edge_agent_id'', JStr (lease_edge_agent_id l)),
        (''reason_code'', JStr ''REVOCATION_ACTOR_SCOPE_MISMATCH'')] (revocation_refs r)"

definition revocation_lease_entry :: "lease_revocation \<Rightarrow> capability_lease \<Rightarrow> audit_entry" where
  "revocation_lease_entry r l =
     gate_entry REVOCATION_REJECTED (rev_revoked_by r) (lease_robot_id l) (lease_mission_id l)
       (or_str (Some (correlation_id r)) (lease_id l))
       ''revocation rejected because lease_id does not match lease''
       [(''revocation_lease_id'', JStr (rev_lease_id r)), (''lease_id'', JStr (lease_id l)),
        (''reason_code'', JStr ''REVOCATION_LEASE_MISMATCH'')] (revocation_refs r)"

definition revocation_context_entry :: "lease_revocation \<Rightarrow> capability_lease \<Rightarrow> audit_entry" where
  "revocation_context_entry r l =
     gate_entry REVOCATION_REJECTED (rev_revoked_by r) (lease_robot_id l) (lease_mission_id l)
       (or_str (Some (correlation_id r)) (lease_id l))
       ''revocation rejected because context does not match lease''
       [(''revocation_lease_id'', JStr (rev_lease_id r)), (''lease_id'', JStr (lease_id l)),
        (''revocation_edge_agent_id'', JStr (rev_edge_agent_id r)),
        (''lease_edge_agent_id'', JStr (lease_edge_agent_id l)),
        (''revocation_robot_id'', jstr_opt (rev_robot_id r)), (''lease_robot_id'', JStr (lease_robot_id l)),
        (''revocation_mission_id'', jstr_opt (rev_mission_id r)),
        (''lease_mission_id'', JStr (lease_mission_id l)),
        (''revocation_capability'', jopt (\<lambda>c. JStr (capability_str c)) (rev_capability r)),
        (''lease_capability'', JStr (capability_str (lease_capability l))),
        (''reason_code'', JStr ''REVOCATION_CONTEXT_MISMATCH'')] (revocation_refs r)"

definition lease_revoked_entry ::
  "command_gate \<Rightarrow> lease_revocation \<Rightarrow> capability_lease \<Rightarrow> audit_entry" where
  "lease_revoked_entry g r l =
     gate_entry LEASE_REVOKED (rev_revoked_by r) (lease_robot_id l) (lease_mission_id l)
       (or_str (Some (correlation_id r)) (lease_id l))
       (''lease '' @ rev_lease_id r @ '' revoked: '' @ rev_reason_code r)
       [(''lease_id'', JStr (rev_lease_id r)), (''reason_code'', JStr (rev_reason_code r)),
        (''requested_fallback_action'', JStr (fallback_action_str (rev_fallback_action r))),
        (''fallback_action'', JStr (fallback_action_str (local_fallback_action g (rev_reason_code r)))),
        (''revocation_id'', JStr (message_id r))] (revocation_refs r)"

text \<open>The accepted path: the store, the live table, the audit record and the fallback declaration.\<close>

definition commit_revocation ::
  "env \<Rightarrow> command_gate \<Rightarrow> lease_revocation \<Rightarrow> capability_lease \<Rightarrow> (gate_state, fallback_declaration option) op" where
  "commit_revocation E g r l =
     bindo (revocation_record_op E (revoked_lease_of r (Some l))) (\<lambda>recorded.
       if \<not> recorded
       then bindo (record_revocation_rejected E r l ''REVOCATION_REPLAYED''
              ''revocation rejected because revocation_id was already accepted'' True) (\<lambda>_. ret None)
       else
         seqo (modify (\<lambda>s. s\<lparr>gs_revocations :=
                 (gs_revocations s)(rev_lease_id r \<mapsto> revoked_lease_of r (Some l))\<rparr>))
         (bindo (gate_record E (lease_revoked_entry g r l)) (\<lambda>_.
          bindo (new_declaration E (or_str (Some (correlation_id r)) (lease_id l)) (lease_robot_id l)
                   (lease_edge_agent_id l) (lease_mission_id l) (rev_reason_code r)
                   (local_fallback_action g (rev_reason_code r)) (Some (lease_id l))
                   (Some (message_id r))) (\<lambda>d.
          bindo (emit_fallback E g d) (\<lambda>d'. ret (Some d'))))))"

definition revoke ::
  "env \<Rightarrow> command_gate \<Rightarrow> revocation_arg \<Rightarrow> capability_lease option \<Rightarrow> datetime option
    \<Rightarrow> (gate_state, fallback_declaration option) op" where
  "revoke E g arg lease now =
     (case arg of
        RawRevocation claimed \<Rightarrow> revoke_raw E claimed lease
      | Revocation r \<Rightarrow>
        (case lease of
           None \<Rightarrow> reject_with (gate_record E (revocation_no_lease_entry E r)) ''revocation requires lease context''
         | Some l \<Rightarrow>
           checko (protocol_version_violation [protocol_version r]) (\<lambda>reason.
             reject_with (record_revocation_rejected E r l reason
                 ''revocation rejected because protocol version is unsupported'' False)
               ''revocation protocol version is unsupported'')
           (if lease_edge_agent_id l \<noteq> local_edge_agent_id g \<or> rev_edge_agent_id r \<noteq> local_edge_agent_id g
            then reject_with (gate_record E (revocation_edge_entry E g r l))
              ''revocation edge_agent_id does not match local edge''
            else if rev_revoked_by r \<notin> trusted_revoker_ids g
            then reject_with (gate_record E (revocation_untrusted_entry E r l)) ''revocation actor is not trusted''
            else
            checko (signature_algorithm_violation r ''REVOCATION_SIGNATURE_ALGORITHM_MISSING''
                      ''REVOCATION_SIGNATURE_ALGORITHM_UNSUPPORTED'') (\<lambda>reason.
              reject_with (record_revocation_rejected E r l reason
                  ''revocation rejected because signature algorithm is unsupported'' False)
                ''revocation signature algorithm is unsupported'')
            (case signature r of
               None \<Rightarrow> reject_with (record_revocation_rejected E r l ''REVOCATION_SIGNATURE_MISSING''
                   ''revocation rejected because signature is missing'' False) ''revocation signature is missing''
             | Some sig \<Rightarrow>
               if signed_revocation_material_budget_violation r
               then reject_with (record_revocation_rejected E r l ''REVOCATION_SIGNED_MATERIAL_TOO_LARGE''
                   ''revocation rejected because signed material is too large'' False)
                 ''revocation signed material is too large''
               else (case revoker_public_keys_by_id g (rev_revoked_by r) of
                 None \<Rightarrow> reject_with (record_revocation_rejected E r l ''REVOCATION_KEY_NOT_TRUSTED''
                     ''revocation rejected because revoker key is not trusted'' False)
                   ''revocation key is not trusted''
               | Some revoker_public_key \<Rightarrow>
                 if \<not> verify_with_public_key_b64 E (revocation_dump E r) sig revoker_public_key
                 then reject_with (record_revocation_rejected E r l ''REVOCATION_SIGNATURE_INVALID''
                     ''revocation rejected because signature is invalid'' False) ''revocation signature is invalid''
                 else if lease_edge_agent_id l \<notin> revoker_scope g (rev_revoked_by r)
                 then reject_with (gate_record E (revocation_scope_entry g r l))
                   ''revocation actor is not authorized for lease edge''
                 else
                 bindo (gate_now E now) (\<lambda>n.
                 bindo (liftr (revocation_time_violation (max_revocation_age_seconds g) n r)) (\<lambda>time_reason.
                 checko time_reason (\<lambda>reason.
                   reject_with (record_revocation_rejected E r l reason
                       (''revocation rejected because it is not fresh: '' @ reason) True)
                     ''revocation is not fresh'')
                 (if lease_id l \<noteq> rev_lease_id r
                  then reject_with (gate_record E (revocation_lease_entry r l))
                    ''revocation lease_id does not match lease''
                  else if revocation_context_conflicts r l
                  then reject_with (gate_record E (revocation_context_entry r l))
                    ''revocation context does not match lease''
                  else commit_revocation E g r l))))))))"

section \<open>Evaluation of a command\<close>

record gate_result =
  gr_allowed :: bool
  gr_reason_code :: reason
  gr_audit_id :: "string option"
  gr_fallback_action :: "fallback_action option"
  gr_fallback_declaration :: "fallback_declaration option"

definition local_edge_context_mismatch ::
  "command_gate \<Rightarrow> edge_command \<Rightarrow> capability_lease option \<Rightarrow> bool" where
  "local_edge_context_mismatch g cmd lease \<longleftrightarrow>
     cmd_edge_agent_id cmd \<noteq> local_edge_agent_id g \<or>
     (case lease of None \<Rightarrow> False | Some l \<Rightarrow> lease_edge_agent_id l \<noteq> local_edge_agent_id g)"

definition edge_mismatch_entry ::
  "command_gate \<Rightarrow> edge_command \<Rightarrow> capability_lease option \<Rightarrow> audit_entry" where
  "edge_mismatch_entry g cmd lease =
     gate_entry COMMAND_REJECTED (local_edge_agent_id g) (cmd_robot_id cmd) (cmd_mission_id cmd)
       (or_str (Some (correlation_id cmd)) (command_id cmd))
       (''command '' @ command_id cmd @ '' rejected: EDGE_AGENT_MISMATCH'')
       [(''command_id'', JStr (command_id cmd)), (''command_message_id'', JStr (message_id cmd)),
        (''expected_edge_agent_id'', JStr (local_edge_agent_id g)),
        (''command_edge_agent_id'', JStr (cmd_edge_agent_id cmd)),
        (''lease_id'', jopt (\<lambda>l. JStr (lease_id l)) lease),
        (''lease_edge_agent_id'', jopt (\<lambda>l. JStr (lease_edge_agent_id l)) lease),
        (''reason_code'', JStr ''EDGE_AGENT_MISMATCH'')] [message_id cmd]"

definition reject_local_edge_mismatch ::
  "env \<Rightarrow> command_gate \<Rightarrow> edge_command \<Rightarrow> capability_lease option \<Rightarrow> (gate_state, gate_result) op" where
  "reject_local_edge_mismatch E g cmd lease =
     bindo (gate_record E (edge_mismatch_entry g cmd lease)) (\<lambda>ev.
       ret \<lparr>gr_allowed = False, gr_reason_code = ''EDGE_AGENT_MISMATCH'', gr_audit_id = Some (audit_id ev),
            gr_fallback_action = None, gr_fallback_declaration = None\<rparr>)"

definition matching_authenticated_revocation ::
  "(string \<rightharpoonup> revoked_lease) \<Rightarrow> edge_command \<Rightarrow> capability_lease option \<Rightarrow> reason \<Rightarrow> revoked_lease option" where
  "matching_authenticated_revocation revocations cmd lease reason =
     (case lease of
        None \<Rightarrow> None
      | Some l \<Rightarrow>
          if reason \<noteq> ''LEASE_REVOKED'' then None
          else (case revocations (lease_id l) of
            None \<Rightarrow> None
          | Some r \<Rightarrow>
              if rl_issuer_id r \<noteq> lease_issuer_id l \<or> rl_agent_id r \<noteq> lease_agent_id l \<or>
                 rl_edge_agent_id r \<noteq> lease_edge_agent_id l \<or> rl_robot_id r \<noteq> lease_robot_id l \<or>
                 rl_mission_id r \<noteq> lease_mission_id l \<or>
                 rl_capability r \<noteq> capability_str (lease_capability l)
              then None
              else if \<not> lease_matches_context l (cmd_agent_id cmd) (cmd_edge_agent_id cmd)
                        (cmd_robot_id cmd) (cmd_mission_id cmd) (cmd_capability cmd)
              then None
              else Some r))"

text \<open>A command always has a correlation id, so the later alternatives of the source never apply.\<close>

definition command_correlation_id :: "edge_command \<Rightarrow> revoked_lease option \<Rightarrow> string" where
  "command_correlation_id cmd revocation =
     (case revocation of
        Some r \<Rightarrow> (case rl_correlation_id r of Some i \<Rightarrow> i | None \<Rightarrow> correlation_id cmd)
      | None \<Rightarrow> correlation_id cmd)"

definition denial_can_emit_fallback :: "reason \<Rightarrow> revoked_lease option \<Rightarrow> bool" where
  "denial_can_emit_fallback reason revocation =
     (if reason = ''LEASE_REVOKED'' then revocation \<noteq> None else reason \<in> STATE_FALLBACK_DENIAL_REASONS)"

definition fallback_action_for_denial :: "command_gate \<Rightarrow> reason \<Rightarrow> revoked_lease option \<Rightarrow> fallback_action" where
  "fallback_action_for_denial g reason revocation =
     (case revocation of
        Some r \<Rightarrow> if reason = ''LEASE_REVOKED'' then local_fallback_action g (rl_reason_code r)
                  else local_fallback_action g reason
      | None \<Rightarrow> local_fallback_action g reason)"

definition command_payload_fields :: "edge_command \<Rightarrow> dump" where
  "command_payload_fields cmd =
     [(''command_id'', JStr (command_id cmd)), (''command_message_id'', JStr (message_id cmd)),
      (''agent_id'', JStr (cmd_agent_id cmd)),
      (''authenticated_agent_id'', jstr_opt (cmd_authenticated_agent_id cmd)),
      (''edge_agent_id'', JStr (cmd_edge_agent_id cmd)), (''robot_id'', JStr (cmd_robot_id cmd)),
      (''mission_id'', JStr (cmd_mission_id cmd)), (''capability'', JStr (cmd_capability cmd)),
      (''command_nonce'', JStr (command_nonce cmd))]"

definition current_state_field :: "env \<Rightarrow> robot_state_assertion option \<Rightarrow> dump" where
  "current_state_field E st =
     (case st of None \<Rightarrow> [] | Some s \<Rightarrow> [(''current_state'', JDict (robot_state_dump E s))])"

definition state_ids :: "robot_state_assertion option \<Rightarrow> string list" where
  "state_ids st = (case st of None \<Rightarrow> [] | Some s \<Rightarrow> [message_id s])"

abbreviation (input) jaction :: "fallback_action option \<Rightarrow> json" where
  "jaction \<equiv> jopt (\<lambda>a. JStr (fallback_action_str a))"

definition rejected_entry ::
  "env \<Rightarrow> edge_command \<Rightarrow> capability_lease option \<Rightarrow> robot_state_assertion option \<Rightarrow> reason
    \<Rightarrow> fallback_action option \<Rightarrow> string \<Rightarrow> audit_entry" where
  "rejected_entry E cmd lease st reason fallback corr =
     \<lparr>en_event_type = COMMAND_REJECTED, en_actor_id = cmd_edge_agent_id cmd,
      en_summary = ''command '' @ command_id cmd @ '' rejected: '' @ reason, en_correlation_id = corr,
      en_robot_id = Some (cmd_robot_id cmd), en_mission_id = Some (cmd_mission_id cmd),
      en_payload = command_payload_fields cmd @
        [(''lease_id'', jopt (\<lambda>l. JStr (lease_id l)) lease), (''reason_code'', JStr reason),
         (''fallback_action'', jaction fallback)] @ current_state_field E st,
      en_authority_relevant = True, en_policy_id = None, en_policy_digest = None,
      en_state_refs = state_ids st, en_related_message_ids = [message_id cmd] @ state_ids st\<rparr>"

definition untrusted_entry ::
  "env \<Rightarrow> edge_command \<Rightarrow> capability_lease option \<Rightarrow> reason \<Rightarrow> fallback_action option \<Rightarrow> string \<Rightarrow> audit_entry" where
  "untrusted_entry E cmd lease reason fallback corr =
     (let claim = (\<lambda>v. bounded_diagnostic_text E v) in
      diagnostic_entry corr (''untrusted command rejected: '' @ reason)
        [(''claimed_command_id'', claim (Some (command_id cmd))),
         (''claimed_command_message_id'', claim (Some (message_id cmd))),
         (''claimed_agent_id'', claim (Some (cmd_agent_id cmd))),
         (''claimed_authenticated_agent_id'', claim (cmd_authenticated_agent_id cmd)),
         (''claimed_edge_agent_id'', claim (Some (cmd_edge_agent_id cmd))),
         (''claimed_robot_id'', claim (Some (cmd_robot_id cmd))),
         (''claimed_mission_id'', claim (Some (cmd_mission_id cmd))),
         (''claimed_capability'', claim (Some (cmd_capability cmd))),
         (''claimed_command_nonce'', claim (Some (command_nonce cmd))),
         (''claimed_lease_id'', claim (map_option lease_id lease)),
         (''reason_code'', JStr reason), (''fallback_action'', jaction fallback)])"

definition reject_command ::
  "env \<Rightarrow> command_gate \<Rightarrow> edge_command \<Rightarrow> capability_lease option \<Rightarrow> robot_state_assertion option \<Rightarrow> reason
    \<Rightarrow> bool \<Rightarrow> bool \<Rightarrow> (gate_state, gate_result) op" where
  "reject_command E g cmd lease st reason emit authority_rel =
     bindo (gets gs_revocations) (\<lambda>revocations.
     let revocation = matching_authenticated_revocation revocations cmd lease reason;
         corr = command_correlation_id cmd revocation
     in bindo (if emit \<and> denial_can_emit_fallback reason revocation
               then bindo (new_declaration E corr (cmd_robot_id cmd) (cmd_edge_agent_id cmd)
                      (cmd_mission_id cmd) reason (fallback_action_for_denial g reason revocation)
                      (map_option lease_id lease) (Option.bind revocation rl_revocation_id)) (\<lambda>d. ret (Some d))
               else ret None) (\<lambda>declaration.
        let fallback = map_option (\<lambda>_. fallback_action_for_denial g reason revocation) declaration
        in bindo (gate_record E (if authority_rel then rejected_entry E cmd lease st reason fallback corr
                                 else untrusted_entry E cmd lease reason fallback corr)) (\<lambda>ev.
           bindo (case declaration of
                    None \<Rightarrow> ret None
                  | Some d \<Rightarrow> bindo (emit_fallback E g d) (\<lambda>d'. ret (Some d'))) (\<lambda>emitted.
             ret \<lparr>gr_allowed = False, gr_reason_code = reason, gr_audit_id = Some (audit_id ev),
                  gr_fallback_action = fallback, gr_fallback_declaration = emitted\<rparr>))))"

definition allowed_entry ::
  "env \<Rightarrow> edge_command \<Rightarrow> capability_lease \<Rightarrow> robot_state_assertion option \<Rightarrow> reason \<Rightarrow> audit_entry" where
  "allowed_entry E cmd l st reason =
     \<lparr>en_event_type = COMMAND_ALLOWED, en_actor_id = cmd_edge_agent_id cmd,
      en_summary = ''command '' @ command_id cmd @ '' allowed: '' @ reason,
      en_correlation_id = command_correlation_id cmd None,
      en_robot_id = Some (cmd_robot_id cmd), en_mission_id = Some (cmd_mission_id cmd),
      en_payload = command_payload_fields cmd @
        [(''lease_id'', JStr (lease_id l)), (''lease_nonce'', JStr (lease_nonce l)),
         (''reason_code'', JStr reason)] @ current_state_field E st,
      en_authority_relevant = True, en_policy_id = None, en_policy_digest = None,
      en_state_refs = state_ids st, en_related_message_ids = [message_id cmd] @ state_ids st\<rparr>"

text \<open>The keyword arguments of the conformance check that the gate passes.\<close>

definition gate_lease_checks :: "command_gate \<Rightarrow> gate_state \<Rightarrow> lease_checks" where
  "gate_lease_checks g s =
     \<lparr>lc_issuer_public_key_b64 = Some (issuer_public_key_b64 g),
      lc_issuer_public_keys_by_id = Some (issuer_public_keys_by_id g),
      lc_trusted_issuer_ids = trusted_issuer_ids g,
      lc_accepted_capabilities = Some (accepted_capabilities g),
      lc_accepted_policy_id = Some (accepted_policy_id g),
      lc_accepted_policy_digests = Some (accepted_policy_digests g),
      lc_issuer_capability_scopes = Some (issuer_capability_scopes g),
      lc_requirements = Some (capability_constraint_requirements g),
      lc_bounds = Some (capability_constraint_bounds_by_id g),
      lc_state_public_keys_by_edge_id = Some (state_public_keys_by_edge_id g),
      lc_revoked_lease_ids = revoked_lease_ids s,
      lc_max_lease_age_seconds = max_lease_age_seconds g,
      lc_max_lease_ttl_seconds = max_lease_ttl_seconds g,
      lc_max_state_age_seconds = max_state_age_seconds g\<rparr>"

definition command_context_of :: "edge_command \<Rightarrow> robot_state_assertion option \<Rightarrow> command_context" where
  "command_context_of cmd st =
     \<lparr>cc_agent_id = cmd_agent_id cmd, cc_edge_agent_id = cmd_edge_agent_id cmd,
      cc_robot_id = cmd_robot_id cmd, cc_mission_id = cmd_mission_id cmd,
      cc_capability = cmd_capability cmd, cc_current_state = st, cc_command_payload = Some (cmd_payload cmd)\<rparr>"

definition allow_command ::
  "env \<Rightarrow> command_gate \<Rightarrow> edge_command \<Rightarrow> capability_lease \<Rightarrow> robot_state_assertion option \<Rightarrow> reason
    \<Rightarrow> (gate_state, gate_result) op" where
  "allow_command E g cmd l st reason =
     bindo (remember_use_op E cmd l) (\<lambda>(recorded, replay_reason).
       if \<not> recorded then reject_command E g cmd (Some l) st replay_reason False True
       else bindo (gate_record E (allowed_entry E cmd l st reason)) (\<lambda>ev.
         ret \<lparr>gr_allowed = True, gr_reason_code = reason, gr_audit_id = Some (audit_id ev),
              gr_fallback_action = None, gr_fallback_declaration = None\<rparr>))"

text \<open>
  The conformance check reads the clock when no time is passed; here before its first check. A refused
  command uses up its identifiers as well.
\<close>

definition evaluate_lease ::
  "env \<Rightarrow> command_gate \<Rightarrow> edge_command \<Rightarrow> capability_lease \<Rightarrow> robot_state_assertion option
    \<Rightarrow> datetime option \<Rightarrow> (gate_state, gate_result) op" where
  "evaluate_lease E g cmd l st now =
     bindo (gate_now E now) (\<lambda>n.
     bindo (gets (gate_lease_checks g)) (\<lambda>checks.
     bindo (liftr (validate_lease_for_command E checks (command_context_of cmd st) n (Some l)))
       (\<lambda>(ok, reason).
         if ok then allow_command E g cmd l st reason
         else bindo (remember_op E cmd) (\<lambda>recorded.
           if \<not> recorded then reject_command E g cmd (Some l) st ''COMMAND_REPLAYED'' False True
           else reject_command E g cmd (Some l) st reason True True))))"

definition evaluate ::
  "env \<Rightarrow> command_gate \<Rightarrow> edge_command \<Rightarrow> capability_lease option \<Rightarrow> robot_state_assertion option
    \<Rightarrow> datetime option \<Rightarrow> (gate_state, gate_result) op" where
  "evaluate E g cmd lease st now =
     bindo (command_auth_violation E g cmd now) (\<lambda>auth_reason.
     checko auth_reason (\<lambda>reason. reject_command E g cmd lease st reason False False)
     (if local_edge_context_mismatch g cmd lease then reject_local_edge_mismatch E g cmd lease
      else bindo (gets (\<lambda>s. contains cmd (gs_command_replay_cache s))) (\<lambda>replayed.
        if replayed then reject_command E g cmd lease st ''COMMAND_REPLAYED'' False True
        else (case lease of
          None \<Rightarrow> reject_command E g cmd lease st ''NO_LEASE'' False True
        | Some l \<Rightarrow> evaluate_lease E g cmd l st now))))"

section \<open>The edge agent's daemon\<close>

definition EdgeAgentDaemon :: "string \<Rightarrow> command_gate \<Rightarrow> command_gate res" where
  "EdgeAgentDaemon edge_agent_id g =
     (if local_edge_agent_id g \<noteq> edge_agent_id
      then Inl (ValueError ''command gate local edge does not match daemon edge'') else Inr g)"

definition handle_command ::
  "env \<Rightarrow> command_gate \<Rightarrow> edge_command \<Rightarrow> capability_lease option \<Rightarrow> robot_state_assertion option
    \<Rightarrow> (gate_state, gate_result) op" where
  "handle_command E g cmd lease st = evaluate E g cmd lease st None"

end
