(* ===== verification/Gate_Invariants.thy ===== *)
theory Gate_Invariants
  imports Command_Gate
begin

text \<open>
  What every handler of the command gate keeps, outcome by outcome: used identifiers stay used, the
  table of revocations only grows and agrees with the durable store, the audit log only grows and stays
  a hash chain. Then what the outcomes of the two handlers mean.
\<close>

section \<open>Progress\<close>

definition used_keys :: "gate_state \<Rightarrow> replay_key set" where
  "used_keys s = dom (cc_entries (gs_command_replay_cache s))"

definition stores_open :: "gate_state \<Rightarrow> bool" where
  "stores_open s \<longleftrightarrow>
     cc_store_path (gs_command_replay_cache s) \<noteq> None \<and> rs_store_path (gs_revocation_store s) \<noteq> None"

text \<open>The live table of revocations is what a restart would load.\<close>

definition revocations_synced :: "gate_state \<Rightarrow> bool" where
  "revocations_synced s \<longleftrightarrow> gs_revocations s = load_all (gs_revocation_store s)"

definition log_extends :: "gate_state \<Rightarrow> gate_state \<Rightarrow> bool" where
  "log_extends s s' \<longleftrightarrow> (\<exists>es. events (gs_audit_log s') = events (gs_audit_log s) @ es)"

definition gate_log_ok :: "env \<Rightarrow> gate_state \<Rightarrow> bool" where
  "gate_log_ok E s \<longleftrightarrow> log_ok E (gs_audit_log s) \<and> log_drawn E (gs_audit_log s) (gs_world s)"

definition gate_progress :: "env \<Rightarrow> gate_state \<Rightarrow> gate_state \<Rightarrow> bool" where
  "gate_progress E s s' \<longleftrightarrow>
     used_keys s \<subseteq> used_keys s' \<and>
     dom (gs_revocations s) \<subseteq> dom (gs_revocations s') \<and>
     (stores_open s \<longrightarrow> stores_open s') \<and>
     (stores_open s \<and> revocations_synced s \<longrightarrow> revocations_synced s') \<and>
     log_extends s s' \<and> (log_ok E (gs_audit_log s) \<longrightarrow> log_ok E (gs_audit_log s')) \<and>
     (gate_log_ok E s \<longrightarrow> gate_log_ok E s')"

interpretation gate: effect_relation "gate_progress E" for E
proof unfold_locales
  show "gate_progress E s s" for s
    by (simp add: gate_progress_def log_extends_def)
  show "gate_progress E s t \<Longrightarrow> gate_progress E t u \<Longrightarrow> gate_progress E s u" for s t u
    unfolding gate_progress_def log_extends_def
    by (elim conjE exE, intro conjI impI; (simp; fail | blast))
qed

lemmas progress_defs = gate_progress_def used_keys_def stores_open_def revocations_synced_def
  log_extends_def gate_log_ok_def

lemma log_drawn_same_draws: "uuid_draws w \<le> uuid_draws w' \<Longrightarrow> log_drawn E lg w \<Longrightarrow> log_drawn E lg w'"
  unfolding log_drawn_def by (meson less_le_trans)

lemma uuid_draws_world [simp]:
  "uuid_draws (tick w) = uuid_draws w" "uuid_draws (draw w) = Suc (uuid_draws w)"
  "uuid_draws (snd (now_or_clock E now w)) = uuid_draws w"
  by (simp_all add: tick_def draw_def now_or_clock_def split: option.splits)

lemma gate_now_eq:
  "gate_now E now s = (Inr (fst (now_or_clock E now (gs_world s))),
     s\<lparr>gs_world := snd (now_or_clock E now (gs_world s))\<rparr>)"
  by (simp add: gate_now_def split: prod.splits)

text \<open>A change of the world that draws no fewer identifiers, and of fields outside the relation.\<close>

lemma progress_world:
  assumes "uuid_draws (gs_world s) \<le> uuid_draws w"
  shows "gate_progress E s (s\<lparr>gs_world := w\<rparr>)"
  using log_drawn_same_draws [OF assms] by (simp add: progress_defs)

lemma gate_now_keeps: "keeps (gate_progress E) (gate_now E now)"
  by (rule keepsI) (auto simp: gate_now_eq progress_world)

lemma new_declaration_keeps: "keeps (gate_progress E) (new_declaration E corr rb ed mi tr ac lid rid)"
  by (rule keepsI) (auto simp: new_declaration_def Let_def progress_world)

lemma audit_record_extends:
  assumes "audit_record E n lg w = (r, lg', w')"
  shows "\<exists>es. events lg' = events lg @ es"
  using assms by (cases r) (auto simp: audit_record_def Let_def split: prod.splits
      dest: audit_append_Inl audit_append_Inr)

lemma gate_record_keeps: "keeps (gate_progress E) (gate_record E n)"
proof (rule keepsI)
  fix s r t assume "gate_record E n s = (r, t)"
  then obtain lg w where rec: "audit_record E n (gs_audit_log s) (gs_world s) = (r, lg, w)"
    and t: "t = s\<lparr>gs_audit_log := lg, gs_world := w\<rparr>"
    by (auto simp: gate_record_def split: prod.splits)
  from audit_record_extends [OF rec] audit_record_log_ok [OF _ rec] log_drawn_record [OF _ rec]
  show "gate_progress E s t" by (simp add: progress_defs t)
qed

lemma fallback_events_keeps:
  "keeps (gate_progress E) (modify (\<lambda>s. s\<lparr>gs_fallback_events := gs_fallback_events s @ [d]\<rparr>))"
  by (rule gate.keeps_modify) (simp add: progress_defs)

lemma deliver_keeps: "keeps (gate_progress E) (deliver g d)"
  by (rule keepsI) (auto simp: deliver_def progress_defs split: option.splits)

lemma emit_fallback_keeps: "keeps (gate_progress E) (emit_fallback E g d)"
  unfolding emit_fallback_def
  by (intro gate.keeps_rules fallback_events_keeps gate_record_keeps deliver_keeps)

lemma remember_mono:
  "dom (cc_entries c) \<subseteq> dom (cc_entries (fst (snd (remember E cmd c w))))"
  "cc_store_path (fst (snd (remember E cmd c w))) = cc_store_path c"
  "uuid_draws (snd (snd (remember E cmd c w))) = uuid_draws w"
  by (auto simp: remember_def dest!: insert_entries_dom split: option.splits sum.splits)

lemma remember_use_mono:
  "dom (cc_entries c) \<subseteq> dom (cc_entries (fst (snd (remember_authorized_use E cmd l c w))))"
  "cc_store_path (fst (snd (remember_authorized_use E cmd l c w))) = cc_store_path c"
  "uuid_draws (snd (snd (remember_authorized_use E cmd l c w))) = uuid_draws w"
  by (auto simp: remember_authorized_use_def dest!: insert_entries_dom split: option.splits sum.splits)

lemma remember_op_eq:
  "remember_op E cmd s =
     (let t = remember E cmd (gs_command_replay_cache s) (gs_world s)
      in (Inr (fst t), s\<lparr>gs_command_replay_cache := fst (snd t), gs_world := snd (snd t)\<rparr>))"
  by (simp add: remember_op_def Let_def split: prod.splits)

lemma remember_use_op_eq:
  "remember_use_op E cmd l s =
     (let t = remember_authorized_use E cmd l (gs_command_replay_cache s) (gs_world s)
      in (Inr (fst t), s\<lparr>gs_command_replay_cache := fst (snd t), gs_world := snd (snd t)\<rparr>))"
  by (simp add: remember_use_op_def Let_def split: prod.splits)

lemma progress_cache:
  assumes "dom (cc_entries (gs_command_replay_cache s)) \<subseteq> dom (cc_entries c)"
    and "cc_store_path c = cc_store_path (gs_command_replay_cache s)"
    and "uuid_draws w = uuid_draws (gs_world s)"
  shows "gate_progress E s (s\<lparr>gs_command_replay_cache := c, gs_world := w\<rparr>)"
  using assms log_drawn_same_draws [of "gs_world s" w] by (simp add: progress_defs)

lemma remember_op_keeps: "keeps (gate_progress E) (remember_op E cmd)"
  unfolding keeps_def remember_op_eq Let_def snd_conv
  by (intro allI progress_cache remember_mono)

lemma remember_use_op_keeps: "keeps (gate_progress E) (remember_use_op E cmd l)"
  unfolding keeps_def remember_use_op_eq Let_def snd_conv
  by (intro allI progress_cache remember_use_mono)

section \<open>The handlers\<close>

text \<open>
  Committing a revocation writes the store before the live table; the two writes are one step for the
  agreement of the tables.
\<close>

definition record_and_revoke :: "env \<Rightarrow> revoked_lease \<Rightarrow> (gate_state, bool) op" where
  "record_and_revoke E r =
     bindo (revocation_record_op E r) (\<lambda>recorded.
       if \<not> recorded then ret False
       else seqo (modify (\<lambda>s. s\<lparr>gs_revocations := (gs_revocations s)(rl_lease_id r \<mapsto> r)\<rparr>)) (ret True))"

lemma commit_revocation_eq:
  "commit_revocation E g r l =
     bindo (record_and_revoke E (revoked_lease_of r (Some l))) (\<lambda>recorded.
       if \<not> recorded
       then bindo (record_revocation_rejected E r l ''REVOCATION_REPLAYED''
              ''revocation rejected because revocation_id was already accepted'' True) (\<lambda>_. ret None)
       else
         bindo (gate_record E (lease_revoked_entry g r l)) (\<lambda>_.
          bindo (new_declaration E (or_str (Some (correlation_id r)) (lease_id l)) (lease_robot_id l)
                   (lease_edge_agent_id l) (lease_mission_id l) (rev_reason_code r)
                   (local_fallback_action g (rev_reason_code r)) (Some (lease_id l))
                   (Some (message_id r))) (\<lambda>d.
          bindo (emit_fallback E g d) (\<lambda>d'. ret (Some d')))))"
proof -
  have id: "rl_lease_id (revoked_lease_of r (Some l)) = rev_lease_id r"
    by (simp add: revoked_lease_of_def Let_def)
  show ?thesis
    by (rule ext)
      (auto simp: commit_revocation_def record_and_revoke_def bindo_def seqo_def id
        split: prod.splits sum.splits if_splits)
qed

lemma record_and_revoke_eq:
  "record_and_revoke E r s =
     (case revocation_record E r (gs_revocation_store s) (gs_world s) of
        (Inl e, st, w) \<Rightarrow> (Inl e, s\<lparr>gs_revocation_store := st, gs_world := w\<rparr>)
      | (Inr False, st, w) \<Rightarrow> (Inr False, s\<lparr>gs_revocation_store := st, gs_world := w\<rparr>)
      | (Inr True, st, w) \<Rightarrow> (Inr True,
          s\<lparr>gs_revocation_store := st, gs_world := w,
            gs_revocations := (gs_revocations s)(rl_lease_id r \<mapsto> r)\<rparr>))"
  by (auto simp: record_and_revoke_def revocation_record_op_def bindo_def seqo_def
      split: prod.splits sum.splits bool.splits)

lemma revocation_record_cases:
  assumes "revocation_record E r st w = (res, st', w')"
  shows "uuid_draws w' = uuid_draws w" and "rs_store_path st' = rs_store_path st"
    and "res \<noteq> Inr True \<Longrightarrow> st' = st"
    and "res = Inr True \<Longrightarrow> rs_store_path st \<noteq> None \<and> load_all st' = (load_all st)(rl_lease_id r \<mapsto> r)"
proof -
  show "uuid_draws w' = uuid_draws w" "rs_store_path st' = rs_store_path st" "res \<noteq> Inr True \<Longrightarrow> st' = st"
    using assms by (auto simp: revocation_record_def insert_revocation_def Let_def
        split: if_splits option.splits prod.splits)
  assume "res = Inr True"
  with assms obtain rid where "rs_store_path st \<noteq> None"
    "insert_revocation r rid (isoformat (utc_now E w)) st = (True, st')"
    by (auto simp: revocation_record_def split: if_splits option.splits prod.splits)
  with load_all_insert show "rs_store_path st \<noteq> None \<and> load_all st' = (load_all st)(rl_lease_id r \<mapsto> r)"
    by blast
qed

lemma record_and_revoke_keeps: "keeps (gate_progress E) (record_and_revoke E r)"
proof (rule keepsI)
  fix s res t assume *: "record_and_revoke E r s = (res, t)"
  obtain rr st w where rec: "revocation_record E r (gs_revocation_store s) (gs_world s) = (rr, st, w)"
    by (cases "revocation_record E r (gs_revocation_store s) (gs_world s)")
  note c = revocation_record_cases [OF rec]
  have drawn: "log_drawn E (gs_audit_log s) w" if "log_drawn E (gs_audit_log s) (gs_world s)"
    using that c(1) log_drawn_same_draws [of "gs_world s" w] by simp
  show "gate_progress E s t"
  proof (cases "rr = Inr True")
    case True
    with * have t: "t = s\<lparr>gs_revocation_store := st, gs_world := w,
        gs_revocations := (gs_revocations s)(rl_lease_id r \<mapsto> r)\<rparr>"
      by (simp add: record_and_revoke_eq rec)
    from c(2) c(4) [OF True] drawn show ?thesis by (auto simp: progress_defs t)
  next
    case False
    with * c(3) have "t = s\<lparr>gs_world := w\<rparr>"
      by (auto simp: record_and_revoke_eq rec split: sum.splits bool.splits)
    with c(1) show ?thesis by (simp add: progress_world)
  qed
qed

lemma record_revocation_rejected_keeps:
  "keeps (gate_progress E) (record_revocation_rejected E r l reason summary auth)"
  unfolding record_revocation_rejected_def by (rule gate_record_keeps)

lemma commit_revocation_keeps: "keeps (gate_progress E) (commit_revocation E g r l)"
  unfolding commit_revocation_eq
  by (intro gate.keeps_rules record_and_revoke_keeps record_revocation_rejected_keeps gate_record_keeps
      new_declaration_keeps emit_fallback_keeps)

lemma revoke_raw_keeps: "keeps (gate_progress E) (revoke_raw E claimed lease)"
  unfolding revoke_raw_def by (intro gate.keeps_rules gate_record_keeps)

lemma revoke_keeps: "keeps (gate_progress E) (revoke E g arg lease now)"
proof (cases arg)
  case (RawRevocation claimed)
  then show ?thesis by (simp add: revoke_def revoke_raw_keeps)
next
  case (Revocation r)
  then show ?thesis
    unfolding revoke_def Revocation revocation_arg.case
    by (intro gate.keeps_rules record_revocation_rejected_keeps gate_record_keeps gate_now_keeps
        commit_revocation_keeps)
qed

lemma command_auth_violation_keeps: "keeps (gate_progress E) (command_auth_violation E g cmd now)"
  unfolding command_auth_violation_def by (intro gate.keeps_rules gate_now_keeps)

lemma reject_command_keeps: "keeps (gate_progress E) (reject_command E g cmd lease st reason emit auth)"
  unfolding reject_command_def Let_def
  by (intro gate.keeps_rules new_declaration_keeps gate_record_keeps emit_fallback_keeps)

lemma reject_local_edge_mismatch_keeps: "keeps (gate_progress E) (reject_local_edge_mismatch E g cmd lease)"
  unfolding reject_local_edge_mismatch_def by (intro gate.keeps_rules gate_record_keeps)

lemma allow_command_keeps: "keeps (gate_progress E) (allow_command E g cmd l st reason)"
  unfolding allow_command_def
  by (intro gate.keeps_rules remember_use_op_keeps reject_command_keeps gate_record_keeps)

lemma evaluate_lease_keeps: "keeps (gate_progress E) (evaluate_lease E g cmd l st now)"
  unfolding evaluate_lease_def
  by (intro gate.keeps_rules gate_now_keeps allow_command_keeps remember_op_keeps reject_command_keeps)

lemma evaluate_keeps: "keeps (gate_progress E) (evaluate E g cmd lease st now)"
  unfolding evaluate_def
  by (intro gate.keeps_rules command_auth_violation_keeps reject_command_keeps
      reject_local_edge_mismatch_keeps evaluate_lease_keeps)

section \<open>Every answer is on record\<close>

text \<open>Steps that leave the audit log alone.\<close>

definition log_same :: "gate_state \<Rightarrow> gate_state \<Rightarrow> bool" where
  "log_same s s' \<longleftrightarrow> gs_audit_log s' = gs_audit_log s"

interpretation quiet: effect_relation log_same
  by unfold_locales (auto simp: log_same_def)

lemma quiet_steps:
  "keeps log_same (gate_now E now)" "keeps log_same (remember_op E cmd)"
  "keeps log_same (remember_use_op E cmd l)" "keeps log_same (command_auth_violation E g cmd now)"
  "keeps log_same (new_declaration E corr rb ed mi tr ac lid rid)"
proof -
  show now: "keeps log_same (gate_now E now)"
    by (rule keepsI) (auto simp: gate_now_eq log_same_def)
  show "keeps log_same (command_auth_violation E g cmd now)"
    unfolding command_auth_violation_def by (intro quiet.keeps_rules now)
qed (rule keepsI; auto simp: remember_op_eq remember_use_op_eq new_declaration_def Let_def log_same_def)+

text \<open>
  The result of an operation is on record when the first event it adds to the log carries the result's
  audit id and tells whether the command was allowed.
\<close>

definition on_record :: "gate_state \<Rightarrow> gate_result \<Rightarrow> gate_state \<Rightarrow> bool" where
  "on_record s r s' \<longleftrightarrow>
     (\<exists>ev es. events (gs_audit_log s') = events (gs_audit_log s) @ ev # es \<and>
        gr_audit_id r = Some (audit_id ev) \<and> (gr_allowed r \<longleftrightarrow> event_type ev = COMMAND_ALLOWED))"

definition records_answer :: "(gate_state, gate_result) op \<Rightarrow> bool" where
  "records_answer m \<longleftrightarrow> (\<forall>s r s'. m s = (Inr r, s') \<longrightarrow> on_record s r s')"

lemma records_bind:
  assumes "keeps log_same m" and "\<And>a. records_answer (f a)"
  shows "records_answer (bindo m f)"
  unfolding records_answer_def
proof (intro allI impI)
  fix s r s' assume "bindo m f s = (Inr r, s')"
  then obtain a u where m: "m s = (Inr a, u)" and f: "f a u = (Inr r, s')" by (auto simp: res_simps)
  from assms(1) m have "log_same s u" by (rule keepsD)
  moreover from assms(2) f have "on_record u r s'" by (auto simp: records_answer_def)
  ultimately show "on_record s r s'" by (simp add: on_record_def log_same_def)
qed

lemma records_if: "records_answer m \<Longrightarrow> records_answer k \<Longrightarrow> records_answer (if b then m else k)"
  by simp

lemma records_checko:
  "(\<And>r. records_answer (k r)) \<Longrightarrow> records_answer rest \<Longrightarrow> records_answer (checko v k rest)"
  by (cases v) simp_all

lemma records_case_option:
  "records_answer m \<Longrightarrow> (\<And>a. records_answer (k a)) \<Longrightarrow>
     records_answer (case v of None \<Rightarrow> m | Some a \<Rightarrow> k a)"
  by (cases v) simp_all

lemma records_case_prod: "(\<And>a b. records_answer (k a b)) \<Longrightarrow> records_answer (case p of (a, b) \<Rightarrow> k a b)"
  by (cases p) simp

lemma gate_record_Inr:
  assumes "gate_record E n s = (Inr ev, s')"
  shows "events (gs_audit_log s') = events (gs_audit_log s) @ [ev]" and "event_type ev = en_event_type n"
proof -
  from assms obtain lg where app:
    "audit_append E (audit_commit_of E n (gs_world s)) (gs_audit_log s) = (Inr ev, lg)" "gs_audit_log s' = lg"
    by (auto simp: gate_record_def audit_record_def Let_def split: prod.splits)
  from audit_append_Inr [OF app(1)] show "events (gs_audit_log s') = events (gs_audit_log s) @ [ev]"
    "event_type ev = en_event_type n"
    by (auto simp: app(2) committed_event_def)
qed

text \<open>Recording first and then doing something that keeps the log growing.\<close>

lemma records_gate_record:
  assumes "\<And>ev. keeps (gate_progress E) (f ev)"
    and "\<And>ev u r s'. f ev u = (Inr r, s') \<Longrightarrow> gr_audit_id r = Some (audit_id ev) \<and>
      (gr_allowed r \<longleftrightarrow> en_event_type n = COMMAND_ALLOWED)"
  shows "records_answer (bindo (gate_record E n) f)"
  unfolding records_answer_def
proof (intro allI impI)
  fix s r s' assume "bindo (gate_record E n) f s = (Inr r, s')"
  then obtain ev u where rec: "gate_record E n s = (Inr ev, u)" and f: "f ev u = (Inr r, s')"
    by (auto simp: res_simps)
  from keepsD [OF assms(1) f] obtain es where "events (gs_audit_log s') = events (gs_audit_log u) @ es"
    by (auto simp: gate_progress_def log_extends_def)
  with gate_record_Inr [OF rec] assms(2) [OF f] show "on_record s r s'" by (simp add: on_record_def)
qed

lemma reject_command_Inr:
  "reject_command E g cmd lease st reason emit auth s = (Inr r, s') \<Longrightarrow>
     \<not> gr_allowed r \<and> gr_reason_code r = reason"
  by (auto simp: reject_command_def Let_def res_simps)

lemma reject_command_records: "records_answer (reject_command E g cmd lease st reason emit auth)"
proof -
  have ty: "en_event_type (if auth then rejected_entry E cmd lease st reason fb corr
      else untrusted_entry E cmd lease reason fb corr) \<noteq> COMMAND_ALLOWED" for fb corr
    by (simp add: rejected_entry_def untrusted_entry_def diagnostic_entry_def Let_def)
  show ?thesis
    unfolding reject_command_def Let_def
    by (intro records_bind records_gate_record quiet.keeps_rules quiet_steps gate.keeps_rules
        emit_fallback_keeps) (use ty in \<open>auto simp: res_simps\<close>)
qed

lemma reject_local_edge_mismatch_records: "records_answer (reject_local_edge_mismatch E g cmd lease)"
  unfolding reject_local_edge_mismatch_def
  by (intro records_gate_record gate.keeps_rules) (auto simp: edge_mismatch_entry_def gate_entry_def)

lemma allow_command_records: "records_answer (allow_command E g cmd l st reason)"
  unfolding allow_command_def
  by (intro records_bind records_case_prod records_if quiet_steps reject_command_records
      records_gate_record gate.keeps_rules) (auto simp: allowed_entry_def)

lemma evaluate_records: "records_answer (evaluate E g cmd lease st now)"
  unfolding evaluate_def evaluate_lease_def
  by (intro records_bind records_checko records_if records_case_option records_case_prod quiet.keeps_rules
      quiet_steps reject_command_records reject_local_edge_mismatch_records allow_command_records)

section \<open>What an allowed command went through\<close>

lemma gate_lease_checks_world [simp]:
  "gate_lease_checks g (s\<lparr>gs_world := w\<rparr>) = gate_lease_checks g s"
  by (simp add: gate_lease_checks_def revoked_lease_ids_def)

lemma command_signature_accepted:
  "command_signature_violation E keys cmd = Inr None \<Longrightarrow>
     cmd_authenticated_agent_id cmd = Some (cmd_agent_id cmd) \<and>
     protocol_version cmd = SUPPORTED_PROTOCOL_VERSION \<and>
     \<not> py_blank (command_id cmd) \<and> \<not> py_blank (command_nonce cmd)"
  by (auto simp: command_signature_violation_def guardr_None_iff bindr_Inr_iff
      split: if_splits option.splits)

lemma command_auth_None:
  assumes "command_auth_violation E g cmd now s = (Inr None, s')"
  shows "command_signature_violation E (agent_public_keys_by_id g) cmd = Inr None"
    and "command_time_violation (max_command_age_seconds g) (fst (now_or_clock E now (gs_world s))) cmd = Inr None"
    and "s' = s\<lparr>gs_world := snd (now_or_clock E now (gs_world s))\<rparr>"
  using assms by (auto simp: command_auth_violation_def checko_def res_simps gate_now_eq
      split: option.splits)

lemma allow_command_Inr:
  assumes "allow_command E g cmd l st reason s = (Inr r, s')" and "gr_allowed r"
  obtains c w rr where
    "remember_authorized_use E cmd l (gs_command_replay_cache s) (gs_world s) = ((True, rr), c, w)"
    "gs_command_replay_cache s' = c"
proof -
  obtain ok rr c w where mem:
    "remember_authorized_use E cmd l (gs_command_replay_cache s) (gs_world s) = ((ok, rr), c, w)"
    by (metis prod.collapse)
  have ok: "ok"
    using assms by (auto simp: allow_command_def res_simps remember_use_op_eq mem split: if_splits
        dest: reject_command_Inr)
  moreover have "gs_command_replay_cache s' = c"
    using assms(1) ok
    by (auto simp: allow_command_def res_simps remember_use_op_eq mem gate_record_def split: prod.splits)
  ultimately show thesis using mem that by simp
qed

lemma evaluate_lease_allowedE:
  assumes "evaluate_lease E g cmd l st now s = (Inr r, s')" and "gr_allowed r"
  obtains n c w w' rr where "n = fst (now_or_clock E now (gs_world s))"
    "lease_authorizes E (gate_lease_checks g s) (command_context_of cmd st) n l"
    "remember_authorized_use E cmd l (gs_command_replay_cache s) w = ((True, rr), c, w')"
    "gs_command_replay_cache s' = c"
proof -
  let ?n = "fst (now_or_clock E now (gs_world s))"
  let ?s = "s\<lparr>gs_world := snd (now_or_clock E now (gs_world s))\<rparr>"
  from assms(1) obtain ok reason where
    val: "validate_lease_for_command E (gate_lease_checks g s) (command_context_of cmd st) ?n (Some l) = Inr (ok, reason)"
    and rest: "(if ok then allow_command E g cmd l st reason
         else bindo (remember_op E cmd) (\<lambda>recorded.
           if \<not> recorded then reject_command E g cmd (Some l) st ''COMMAND_REPLAYED'' False True
           else reject_command E g cmd (Some l) st reason True True)) ?s = (Inr r, s')"
    by (auto simp: evaluate_lease_def res_simps gate_now_eq)
  have ok: ok
  proof (rule ccontr)
    assume "\<not> ok"
    with rest assms(2) show False by (auto simp: res_simps dest: reject_command_Inr split: if_splits)
  qed
  with rest have allow: "allow_command E g cmd l st reason ?s = (Inr r, s')" by simp
  from val ok have authorized: "lease_authorizes E (gate_lease_checks g s) (command_context_of cmd st) ?n l"
    by (simp add: validate_lease_accepts)
  show thesis
    by (rule allow_command_Inr [OF allow assms(2)]) (use that [OF refl authorized] in auto)
qed

text \<open>
  The time a lease is checked at: the time the caller passes, or the second reading of the clock, the
  first being the one of the command's own freshness check.
\<close>

definition lease_check_time :: "env \<Rightarrow> datetime option \<Rightarrow> gate_state \<Rightarrow> datetime" where
  "lease_check_time E now s = fst (now_or_clock E now (snd (now_or_clock E now (gs_world s))))"

lemma evaluate_allowedE:
  assumes "evaluate E g cmd lease st now s = (Inr r, s')" and "gr_allowed r"
  obtains l c w w' rr where "lease = Some l"
    "command_signature_violation E (agent_public_keys_by_id g) cmd = Inr None"
    "command_time_violation (max_command_age_seconds g) (fst (now_or_clock E now (gs_world s))) cmd = Inr None"
    "cmd_edge_agent_id cmd = local_edge_agent_id g" "lease_edge_agent_id l = local_edge_agent_id g"
    "\<not> contains cmd (gs_command_replay_cache s)"
    "lease_authorizes E (gate_lease_checks g s) (command_context_of cmd st) (lease_check_time E now s) l"
    "remember_authorized_use E cmd l (gs_command_replay_cache s) w = ((True, rr), c, w')"
    "gs_command_replay_cache s' = c"
proof -
  from assms(1) obtain a u where auth0: "command_auth_violation E g cmd now s = (Inr a, u)"
    and rest0: "checko a (\<lambda>reason. reject_command E g cmd lease st reason False False)
     (if local_edge_context_mismatch g cmd lease then reject_local_edge_mismatch E g cmd lease
      else bindo (gets (\<lambda>s. contains cmd (gs_command_replay_cache s))) (\<lambda>replayed.
        if replayed then reject_command E g cmd lease st ''COMMAND_REPLAYED'' False True
        else (case lease of
          None \<Rightarrow> reject_command E g cmd lease st ''NO_LEASE'' False True
        | Some l \<Rightarrow> evaluate_lease E g cmd l st now))) u = (Inr r, s')"
    unfolding evaluate_def by (auto simp: res_simps)
  from rest0 assms(2) have a: "a = None" by (cases a) (auto dest: reject_command_Inr)
  note auth = command_auth_None [OF auth0 [unfolded a]]
  note u = auth(3)
  have mism: "\<not> local_edge_context_mismatch g cmd lease"
    using rest0 assms(2) by (auto simp: a reject_local_edge_mismatch_def res_simps split: if_splits)
  from rest0 assms(2) mism obtain l where l: "lease = Some l"
    and fresh_id: "\<not> contains cmd (gs_command_replay_cache s)"
    and ev: "evaluate_lease E g cmd l st now u = (Inr r, s')"
    by (auto simp: a res_simps u split: option.splits if_splits dest!: reject_command_Inr)
  show thesis
  proof (rule evaluate_lease_allowedE [OF ev assms(2)])
    fix n c w w' rr
    assume n: "n = fst (now_or_clock E now (gs_world u))"
      "lease_authorizes E (gate_lease_checks g u) (command_context_of cmd st) n l"
      and use: "remember_authorized_use E cmd l (gs_command_replay_cache u) w = ((True, rr), c, w')"
      "gs_command_replay_cache s' = c"
    from n(1) have "n = lease_check_time E now s" by (simp add: lease_check_time_def u)
    then show thesis
      using l auth(1,2) mism fresh_id n(2) use
      by (intro that [of l w rr c w']) (auto simp: u local_edge_context_mismatch_def)
  qed
qed

end
