(* ===== verification/Gate_Runs.thy ===== *)
theory Gate_Runs
  imports Gate_Invariants
begin

text \<open>
  The life of a command gate as a step relation: commands and revocations arrive in any order, and the
  process may be restarted on its durable stores. Invariants over all reachable states, what an allowed
  command and an effective revocation went through, and what is on record afterwards.
\<close>

section \<open>What a revocation needs to take effect\<close>

definition revocation_authorized ::
  "env \<Rightarrow> command_gate \<Rightarrow> datetime \<Rightarrow> lease_revocation \<Rightarrow> capability_lease \<Rightarrow> bool" where
  "revocation_authorized E g now r l \<longleftrightarrow>
     protocol_version r = SUPPORTED_PROTOCOL_VERSION \<and>
     lease_edge_agent_id l = local_edge_agent_id g \<and> rev_edge_agent_id r = local_edge_agent_id g \<and>
     rev_revoked_by r \<in> trusted_revoker_ids g \<and>
     ''signature_alg'' \<in> fields_set r \<and> signature_alg r = ED25519_SIGNATURE_ALGORITHM \<and>
     (\<exists>sig pk. signature r = Some sig \<and> revoker_public_keys_by_id g (rev_revoked_by r) = Some pk \<and>
        verify_with_public_key_b64 E (revocation_dump E r) sig pk) \<and>
     \<not> signed_revocation_material_budget_violation r \<and>
     lease_edge_agent_id l \<in> revoker_scope g (rev_revoked_by r) \<and>
     revocation_time_violation (max_revocation_age_seconds g) now r = Inr None \<and>
     lease_id l = rev_lease_id r \<and> \<not> revocation_context_conflicts r l"

text \<open>Steps that leave the table of revocations alone.\<close>

definition revocations_same :: "gate_state \<Rightarrow> gate_state \<Rightarrow> bool" where
  "revocations_same s s' \<longleftrightarrow> gs_revocations s' = gs_revocations s"

interpretation unrevoked: effect_relation revocations_same
  by unfold_locales (auto simp: revocations_same_def)

lemma unrevoked_steps:
  "keeps revocations_same (gate_now E now)" "keeps revocations_same (gate_record E n)"
  "keeps revocations_same (new_declaration E corr rb ed mi tr ac lid rid)"
  "keeps revocations_same (deliver g d)"
  "keeps revocations_same (record_revocation_rejected E r l reason summary auth)"
  "keeps revocations_same (modify (\<lambda>s. s\<lparr>gs_fallback_events := gs_fallback_events s @ [d]\<rparr>))"
proof -
  show rec: "keeps revocations_same (gate_record E n)" for n
    by (rule keepsI) (auto simp: gate_record_def revocations_same_def split: prod.splits)
  show "keeps revocations_same (record_revocation_rejected E r l reason summary auth)"
    unfolding record_revocation_rejected_def by (rule rec)
qed (rule keepsI; auto simp: gate_now_eq new_declaration_def deliver_def Let_def revocations_same_def
      split: option.splits)+

lemma emit_fallback_unrevoked: "keeps revocations_same (emit_fallback E g d)"
  unfolding emit_fallback_def by (intro unrevoked.keeps_rules unrevoked_steps)

text \<open>
  An operation that changes the table of revocations only in states that satisfy \<open>P\<close> and only by one
  entry; it answers with a declaration only then, and then it either does or raises.
\<close>

definition revokes_if ::
  "(gate_state \<Rightarrow> bool) \<Rightarrow> string \<Rightarrow> revoked_lease \<Rightarrow> (gate_state, fallback_declaration option) op \<Rightarrow> bool" where
  "revokes_if P lid rl m \<longleftrightarrow>
     (\<forall>s res s'. m s = (res, s') \<longrightarrow>
        gs_revocations s' = gs_revocations s \<and> (\<forall>d. res \<noteq> Inr (Some d)) \<or>
        P s \<and> gs_revocations s' = (gs_revocations s)(lid \<mapsto> rl) \<and> res \<noteq> Inr None)"

lemma revokes_reject: "keeps revocations_same m \<Longrightarrow> revokes_if P lid rl (reject_with m msg)"
  unfolding revokes_if_def seqo_def
  by (auto simp: bindo_eq revocations_same_def dest: keepsD)

lemma revokes_if_split:
  "(b \<Longrightarrow> revokes_if P lid rl m) \<Longrightarrow> (\<not> b \<Longrightarrow> revokes_if P lid rl k) \<Longrightarrow>
     revokes_if P lid rl (if b then m else k)"
  by simp

lemma revokes_checko:
  "(\<And>r. revokes_if P lid rl (k r)) \<Longrightarrow> (v = None \<Longrightarrow> revokes_if P lid rl rest) \<Longrightarrow>
     revokes_if P lid rl (checko v k rest)"
  by (cases v) simp_all

lemma revokes_case_option:
  "revokes_if P lid rl m \<Longrightarrow> (\<And>a. v = Some a \<Longrightarrow> revokes_if P lid rl (k a)) \<Longrightarrow>
     revokes_if P lid rl (case v of None \<Rightarrow> m | Some a \<Rightarrow> k a)"
  by (cases v) simp_all

text \<open>The rule for reading the time: what follows may depend on the reading.\<close>

lemma revokes_now:
  assumes "\<And>n. revokes_if (\<lambda>_. Q n) lid rl (f n)"
  shows "revokes_if (\<lambda>s. Q (fst (now_or_clock E now (gs_world s)))) lid rl (bindo (gate_now E now) f)"
  using assms unfolding revokes_if_def by (fastforce simp: bindo_run gate_now_eq)

lemma revokes_liftr:
  assumes "\<And>a. v = Inr a \<Longrightarrow> revokes_if P lid rl (f a)"
  shows "revokes_if P lid rl (bindo (liftr v) f)"
proof (cases v)
  case (Inl e)
  then show ?thesis by (auto simp: revokes_if_def bindo_def)
next
  case (Inr a)
  then have "bindo (liftr v) f = f a" by (simp add: fun_eq_iff bindo_def)
  with assms Inr show ?thesis by simp
qed

lemma commit_revocation_revokes:
  "Q \<Longrightarrow> revokes_if (\<lambda>_. Q) (rev_lease_id r) (revoked_lease_of r (Some l)) (commit_revocation E g r l)"
proof -
  assume Q
  let ?tail = "\<lambda>recorded. if \<not> recorded
       then bindo (record_revocation_rejected E r l ''REVOCATION_REPLAYED''
              ''revocation rejected because revocation_id was already accepted'' True) (\<lambda>_. ret None)
       else
         bindo (gate_record E (lease_revoked_entry g r l)) (\<lambda>_.
          bindo (new_declaration E (or_str (Some (correlation_id r)) (lease_id l)) (lease_robot_id l)
                   (lease_edge_agent_id l) (lease_mission_id l) (rev_reason_code r)
                   (local_fallback_action g (rev_reason_code r)) (Some (lease_id l))
                   (Some (message_id r))) (\<lambda>d.
          bindo (emit_fallback E g d) (\<lambda>d'. ret (Some d'))))"
  have tail: "keeps revocations_same (?tail b)" for b
    by (intro unrevoked.keeps_rules unrevoked_steps emit_fallback_unrevoked)
  have none: "?tail False s = (res, s') \<Longrightarrow> res \<noteq> Inr (Some d)" for s res s' d
    by (auto simp: bindo_eq)
  have some: "?tail True s = (res, s') \<Longrightarrow> res \<noteq> Inr None" for s res s'
    by (auto simp: bindo_eq)
  have id: "rl_lease_id (revoked_lease_of r (Some l)) = rev_lease_id r"
    by (simp add: revoked_lease_of_def Let_def)
  show ?thesis
    unfolding revokes_if_def commit_revocation_eq
  proof (intro allI impI)
    fix s res s'
    assume run: "bindo (record_and_revoke E (revoked_lease_of r (Some l))) ?tail s = (res, s')"
    obtain rr u where rec: "record_and_revoke E (revoked_lease_of r (Some l)) s = (rr, u)" by force
    have u: "gs_revocations u = (if rr = Inr True
        then (gs_revocations s)(rev_lease_id r \<mapsto> revoked_lease_of r (Some l)) else gs_revocations s)"
      using rec by (auto simp: record_and_revoke_eq id split: prod.splits sum.splits bool.splits)
    show "gs_revocations s' = gs_revocations s \<and> (\<forall>d. res \<noteq> Inr (Some d)) \<or>
        Q \<and> gs_revocations s' = (gs_revocations s)(rev_lease_id r \<mapsto> revoked_lease_of r (Some l)) \<and>
        res \<noteq> Inr None"
    proof (cases rr)
      case (Inl e)
      with run rec u show ?thesis by (auto simp: bindo_run)
    next
      case (Inr b)
      with run rec have t: "?tail b u = (res, s')" by (simp add: bindo_run)
      from keepsD [OF tail t] have "gs_revocations s' = gs_revocations u" by (simp add: revocations_same_def)
      with t u Inr none some \<open>Q\<close> show ?thesis by (cases b) auto
    qed
  qed
qed

lemma revoke_revokes:
  "revokes_if (\<lambda>s. revocation_authorized E g (fst (now_or_clock E now (gs_world s))) r l) (rev_lease_id r)
     (revoked_lease_of r (Some l)) (revoke E g (Revocation r) (Some l) now)"
  unfolding revoke_def revocation_arg.case option.case
  by (intro revokes_checko revokes_if_split revokes_case_option revokes_reject revokes_liftr
      revokes_now unrevoked_steps commit_revocation_revokes)
    (auto simp: revocation_authorized_def signature_algorithm_violation_None split: if_splits)

text \<open>A raw revocation and one without its lease are refused.\<close>

lemma raw_revocation_unrevoked:
  assumes "revoke E g arg lease now s = (res, s')" and "\<nexists>rv l. arg = Revocation rv \<and> lease = Some l"
  shows "gs_revocations s' = gs_revocations s" and "res \<noteq> Inr (Some d)"
proof -
  have raw: "keeps revocations_same (revoke_raw E claimed lease)" for claimed lease
    unfolding revoke_raw_def by (intro unrevoked.keeps_rules unrevoked_steps)
  have rejected: "keeps revocations_same (seqo (gate_record E n) (raise e))" for n e
    by (intro unrevoked.keeps_rules unrevoked_steps)
  have "keeps revocations_same (revoke E g arg lease now)"
    using assms(2) by (cases arg; cases lease) (auto simp: revoke_def raw rejected)
  from keepsD [OF this assms(1)] show "gs_revocations s' = gs_revocations s"
    by (simp add: revocations_same_def)
  show "res \<noteq> Inr (Some d)"
    using assms by (cases arg; cases lease) (auto simp: revoke_def revoke_raw_def seqo_def bindo_eq)
qed

section \<open>Steps and runs\<close>

text \<open>
  A label records what arrived and what the handler answered. After a restart the constructor runs
  again with the same configuration on the stores it finds, continuing the audit log or with a new one.
\<close>

datatype gate_label =
    Evaluated edge_command "capability_lease option" "gate_result res"
  | Revoked revocation_arg "capability_lease option" "fallback_declaration option res"
  | Restarted

definition reopened ::
  "(string set \<Rightarrow> string) \<Rightarrow> gate_args \<Rightarrow> bool \<Rightarrow> gate_state \<Rightarrow> (command_gate \<times> gate_state) res" where
  "reopened first_of a keep_log s =
     (let c = gs_command_replay_cache s; st = gs_revocation_store s in
      bindr (CommandReplayCache (cc_store_path c) None (cc_entries c)) (\<lambda>c'.
      bindr (RevocationStore (rs_store_path st) None (rs_revoked_leases st) (rs_messages st)) (\<lambda>st'.
        CommandGate first_of a (Some c') (Some st') (if keep_log then Some (gs_audit_log s) else None)
          (gs_world s))))"

inductive gate_step :: "env \<Rightarrow> command_gate \<Rightarrow> gate_state \<Rightarrow> gate_label \<Rightarrow> gate_state \<Rightarrow> bool"
  for E g where
  step_evaluate: "evaluate E g cmd lease st now s = (r, s') \<Longrightarrow> gate_step E g s (Evaluated cmd lease r) s'"
| step_revoke: "revoke E g arg lease now s = (r, s') \<Longrightarrow> gate_step E g s (Revoked arg lease r) s'"
| step_restart: "reopened first_of a keep_log s = Inr (g, s') \<Longrightarrow> gate_step E g s Restarted s'"

inductive_cases gate_step_EvaluatedE: "gate_step E g s (Evaluated cmd lease r) s'"
inductive_cases gate_step_RevokedE: "gate_step E g s (Revoked arg lease r) s'"
inductive_cases gate_step_RestartedE: "gate_step E g s Restarted s'"

inductive gate_run :: "env \<Rightarrow> command_gate \<Rightarrow> gate_state \<Rightarrow> gate_label list \<Rightarrow> gate_state \<Rightarrow> bool"
  for E g where
  run_nil: "gate_run E g s [] s"
| run_cons: "gate_step E g s x t \<Longrightarrow> gate_run E g t xs u \<Longrightarrow> gate_run E g s (x # xs) u"

inductive_simps gate_run_Nil [simp]: "gate_run E g s [] u"
inductive_simps gate_run_Cons [simp]: "gate_run E g s (x # xs) u"

lemma gate_run_append [simp]:
  "gate_run E g s (xs @ ys) u \<longleftrightarrow> (\<exists>t. gate_run E g s xs t \<and> gate_run E g t ys u)"
  by (induction xs arbitrary: s) auto

text \<open>The states a gate can be in: the constructor's, and whatever steps lead to.\<close>

definition gate_ok :: "env \<Rightarrow> gate_state \<Rightarrow> bool" where
  "gate_ok E s \<longleftrightarrow> stores_open s \<and> revocations_synced s \<and> gate_log_ok E s"

definition authority_grows :: "gate_state \<Rightarrow> gate_state \<Rightarrow> bool" where
  "authority_grows s s' \<longleftrightarrow> used_keys s \<subseteq> used_keys s' \<and> dom (gs_revocations s) \<subseteq> dom (gs_revocations s')"

interpretation authority: effect_relation authority_grows
  by unfold_locales (simp_all add: authority_grows_def, metis subset_trans)

lemma progress_ok: "gate_progress E s s' \<Longrightarrow> gate_ok E s \<Longrightarrow> gate_ok E s' \<and> authority_grows s s'"
  by (auto simp: gate_progress_def gate_ok_def authority_grows_def)

lemma CommandGate_Inr:
  assumes "CommandGate first_of a (Some c) (Some st) lg w = Inr (g, s)"
  shows "gs_command_replay_cache s = c" "gs_revocation_store s = st" "gs_revocations s = load_all st"
    "gs_audit_log s = (case lg of None \<Rightarrow> AuditLog | Some x \<Rightarrow> x)" "gs_world s = w" "g = gate_of_args first_of a"
    "command_cache_durable c" "revocation_store_durable st"
proof -
  from assms have v: "gate_args_violation a (Some c) (Some st) = None"
    by (simp add: CommandGate_def split: option.splits)
  then show "command_cache_durable c" "revocation_store_durable st"
    unfolding gate_args_violation_def by (simp_all split: if_splits)
  from assms v show "gs_command_replay_cache s = c" "gs_revocation_store s = st"
    "gs_revocations s = load_all st" "gs_audit_log s = (case lg of None \<Rightarrow> AuditLog | Some x \<Rightarrow> x)"
    "gs_world s = w" "g = gate_of_args first_of a"
    by (auto simp: CommandGate_def)
qed

lemma CommandGate_ok:
  assumes "CommandGate first_of a (Some c) (Some st) lg w = Inr (g, s)"
    and "\<And>x. lg = Some x \<Longrightarrow> log_ok E x \<and> log_drawn E x w"
  shows "gate_ok E s"
  using CommandGate_Inr [OF assms(1)] assms(2) AuditLog_ok
  by (auto simp: gate_ok_def stores_open_def revocations_synced_def gate_log_ok_def
      command_cache_durable_def revocation_store_durable_def split: option.splits)

text \<open>What a restart reads back from the stores, whatever the process knew before.\<close>

lemma reopened_reads:
  assumes "reopened first_of a keep_log s = Inr (g, s')" and "stores_open s"
  shows "cc_entries (gs_command_replay_cache s') = cc_entries (gs_command_replay_cache s)"
    and "rs_revoked_leases (gs_revocation_store s') = rs_revoked_leases (gs_revocation_store s)"
    and "gs_revocations s' = load_all (gs_revocation_store s)"
    and "stores_open s'" and "revocations_synced s'" and "gate_log_ok E s \<Longrightarrow> gate_log_ok E s'"
    and "dom (map_of (rs_messages (gs_revocation_store s))) \<subseteq> dom (map_of (rs_messages (gs_revocation_store s')))"
proof -
  from assms(1) obtain c' st' where
    c': "CommandReplayCache (cc_store_path (gs_command_replay_cache s)) None
      (cc_entries (gs_command_replay_cache s)) = Inr c'"
    and st': "RevocationStore (rs_store_path (gs_revocation_store s)) None
      (rs_revoked_leases (gs_revocation_store s)) (rs_messages (gs_revocation_store s)) = Inr st'"
    and gate: "CommandGate first_of a (Some c') (Some st') (if keep_log then Some (gs_audit_log s) else None)
      (gs_world s) = Inr (g, s')"
    by (auto simp: reopened_def Let_def res_simps)
  note s' = CommandGate_Inr [OF gate]
  show "cc_entries (gs_command_replay_cache s') = cc_entries (gs_command_replay_cache s)"
    using c' assms(2) by (auto simp: s' CommandReplayCache_def stores_open_def Let_def split: if_splits)
  have revoked: "rs_revoked_leases st' = rs_revoked_leases (gs_revocation_store s)"
    and path: "rs_store_path st' = rs_store_path (gs_revocation_store s)"
    and messages: "rs_messages st' =
      backfill_messages (rs_revoked_leases (gs_revocation_store s)) (rs_messages (gs_revocation_store s))"
    using st' assms(2) by (auto simp: RevocationStore_def stores_open_def Let_def split: if_splits)
  show "dom (map_of (rs_messages (gs_revocation_store s))) \<subseteq> dom (map_of (rs_messages (gs_revocation_store s')))"
    by (simp add: s' messages backfill_mono)
  from revoked path show "rs_revoked_leases (gs_revocation_store s') = rs_revoked_leases (gs_revocation_store s)"
    "gs_revocations s' = load_all (gs_revocation_store s)" by (simp_all add: s' load_all_eq)
  show "stores_open s'" "revocations_synced s'"
    using s'(7,8) by (simp_all add: s' stores_open_def revocations_synced_def command_cache_durable_def
        revocation_store_durable_def)
  show "gate_log_ok E s'" if "gate_log_ok E s"
    using that AuditLog_ok [of E] by (auto simp: gate_log_ok_def s'(4,5))
qed

lemma reopened_ok:
  assumes "reopened first_of a keep_log s = Inr (g, s')" and "gate_ok E s"
  shows "gate_ok E s'" and "used_keys s' = used_keys s" and "gs_revocations s' = gs_revocations s"
proof -
  from assms(2) have "stores_open s" by (simp add: gate_ok_def)
  note reads = reopened_reads [OF assms(1) this]
  from reads(1,3-6) assms(2) show "gate_ok E s'" "used_keys s' = used_keys s" "gs_revocations s' = gs_revocations s"
    by (simp_all add: gate_ok_def used_keys_def revocations_synced_def)
qed

lemma gate_step_ok:
  assumes "gate_step E g s x s'" and "gate_ok E s"
  shows "gate_ok E s' \<and> authority_grows s s'"
  using assms
proof (cases rule: gate_step.cases)
  case (step_evaluate cmd lease st now r)
  from step_evaluate(2) have "gate_progress E s s'" by (rule keepsD [OF evaluate_keeps])
  then show ?thesis using assms(2) by (rule progress_ok)
next
  case (step_revoke arg lease now r)
  from step_revoke(2) have "gate_progress E s s'" by (rule keepsD [OF revoke_keeps])
  then show ?thesis using assms(2) by (rule progress_ok)
next
  case (step_restart first_of a keep_log)
  from reopened_ok [OF step_restart(2) assms(2)] show ?thesis by (simp add: authority_grows_def)
qed

lemma gate_run_ok: "gate_run E g s xs s' \<Longrightarrow> gate_ok E s \<Longrightarrow> gate_ok E s' \<and> authority_grows s s'"
proof (induction rule: gate_run.induct)
  case (run_cons s x t xs u)
  from gate_step_ok [OF run_cons.hyps(1) run_cons.prems] run_cons.IH show ?case
    by (metis authority.R_trans)
qed (simp add: authority.R_refl)

text \<open>The identifiers that allowing a command uses up.\<close>

definition use_keys :: "edge_command \<Rightarrow> capability_lease \<Rightarrow> replay_key set" where
  "use_keys cmd l = set (map fst (use_entries (cmd_agent_id cmd) cmd l))"

lemma evaluate_allowed_lease:
  assumes "evaluate E g cmd lease st now s = (Inr r, s')" and "gr_allowed r"
  shows "\<exists>l. lease = Some l \<and> lease_id l \<notin> dom (gs_revocations s)"
  using assms by (rule evaluate_allowedE)
    (auto simp: lease_authorizes_def gate_lease_checks_def revoked_lease_ids_def)

section \<open>Properties\<close>

text \<open>
  C1. A command is forwarded only with authority: when the gate allows a command, the agent it names signed
  it, it is fresh and its identifiers are new, it and its lease are for this edge, and the lease
  authorizes it under the gate's configuration and the revocations known at that moment.
\<close>

theorem gate_allows_only_authorized:
  assumes "evaluate E g cmd lease st now s = (Inr r, s')" and "gr_allowed r"
  shows "\<exists>l. lease = Some l \<and>
    command_signature_violation E (agent_public_keys_by_id g) cmd = Inr None \<and>
    command_time_violation (max_command_age_seconds g) (fst (now_or_clock E now (gs_world s))) cmd = Inr None \<and>
    cmd_edge_agent_id cmd = local_edge_agent_id g \<and> lease_edge_agent_id l = local_edge_agent_id g \<and>
    \<not> contains cmd (gs_command_replay_cache s) \<and>
    lease_authorizes E (gate_lease_checks g s) (command_context_of cmd st) (lease_check_time E now s) l"
  using assms by (rule evaluate_allowedE) blast

text \<open>
  C9. Only an authorized revocation changes the gate's table of revocations: a message, not a raw identifier,
  that comes with its lease, is in this protocol version, for this edge, by a trusted revoker scoped to the
  edge, verified under its key, fresh and consistent, and matching the lease it names. It then adds exactly
  the entry of that lease; every other call of revoke leaves the table as it was.
\<close>

theorem revocations_change_only_authorized:
  assumes "revoke E g arg lease now s = (res, s')" and "gs_revocations s' \<noteq> gs_revocations s"
  shows "\<exists>rv l. arg = Revocation rv \<and> lease = Some l \<and>
    revocation_authorized E g (fst (now_or_clock E now (gs_world s))) rv l \<and>
    gs_revocations s' = (gs_revocations s)(lease_id l \<mapsto> revoked_lease_of rv (Some l))"
proof -
  from raw_revocation_unrevoked(1) [OF assms(1)] assms(2) obtain rv l where
    arg: "arg = Revocation rv" "lease = Some l" by blast
  from revoke_revokes [of E g now rv l] assms(1) [unfolded arg] assms(2)
  have "revocation_authorized E g (fst (now_or_clock E now (gs_world s))) rv l"
    and "gs_revocations s' = (gs_revocations s)(rev_lease_id rv \<mapsto> revoked_lease_of rv (Some l))"
    unfolding revokes_if_def by metis+
  with arg show ?thesis by (auto simp: revocation_authorized_def)
qed

text \<open>
  C15. Every answer is on record: whatever the gate answers to a command, the log has grown, the first new
  event carries the audit id of the answer and says COMMAND_ALLOWED exactly when the command was allowed,
  and the log is still a hash chain that the batch validator accepts.
\<close>

theorem every_answer_audited:
  assumes "gate_ok E s" and "evaluate E g cmd lease st now s = (Inr r, s')"
  shows "on_record s r s' \<and> audit_batch_chain_violation E (events (gs_audit_log s')) = None"
proof -
  have "on_record s r s'" using evaluate_records assms(2) by (auto simp: records_answer_def)
  moreover have "gate_ok E s'"
    using progress_ok [OF keepsD [OF evaluate_keeps assms(2)] assms(1)] by simp
  ultimately show ?thesis
    by (auto simp: batch_chain_accepts gate_ok_def gate_log_ok_def log_ok_def on_record_def)
qed

text \<open>
  C25. Restarting on the same durable stores restores the gate's authority state: the table of revocations
  is the one before the restart, exactly the identifiers used before it are used, and a revocation whose
  message was accepted before is not accepted again.
\<close>

theorem restart_restores_authority:
  assumes "gate_ok E s" and "reopened first_of a keep_log s = Inr (g, s')"
  shows "gs_revocations s' = gs_revocations s \<and> used_keys s' = used_keys s \<and> gate_ok E s' \<and>
    (rl_revocation_id r = Some rid \<and> rid \<in> dom (map_of (rs_messages (gs_revocation_store s))) \<longrightarrow>
       fst (revocation_record E r (gs_revocation_store s') w) = Inr False)"
proof -
  note ok = reopened_ok [OF assms(2,1)]
  from assms(1) have "stores_open s" by (simp add: gate_ok_def)
  from reopened_reads(4,7) [OF assms(2) this]
  have "rl_revocation_id r = Some rid \<Longrightarrow> rid \<in> dom (map_of (rs_messages (gs_revocation_store s))) \<Longrightarrow>
      fst (revocation_record E r (gs_revocation_store s') w) = Inr False"
    by (auto simp: revocation_record_def insert_revocation_def stores_open_def)
  with ok show ?thesis by blast
qed

text \<open>
  C14. Gates start well and stay well: a gate built by the constructor on durable stores, and every state
  that any sequence of commands, revocations and restarts leads to, has its stores open, its table of
  revocations equal to what the store would load, and an audit log that is a hash chain.
\<close>

theorem gate_invariant:
  assumes "CommandGate first_of a (Some c) (Some st) None w = Inr (g, s)" and "gate_run E g s xs s'"
  shows "stores_open s' \<and> revocations_synced s' \<and> log_ok E (gs_audit_log s')"
  using gate_run_ok [OF assms(2) CommandGate_ok [OF assms(1)]] by (simp add: gate_ok_def gate_log_ok_def)

end
