(* ===== verification/Gate_Liveness.thy ===== *)
theory Gate_Liveness
  imports Gate_Runs
begin

text \<open>
  The gate does its work: a command with everything in order is allowed, and a revocation with everything
  in order takes effect, is recorded and answered with a fallback declaration. These are the converses
  of the safety properties of the theory \<open>Gate_Runs\<close>.
\<close>

text \<open>The identifiers drawn so far and the next \<open>n\<close> are pairwise distinct.\<close>

definition draws_distinct :: "env \<Rightarrow> gate_state \<Rightarrow> nat \<Rightarrow> bool" where
  "draws_distinct E s n \<longleftrightarrow> inj_on (uuid4_hex E) {..<uuid_draws (gs_world s) + n}"

lemma draws_distinct_less: "draws_distinct E s n \<Longrightarrow> uuid_draws (gs_world s') + m \<le> uuid_draws (gs_world s) + n \<Longrightarrow>
    draws_distinct E s' m"
  unfolding draws_distinct_def by (erule inj_on_subset) auto

text \<open>Recording an entry that is complete succeeds; it uses two identifiers.\<close>

definition entry_complete :: "audit_entry \<Rightarrow> bool" where
  "entry_complete n \<longleftrightarrow> (authority_event (en_event_type n) \<longrightarrow>
     en_authority_relevant n \<and> en_robot_id n \<noteq> None \<and> en_mission_id n \<noteq> None)"

lemma entries_complete [simp]:
  "entry_complete (gate_entry ty actor robot mission corr summary payload related)"
  "entry_complete (allowed_entry E cmd l st reason)"
  "entry_complete (lease_revoked_entry g r l)"
  "entry_complete (rejected_entry E cmd lease st reason fb corr)"
  "entry_complete (untrusted_entry E cmd lease reason fb corr)"
  "entry_complete (edge_mismatch_entry g cmd lease)"
  by (simp_all add: entry_complete_def gate_entry_def allowed_entry_def lease_revoked_entry_def
      rejected_entry_def untrusted_entry_def diagnostic_entry_def edge_mismatch_entry_def Let_def)

lemma gate_record_ok:
  assumes "gate_log_ok E s" and "draws_distinct E s 2" and "entry_complete n"
  shows "gate_record E n s =
    (Inr (recorded E n (gs_audit_log s) (gs_world s)),
     s\<lparr>gs_audit_log := \<lparr>events = events (gs_audit_log s) @ [recorded E n (gs_audit_log s) (gs_world s)],
          audit_ids = insert (''audit_'' @ uuid4_hex E (Suc (uuid_draws (gs_world s))))
            (audit_ids (gs_audit_log s))\<rparr>,
       gs_world := draw (tick (draw (gs_world s)))\<rparr>)"
proof -
  have "{..Suc (uuid_draws (gs_world s))} = {..<uuid_draws (gs_world s) + 2}" by auto
  with assms(2) have "inj_on (uuid4_hex E) {..Suc (uuid_draws (gs_world s))}" by (simp add: draws_distinct_def)
  moreover have "log_drawn E (gs_audit_log s) (gs_world s)" using assms(1) by (simp add: gate_log_ok_def)
  ultimately show ?thesis
    using assms(3) by (simp add: gate_record_def audit_record_ok entry_complete_def)
qed

section \<open>Commands\<close>

lemma remember_use_ok:
  assumes "cmd_authenticated_agent_id cmd = Some (cmd_agent_id cmd)" and "cc_store_path c \<noteq> None"
    and "use_keys cmd l \<inter> dom (cc_entries c) = {}"
  shows "\<exists>m. remember_authorized_use E cmd l c w = ((True, ''LEASE_VALID''), c\<lparr>cc_entries := m\<rparr>, tick w) \<and>
    dom m = dom (cc_entries c) \<union> use_keys cmd l"
proof -
  obtain m where m: "insert_entries (use_entries (cmd_agent_id cmd) cmd l)
      (replay_row cmd (isoformat (utc_now E w))) (cc_entries c) = Inr m"
    using assms(3) insert_entries_Inr_iff [OF entries_distinct(2)] unfolding use_keys_def by metis
  then have "remember_authorized_use E cmd l c w = ((True, ''LEASE_VALID''), c\<lparr>cc_entries := m\<rparr>, tick w)"
    using assms(1,2) by (simp add: remember_authorized_use_def)
  with insert_entries_dom [OF m] show ?thesis unfolding use_keys_def by blast
qed

text \<open>Everything an allowed command needs, collected.\<close>

definition command_authorized ::
  "env \<Rightarrow> command_gate \<Rightarrow> edge_command \<Rightarrow> capability_lease \<Rightarrow> robot_state_assertion option
    \<Rightarrow> datetime option \<Rightarrow> gate_state \<Rightarrow> bool" where
  "command_authorized E g cmd l st now s \<longleftrightarrow>
     command_signature_violation E (agent_public_keys_by_id g) cmd = Inr None \<and>
     command_time_violation (max_command_age_seconds g) (fst (now_or_clock E now (gs_world s))) cmd = Inr None \<and>
     cmd_edge_agent_id cmd = local_edge_agent_id g \<and> lease_edge_agent_id l = local_edge_agent_id g \<and>
     lease_authorizes E (gate_lease_checks g s) (command_context_of cmd st) (lease_check_time E now s) l \<and>
     use_keys cmd l \<inter> used_keys s = {}"

lemma evaluate_authorized_open:
  assumes ok: "stores_open s" and lg: "gate_log_ok E s" and ids: "draws_distinct E s 2"
    and auth: "command_authorized E g cmd l st now s"
  shows "\<exists>r s'. evaluate E g cmd (Some l) st now s = (Inr r, s') \<and> gr_allowed r \<and>
    gr_reason_code r = ''LEASE_VALID'' \<and> used_keys s' = used_keys s \<union> use_keys cmd l \<and>
    gs_revocations s' = gs_revocations s \<and> uuid_draws (gs_world s') = uuid_draws (gs_world s) + 2"
proof -
  define w1 where "w1 = snd (now_or_clock E now (gs_world s))"
  define w2 where "w2 = snd (now_or_clock E now w1)"
  have dw: "uuid_draws w1 = uuid_draws (gs_world s)" "uuid_draws w2 = uuid_draws (gs_world s)"
    by (simp_all add: w1_def w2_def)
  note auth' = auth [unfolded command_authorized_def]
  from auth' have agent: "cmd_authenticated_agent_id cmd = Some (cmd_agent_id cmd)"
    using command_signature_accepted by blast
  from ok have opn: "cc_store_path (gs_command_replay_cache s) \<noteq> None" by (simp add: stores_open_def)
  from auth' have new: "use_keys cmd l \<inter> dom (cc_entries (gs_command_replay_cache s)) = {}"
    by (simp add: used_keys_def)
  obtain m where use: "remember_authorized_use E cmd l (gs_command_replay_cache s) w2 =
      ((True, ''LEASE_VALID''), (gs_command_replay_cache s)\<lparr>cc_entries := m\<rparr>, tick w2)"
    and m: "dom m = dom (cc_entries (gs_command_replay_cache s)) \<union> use_keys cmd l"
    using remember_use_ok [OF agent opn new] by blast
  let ?s = "s\<lparr>gs_command_replay_cache := (gs_command_replay_cache s)\<lparr>cc_entries := m\<rparr>, gs_world := tick w2\<rparr>"
  have "gate_log_ok E ?s"
    using lg log_drawn_same_draws [of "gs_world s" "tick w2"] by (simp add: gate_log_ok_def dw)
  moreover have "draws_distinct E ?s 2" using ids by (simp add: draws_distinct_def dw)
  ultimately obtain ev lg' where rec: "gate_record E (allowed_entry E cmd l st ''LEASE_VALID'') ?s =
      (Inr ev, ?s\<lparr>gs_audit_log := lg', gs_world := draw (tick (draw (tick w2)))\<rparr>)"
    by (simp add: gate_record_ok)
  have auth_ok: "command_auth_violation E g cmd now s = (Inr None, s\<lparr>gs_world := w1\<rparr>)"
    using auth' by (simp add: command_auth_violation_def bindo_run gate_now_eq w1_def)
  have "\<not> contains cmd (gs_command_replay_cache s)"
    using new agent opn by (auto simp: contains_def use_keys_def use_entries_def command_entries_def domIff)
  moreover have "validate_lease_for_command E (gate_lease_checks g s) (command_context_of cmd st)
      (fst (now_or_clock E now w1)) (Some l) = Inr (True, ''LEASE_VALID'')"
    using auth' by (simp add: validate_lease_accepts lease_check_time_def w1_def)
  ultimately have "evaluate E g cmd (Some l) st now s =
      (Inr \<lparr>gr_allowed = True, gr_reason_code = ''LEASE_VALID'', gr_audit_id = Some (audit_id ev),
            gr_fallback_action = None, gr_fallback_declaration = None\<rparr>,
       ?s\<lparr>gs_audit_log := lg', gs_world := draw (tick (draw (tick w2)))\<rparr>)"
    using auth' rec
    by (simp add: evaluate_def evaluate_lease_def allow_command_def bindo_run auth_ok gate_now_eq
        local_edge_context_mismatch_def remember_use_op_eq use w2_def [symmetric])
  with m show ?thesis by (simp add: used_keys_def dw)
qed

lemma evaluate_authorized:
  assumes "gate_ok E s" and "draws_distinct E s 2" and "command_authorized E g cmd l st now s"
  shows "\<exists>r s'. evaluate E g cmd (Some l) st now s = (Inr r, s') \<and> gr_allowed r \<and>
    gr_reason_code r = ''LEASE_VALID'' \<and> used_keys s' = used_keys s \<union> use_keys cmd l \<and>
    gs_revocations s' = gs_revocations s \<and> uuid_draws (gs_world s') = uuid_draws (gs_world s) + 2"
  using evaluate_authorized_open [OF _ _ assms(2,3)] assms(1) by (simp add: gate_ok_def)

section \<open>Revocations\<close>

text \<open>The signer and the sink that the gate was given, where it was given any, do not raise.\<close>

definition fallback_hooks_ok :: "command_gate \<Rightarrow> bool" where
  "fallback_hooks_ok g \<longleftrightarrow>
     (\<forall>signer d. fallback_signer g = Some signer \<longrightarrow> (\<exists>sig. signer d = Inr sig)) \<and>
     (\<forall>sink d. fallback_sink g = Some sink \<longrightarrow> sink d = Inr ())"

lemma sign_declaration_ok:
  assumes "fallback_hooks_ok g"
  shows "\<exists>d'. sign_declaration g d = Inr d' \<and> fb_fallback_action d' = fb_fallback_action d \<and>
    fb_trigger d' = fb_trigger d \<and> fb_lease_id d' = fb_lease_id d"
proof (cases "fallback_signer g")
  case (Some signer)
  let ?d = "d\<lparr>fb_authenticated_declared_by := Some (or_str (fallback_authenticated_declared_by g) (fb_declared_by d)),
    signature_alg := ED25519_SIGNATURE_ALGORITHM, signature := None,
    fields_set := fields_set d \<union> {''authenticated_declared_by'', ''signature_alg'', ''signature''}\<rparr>"
  from assms Some obtain sig where "signer ?d = Inr sig" unfolding fallback_hooks_ok_def by blast
  with Some show ?thesis by (simp add: sign_declaration_def Let_def)
qed (simp add: sign_declaration_def)

lemma emit_fallback_ok:
  assumes "fallback_hooks_ok g" and "gate_log_ok E s" and "draws_distinct E s 2"
  shows "\<exists>d' s'. emit_fallback E g d s = (Inr d', s') \<and> gs_revocations s' = gs_revocations s \<and>
    d' \<in> set (gs_fallback_events s') \<and> fb_fallback_action d' = fb_fallback_action d \<and>
    fb_trigger d' = fb_trigger d \<and> fb_lease_id d' = fb_lease_id d"
proof -
  obtain d' where d': "sign_declaration g d = Inr d'" "fb_fallback_action d' = fb_fallback_action d"
    "fb_trigger d' = fb_trigger d" "fb_lease_id d' = fb_lease_id d"
    using sign_declaration_ok [OF assms(1)] by blast
  let ?s = "s\<lparr>gs_fallback_events := gs_fallback_events s @ [d']\<rparr>"
  have "gate_log_ok E ?s" "draws_distinct E ?s 2"
    using assms(2,3) by (simp_all add: gate_log_ok_def draws_distinct_def)
  moreover have "deliver g d' t = (Inr (),
      if fallback_sink g = None then t else t\<lparr>gs_delivered := gs_delivered t @ [d']\<rparr>)" for t
    using assms(1) by (cases "fallback_sink g") (auto simp: deliver_def fallback_hooks_ok_def)
  ultimately show ?thesis
    using d' by (simp add: emit_fallback_def bindo_run gate_record_ok)
qed

lemma commit_revocation_ok:
  assumes lg: "gate_log_ok E s" and opn: "stores_open s" and ids: "draws_distinct E s 5"
    and hooks: "fallback_hooks_ok g" and id: "rev_lease_id rv = lease_id l"
    and new: "message_id rv \<notin> dom (map_of (rs_messages (gs_revocation_store s)))"
  shows "\<exists>d s'. commit_revocation E g rv l s = (Inr (Some d), s') \<and>
    gs_revocations s' = (gs_revocations s)(lease_id l \<mapsto> revoked_lease_of rv (Some l)) \<and>
    d \<in> set (gs_fallback_events s') \<and> fb_trigger d = rev_reason_code rv \<and>
    fb_fallback_action d = local_fallback_action g (rev_reason_code rv) \<and> fb_lease_id d = Some (lease_id l)"
proof -
  let ?rl = "revoked_lease_of rv (Some l)"
  let ?n = "lease_revoked_entry g rv l"
  obtain st where rec: "revocation_record E ?rl (gs_revocation_store s) (gs_world s) = (Inr True, st, tick (gs_world s))"
    using opn new by (auto simp: stores_open_def revocation_record_def insert_revocation_def
        revoked_lease_of_def Let_def domIff)
  define s1 where "s1 = s\<lparr>gs_world := tick (gs_world s), gs_revocation_store := st,
    gs_revocations := (gs_revocations s)(lease_id l \<mapsto> ?rl)\<rparr>"
  have "rl_lease_id ?rl = lease_id l" using id by (simp add: revoked_lease_of_def Let_def)
  then have rr: "record_and_revoke E ?rl s = (Inr True, s1)"
    by (simp add: record_and_revoke_eq rec s1_def)
  have dw: "uuid_draws (gs_world s1) = uuid_draws (gs_world s)" by (simp add: s1_def)
  have lg1: "gate_log_ok E s1"
    using keepsD [OF record_and_revoke_keeps rr] lg by (simp add: gate_progress_def)
  have "draws_distinct E s1 2" using ids by (rule draws_distinct_less) (simp add: dw)
  note rec1 = gate_record_ok [OF lg1 this, of ?n]
  define s2 where "s2 = snd (gate_record E ?n s1)"
  have r2: "gate_record E ?n s1 = (Inr (recorded E ?n (gs_audit_log s1) (gs_world s1)), s2)"
    by (simp add: s2_def rec1)
  have "gate_log_ok E s2"
    using keepsD [OF gate_record_keeps r2] lg1 by (simp add: gate_progress_def)
  then have lg3: "gate_log_ok E (s2\<lparr>gs_world := tick (draw (gs_world s2))\<rparr>)" (is "gate_log_ok E ?s3")
    using log_drawn_same_draws [of "gs_world s2" "tick (draw (gs_world s2))"] by (simp add: gate_log_ok_def)
  have "uuid_draws (gs_world s2) = uuid_draws (gs_world s) + 2" by (simp add: s2_def rec1 dw)
  then have ids3: "draws_distinct E ?s3 2" by (intro draws_distinct_less [OF ids]) simp
  have rev3: "gs_revocations ?s3 = (gs_revocations s)(lease_id l \<mapsto> ?rl)"
    by (simp add: s2_def rec1) (simp add: s1_def)
  obtain d0 where d0: "new_declaration E (or_str (Some (correlation_id rv)) (lease_id l)) (lease_robot_id l)
    (lease_edge_agent_id l) (lease_mission_id l) (rev_reason_code rv)
    (local_fallback_action g (rev_reason_code rv)) (Some (lease_id l)) (Some (message_id rv)) s2 = (Inr d0, ?s3)"
    "fb_trigger d0 = rev_reason_code rv" "fb_lease_id d0 = Some (lease_id l)"
    "fb_fallback_action d0 = local_fallback_action g (rev_reason_code rv)"
    by (simp add: new_declaration_def Let_def)
  show ?thesis
    using emit_fallback_ok [OF hooks lg3 ids3, of d0] d0 rev3
    by (auto simp: commit_revocation_eq bindo_run rr r2)
qed

lemma revoke_commits:
  assumes "revocation_authorized E g (fst (now_or_clock E now (gs_world s))) rv l"
  shows "revoke E g (Revocation rv) (Some l) now s =
    commit_revocation E g rv l (s\<lparr>gs_world := snd (now_or_clock E now (gs_world s))\<rparr>)"
proof -
  note auth = assms [unfolded revocation_authorized_def]
  from auth obtain sig pk where "signature rv = Some sig"
    "revoker_public_keys_by_id g (rev_revoked_by rv) = Some pk"
    "verify_with_public_key_b64 E (revocation_dump E rv) sig pk" by blast
  moreover from auth have "local_edge_agent_id g \<in> revoker_scope g (rev_revoked_by rv)" by auto
  ultimately show ?thesis
    using auth by (simp add: revoke_def gate_now_eq bindo_run signature_algorithm_violation_def)
qed

lemma revoke_authorized:
  assumes "gate_ok E s" and "draws_distinct E s 5" and "fallback_hooks_ok g"
    and "revocation_authorized E g (fst (now_or_clock E now (gs_world s))) rv l"
    and "message_id rv \<notin> dom (map_of (rs_messages (gs_revocation_store s)))"
  shows "\<exists>d s'. revoke E g (Revocation rv) (Some l) now s = (Inr (Some d), s') \<and>
    gs_revocations s' = (gs_revocations s)(lease_id l \<mapsto> revoked_lease_of rv (Some l)) \<and>
    d \<in> set (gs_fallback_events s') \<and> fb_trigger d = rev_reason_code rv \<and>
    fb_fallback_action d = local_fallback_action g (rev_reason_code rv) \<and> fb_lease_id d = Some (lease_id l)"
proof -
  let ?s = "s\<lparr>gs_world := snd (now_or_clock E now (gs_world s))\<rparr>"
  have "gate_log_ok E ?s" "stores_open ?s" "draws_distinct E ?s 5"
    using assms(1,2) log_drawn_same_draws [of "gs_world s" "snd (now_or_clock E now (gs_world s))"]
    by (simp_all add: gate_ok_def gate_log_ok_def stores_open_def draws_distinct_def)
  moreover have "rev_lease_id rv = lease_id l" using assms(4) by (simp add: revocation_authorized_def)
  ultimately show ?thesis
    using commit_revocation_ok [of E ?s g rv l] assms(3,5) by (simp add: revoke_commits [OF assms(4)])
qed

section \<open>The gate answers\<close>

text \<open>
  An operation that returns, whatever the state of the gate, as long as the log is in order and the
  next \<open>n\<close> identifiers are new; it draws no more than that and leaves the log in order.
\<close>

definition returns :: "env \<Rightarrow> nat \<Rightarrow> (gate_state, 'a) op \<Rightarrow> bool" where
  "returns E n m \<longleftrightarrow> (\<forall>s. gate_log_ok E s \<longrightarrow> draws_distinct E s n \<longrightarrow>
     (\<exists>a s'. m s = (Inr a, s') \<and> gate_log_ok E s' \<and> uuid_draws (gs_world s') \<le> uuid_draws (gs_world s) + n))"

lemma returnsD:
  assumes "returns E n m" and "gate_log_ok E s" and "draws_distinct E s n"
  obtains a s' where "m s = (Inr a, s')" "uuid_draws (gs_world s') \<le> uuid_draws (gs_world s) + n"
  using assms unfolding returns_def by blast

lemma returns_bind:
  assumes "returns E n m" and "\<And>a. returns E k (f a)"
  shows "returns E (n + k) (bindo m f)"
  unfolding returns_def
proof (intro allI impI)
  fix s assume s: "gate_log_ok E s" "draws_distinct E s (n + k)"
  have "draws_distinct E s n" using s(2) by (rule draws_distinct_less) simp
  with assms(1) s(1) obtain a u where m: "m s = (Inr a, u)" "gate_log_ok E u"
    "uuid_draws (gs_world u) \<le> uuid_draws (gs_world s) + n" unfolding returns_def by blast
  have "draws_distinct E u k" using s(2) by (rule draws_distinct_less) (use m(3) in simp)
  with assms(2) m(2) obtain b s' where "f a u = (Inr b, s')" "gate_log_ok E s'"
    "uuid_draws (gs_world s') \<le> uuid_draws (gs_world u) + k" unfolding returns_def by blast
  with m show "\<exists>a s'. bindo m f s = (Inr a, s') \<and> gate_log_ok E s' \<and>
      uuid_draws (gs_world s') \<le> uuid_draws (gs_world s) + (n + k)" by (simp add: bindo_run)
qed

lemma returns_mono: "returns E n m \<Longrightarrow> n \<le> k \<Longrightarrow> returns E k m"
  unfolding returns_def by (meson add_left_mono draws_distinct_less le_trans)

lemma returns_pure: "returns E n (ret a)" "returns E n (gets f)"
  by (auto simp: returns_def)

lemma returns_liftr: "returns E n (liftr (Inr a))"
  by (auto simp: returns_def)

lemma returns_then: "returns E n m \<Longrightarrow> returns E n (bindo m (\<lambda>a. ret (f a)))"
  using returns_bind [of E n m 0 "\<lambda>a. ret (f a)"] by (simp add: returns_pure)

text \<open>A step that always succeeds, leaves the log alone and draws at most \<open>n\<close> identifiers.\<close>

lemma returns_step:
  assumes "\<And>s. \<exists>a s'. m s = (Inr a, s') \<and> gs_audit_log s' = gs_audit_log s \<and>
      uuid_draws (gs_world s) \<le> uuid_draws (gs_world s') \<and> uuid_draws (gs_world s') \<le> uuid_draws (gs_world s) + n"
  shows "returns E n m"
  unfolding returns_def
proof (intro allI impI)
  fix s assume lg: "gate_log_ok E s"
  obtain a s' where m: "m s = (Inr a, s')" "gs_audit_log s' = gs_audit_log s"
    "uuid_draws (gs_world s) \<le> uuid_draws (gs_world s')" "uuid_draws (gs_world s') \<le> uuid_draws (gs_world s) + n"
    using assms by blast
  with lg log_drawn_same_draws [OF m(3)] show "\<exists>a s'. m s = (Inr a, s') \<and> gate_log_ok E s' \<and>
      uuid_draws (gs_world s') \<le> uuid_draws (gs_world s) + n" by (simp add: gate_log_ok_def)
qed

lemma returns_steps:
  "returns E 0 (gate_now E now)" "returns E 0 (remember_op E cmd)" "returns E 0 (remember_use_op E cmd l)"
  "returns E 1 (new_declaration E corr rb ed mi tr ac lid rid)"
  "returns E 0 (modify (\<lambda>s. s\<lparr>gs_fallback_events := gs_fallback_events s @ [d]\<rparr>))"
  by (rule returns_step; simp add: gate_now_eq remember_op_eq remember_use_op_eq new_declaration_def Let_def
      remember_mono remember_use_mono)+

lemma returns_record: "entry_complete n \<Longrightarrow> returns E 2 (gate_record E n)"
  unfolding returns_def
proof (intro allI impI)
  fix s assume *: "entry_complete n" "gate_log_ok E s" "draws_distinct E s 2"
  from keepsD [OF gate_record_keeps gate_record_ok [OF *(2,3,1)]] *(2)
  show "\<exists>a s'. gate_record E n s = (Inr a, s') \<and> gate_log_ok E s' \<and>
      uuid_draws (gs_world s') \<le> uuid_draws (gs_world s) + 2"
    by (simp add: gate_record_ok [OF *(2,3,1)] gate_progress_def)
qed

lemma returns_emit_fallback:
  assumes "fallback_hooks_ok g"
  shows "returns E 2 (emit_fallback E g d)"
proof -
  have deliver: "returns E 0 (deliver g d')" for d'
    by (rule returns_step) (use assms in \<open>auto simp: deliver_def fallback_hooks_ok_def split: option.splits\<close>)
  obtain d' where sign: "sign_declaration g d = Inr d'" using sign_declaration_ok [OF assms] by blast
  have "returns E (0 + (0 + (2 + (0 + 0)))) (emit_fallback E g d)"
    unfolding emit_fallback_def sign
    by (intro returns_bind returns_liftr returns_steps returns_record returns_pure deliver) simp
  then show ?thesis by (rule returns_mono) simp
qed

lemma returns_reject:
  assumes "fallback_hooks_ok g"
  shows "returns E 5 (reject_command E g cmd lease st reason emit auth)"
proof -
  note emit = returns_emit_fallback [OF assms]
  have decl: "returns E 1 (if b then bindo (new_declaration E corr rb ed mi tr ac lid rid) (\<lambda>d. ret (Some d)) else ret None)"
    for b corr rb ed mi tr ac lid rid
    by (simp only: returns_then returns_steps returns_pure if_split simp_thms)
  have tail: "returns E 2 (case d of None \<Rightarrow> ret None | Some d \<Rightarrow> bindo (emit_fallback E g d) (\<lambda>d'. ret (Some d')))" for d
    by (simp add: returns_then emit returns_pure split: option.split)
  have "returns E (0 + (1 + (2 + (2 + 0)))) (reject_command E g cmd lease st reason emit auth)"
    unfolding reject_command_def Let_def
    by (intro returns_bind returns_pure decl tail returns_record) simp
  then show ?thesis by (rule returns_mono) simp
qed

lemma returns_allow:
  assumes "fallback_hooks_ok g"
  shows "returns E 5 (allow_command E g cmd l st reason)"
proof -
  have "returns E 5 (gate_record E (allowed_entry E cmd l st reason))"
    by (rule returns_mono, rule returns_record) simp_all
  then have "returns E (0 + 5) (allow_command E g cmd l st reason)"
    unfolding allow_command_def
    by (intro returns_bind returns_steps) (auto split: prod.split intro!: returns_then returns_reject assms)
  then show ?thesis by simp
qed

lemma evaluate_lease_returns:
  assumes "gate_log_ok E s" and "draws_distinct E s 5" and "fallback_hooks_ok g"
    and "validate_lease_for_command E (gate_lease_checks g s) (command_context_of cmd st)
      (fst (now_or_clock E now (gs_world s))) (Some l) = Inr v"
  shows "\<exists>r s'. evaluate_lease E g cmd l st now s = (Inr r, s') \<and>
    uuid_draws (gs_world s') \<le> uuid_draws (gs_world s) + 5"
proof -
  obtain ok reason where v: "v = (ok, reason)" by (cases v)
  let ?s = "s\<lparr>gs_world := snd (now_or_clock E now (gs_world s))\<rparr>"
  note reject = returns_reject [OF assms(3)]
  have "returns E (0 + 5) (bindo (remember_op E cmd) (\<lambda>recorded.
      if \<not> recorded then reject_command E g cmd (Some l) st ''COMMAND_REPLAYED'' False True
      else reject_command E g cmd (Some l) st reason True True))"
    by (intro returns_bind returns_steps) (simp add: reject)
  then have "returns E 5 (if ok then allow_command E g cmd l st reason else bindo (remember_op E cmd) (\<lambda>recorded.
      if \<not> recorded then reject_command E g cmd (Some l) st ''COMMAND_REPLAYED'' False True
      else reject_command E g cmd (Some l) st reason True True))"
    using returns_allow [OF assms(3)] by simp
  moreover have "gate_log_ok E ?s" "draws_distinct E ?s 5"
    using assms(1,2) log_drawn_same_draws [of "gs_world s" "snd (now_or_clock E now (gs_world s))"]
    by (simp_all add: gate_log_ok_def draws_distinct_def)
  ultimately show ?thesis
    using assms(4) by (elim returnsD) (auto simp: evaluate_lease_def bindo_run gate_now_eq v)
qed

lemma evaluate_returns:
  assumes "gate_ok E s" and "draws_distinct E s 5" and "fallback_hooks_ok g"
    and "command_time_violation (max_command_age_seconds g) (fst (now_or_clock E now (gs_world s))) cmd = Inr tv"
    and "\<And>l. lease = Some l \<Longrightarrow> \<exists>v. validate_lease_for_command E (gate_lease_checks g s)
      (command_context_of cmd st) (lease_check_time E now s) (Some l) = Inr v"
    and "command_signature_violation E (agent_public_keys_by_id g) cmd = Inr sv"
  shows "\<exists>r s'. evaluate E g cmd lease st now s = (Inr r, s') \<and>
    uuid_draws (gs_world s') \<le> uuid_draws (gs_world s) + 5"
proof -
  note reject = returns_reject [OF assms(3)]
  obtain v w where auth: "command_auth_violation E g cmd now s = (Inr v, s\<lparr>gs_world := w\<rparr>)"
    and w: "uuid_draws w = uuid_draws (gs_world s)" "v = None \<Longrightarrow> w = snd (now_or_clock E now (gs_world s))"
  proof (cases sv)
    case None
    with assms(4,6) show ?thesis
      by (intro that [of tv "snd (now_or_clock E now (gs_world s))"])
        (simp_all add: command_auth_violation_def bindo_run gate_now_eq)
  next
    case (Some r)
    with assms(6) show ?thesis
      by (intro that [of "Some r" "gs_world s"]) (simp_all add: command_auth_violation_def bindo_run)
  qed
  let ?s = "s\<lparr>gs_world := w\<rparr>"
  let ?few = "\<lambda>s'. uuid_draws (gs_world s') \<le> uuid_draws (gs_world s) + 5"
  have s: "gate_log_ok E ?s" "draws_distinct E ?s 5"
    using assms(1,2) log_drawn_same_draws [of "gs_world s" w]
    by (simp_all add: gate_ok_def gate_log_ok_def draws_distinct_def w)
  have mism: "returns E 5 (reject_local_edge_mismatch E g cmd lease)"
    unfolding reject_local_edge_mismatch_def
    by (rule returns_mono, rule returns_then, rule returns_record) simp_all
  have rej: "\<exists>r s'. reject_command E g cmd lease st reason e a ?s = (Inr r, s') \<and> ?few s'" for reason e a
    by (rule returnsD [OF reject s]) (auto simp: w)
  have mis: "\<exists>r s'. reject_local_edge_mismatch E g cmd lease ?s = (Inr r, s') \<and> ?few s'"
    by (rule returnsD [OF mism s]) (auto simp: w)
  have ev: "\<exists>r s'. evaluate_lease E g cmd l st now ?s = (Inr r, s') \<and> ?few s'"
    if "lease = Some l" "v = None" for l
    using assms(5) [OF that(1)] evaluate_lease_returns [OF s assms(3)] w(1) w(2) [OF that(2)]
    by (auto simp: lease_check_time_def)
  show ?thesis
    using rej mis ev by (cases v; cases lease) (auto simp: evaluate_def bindo_run auth)
qed

text \<open>The signature check raises only for a payload that cannot be written out, and then nothing has happened yet.\<close>

lemma signature_check_raises:
  assumes "command_signature_violation E keys cmd = Inl e"
  shows "\<not> json_printable (JDict (cmd_payload cmd))" and "e \<in> unprintable_errors"
proof -
  from assms have "command_payload_budget_violation (float_repr E) (JDict (cmd_payload cmd)) = Inl e"
    by (auto simp: command_signature_violation_def signed_command_material_budget_violation_def guardr_Inl_iff
        bindr_Inl_iff split: if_splits option.splits)
  then show "\<not> json_printable (JDict (cmd_payload cmd))" and "e \<in> unprintable_errors"
    by (auto intro: payload_budget_cases [of "float_repr E" "JDict (cmd_payload cmd)"])
qed

lemma printable_evaluate_returns:
  assumes "gate_ok E s" and "draws_distinct E s 5" and "fallback_hooks_ok g"
    and "command_time_violation (max_command_age_seconds g) (fst (now_or_clock E now (gs_world s))) cmd = Inr tv"
    and "\<And>l. lease = Some l \<Longrightarrow> \<exists>v. validate_lease_for_command E (gate_lease_checks g s)
      (command_context_of cmd st) (lease_check_time E now s) (Some l) = Inr v"
    and "json_printable (JDict (cmd_payload cmd))"
  shows "\<exists>r s'. evaluate E g cmd lease st now s = (Inr r, s') \<and>
    uuid_draws (gs_world s') \<le> uuid_draws (gs_world s) + 5"
proof -
  obtain sv where "command_signature_violation E (agent_public_keys_by_id g) cmd = Inr sv"
    using signature_check_raises(1) [of E "agent_public_keys_by_id g" cmd] assms(6)
    by (cases "command_signature_violation E (agent_public_keys_by_id g) cmd") auto
  from evaluate_returns [OF assms(1-5) this] show ?thesis .
qed

lemma evaluate_signature_raises:
  "command_signature_violation E (agent_public_keys_by_id g) cmd = Inl e \<Longrightarrow> evaluate E g cmd lease st now s = (Inl e, s)"
  by (simp add: evaluate_def command_auth_violation_def bindo_run)

text \<open>What the conformance check raises escapes the gate: nothing is recorded and no identifier used up.\<close>

lemma raising_check_unrecorded:
  assumes "command_signature_violation E (agent_public_keys_by_id g) cmd = Inr None"
    and "command_time_violation (max_command_age_seconds g) (fst (now_or_clock E now (gs_world s))) cmd = Inr None"
    and "\<not> local_edge_context_mismatch g cmd (Some l)" and "\<not> contains cmd (gs_command_replay_cache s)"
    and "validate_lease_for_command E (gate_lease_checks g s) (command_context_of cmd st)
      (lease_check_time E now s) (Some l) = Inl e"
  shows "\<exists>w. evaluate E g cmd (Some l) st now s = (Inl e, s\<lparr>gs_world := w\<rparr>)"
  using assms by (intro exI [of _ "snd (now_or_clock E now (snd (now_or_clock E now (gs_world s))))"])
    (simp add: evaluate_def evaluate_lease_def command_auth_violation_def bindo_run gate_now_eq lease_check_time_def)

section \<open>Properties\<close>

text \<open>
  C2. A command with everything in order is allowed: on a gate in good state whose identifiers do not
  repeat, a command that is authenticated, fresh, for this edge, under a lease that authorizes it, and
  none of whose identifiers was used, is answered with allowed and LEASE_VALID; it uses up exactly its
  command id, its nonce and the nonce of the lease, and changes no revocation.
\<close>

theorem authorized_command_allowed:
  assumes "gate_ok E s" and "draws_distinct E s 2" and "command_authorized E g cmd l st now s"
  shows "\<exists>r s'. evaluate E g cmd (Some l) st now s = (Inr r, s') \<and> gr_allowed r \<and>
    gr_reason_code r = ''LEASE_VALID'' \<and> used_keys s' = used_keys s \<union> use_keys cmd l \<and>
    gs_revocations s' = gs_revocations s"
  using evaluate_authorized [OF assms] by blast

text \<open>
  C16. The gate answers: on a gate in good state whose identifiers do not repeat and whose signer and sink do
  not fail, a command gets an answer, with whatever lease and state it comes, unless the comparison of its
  date or the conformance check raises. The one other exception is a payload that cannot be written out,
  because of a lone surrogate in a text or a key or an integer of more than 4300 digits: for it the gate may
  let the interpreter's error through, and has then done nothing, recorded nothing and used up no identifier.
\<close>

theorem gate_always_answers:
  assumes "gate_ok E s" and "draws_distinct E s 5" and "fallback_hooks_ok g"
    and "command_time_violation (max_command_age_seconds g) (fst (now_or_clock E now (gs_world s))) cmd = Inr tv"
    and "\<And>l. lease = Some l \<Longrightarrow> \<exists>v. validate_lease_for_command E (gate_lease_checks g s)
      (command_context_of cmd st) (lease_check_time E now s) (Some l) = Inr v"
  shows "(\<exists>r s'. evaluate E g cmd lease st now s = (Inr r, s')) \<or>
    \<not> json_printable (JDict (cmd_payload cmd)) \<and>
    (\<exists>e \<in> {UnicodeEncodeError, too_many_digits}. evaluate E g cmd lease st now s = (Inl e, s))"
proof (cases "command_signature_violation E (agent_public_keys_by_id g) cmd")
  case (Inl e)
  from evaluate_signature_raises [OF this] signature_check_raises [OF this] show ?thesis
    by (auto simp: unprintable_errors_def)
next
  case (Inr sv)
  from evaluate_returns [OF assms Inr] show ?thesis by blast
qed

text \<open>
  C30. An oversized speed escapes the gate unrecorded: under a lease with a speed limit, a command that passes
  the signature check and that the gate would allow with another payload, but whose payload is an integer
  speed of at least 2^1024, makes the gate raise OverflowError. No audit event is written, no fallback
  declared and the identifiers of the command are not used up, so the same message can be sent again. (A
  speed of more than 4300 digits does not pass the signature check: measuring the payload raises before.)
\<close>

theorem huge_speed_escapes_gate:
  assumes "command_signature_violation E (agent_public_keys_by_id g) cmd = Inr None"
    and "command_time_violation (max_command_age_seconds g) (fst (now_or_clock E now (gs_world s))) cmd = Inr None"
    and "\<not> local_edge_context_mismatch g cmd (Some l)" and "\<not> contains cmd (gs_command_replay_cache s)"
    and "lease_authorizes E (gate_lease_checks g s) ((command_context_of cmd st)\<lparr>cc_command_payload := Some p\<rparr>)
      (lease_check_time E now s) l"
    and "con_max_speed_mps (lease_constraints l) = Some m"
    and "cmd_payload cmd = [(field, JInt n)]" and "field \<in> SUPPORTED_SPEED_PAYLOAD_FIELDS" and "2 ^ 1024 \<le> \<bar>n\<bar>"
  shows "\<exists>w. evaluate E g cmd (Some l) st now s = (Inl OverflowError, s\<lparr>gs_world := w\<rparr>)"
proof (rule raising_check_unrecorded [OF assms(1-4)])
  have "float_field_ok None m"
    using assms(5,6) by (simp add: lease_authorizes_def policy_vouches_def lease_constraints_valid_def opt_float_field_ok_def)
  then have "validate_command_payload_against_constraints l (Some (cmd_payload cmd)) = Inl OverflowError"
    using huge_integer_speed_raises [OF assms(6) _ assms(8,9)] by (simp add: assms(7))
  moreover have "(command_context_of cmd st)\<lparr>cc_command_payload := Some p, cc_command_payload := Some (cmd_payload cmd)\<rparr> =
      command_context_of cmd st"
    by (simp add: command_context_of_def)
  ultimately show "validate_lease_for_command E (gate_lease_checks g s) (command_context_of cmd st)
      (lease_check_time E now s) (Some l) = Inl OverflowError"
    using validate_reaches_payload [OF assms(5), of "Some (cmd_payload cmd)"] by simp
qed

text \<open>
  C17. An authorized revocation takes effect: on a gate in good state whose identifiers do not repeat and
  whose signer and sink do not fail, a revocation that is authorized and whose message was not accepted
  before enters the lease in the table of revocations and is answered with a declaration of the local
  fallback action for its reason, which is among the gate's fallback events.
\<close>

theorem authorized_revocation_effective:
  assumes "gate_ok E s" and "draws_distinct E s 5" and "fallback_hooks_ok g"
    and "revocation_authorized E g (fst (now_or_clock E now (gs_world s))) rv l"
    and "message_id rv \<notin> dom (map_of (rs_messages (gs_revocation_store s)))"
  shows "\<exists>d s'. revoke E g (Revocation rv) (Some l) now s = (Inr (Some d), s') \<and>
    gs_revocations s' = (gs_revocations s)(lease_id l \<mapsto> revoked_lease_of rv (Some l)) \<and>
    d \<in> set (gs_fallback_events s') \<and> fb_trigger d = rev_reason_code rv \<and>
    fb_fallback_action d = local_fallback_action g (rev_reason_code rv) \<and> fb_lease_id d = Some (lease_id l)"
  using revoke_authorized [OF assms] .

end
