(* ===== verification/Policy.thy ===== *)
theory Policy
  imports Audit_Log Effects Leases State_Assertions Conformance
begin

text \<open>
  The policy decision point (\<^verbatim>\<open>rclp_core/policy.py\<close>): the durable cache of request nonces, the policy
  document with its validators and digest, the checks on a request, the narrowing of constraints, and
  the evaluation itself, which consumes the nonce and records its decision in the audit log.
\<close>

definition DEFAULT_REQUEST_MAX_AGE_SECONDS :: int where
  "DEFAULT_REQUEST_MAX_AGE_SECONDS = 300"

definition REQUEST_CLOCK_SKEW_SECONDS :: int where
  "REQUEST_CLOCK_SKEW_SECONDS = 30"

definition CAPABILITY_REQUEST_REQUIRED_WIRE_FIELDS :: "string set" where
  "CAPABILITY_REQUEST_REQUIRED_WIRE_FIELDS = {''requested_duration_seconds''}"

section \<open>The request replay cache\<close>

text \<open>
  The table \<^verbatim>\<open>request_replay_nonces\<close> maps its primary key to the other columns. It is the content of the
  file at the store path, so a new cache on that path finds it; \<^verbatim>\<open>CREATE TABLE IF NOT EXISTS\<close> leaves it.
\<close>

record request_replay_row =
  rr_request_id :: string
  rr_created_at :: string
  rr_consumed_at :: string

record request_replay_cache =
  rc_store_path :: "string option"
  rc_durable :: bool
  rc_seen_request_nonces :: "(string \<times> string) set"
  rc_table :: "string \<times> string \<rightharpoonup> request_replay_row"

definition RequestReplayCache ::
  "string option \<Rightarrow> bool option \<Rightarrow> (string \<times> string \<rightharpoonup> request_replay_row) \<Rightarrow> request_replay_cache res" where
  "RequestReplayCache store_path durable table =
     (let d = (case durable of None \<Rightarrow> store_path \<noteq> None | Some b \<Rightarrow> b)
      in if d \<and> store_path = None
         then Inl (ValueError ''durable request replay cache requires a store path'')
         else Inr \<lparr>rc_store_path = store_path, rc_durable = d, rc_seen_request_nonces = {},
                   rc_table = (if store_path = None then Map.empty else table)\<rparr>)"

text \<open>\<^verbatim>\<open>RequestReplayCache.temporary()\<close> on a fresh directory.\<close>

definition RequestReplayCache_temporary :: "string \<Rightarrow> request_replay_cache res" where
  "RequestReplayCache_temporary path = RequestReplayCache (Some path) (Some False) Map.empty"

definition request_cache_durable :: "request_replay_cache \<Rightarrow> bool" where
  "request_cache_durable c \<longleftrightarrow> rc_durable c \<and> rc_store_path c \<noteq> None"

definition request_key :: "capability_request \<Rightarrow> string \<times> string" where
  "request_key rq = (rq_requesting_agent_id rq, rq_request_nonce rq)"

definition has_seen :: "capability_request \<Rightarrow> request_replay_cache \<Rightarrow> bool" where
  "has_seen rq c =
     (if rc_store_path c \<noteq> None then rc_table c (request_key rq) \<noteq> None
      else request_key rq \<in> rc_seen_request_nonces c)"

text \<open>The insert violates the primary key when the row exists; the transaction is rolled back.\<close>

definition consume ::
  "capability_request \<Rightarrow> datetime \<Rightarrow> request_replay_cache \<Rightarrow> bool \<times> request_replay_cache" where
  "consume rq consumed_at c =
     (if rc_store_path c = None then (False, c)
      else if rc_table c (request_key rq) \<noteq> None then (False, c)
      else (True, c\<lparr>rc_table := (rc_table c)(request_key rq \<mapsto>
              \<lparr>rr_request_id = message_id rq, rr_created_at = isoformat (created_at rq),
               rr_consumed_at = isoformat consumed_at\<rparr>)\<rparr>))"

definition remember_request ::
  "env \<Rightarrow> capability_request \<Rightarrow> request_replay_cache \<Rightarrow> world \<Rightarrow> request_replay_cache \<times> world" where
  "remember_request E rq c w =
     (if rc_store_path c \<noteq> None then (snd (consume rq (utc_now E w) c), tick w)
      else (c\<lparr>rc_seen_request_nonces := insert (request_key rq) (rc_seen_request_nonces c)\<rparr>, w))"

interpretation request_replay: replay_guard "\<lambda>rq. consume rq at_time" "\<lambda>rq. {request_key rq}"
  "\<lambda>c. dom (rc_table c)" "\<lambda>c. rc_store_path c \<noteq> None"
  for at_time
  by unfold_locales (auto simp: consume_def dom_def)

section \<open>The policy document\<close>

record network_requirements =
  nr_max_latency_ms_p95 :: pyfloat
  nr_max_packet_loss_pct :: pyfloat
  nr_min_uplink_mbps :: pyfloat
  deny_above_latency_ms_p95 :: pyfloat
  deny_above_packet_loss_pct :: pyfloat
  deny_below_uplink_mbps :: pyfloat

definition validate_degrade_window :: "network_requirements \<Rightarrow> unit res" where
  "validate_degrade_window r =
     (if flt_lt (deny_above_latency_ms_p95 r) (nr_max_latency_ms_p95 r)
      then Inl (ValueError ''deny latency threshold must be >= degrade latency threshold'')
      else if flt_lt (deny_above_packet_loss_pct r) (nr_max_packet_loss_pct r)
      then Inl (ValueError ''deny packet-loss threshold must be >= degrade packet-loss threshold'')
      else if flt_lt (nr_min_uplink_mbps r) (deny_below_uplink_mbps r)
      then Inl (ValueError ''deny uplink threshold must be <= degrade uplink threshold'')
      else Inr ())"

record policy_requirements =
  allowed_agents :: "string list"
  allowed_edge_agents :: "string list"
  allowed_robots :: "string list"
  allowed_missions :: "string list"
  pr_max_speed_mps :: "pyfloat option"
  geofence_required :: bool
  pr_geofence_id :: "string option"
  geofence_allowed :: bool
  pr_human_operator_available :: bool
  control_plane_required :: bool
  control_plane_must_be_reachable :: bool
  network :: network_requirements

definition validate_geofence_identity :: "policy_requirements \<Rightarrow> unit res" where
  "validate_geofence_identity r =
     (case pr_geofence_id r of
        Some g \<Rightarrow> if py_blank g then Inl (ValueError ''geofence_id must be non-empty when provided'')
                  else Inr ()
      | None \<Rightarrow> if geofence_required r
                then Inl (ValueError ''geofence_id is required when geofence_required is true'')
                else Inr ())"

record fallback_policy =
  on_deny :: fallback_action
  on_network_degrade :: fallback_action
  on_disconnect :: fallback_action
  on_expiry :: fallback_action

record policy =
  policy_id :: string
  policy_capability :: capability
  lease_ttl_seconds :: int
  requirements :: policy_requirements
  fallback :: fallback_policy

text \<open>What the field constraints and validators of the four classes leave.\<close>

definition network_requirements_valid :: "network_requirements \<Rightarrow> bool" where
  "network_requirements_valid r \<longleftrightarrow>
     float_field_ok None (nr_max_latency_ms_p95 r) \<and> float_field_ok (Some 100) (nr_max_packet_loss_pct r) \<and>
     float_field_ok None (nr_min_uplink_mbps r) \<and> float_field_ok None (deny_above_latency_ms_p95 r) \<and>
     float_field_ok (Some 100) (deny_above_packet_loss_pct r) \<and>
     float_field_ok None (deny_below_uplink_mbps r) \<and> validate_degrade_window r = Inr ()"

definition policy_valid :: "policy \<Rightarrow> bool" where
  "policy_valid p \<longleftrightarrow>
     0 < lease_ttl_seconds p \<and> opt_float_field_ok None (pr_max_speed_mps (requirements p)) \<and>
     validate_geofence_identity (requirements p) = Inr () \<and>
     network_requirements_valid (network (requirements p))"

definition network_requirements_dump :: "network_requirements \<Rightarrow> dump" where
  "network_requirements_dump r =
     [(''max_latency_ms_p95'', JFloat (nr_max_latency_ms_p95 r)),
      (''max_packet_loss_pct'', JFloat (nr_max_packet_loss_pct r)),
      (''min_uplink_mbps'', JFloat (nr_min_uplink_mbps r)),
      (''deny_above_latency_ms_p95'', JFloat (deny_above_latency_ms_p95 r)),
      (''deny_above_packet_loss_pct'', JFloat (deny_above_packet_loss_pct r)),
      (''deny_below_uplink_mbps'', JFloat (deny_below_uplink_mbps r))]"

definition policy_requirements_dump :: "policy_requirements \<Rightarrow> dump" where
  "policy_requirements_dump r =
     [(''allowed_agents'', JList (map JStr (allowed_agents r))),
      (''allowed_edge_agents'', JList (map JStr (allowed_edge_agents r))),
      (''allowed_robots'', JList (map JStr (allowed_robots r))),
      (''allowed_missions'', JList (map JStr (allowed_missions r))),
      (''max_speed_mps'', jopt JFloat (pr_max_speed_mps r)),
      (''geofence_required'', JBool (geofence_required r)),
      (''geofence_id'', jstr_opt (pr_geofence_id r)),
      (''geofence_allowed'', JBool (geofence_allowed r)),
      (''human_operator_available'', JBool (pr_human_operator_available r)),
      (''control_plane_required'', JBool (control_plane_required r)),
      (''control_plane_must_be_reachable'', JBool (control_plane_must_be_reachable r)),
      (''network'', JDict (network_requirements_dump (network r)))]"

definition fallback_policy_dump :: "fallback_policy \<Rightarrow> dump" where
  "fallback_policy_dump f =
     [(''on_deny'', JStr (fallback_action_str (on_deny f))),
      (''on_network_degrade'', JStr (fallback_action_str (on_network_degrade f))),
      (''on_disconnect'', JStr (fallback_action_str (on_disconnect f))),
      (''on_expiry'', JStr (fallback_action_str (on_expiry f)))]"

definition policy_dump :: "policy \<Rightarrow> dump" where
  "policy_dump p =
     [(''policy_id'', JStr (policy_id p)),
      (''capability'', JStr (capability_str (policy_capability p))),
      (''lease_ttl_seconds'', JInt (lease_ttl_seconds p)),
      (''requirements'', JDict (policy_requirements_dump (requirements p))),
      (''fallback'', JDict (fallback_policy_dump (fallback p)))]"

definition policy_digest :: "env \<Rightarrow> policy \<Rightarrow> string" where
  "policy_digest E p = stable_json_hash E (JDict (policy_dump p))"

definition policy_digest_violation :: "env \<Rightarrow> policy \<Rightarrow> string set \<Rightarrow> violation" where
  "policy_digest_violation E p accepted =
     (if accepted = {} then Some ''POLICY_DIGEST_REQUIRED''
      else if policy_digest E p \<notin> accepted then Some ''POLICY_DIGEST_NOT_ACCEPTED''
      else None)"

section \<open>Checks on a request\<close>

definition explicit_member :: "string \<Rightarrow> string list \<Rightarrow> bool" where
  "explicit_member v allowed \<longleftrightarrow> v \<in> set allowed"

text \<open>Unlike the other time checks, the staleness bound has no allowance for clock skew.\<close>

definition request_time_violation :: "int \<Rightarrow> datetime \<Rightarrow> capability_request \<Rightarrow> violation res" where
  "request_time_violation max_age_seconds now rq =
     stamp_violation ''REQUEST_TIMESTAMP_INVALID'' ''REQUEST_NOT_YET_VALID'' ''REQUEST_STALE''
       REQUEST_CLOCK_SKEW_SECONDS max_age_seconds now (created_at rq)"

definition request_signature_material_too_large :: "capability_request \<Rightarrow> bool" where
  "request_signature_material_too_large rq =
     (case signature rq of None \<Rightarrow> False | Some s \<Rightarrow> ED25519_SIGNATURE_B64_MAX_TEXT_BYTES < length s)"

definition request_texts :: "env \<Rightarrow> capability_request \<Rightarrow> string option list" where
  "request_texts E rq =
     [Some (protocol_version rq), Some (message_id rq), Some (correlation_id rq),
      Some (isoformat (created_at rq)), Some ''capability_request'', Some (rq_requesting_agent_id rq),
      rq_authenticated_agent_id rq, Some (rq_edge_agent_id rq), Some (rq_robot_id rq),
      Some (rq_mission_id rq), Some (capability_str (rq_capability rq)), Some (rq_reason rq),
      Some (int_str (rq_requested_duration_seconds rq))]
     @ (case rq_requested_constraints rq of
          Some c \<Rightarrow> constraint_texts E c
        | None \<Rightarrow> replicate 6 None)
     @ [Some (rq_request_nonce rq), Some (signature_alg rq), signature rq]"

definition signed_request_material_budget_violation :: "env \<Rightarrow> capability_request \<Rightarrow> bool" where
  "signed_request_material_budget_violation E rq =
     (if request_signature_material_too_large rq then True else budget_loop 0 (request_texts E rq))"

definition request_auth_violation ::
  "env \<Rightarrow> (string \<rightharpoonup> string) \<Rightarrow> capability_request \<Rightarrow> violation" where
  "request_auth_violation E agent_public_keys_by_id rq =
     (if \<not> CAPABILITY_REQUEST_REQUIRED_WIRE_FIELDS \<subseteq> fields_set rq
      then Some ''REQUEST_REQUIRED_FIELD_MISSING''
      else guardv (signature_algorithm_violation rq ''REQUEST_SIGNATURE_ALGORITHM_MISSING''
                     ''REQUEST_SIGNATURE_ALGORITHM_UNSUPPORTED'') Some
       (case rq_authenticated_agent_id rq of
          None \<Rightarrow> Some ''REQUEST_AUTHENTICATED_AGENT_MISSING''
        | Some a \<Rightarrow>
            if a \<noteq> rq_requesting_agent_id rq then Some ''REQUEST_AUTHENTICATED_AGENT_MISMATCH''
            else (case signature rq of
                    None \<Rightarrow> Some ''REQUEST_SIGNATURE_MISSING''
                  | Some sig \<Rightarrow>
                      (case agent_public_keys_by_id a of
                         None \<Rightarrow> Some ''AGENT_KEY_NOT_TRUSTED''
                       | Some public_key \<Rightarrow>
                           if signed_request_material_budget_violation E rq
                           then Some ''REQUEST_SIGNED_MATERIAL_TOO_LARGE''
                           else if \<not> verify_with_public_key_b64 E (request_dump E rq) sig public_key
                           then Some ''REQUEST_SIGNATURE_INVALID''
                           else None))))"

interpretation request_fresh: freshness_check "request_time_violation max_age" "\<lambda>rq. [created_at rq]"
  REQUEST_CLOCK_SKEW_SECONDS max_age "\<lambda>rq. True"
  for max_age
  by unfold_locales (auto simp: request_time_violation_def stamp_violation_None_iff)

interpretation request_auth: authentication_check E "request_auth_violation E" None
  rq_requesting_agent_id signature "request_dump E"
  for E
  by unfold_locales (auto simp: request_auth_violation_def guardv_def split: if_splits option.splits)

section \<open>Checks on the policy and the measurements\<close>

text \<open>The module's own copy of \<^verbatim>\<open>_finite_nonnegative_number\<close> is the one of the conformance check.\<close>

definition policy_network_state_malformed :: "network_state \<Rightarrow> bool" where
  "policy_network_state_malformed n =
     (\<not> (finite_nonnegative_number (latency_ms_p95 n) None \<and>
         finite_nonnegative_number (packet_loss_pct n) (Some 100) \<and>
         finite_nonnegative_number (uplink_mbps n) None))"

definition network_requirements_malformed :: "network_requirements \<Rightarrow> bool" where
  "network_requirements_malformed r =
     (if \<not> (finite_nonnegative_number (nr_max_latency_ms_p95 r) None \<and>
            finite_nonnegative_number (nr_max_packet_loss_pct r) (Some 100) \<and>
            finite_nonnegative_number (nr_min_uplink_mbps r) None \<and>
            finite_nonnegative_number (deny_above_latency_ms_p95 r) None \<and>
            finite_nonnegative_number (deny_above_packet_loss_pct r) (Some 100) \<and>
            finite_nonnegative_number (deny_below_uplink_mbps r) None)
      then True
      else flt_lt (deny_above_latency_ms_p95 r) (nr_max_latency_ms_p95 r) \<or>
           flt_lt (deny_above_packet_loss_pct r) (nr_max_packet_loss_pct r) \<or>
           flt_lt (nr_min_uplink_mbps r) (deny_below_uplink_mbps r))"

definition geofence_requirements_malformed :: "policy_requirements \<Rightarrow> bool" where
  "geofence_requirements_malformed r \<longleftrightarrow>
     geofence_required r \<and> (case pr_geofence_id r of None \<Rightarrow> True | Some g \<Rightarrow> py_blank g)"

definition control_plane_reachability_violation ::
  "control_plane_reachability_assertion \<Rightarrow> bool \<Rightarrow> violation" where
  "control_plane_reachability_violation a must_be_reachable =
     (if \<not> must_be_reachable then None
      else if cp_reachability a = CP_UNKNOWN \<or> cp_reachability a = CP_PARTITIONED
      then Some ''CONTROL_PLANE_UNREACHABLE''
      else if \<not> cp_reachable a then Some ''CONTROL_PLANE_UNREACHABLE''
      else None)"

section \<open>Narrowing the constraints\<close>

definition maximum_constraint_too_broad :: "pyfloat option \<Rightarrow> pyfloat option \<Rightarrow> bool" where
  "maximum_constraint_too_broad requested allowed =
     (case requested of None \<Rightarrow> False
      | Some x \<Rightarrow> (case allowed of None \<Rightarrow> True | Some a \<Rightarrow> flt_lt a x))"

definition minimum_constraint_too_broad :: "pyfloat option \<Rightarrow> pyfloat option \<Rightarrow> bool" where
  "minimum_constraint_too_broad requested allowed =
     (case requested of None \<Rightarrow> False
      | Some x \<Rightarrow> (case allowed of None \<Rightarrow> True | Some a \<Rightarrow> flt_lt x a))"

definition requested_constraint_violation ::
  "lease_constraints \<Rightarrow> lease_constraints option \<Rightarrow> violation" where
  "requested_constraint_violation base requested =
     (case requested of
        None \<Rightarrow> None
      | Some r \<Rightarrow>
          if con_geofence_id r \<noteq> None \<and> con_geofence_id r \<noteq> con_geofence_id base
          then Some ''REQUESTED_GEOFENCE_NOT_ALLOWED''
          else if maximum_constraint_too_broad (con_max_latency_ms_p95 r) (con_max_latency_ms_p95 base)
          then Some ''REQUESTED_CONSTRAINTS_TOO_BROAD''
          else if maximum_constraint_too_broad (con_max_packet_loss_pct r) (con_max_packet_loss_pct base)
          then Some ''REQUESTED_CONSTRAINTS_TOO_BROAD''
          else if minimum_constraint_too_broad (con_min_uplink_mbps r) (con_min_uplink_mbps base)
          then Some ''REQUESTED_CONSTRAINTS_TOO_BROAD''
          else if ''fallback_on_degrade'' \<in> con_fields_set r \<and>
                  con_fallback_on_degrade r \<noteq> con_fallback_on_degrade base
          then Some ''REQUESTED_FALLBACK_CONFLICT''
          else if maximum_constraint_too_broad (con_max_speed_mps r) (con_max_speed_mps base)
          then Some ''REQUESTED_CONSTRAINTS_TOO_BROAD''
          else None)"

text \<open>One pass of the loop over the field names: the explicitly given values that are not null win.\<close>

definition override :: "string set \<Rightarrow> string \<Rightarrow> 'a option \<Rightarrow> 'a option \<Rightarrow> 'a option" where
  "override given field requested base =
     (if field \<in> given \<and> requested \<noteq> None then requested else base)"

definition overridden :: "string set \<Rightarrow> string \<Rightarrow> 'a option \<Rightarrow> string set" where
  "overridden given field requested = (if field \<in> given \<and> requested \<noteq> None then {field} else {})"

definition apply_requested_constraints ::
  "lease_constraints \<Rightarrow> lease_constraints option \<Rightarrow> lease_constraints" where
  "apply_requested_constraints base requested =
     (case requested of
        None \<Rightarrow> base
      | Some r \<Rightarrow>
          let g = con_fields_set r in
          \<lparr>con_fields_set = con_fields_set base \<union>
             overridden g ''geofence_id'' (con_geofence_id r) \<union>
             overridden g ''max_latency_ms_p95'' (con_max_latency_ms_p95 r) \<union>
             overridden g ''max_packet_loss_pct'' (con_max_packet_loss_pct r) \<union>
             overridden g ''min_uplink_mbps'' (con_min_uplink_mbps r) \<union>
             overridden g ''fallback_on_degrade'' (Some (con_fallback_on_degrade r)) \<union>
             overridden g ''max_speed_mps'' (con_max_speed_mps r),
           con_geofence_id = override g ''geofence_id'' (con_geofence_id r) (con_geofence_id base),
           con_max_latency_ms_p95 =
             override g ''max_latency_ms_p95'' (con_max_latency_ms_p95 r) (con_max_latency_ms_p95 base),
           con_max_packet_loss_pct =
             override g ''max_packet_loss_pct'' (con_max_packet_loss_pct r) (con_max_packet_loss_pct base),
           con_min_uplink_mbps =
             override g ''min_uplink_mbps'' (con_min_uplink_mbps r) (con_min_uplink_mbps base),
           con_fallback_on_degrade =
             (if ''fallback_on_degrade'' \<in> g then con_fallback_on_degrade r else con_fallback_on_degrade base),
           con_max_speed_mps = override g ''max_speed_mps'' (con_max_speed_mps r) (con_max_speed_mps base)\<rparr>)"

section \<open>The evaluation\<close>

type_synonym outcome = "decision \<times> reason \<times> fallback_action list \<times> lease_constraints option"

definition evaluate_network_requirements ::
  "network_requirements \<Rightarrow> network_state \<Rightarrow> fallback_policy \<Rightarrow> outcome option" where
  "evaluate_network_requirements req net fb =
     guardv (network_state_authority_violation net)
       (\<lambda>r. Some (DENY, r, [on_disconnect fb], None))
     (if flt_lt (deny_above_latency_ms_p95 req) (latency_ms_p95 net)
      then Some (DENY, ''NETWORK_LATENCY_TOO_HIGH'', [on_network_degrade fb], None)
      else if flt_lt (deny_above_packet_loss_pct req) (packet_loss_pct net)
      then Some (DENY, ''NETWORK_PACKET_LOSS_TOO_HIGH'', [on_network_degrade fb], None)
      else if flt_lt (uplink_mbps net) (deny_below_uplink_mbps req)
      then Some (DENY, ''NETWORK_UPLINK_TOO_LOW'', [on_network_degrade fb], None)
      else if flt_lt (nr_max_latency_ms_p95 req) (latency_ms_p95 net)
      then Some (DEGRADE, ''NETWORK_LATENCY_DEGRADED'', [on_network_degrade fb], None)
      else if flt_lt (nr_max_packet_loss_pct req) (packet_loss_pct net)
      then Some (DEGRADE, ''NETWORK_PACKET_LOSS_DEGRADED'', [on_network_degrade fb], None)
      else if flt_lt (uplink_mbps net) (nr_min_uplink_mbps req)
      then Some (DEGRADE, ''NETWORK_UPLINK_DEGRADED'', [on_network_degrade fb], None)
      else None)"

text \<open>The arguments of the evaluation that configure its checks.\<close>

record policy_checks =
  pc_agent_public_keys_by_id :: "string \<rightharpoonup> string"
  pc_edge_public_keys_by_id :: "string \<rightharpoonup> string"
  pc_accepted_policy_digests :: "string set"
  pc_max_request_age_seconds :: int
  pc_max_state_age_seconds :: int

text \<open>What the policy covers: the block of comparisons after the digest check.\<close>

definition policy_scope_violation ::
  "capability_request \<Rightarrow> robot_state_assertion \<Rightarrow> policy \<Rightarrow> violation" where
  "policy_scope_violation rq s p =
     (let req = requirements p in
      if rq_capability rq \<noteq> policy_capability p then Some ''CAPABILITY_NOT_COVERED_BY_POLICY''
      else if lease_ttl_seconds p < rq_requested_duration_seconds rq then Some ''REQUESTED_DURATION_TOO_LONG''
      else if \<not> explicit_member (rq_requesting_agent_id rq) (allowed_agents req) then Some ''AGENT_NOT_ALLOWED''
      else if \<not> explicit_member (rq_edge_agent_id rq) (allowed_edge_agents req)
      then Some ''EDGE_AGENT_NOT_ALLOWED''
      else if \<not> explicit_member (rq_robot_id rq) (allowed_robots req) then Some ''ROBOT_NOT_ALLOWED''
      else if \<not> explicit_member (rq_mission_id rq) (allowed_missions req) then Some ''MISSION_NOT_ALLOWED''
      else if st_robot_id s \<noteq> rq_robot_id rq \<or> st_edge_agent_id s \<noteq> rq_edge_agent_id rq
      then Some ''STATE_ASSERTION_MISMATCH''
      else if st_mission_id s \<noteq> rq_mission_id rq then Some ''MISSION_STATE_MISMATCH''
      else None)"

text \<open>The block under \<^verbatim>\<open>if req.control_plane_required\<close>; a result is the early return.\<close>

definition control_plane_outcome ::
  "env \<Rightarrow> policy_checks \<Rightarrow> datetime \<Rightarrow> capability_request \<Rightarrow> policy
    \<Rightarrow> control_plane_reachability_assertion option \<Rightarrow> outcome option res" where
  "control_plane_outcome E k now rq p control_plane_state =
     (let req = requirements p;
          deny = (\<lambda>r. Some (DENY, r, [on_deny (fallback p)], None))
      in if \<not> control_plane_required req then Inr None
         else (case control_plane_state of
           None \<Rightarrow> Inr (deny ''CONTROL_PLANE_STATE_REQUIRED'')
         | Some cp \<Rightarrow>
             if cp_robot_id cp \<noteq> rq_robot_id rq \<or> cp_edge_agent_id cp \<noteq> rq_edge_agent_id rq \<or>
                cp_mission_id cp \<noteq> rq_mission_id rq
             then Inr (deny ''CONTROL_PLANE_STATE_MISMATCH'')
             else
             guardr (Inr (control_plane_reachability_auth_violation E (pc_edge_public_keys_by_id k) cp)) deny
             (guardr (control_plane_reachability_time_violation (pc_max_state_age_seconds k) now cp) deny
             (Inr (guardv (control_plane_reachability_violation cp (control_plane_must_be_reachable req))
                (\<lambda>r. Some (DENY, r, [on_disconnect (fallback p)], None)) None)))))"

text \<open>The constructor call: the field constraints of \<^verbatim>\<open>LeaseConstraints\<close> hold or it raises.\<close>

definition policy_constraints :: "policy \<Rightarrow> robot_state_assertion \<Rightarrow> lease_constraints" where
  "policy_constraints p s =
     \<lparr>con_fields_set = {''geofence_id'', ''max_latency_ms_p95'', ''max_packet_loss_pct'',
        ''min_uplink_mbps'', ''fallback_on_degrade'', ''max_speed_mps''},
      con_geofence_id = Some (gf_geofence_id (st_geofence_state s)),
      con_max_latency_ms_p95 = Some (nr_max_latency_ms_p95 (network (requirements p))),
      con_max_packet_loss_pct = Some (nr_max_packet_loss_pct (network (requirements p))),
      con_min_uplink_mbps = Some (nr_min_uplink_mbps (network (requirements p))),
      con_fallback_on_degrade = on_network_degrade (fallback p),
      con_max_speed_mps = pr_max_speed_mps (requirements p)\<rparr>"

definition constraints_outcome ::
  "capability_request \<Rightarrow> robot_state_assertion \<Rightarrow> policy \<Rightarrow> outcome res" where
  "constraints_outcome rq s p =
     (let c = policy_constraints p s
      in if \<not> lease_constraints_valid c then Inl (ValueError ''LeaseConstraints'')
         else Inr (guardv (requested_constraint_violation c (rq_requested_constraints rq))
           (\<lambda>r. (DENY, r, [on_deny (fallback p)], None))
           (ALLOW, ''POLICY_SATISFIED'', [], Some (apply_requested_constraints c (rq_requested_constraints rq)))))"

text \<open>Everything after the nonce was consumed; none of it changes state.\<close>

definition policy_verdict ::
  "env \<Rightarrow> policy_checks \<Rightarrow> datetime \<Rightarrow> capability_request \<Rightarrow> robot_state_assertion \<Rightarrow> policy
    \<Rightarrow> control_plane_reachability_assertion option \<Rightarrow> outcome res" where
  "policy_verdict E k now rq s p control_plane_state =
     (let req = requirements p; net = st_network_state s; g = st_geofence_state s;
          deny = (\<lambda>r. (DENY, r, [on_deny (fallback p)], None));
          required_state_wire_fields = ROBOT_STATE_REQUIRED_WIRE_FIELDS \<union>
            (if pr_human_operator_available req then {''human_operator_available''} else {})
      in
      guardr (Inr (policy_digest_violation E p (pc_accepted_policy_digests k))) deny
      (guardr (Inr (policy_scope_violation rq s p)) deny
      (guardr (Inr (state_auth_violation E required_state_wire_fields (pc_edge_public_keys_by_id k) s)) deny
      (guardr (state_time_violation (pc_max_state_age_seconds k) now s) deny
      (bindr (control_plane_outcome E k now rq p control_plane_state) (\<lambda>out.
        case out of
          Some result \<Rightarrow> Inr result
        | None \<Rightarrow>
            if network_requirements_malformed (network req)
            then Inr (deny ''POLICY_NETWORK_REQUIREMENTS_MALFORMED'')
            else if policy_network_state_malformed net then Inr (deny ''NETWORK_STATE_MALFORMED'')
            else if geofence_requirements_malformed req
            then Inr (deny ''POLICY_GEOFENCE_REQUIREMENTS_MALFORMED'')
            else if geofence_required req \<and>
                    (Some (gf_geofence_id g) \<noteq> pr_geofence_id req \<or> inside g \<noteq> geofence_allowed req)
            then Inr (deny ''GEOFENCE_NOT_SATISFIED'')
            else if pr_human_operator_available req \<and> \<not> st_human_operator_available s
            then Inr (deny ''HUMAN_OPERATOR_NOT_AVAILABLE'')
            else (case evaluate_network_requirements (network req) net (fallback p) of
                    Some result \<Rightarrow> Inr result
                  | None \<Rightarrow> constraints_outcome rq s p)))))))"

text \<open>The state of the decision point: its replay cache, its audit log and the outside world.\<close>

record issuer_state =
  is_cache :: "request_replay_cache option"
  is_log :: audit_log
  is_world :: world

definition now_op :: "env \<Rightarrow> datetime option \<Rightarrow> (issuer_state, datetime) op" where
  "now_op E now t = (let (n, w) = now_or_clock E now (is_world t) in (Inr n, t\<lparr>is_world := w\<rparr>))"

definition consume_op ::
  "capability_request \<Rightarrow> datetime \<Rightarrow> request_replay_cache \<Rightarrow> (issuer_state, bool) op" where
  "consume_op rq now c t = (let (ok, c') = consume rq now c in (Inr ok, t\<lparr>is_cache := Some c'\<rparr>))"

definition evaluate_policy_inputs ::
  "env \<Rightarrow> policy_checks \<Rightarrow> capability_request \<Rightarrow> robot_state_assertion \<Rightarrow> policy
    \<Rightarrow> control_plane_reachability_assertion option \<Rightarrow> datetime option \<Rightarrow> (issuer_state, outcome) op" where
  "evaluate_policy_inputs E k rq s p control_plane_state now_arg =
     (let deny = (\<lambda>r. ret (DENY, r, [on_deny (fallback p)], None));
          versions = [protocol_version rq, protocol_version s]
            @ (case control_plane_state of None \<Rightarrow> [] | Some cp \<Rightarrow> [protocol_version cp])
      in
      bindo (now_op E now_arg) (\<lambda>now.
      checko (protocol_version_violation versions) deny
      (bindo (liftr (request_time_violation (pc_max_request_age_seconds k) now rq)) (\<lambda>time_reason.
       checko time_reason deny
       (checko (request_auth_violation E (pc_agent_public_keys_by_id k) rq) deny
       (bindo (gets is_cache) (\<lambda>cache. case cache of
          None \<Rightarrow> deny ''REQUEST_REPLAY_CACHE_REQUIRED''
        | Some c \<Rightarrow>
            if \<not> request_cache_durable c then deny ''REQUEST_REPLAY_STORE_DURABLE_REQUIRED''
            else bindo (consume_op rq now c) (\<lambda>ok.
              if \<not> ok then deny ''REQUEST_REPLAYED''
              else liftr (policy_verdict E k now rq s p control_plane_state)))))))))"

definition policy_constraint_bounds :: "policy \<Rightarrow> (string \<rightharpoonup> capability_constraint_bounds)" where
  "policy_constraint_bounds p =
     (let req = requirements p in
      [capability_str (policy_capability p) \<mapsto>
        \<lparr>cb_capability = policy_capability p,
         cb_geofence_id = (if geofence_required req then pr_geofence_id req else None),
         cb_max_latency_ms_p95 = Some (nr_max_latency_ms_p95 (network req)),
         cb_max_packet_loss_pct = Some (nr_max_packet_loss_pct (network req)),
         cb_min_uplink_mbps = Some (nr_min_uplink_mbps (network req)),
         cb_fallback_on_degrade = Some (on_network_degrade (fallback p)),
         cb_max_speed_mps = pr_max_speed_mps req\<rparr>])"

fun decision_event :: "decision \<Rightarrow> audit_event_type" where
  "decision_event ALLOW = CAPABILITY_ALLOWED"
| "decision_event DENY = CAPABILITY_DENIED"
| "decision_event DEGRADE = CAPABILITY_DEGRADED"

definition policy_entry ::
  "env \<Rightarrow> string \<Rightarrow> capability_request \<Rightarrow> robot_state_assertion \<Rightarrow> policy
    \<Rightarrow> control_plane_reachability_assertion option \<Rightarrow> outcome \<Rightarrow> audit_entry" where
  "policy_entry E deciding_actor_id rq s p control_plane_state out =
     (case out of (d, r, alternatives, constraints) \<Rightarrow>
      let cp_ids = (case control_plane_state of None \<Rightarrow> [] | Some cp \<Rightarrow> [message_id cp])
      in \<lparr>en_event_type = decision_event d, en_actor_id = deciding_actor_id,
          en_summary = decision_str d @ '' '' @ capability_str (rq_capability rq) @ '': '' @ r,
          en_correlation_id = correlation_id rq, en_robot_id = Some (rq_robot_id rq),
          en_mission_id = Some (rq_mission_id rq),
          en_payload =
            [(''request_id'', JStr (message_id rq)),
             (''state_assertion_id'', JStr (message_id s)),
             (''control_plane_reachability_assertion_id'',
                jopt (\<lambda>cp. JStr (message_id cp)) control_plane_state),
             (''decision'', JStr (decision_str d)),
             (''reason_code'', JStr r),
             (''safe_alternatives'', JList (map (\<lambda>a. JStr (fallback_action_str a)) alternatives)),
             (''policy_id'', JStr (policy_id p)),
             (''constraints'', jopt (\<lambda>c. JDict (lease_constraints_dump c)) constraints),
             (''network_state'', JDict (network_state_dump E (st_network_state s))),
             (''geofence_state'', JDict (geofence_state_dump E (st_geofence_state s))),
             (''control_plane_reachability'', jopt (\<lambda>cp. JDict (control_plane_dump E cp)) control_plane_state)],
          en_authority_relevant = True, en_policy_id = Some (policy_id p),
          en_policy_digest = Some (policy_digest E p),
          en_state_refs = [message_id s] @ cp_ids,
          en_related_message_ids = [message_id rq, message_id s] @ cp_ids\<rparr>)"

definition issuer_record :: "env \<Rightarrow> audit_entry \<Rightarrow> (issuer_state, audit_commit) op" where
  "issuer_record E n t =
     (let (r, lg, w) = audit_record E n (is_log t) (is_world t) in (r, t\<lparr>is_log := lg, is_world := w\<rparr>))"

definition evaluate_policy ::
  "env \<Rightarrow> policy_checks \<Rightarrow> string \<Rightarrow> capability_request \<Rightarrow> robot_state_assertion \<Rightarrow> policy
    \<Rightarrow> control_plane_reachability_assertion option \<Rightarrow> datetime option
    \<Rightarrow> (issuer_state, outcome \<times> audit_commit) op" where
  "evaluate_policy E k deciding_actor_id rq s p control_plane_state now_arg =
     bindo (evaluate_policy_inputs E k rq s p control_plane_state now_arg) (\<lambda>out.
     bindo (issuer_record E (policy_entry E deciding_actor_id rq s p control_plane_state out)) (\<lambda>event.
       ret (out, event)))"

section \<open>When the evaluation allows\<close>

abbreviation (input) allows :: "'e + outcome \<Rightarrow> bool" where
  "allows r \<equiv> (\<exists>x. r = Inr (ALLOW, x))"

lemma network_requirements_malformed_iff:
  "network_requirements_malformed r \<longleftrightarrow> \<not> network_requirements_valid r"
  by (auto simp: network_requirements_malformed_def network_requirements_valid_def
      finite_nonnegative_number_iff validate_degrade_window_def)

lemma policy_network_state_malformed_iff:
  "policy_network_state_malformed n \<longleftrightarrow> \<not> network_state_valid n"
  by (simp add: policy_network_state_malformed_def network_state_valid_def finite_nonnegative_number_iff)

lemma evaluate_network_None:
  "evaluate_network_requirements req net fb = None \<longleftrightarrow>
     network_state_authority_violation net = None \<and>
     \<not> flt_lt (deny_above_latency_ms_p95 req) (latency_ms_p95 net) \<and>
     \<not> flt_lt (deny_above_packet_loss_pct req) (packet_loss_pct net) \<and>
     \<not> flt_lt (uplink_mbps net) (deny_below_uplink_mbps req) \<and>
     \<not> flt_lt (nr_max_latency_ms_p95 req) (latency_ms_p95 net) \<and>
     \<not> flt_lt (nr_max_packet_loss_pct req) (packet_loss_pct net) \<and>
     \<not> flt_lt (uplink_mbps net) (nr_min_uplink_mbps req)"
  by (simp add: evaluate_network_requirements_def guardv_def split: option.splits)

lemma evaluate_network_not_allow:
  "evaluate_network_requirements req net fb = Some (d, r, a, c) \<Longrightarrow> d \<noteq> ALLOW \<and> c = None \<and> a \<noteq> []"
  by (auto simp: evaluate_network_requirements_def guardv_eq_iff split: if_splits)

lemma control_plane_not_allow:
  "control_plane_outcome E k now rq p cp = Inr (Some (d, r, a, c)) \<Longrightarrow> d = DENY \<and> c = None \<and> a \<noteq> []"
  by (auto simp: control_plane_outcome_def Let_def guardr_Inr_iff guardv_eq_iff
      split: if_splits option.splits)

lemma constraints_outcome_shape:
  "constraints_outcome rq s p = Inr (d, r, a, c) \<Longrightarrow>
     (d = ALLOW \<longleftrightarrow> c \<noteq> None) \<and> (d = ALLOW \<longleftrightarrow> a = [])"
  by (auto simp: constraints_outcome_def Let_def guardv_eq_iff split: if_splits)

text \<open>The network part of a granted request: measured values inside the policy's operating thresholds.\<close>

definition network_grants :: "network_requirements \<Rightarrow> network_state \<Rightarrow> bool" where
  "network_grants r n \<longleftrightarrow>
     net_profile n \<noteq> NET_UNKNOWN \<and> net_profile n \<noteq> PARTITION \<and> attached n \<and>
     flt_le (latency_ms_p95 n) (nr_max_latency_ms_p95 r) \<and>
     flt_le (packet_loss_pct n) (nr_max_packet_loss_pct r) \<and>
     flt_le (nr_min_uplink_mbps r) (uplink_mbps n)"

lemma network_grants_iff:
  assumes "network_requirements_valid r" and "network_state_valid n"
  shows "evaluate_network_requirements r n fb = None \<longleftrightarrow> network_grants r n"
proof -
  obtain l pl u where n: "latency_ms_p95 n = Fin l" "packet_loss_pct n = Fin pl" "uplink_mbps n = Fin u"
    using assms(2) by (auto simp: network_state_valid_def float_field_ok_def split: pyfloat.splits)
  obtain a b c a' b' c' where r: "nr_max_latency_ms_p95 r = Fin a" "nr_max_packet_loss_pct r = Fin b"
    "nr_min_uplink_mbps r = Fin c" "deny_above_latency_ms_p95 r = Fin a'"
    "deny_above_packet_loss_pct r = Fin b'" "deny_below_uplink_mbps r = Fin c'"
    using assms(1) by (auto simp: network_requirements_valid_def float_field_ok_def split: pyfloat.splits)
  have "a \<le> a'" "b \<le> b'" "c' \<le> c"
    using assms(1) by (auto simp: network_requirements_valid_def validate_degrade_window_def r split: if_splits)
  then show ?thesis
    by (auto simp: evaluate_network_None network_state_authority_None network_grants_def n r)
qed

definition policy_grants ::
  "env \<Rightarrow> policy_checks \<Rightarrow> datetime \<Rightarrow> capability_request \<Rightarrow> robot_state_assertion \<Rightarrow> policy
    \<Rightarrow> control_plane_reachability_assertion option \<Rightarrow> bool" where
  "policy_grants E k now rq s p cp \<longleftrightarrow>
     (let req = requirements p; g = st_geofence_state s in
      policy_digest E p \<in> pc_accepted_policy_digests k \<and>
      policy_scope_violation rq s p = None \<and>
      state_auth_violation E (ROBOT_STATE_REQUIRED_WIRE_FIELDS \<union>
        (if pr_human_operator_available req then {''human_operator_available''} else {}))
        (pc_edge_public_keys_by_id k) s = None \<and>
      state_time_violation (pc_max_state_age_seconds k) now s = Inr None \<and>
      control_plane_outcome E k now rq p cp = Inr None \<and>
      network_requirements_valid (network req) \<and> network_state_valid (st_network_state s) \<and>
      \<not> geofence_requirements_malformed req \<and>
      (geofence_required req \<longrightarrow> pr_geofence_id req = Some (gf_geofence_id g) \<and> inside g = geofence_allowed req) \<and>
      (pr_human_operator_available req \<longrightarrow> st_human_operator_available s) \<and>
      network_grants (network req) (st_network_state s) \<and>
      lease_constraints_valid (policy_constraints p s) \<and>
      requested_constraint_violation (policy_constraints p s) (rq_requested_constraints rq) = None)"

lemma policy_digest_violation_None [res_simps]:
  "policy_digest_violation E p accepted = None \<longleftrightarrow> policy_digest E p \<in> accepted"
  by (auto simp: policy_digest_violation_def)

lemma guardr_allow [res_simps]:
  "guardr v (\<lambda>r. (DENY, r, as, None)) rest = Inr (ALLOW, x) \<longleftrightarrow> v = Inr None \<and> rest = Inr (ALLOW, x)"
  by (auto simp: guardr_Inr_iff)

lemma if_deny_allow [res_simps]:
  "(if b then Inr (DENY, y) else rest) = Inr (ALLOW, x) \<longleftrightarrow> \<not> b \<and> rest = Inr (ALLOW, x)"
  by auto

lemma constraints_outcome_allow:
  "constraints_outcome rq s p = Inr (ALLOW, x) \<longleftrightarrow>
     lease_constraints_valid (policy_constraints p s) \<and>
     requested_constraint_violation (policy_constraints p s) (rq_requested_constraints rq) = None \<and>
     x = (''POLICY_SATISFIED'', [],
          Some (apply_requested_constraints (policy_constraints p s) (rq_requested_constraints rq)))"
  by (auto simp: constraints_outcome_def Let_def guardv_eq_iff)

lemma bind_outcome_allow:
  assumes "\<And>d y. m = Inr (Some (d, y)) \<Longrightarrow> d \<noteq> ALLOW"
  shows "bindr m (\<lambda>out. case out of Some result \<Rightarrow> Inr result | None \<Rightarrow> rest) = Inr (ALLOW, x) \<longleftrightarrow>
     m = Inr None \<and> rest = Inr (ALLOW, x)"
  using assms by (cases m) (auto split: option.splits)

lemma case_outcome_allow:
  assumes "\<And>d y. m = Some (d, y) \<Longrightarrow> d \<noteq> ALLOW"
  shows "(case m of Some result \<Rightarrow> Inr result | None \<Rightarrow> rest) = Inr (ALLOW, x) \<longleftrightarrow>
     m = None \<and> rest = Inr (ALLOW, x)"
  using assms by (cases m) auto

lemma policy_verdict_allow:
  "policy_verdict E k now rq s p cp = Inr (ALLOW, x) \<longleftrightarrow>
     policy_grants E k now rq s p cp \<and>
     x = (''POLICY_SATISFIED'', [],
          Some (apply_requested_constraints (policy_constraints p s) (rq_requested_constraints rq)))"
proof -
  have cp: "\<And>d y. control_plane_outcome E k now rq p cp = Inr (Some (d, y)) \<Longrightarrow> d \<noteq> ALLOW"
    by (auto dest: control_plane_not_allow)
  have net: "\<And>d y. evaluate_network_requirements r n fb = Some (d, y) \<Longrightarrow> d \<noteq> ALLOW" for r n fb
    by (auto dest: evaluate_network_not_allow)
  show ?thesis
    by (auto simp: policy_verdict_def policy_grants_def Let_def guardr_allow if_deny_allow
        bind_outcome_allow [OF cp] case_outcome_allow [OF net] constraints_outcome_allow
        policy_digest_violation_None network_requirements_malformed_iff policy_network_state_malformed_iff
        network_grants_iff)
qed

text \<open>The request's part, which runs first and consumes the nonce.\<close>

definition request_admitted ::
  "env \<Rightarrow> policy_checks \<Rightarrow> datetime \<Rightarrow> capability_request \<Rightarrow> robot_state_assertion
    \<Rightarrow> control_plane_reachability_assertion option \<Rightarrow> request_replay_cache \<Rightarrow> bool" where
  "request_admitted E k now rq s cp c \<longleftrightarrow>
     protocol_version rq = SUPPORTED_PROTOCOL_VERSION \<and> protocol_version s = SUPPORTED_PROTOCOL_VERSION \<and>
     (\<forall>a. cp = Some a \<longrightarrow> protocol_version a = SUPPORTED_PROTOCOL_VERSION) \<and>
     request_time_violation (pc_max_request_age_seconds k) now rq = Inr None \<and>
     request_auth_violation E (pc_agent_public_keys_by_id k) rq = None \<and>
     request_cache_durable c \<and> rc_table c (request_key rq) = None"

lemma checko_Inr [res_simps]:
  "checko v k rest t = (Inr x, t') \<longleftrightarrow>
     (\<exists>r. v = Some r \<and> k r t = (Inr x, t')) \<or> v = None \<and> rest t = (Inr x, t')"
  by (cases v) auto

lemma now_op_eq:
  "now_op E now t = (Inr (fst (now_or_clock E now (is_world t))),
     t\<lparr>is_world := snd (now_or_clock E now (is_world t))\<rparr>)"
  by (simp add: now_op_def split: prod.splits)

lemma consume_op_eq:
  "consume_op rq now c t = (Inr (fst (consume rq now c)), t\<lparr>is_cache := Some (snd (consume rq now c))\<rparr>)"
  by (simp add: consume_op_def split: prod.splits)

lemma evaluate_policy_inputs_allow:
  assumes "evaluate_policy_inputs E k rq s p cp now_arg t = (Inr (ALLOW, x), t')"
  obtains now c where "now = fst (now_or_clock E now_arg (is_world t))"
    "is_cache t = Some c" "request_admitted E k now rq s cp c"
    "policy_verdict E k now rq s p cp = Inr (ALLOW, x)"
    "is_cache t' = Some (snd (consume rq now c))" "is_log t' = is_log t"
proof -
  define now where "now = fst (now_or_clock E now_arg (is_world t))"
  from assms obtain c where c: "is_cache t = Some c" "request_cache_durable c"
    and adm: "protocol_version_violation ([protocol_version rq, protocol_version s]
        @ (case cp of None \<Rightarrow> [] | Some a \<Rightarrow> [protocol_version a])) = None"
      "request_time_violation (pc_max_request_age_seconds k) now rq = Inr None"
      "request_auth_violation E (pc_agent_public_keys_by_id k) rq = None"
    and con: "fst (consume rq now c)"
    and out: "policy_verdict E k now rq s p cp = Inr (ALLOW, x)"
      "is_cache t' = Some (snd (consume rq now c))" "is_log t' = is_log t"
    by (auto simp: evaluate_policy_inputs_def Let_def bindo_Inr checko_Inr now_op_eq consume_op_eq now_def
        split: option.splits if_splits)
  from con have "rc_table c (request_key rq) = None" by (auto simp: consume_def split: if_splits)
  with c adm(2,3) adm(1) [unfolded protocol_version_violation_None]
  have "request_admitted E k now rq s cp c"
    by (auto simp: request_admitted_def)
  with c out show thesis by (intro that [of now c]) (auto simp: now_def)
qed

section \<open>The granted constraints stay inside the policy\<close>

lemma override_max_within:
  assumes "\<not> maximum_constraint_too_broad r v" and "opt_float_field_ok hi v"
  shows "\<not> max_field_exceeds_policy (override g f r v) v"
  using assms
  by (cases v; cases r) (auto simp: override_def max_field_exceeds_policy_def opt_field_Fin
      maximum_constraint_too_broad_def)

lemma override_min_within:
  assumes "\<not> minimum_constraint_too_broad r v" and "opt_float_field_ok hi v"
  shows "\<not> min_field_exceeds_policy (override g f r v) v"
  using assms
  by (cases v; cases r) (auto simp: override_def min_field_exceeds_policy_def opt_field_Fin
      minimum_constraint_too_broad_def)

lemma requested_constraint_None:
  "requested_constraint_violation base (Some r) = None \<longleftrightarrow>
     (con_geofence_id r = None \<or> con_geofence_id r = con_geofence_id base) \<and>
     \<not> maximum_constraint_too_broad (con_max_latency_ms_p95 r) (con_max_latency_ms_p95 base) \<and>
     \<not> maximum_constraint_too_broad (con_max_packet_loss_pct r) (con_max_packet_loss_pct base) \<and>
     \<not> minimum_constraint_too_broad (con_min_uplink_mbps r) (con_min_uplink_mbps base) \<and>
     (''fallback_on_degrade'' \<in> con_fields_set r \<longrightarrow>
        con_fallback_on_degrade r = con_fallback_on_degrade base) \<and>
     \<not> maximum_constraint_too_broad (con_max_speed_mps r) (con_max_speed_mps base)"
  by (auto simp: requested_constraint_violation_def)

text \<open>The requested constraints as if none had been given.\<close>

definition no_constraints :: lease_constraints where
  "no_constraints =
     \<lparr>con_fields_set = {}, con_geofence_id = None, con_max_latency_ms_p95 = None,
      con_max_packet_loss_pct = None, con_min_uplink_mbps = None,
      con_fallback_on_degrade = CRAWL_TO_SAFE_ZONE, con_max_speed_mps = None\<rparr>"

lemma apply_no_constraints: "apply_requested_constraints base (Some no_constraints) = base"
  by (simp add: apply_requested_constraints_def no_constraints_def override_def overridden_def)

lemma narrowed_within:
  assumes "requested_constraint_violation base (Some r) = None" and "lease_constraints_valid base"
    and "cb_geofence_id b \<noteq> None \<longrightarrow> con_geofence_id base = cb_geofence_id b"
    and "cb_max_latency_ms_p95 b = con_max_latency_ms_p95 base"
    and "cb_max_packet_loss_pct b = con_max_packet_loss_pct base"
    and "cb_min_uplink_mbps b = con_min_uplink_mbps base"
    and "cb_fallback_on_degrade b = Some (con_fallback_on_degrade base)"
    and "cb_max_speed_mps b = con_max_speed_mps base"
  shows "\<not> capability_constraints_exceed_bounds (apply_requested_constraints base (Some r)) b"
proof -
  note req = assms(1) [unfolded requested_constraint_None]
  note valid = assms(2) [unfolded lease_constraints_valid_def]
  have geo: "\<not> (cb_geofence_id b \<noteq> None \<and>
      override g ''geofence_id'' (con_geofence_id r) (con_geofence_id base) \<noteq> cb_geofence_id b)" for g
    using req assms(3) by (auto simp: override_def)
  have nums: "\<not> max_field_exceeds_policy (override g f (con_max_latency_ms_p95 r) (con_max_latency_ms_p95 base))
        (cb_max_latency_ms_p95 b)"
      "\<not> max_field_exceeds_policy (override g f (con_max_packet_loss_pct r) (con_max_packet_loss_pct base))
        (cb_max_packet_loss_pct b)"
      "\<not> min_field_exceeds_policy (override g f (con_min_uplink_mbps r) (con_min_uplink_mbps base))
        (cb_min_uplink_mbps b)"
      "\<not> max_field_exceeds_policy (override g f (con_max_speed_mps r) (con_max_speed_mps base))
        (cb_max_speed_mps b)" for g f
    using req valid unfolding assms(4-6,8)
    by (simp_all add: override_max_within [where hi = None] override_max_within [where hi = "Some 100"]
        override_min_within [where hi = None])
  have "\<not> fallback_exceeds_policy (apply_requested_constraints base (Some r)) b"
    using req by (simp add: fallback_exceeds_policy_def assms(7) apply_requested_constraints_def Let_def)
  with geo nums show ?thesis
    unfolding capability_constraints_exceed_bounds_def
    by (simp only: if_False option.case apply_requested_constraints_def Let_def lease_constraints.simps) simp
qed

lemma apply_requested_within:
  assumes "requested_constraint_violation (policy_constraints p s) requested = None"
    and "geofence_required (requirements p) \<longrightarrow>
      pr_geofence_id (requirements p) = Some (gf_geofence_id (st_geofence_state s))"
    and "lease_constraints_valid (policy_constraints p s)"
    and "policy_constraint_bounds p (capability_str (policy_capability p)) = Some b"
  shows "\<not> capability_constraints_exceed_bounds (apply_requested_constraints (policy_constraints p s) requested) b"
proof -
  define r where "r = (case requested of None \<Rightarrow> no_constraints | Some r \<Rightarrow> r)"
  have "apply_requested_constraints base None = base" for base
    by (simp add: apply_requested_constraints_def)
  then have eq: "apply_requested_constraints base requested = apply_requested_constraints base (Some r)" for base
    by (cases requested) (simp_all add: r_def apply_no_constraints)
  have "requested_constraint_violation (policy_constraints p s) (Some r) = None"
    using assms(1) by (cases requested)
      (simp_all add: r_def no_constraints_def requested_constraint_None maximum_constraint_too_broad_def
        minimum_constraint_too_broad_def)
  from narrowed_within [OF this assms(3)] show ?thesis
    unfolding eq using assms(2,4)
    by (auto simp: policy_constraint_bounds_def policy_constraints_def Let_def split: if_splits)
qed

section \<open>What every evaluation keeps\<close>

definition used_request_keys :: "issuer_state \<Rightarrow> (string \<times> string) set" where
  "used_request_keys t = (case is_cache t of None \<Rightarrow> {} | Some c \<Rightarrow> dom (rc_table c))"

text \<open>Used nonces stay used, the log only grows and stays well-formed.\<close>

definition issuer_progress :: "env \<Rightarrow> issuer_state \<Rightarrow> issuer_state \<Rightarrow> bool" where
  "issuer_progress E t t' \<longleftrightarrow>
     used_request_keys t \<subseteq> used_request_keys t' \<and>
     (\<exists>es. events (is_log t') = events (is_log t) @ es) \<and>
     (log_ok E (is_log t) \<longrightarrow> log_ok E (is_log t')) \<and>
     (log_drawn E (is_log t) (is_world t) \<longrightarrow> log_drawn E (is_log t') (is_world t'))"

interpretation issuer: effect_relation "issuer_progress E" for E
  by unfold_locales (auto simp: issuer_progress_def)

lemma log_drawn_now [simp]: "log_drawn E lg (snd (now_or_clock E now w)) = log_drawn E lg w"
  by (simp add: log_drawn_def now_or_clock_def tick_def split: option.splits)

lemma now_op_keeps: "keeps (issuer_progress E) (now_op E now)"
  by (rule keepsI) (auto simp: now_op_eq issuer_progress_def used_request_keys_def)

lemma issuer_record_keeps: "keeps (issuer_progress E) (issuer_record E n)"
proof (rule keepsI)
  fix t r t' assume *: "issuer_record E n t = (r, t')"
  obtain lg w where rec: "audit_record E n (is_log t) (is_world t) = (r, lg, w)"
    and t': "t' = t\<lparr>is_log := lg, is_world := w\<rparr>"
    using * by (auto simp: issuer_record_def split: prod.splits)
  from rec have "\<exists>es. events lg = events (is_log t) @ es"
    by (cases r) (auto simp: audit_record_def Let_def split: prod.splits
        dest: audit_append_Inl audit_append_Inr)
  with audit_record_log_ok [OF _ rec] log_drawn_record [OF _ rec]
  show "issuer_progress E t t'"
    by (simp add: issuer_progress_def t' used_request_keys_def)
qed

text \<open>
  Consuming replaces the cache the evaluation found, so the step is taken as a whole: reading the cache,
  checking that it is durable and consuming.
\<close>

lemma consume_keeps:
  "keeps (issuer_progress E)
     (bindo (gets is_cache) (\<lambda>cache. case cache of
          None \<Rightarrow> ret a
        | Some c \<Rightarrow> if \<not> request_cache_durable c then ret b
            else bindo (consume_op rq now c) (\<lambda>ok. if \<not> ok then ret d else liftr v)))"
  by (rule keepsI)
    (auto simp: bindo_def consume_op_eq issuer_progress_def used_request_keys_def consume_def
      split: option.splits if_splits)

lemma evaluate_policy_inputs_keeps: "keeps (issuer_progress E) (evaluate_policy_inputs E k rq s p cp now)"
  unfolding evaluate_policy_inputs_def Let_def
  by (intro issuer.keeps_bindo issuer.keeps_checko issuer.keeps_pure now_op_keeps consume_keeps)

lemma evaluate_policy_keeps: "keeps (issuer_progress E) (evaluate_policy E k actor rq s p cp now)"
  unfolding evaluate_policy_def
  by (intro issuer.keeps_bindo issuer.keeps_pure evaluate_policy_inputs_keeps issuer_record_keeps)

lemma issuer_record_Inr:
  assumes "issuer_record E n t = (Inr ev, t')"
  shows "ev = recorded E n (is_log t) (is_world t)" and "events (is_log t') = events (is_log t) @ [ev]"
    and "is_cache t' = is_cache t"
proof -
  from assms obtain lg where app:
    "audit_append E (audit_commit_of E n (is_world t)) (is_log t) = (Inr ev, lg)" "is_log t' = lg"
    and "is_cache t' = is_cache t"
    by (auto simp: issuer_record_def audit_record_def Let_def split: prod.splits)
  from audit_append_Inr [OF app(1)] show "ev = recorded E n (is_log t) (is_world t)"
    "events (is_log t') = events (is_log t) @ [ev]"
    by (simp_all add: recorded_def app(2))
  show "is_cache t' = is_cache t" by fact
qed

lemma policy_entry_fields [simp]:
  "en_event_type (policy_entry E actor rq s p cp (d, x)) = decision_event d"
  "en_robot_id (policy_entry E actor rq s p cp (d, x)) = Some (rq_robot_id rq)"
  "en_mission_id (policy_entry E actor rq s p cp (d, x)) = Some (rq_mission_id rq)"
  "en_authority_relevant (policy_entry E actor rq s p cp (d, x))"
  "en_policy_digest (policy_entry E actor rq s p cp (d, x)) = Some (policy_digest E p)"
  "en_correlation_id (policy_entry E actor rq s p cp (d, x)) = correlation_id rq"
  by (cases x; cases "snd x"; simp add: policy_entry_def Let_def)+

lemma recorded_fields [simp]:
  "event_type (recorded E n lg w) = en_event_type n"
  "correlation_id (recorded E n lg w) = en_correlation_id n"
  "ac_payload (recorded E n lg w) = en_payload n"
  "ac_actor_id (recorded E n lg w) = en_actor_id n"
  "ac_policy_digest (recorded E n lg w) = en_policy_digest n"
  "audit_id (recorded E n lg w) = ''audit_'' @ uuid4_hex E (Suc (uuid_draws w))"
  by (simp_all add: recorded_def committed_event_def)
    (simp add: audit_commit_of_def commit_payload_hash_def)

text \<open>A sequence of evaluations on one decision point, each with its own arguments.\<close>

type_synonym policy_call =
  "policy_checks \<times> string \<times> capability_request \<times> robot_state_assertion \<times> policy
    \<times> control_plane_reachability_assertion option \<times> datetime option"

definition run_call :: "env \<Rightarrow> policy_call \<Rightarrow> (issuer_state, outcome \<times> audit_commit) op" where
  "run_call E c = (case c of (k, actor, rq, s, p, cp, now) \<Rightarrow> evaluate_policy E k actor rq s p cp now)"

definition call_request :: "policy_call \<Rightarrow> capability_request" where
  "call_request c = fst (snd (snd c))"

fun run_calls :: "env \<Rightarrow> policy_call list \<Rightarrow> issuer_state \<Rightarrow> (outcome \<times> audit_commit) res list \<times> issuer_state" where
  "run_calls E [] t = ([], t)"
| "run_calls E (c # cs) t =
     (let (r, t1) = run_call E c t; (rs, t2) = run_calls E cs t1 in (r # rs, t2))"

lemma run_call_keeps: "keeps (issuer_progress E) (run_call E c)"
  by (cases c) (simp add: run_call_def evaluate_policy_keeps)

lemma run_calls_progress: "issuer_progress E t (snd (run_calls E cs t))"
proof (induction cs arbitrary: t)
  case (Cons c cs)
  have "issuer_progress E t (snd (run_call E c t))"
    using run_call_keeps [of E c] by (simp add: keeps_def)
  with Cons.IH [of "snd (run_call E c t)"] show ?case
    by (auto split: prod.splits intro: issuer.R_trans)
qed (simp add: issuer.R_refl)

lemma evaluate_policy_allowE:
  assumes "evaluate_policy E k actor rq s p cp now_arg t = (Inr ((ALLOW, x), ev), t')"
  obtains now c where "now = fst (now_or_clock E now_arg (is_world t))" "is_cache t = Some c"
    "request_admitted E k now rq s cp c" "policy_verdict E k now rq s p cp = Inr (ALLOW, x)"
    "request_key rq \<notin> used_request_keys t" "request_key rq \<in> used_request_keys t'"
    "is_cache t' = Some (snd (consume rq now c))"
proof -
  from assms obtain t1 where inp: "evaluate_policy_inputs E k rq s p cp now_arg t = (Inr (ALLOW, x), t1)"
    and rec: "issuer_record E (policy_entry E actor rq s p cp (ALLOW, x)) t1 = (Inr ev, t')"
    by (auto simp: evaluate_policy_def bindo_Inr)
  obtain now c where *: "now = fst (now_or_clock E now_arg (is_world t))" "is_cache t = Some c"
    "request_admitted E k now rq s cp c" "policy_verdict E k now rq s p cp = Inr (ALLOW, x)"
    and t1: "is_cache t1 = Some (snd (consume rq now c))"
    by (rule evaluate_policy_inputs_allow [OF inp])
  from *(3) have new: "rc_table c (request_key rq) = None" "rc_store_path c \<noteq> None"
    by (auto simp: request_admitted_def request_cache_durable_def)
  have "request_key rq \<in> used_request_keys t'"
    using new issuer_record_Inr(3) [OF rec] by (auto simp: used_request_keys_def t1 consume_def)
  with * new t1 show thesis
    using issuer_record_Inr(3) [OF rec] by (intro that) (auto simp: used_request_keys_def)
qed

lemma run_calls_nth:
  assumes "run_calls E cs t = (rs, t')" and "i < length cs"
  obtains ti ti' where "run_call E (cs ! i) ti = (rs ! i, ti')" "issuer_progress E t ti"
    "run_calls E (drop (Suc i) cs) ti' = (drop (Suc i) rs, t')"
  using assms
proof (induction cs arbitrary: t rs i thesis)
  case (Cons c cs)
  obtain r t1 where c: "run_call E c t = (r, t1)" by (cases "run_call E c t")
  obtain rs1 where rest: "run_calls E cs t1 = (rs1, t')" and rs: "rs = r # rs1"
    using Cons.prems(2) by (auto simp: c split: prod.splits)
  show ?case
  proof (cases i)
    case 0
    with c rest rs show ?thesis by (intro Cons.prems(1) [of t t1]) (auto simp: issuer.R_refl)
  next
    case (Suc j)
    with Cons.prems(3) have "j < length cs" by simp
    from Cons.IH [OF _ rest this] obtain ti ti' where "run_call E (cs ! j) ti = (rs1 ! j, ti')"
      "issuer_progress E t1 ti" "run_calls E (drop (Suc j) cs) ti' = (drop (Suc j) rs1, t')" by blast
    moreover have "issuer_progress E t t1" using run_call_keeps c by (rule keepsD)
    ultimately show ?thesis
      by (intro Cons.prems(1) [of ti ti']) (auto simp: Suc rs intro: issuer.R_trans)
  qed
qed simp

lemma run_call_allow:
  assumes "run_call E c t = (Inr ((ALLOW, x), ev), t')"
  shows "request_key (call_request c) \<notin> used_request_keys t" "request_key (call_request c) \<in> used_request_keys t'"
  using assms by (cases c; auto simp: run_call_def call_request_def elim!: evaluate_policy_allowE)+

lemma evaluate_policy_inputs_draws:
  assumes "evaluate_policy_inputs E k rq s p cp now t = (Inr out, t1)"
  shows "uuid_draws (is_world t1) = uuid_draws (is_world t)"
  using assms by (auto simp: evaluate_policy_inputs_def Let_def bindo_Inr checko_Inr now_op_eq
      consume_op_eq now_or_clock_def tick_def split: option.splits if_splits)

lemma evaluate_policy_records:
  assumes "inj_on (uuid4_hex E) {..Suc (uuid_draws (is_world t))}" and "log_drawn E (is_log t) (is_world t)"
    and "evaluate_policy_inputs E k rq s p cp now t = (Inr out, t1)"
  shows "\<exists>ev t'. evaluate_policy E k actor rq s p cp now t = (Inr (out, ev), t')"
proof -
  obtain d x where out: "out = (d, x)" by (cases out)
  have drawn: "log_drawn E (is_log t1) (is_world t1)"
    using keepsD [OF evaluate_policy_inputs_keeps assms(3)] assms(2) by (simp add: issuer_progress_def)
  have "uuid_draws (is_world t1) = uuid_draws (is_world t)" using assms(3) by (rule evaluate_policy_inputs_draws)
  with assms(1) have inj: "inj_on (uuid4_hex E) {..Suc (uuid_draws (is_world t1))}" by simp
  have "\<exists>ev t'. issuer_record E (policy_entry E actor rq s p cp out) t1 = (Inr ev, t')"
    by (simp add: issuer_record_def audit_record_ok [OF inj drawn] out)
  with assms(3) show ?thesis by (fastforce simp: evaluate_policy_def bindo_def)
qed

lemma evaluate_policy_draws:
  assumes "evaluate_policy E k actor rq s p cp now t = (Inr x, t')"
  shows "uuid_draws (is_world t') = uuid_draws (is_world t) + 2"
proof -
  from assms obtain out t1 ev where inp: "evaluate_policy_inputs E k rq s p cp now t = (Inr out, t1)"
    and rec: "issuer_record E (policy_entry E actor rq s p cp out) t1 = (Inr ev, t')"
    by (auto simp: evaluate_policy_def bindo_Inr)
  from evaluate_policy_inputs_draws [OF inp] rec show ?thesis
    by (auto simp: issuer_record_def audit_record_def Let_def draw_def tick_def split: prod.splits)
qed

lemma evaluate_policy_inputs_admitted:
  assumes "is_cache t = Some c" and "request_admitted E k (fst (now_or_clock E now (is_world t))) rq s cp c"
    and "policy_verdict E k (fst (now_or_clock E now (is_world t))) rq s p cp = Inr out"
  shows "\<exists>t1. evaluate_policy_inputs E k rq s p cp now t = (Inr out, t1)"
proof -
  have "protocol_version_violation ([protocol_version rq, protocol_version s]
      @ (case cp of None \<Rightarrow> [] | Some a \<Rightarrow> [protocol_version a])) = None"
    using assms(2) by (auto simp: protocol_version_violation_None request_admitted_def split: option.splits)
  moreover have "fst (consume rq (fst (now_or_clock E now (is_world t))) c)"
    using assms(2) by (auto simp: request_admitted_def request_cache_durable_def consume_def)
  ultimately show ?thesis
    using assms by (simp add: evaluate_policy_inputs_def bindo_run now_op_eq consume_op_eq request_admitted_def
        del: protocol_version_violation.simps)
qed

section \<open>Properties\<close>

text \<open>
  C10. The policy decides ALLOW only for an admitted request that the policy grants: of this protocol
  version, fresh, signed by the agent it names, with a nonce that a durable store had not seen, under an
  accepted policy digest, inside the policy's scope, with an authentic fresh state of the right robot,
  an acceptable geofence, operator and network, and constraints no broader than the policy's. The
  granted constraints are the policy's, narrowed by the request.
\<close>

theorem policy_allows_only_granted:
  assumes "evaluate_policy E k actor rq s p cp now_arg t = (Inr ((ALLOW, r, alts, constraints), ev), t')"
  shows "\<exists>now c. now = fst (now_or_clock E now_arg (is_world t)) \<and> is_cache t = Some c \<and>
    request_admitted E k now rq s cp c \<and> policy_grants E k now rq s p cp \<and>
    constraints = Some (apply_requested_constraints (policy_constraints p s) (rq_requested_constraints rq))"
  using assms by (rule evaluate_policy_allowE) (auto simp: policy_verdict_allow)

text \<open>
  C11. A request that is admitted and that the policy grants is allowed: as long as the generator has not
  repeated an identifier, the evaluation returns ALLOW with the policy's constraints narrowed by the
  request, together with the audit event of the decision.
\<close>

theorem granted_request_allowed:
  assumes "inj_on (uuid4_hex E) {..Suc (uuid_draws (is_world t))}" and "log_drawn E (is_log t) (is_world t)"
    and "is_cache t = Some c" and "request_admitted E k (fst (now_or_clock E now (is_world t))) rq s cp c"
    and "policy_grants E k (fst (now_or_clock E now (is_world t))) rq s p cp"
  shows "\<exists>ev t'. evaluate_policy E k actor rq s p cp now t =
    (Inr ((ALLOW, ''POLICY_SATISFIED'', [],
           Some (apply_requested_constraints (policy_constraints p s) (rq_requested_constraints rq))), ev), t')"
proof -
  have "policy_verdict E k (fst (now_or_clock E now (is_world t))) rq s p cp = Inr (ALLOW, ''POLICY_SATISFIED'', [],
      Some (apply_requested_constraints (policy_constraints p s) (rq_requested_constraints rq)))"
    using assms(5) by (simp add: policy_verdict_allow)
  from evaluate_policy_inputs_admitted [OF assms(3,4) this] evaluate_policy_records [OF assms(1,2)]
  show ?thesis by blast
qed

text \<open>
  A request nonce buys at most one ALLOW: in any sequence of evaluations on one decision point, with
  whatever policies, keys, states and times, two calls that both end in ALLOW are for different pairs of
  requesting agent and nonce.
\<close>

lemma nonce_allows_once:
  assumes "run_calls E calls t = (results, t')" and "i < j" and "j < length calls"
    and "results ! i = Inr ((ALLOW, x), ev)" and "results ! j = Inr ((ALLOW, x'), ev')"
  shows "request_key (call_request (calls ! i)) \<noteq> request_key (call_request (calls ! j))"
proof -
  from assms(2,3) have "i < length calls" by simp
  from run_calls_nth [OF assms(1) this] obtain ti ti' where
    i: "run_call E (calls ! i) ti = (results ! i, ti')"
    and rest: "run_calls E (drop (Suc i) calls) ti' = (drop (Suc i) results, t')" by blast
  obtain m where m: "j = Suc i + m" using assms(2) less_iff_Suc_add by auto
  then have "m < length (drop (Suc i) calls)" using assms(3) by simp
  from run_calls_nth [OF rest this] obtain tj tj' where
    j: "run_call E (drop (Suc i) calls ! m) tj = (drop (Suc i) results ! m, tj')"
    and prog: "issuer_progress E ti' tj" by blast
  have len: "length results = length calls"
    using assms(1) by (induction calls arbitrary: t results) (auto split: prod.splits)
  have j': "run_call E (calls ! j) tj = (Inr ((ALLOW, x'), ev'), tj')"
    using j assms(3,5) len by (simp add: m)
  from run_call_allow(2) [OF i [unfolded assms(4)]] prog
  have "request_key (call_request (calls ! i)) \<in> used_request_keys tj" by (auto simp: issuer_progress_def)
  with run_call_allow(1) [OF j'] show ?thesis by auto
qed

text \<open>
  C19. What the policy grants, the gate's bounds accept: the constraints of an ALLOW never exceed the bounds
  that policy_constraint_bounds derives from the same policy, so a lease issued with them passes the bound
  check of the conformance module.
\<close>

theorem granted_constraints_within_bounds:
  assumes "policy_verdict E k now rq s p cp = Inr (ALLOW, r, alts, Some constraints)"
    and "lease_constraints l = constraints" and "lease_capability l = rq_capability rq"
  shows "capability_constraint_bound_violation l (Some (policy_constraint_bounds p)) = None"
proof -
  from assms(1) have g: "policy_grants E k now rq s p cp"
    and c: "constraints = apply_requested_constraints (policy_constraints p s) (rq_requested_constraints rq)"
    by (auto simp: policy_verdict_allow)
  from g have cap: "rq_capability rq = policy_capability p"
    by (auto simp: policy_grants_def policy_scope_violation_def Let_def split: if_splits)
  obtain b where b: "policy_constraint_bounds p (capability_str (policy_capability p)) = Some b"
    "cb_capability b = policy_capability p"
    by (auto simp: policy_constraint_bounds_def Let_def)
  have "\<not> capability_constraints_exceed_bounds constraints b"
    unfolding c using g by (intro apply_requested_within [OF _ _ _ b(1)]) (auto simp: policy_grants_def Let_def)
  with b show ?thesis
    by (simp add: capability_constraint_bound_violation_def assms(2,3) cap)
qed

lemma only_allow_carries_constraints:
  assumes "evaluate_policy_inputs E k rq s p cp now t = (Inr (d, r, alts, constraints), t')"
  shows "(constraints \<noteq> None \<longleftrightarrow> d = ALLOW) \<and> (alts = [] \<longleftrightarrow> d = ALLOW)"
proof -
  have verdict: "(constraints \<noteq> None \<longleftrightarrow> d = ALLOW) \<and> (alts = [] \<longleftrightarrow> d = ALLOW)"
    if "policy_verdict E k n rq s p cp = Inr (d, r, alts, constraints)" for n
  proof -
    from that consider "d = DENY" "constraints = None" "alts \<noteq> []"
      | "control_plane_outcome E k n rq p cp = Inr (Some (d, r, alts, constraints))"
      | "evaluate_network_requirements (network (requirements p)) (st_network_state s) (fallback p) =
           Some (d, r, alts, constraints)"
      | "constraints_outcome rq s p = Inr (d, r, alts, constraints)"
      unfolding policy_verdict_def Let_def guardr_Inr_iff bindr_Inr_iff
      by (auto split: if_splits option.splits)
    then show ?thesis
      by cases (auto dest: control_plane_not_allow evaluate_network_not_allow constraints_outcome_shape)
  qed
  from assms consider "d = DENY" "constraints = None" "alts \<noteq> []"
    | n where "policy_verdict E k n rq s p cp = Inr (d, r, alts, constraints)"
    by (auto simp: evaluate_policy_inputs_def Let_def bindo_Inr checko_Inr now_op_eq consume_op_eq
        split: option.splits if_splits)
  then show ?thesis by cases (use verdict in auto)
qed

text \<open>
  C29. Every decision is audited, once, before it is returned: the evaluation extends the log by exactly the
  event it returns, whose type is the decision's and which names the request's correlation id and the
  digest of the policy, and a well-formed log stays well-formed. Only ALLOW carries authority: constraints
  are returned exactly with it, and every other decision names a safe alternative.
\<close>

theorem decision_audited:
  assumes "evaluate_policy E k actor rq s p cp now t = (Inr ((d, r, alts, constraints), ev), t')"
    and "log_ok E (is_log t)"
  shows "(constraints \<noteq> None \<longleftrightarrow> d = ALLOW) \<and> (alts = [] \<longleftrightarrow> d = ALLOW) \<and>
    events (is_log t') = events (is_log t) @ [ev] \<and> event_type ev = decision_event d \<and>
    correlation_id ev = correlation_id rq \<and> ac_policy_digest ev = Some (policy_digest E p) \<and>
    log_ok E (is_log t')"
proof -
  from assms(1) obtain t1 where inp: "evaluate_policy_inputs E k rq s p cp now t = (Inr (d, r, alts, constraints), t1)"
    and rec: "issuer_record E (policy_entry E actor rq s p cp (d, r, alts, constraints)) t1 = (Inr ev, t')"
    by (auto simp: evaluate_policy_def bindo_Inr)
  have "is_log t1 = is_log t"
    using inp by (auto simp: evaluate_policy_inputs_def Let_def bindo_Inr checko_Inr now_op_eq consume_op_eq
        split: option.splits if_splits)
  with only_allow_carries_constraints [OF inp] issuer_record_Inr [OF rec] keepsD [OF evaluate_policy_keeps assms(1)] assms(2) show ?thesis
    by (auto simp: issuer_progress_def)
qed

text \<open>The order of measurements: \<open>n\<close> is nowhere better than \<open>m\<close>.\<close>

definition no_better :: "network_state \<Rightarrow> network_state \<Rightarrow> bool" where
  "no_better n m \<longleftrightarrow>
     net_profile n = net_profile m \<and> attached n = attached m \<and>
     flt_le (latency_ms_p95 m) (latency_ms_p95 n) \<and> flt_le (packet_loss_pct m) (packet_loss_pct n) \<and>
     flt_le (uplink_mbps n) (uplink_mbps m)"

fun severity :: "outcome option \<Rightarrow> nat" where
  "severity None = 0"
| "severity (Some (ALLOW, _)) = 0"
| "severity (Some (DEGRADE, _)) = 1"
| "severity (Some (DENY, _)) = 2"

lemma flt_lt_le_trans: "flt_lt a b \<Longrightarrow> flt_le b c \<Longrightarrow> flt_lt a c"
  by (cases a; cases b; cases c) (auto simp: flt_le_def)

lemma flt_le_lt_trans: "flt_le a b \<Longrightarrow> flt_lt b c \<Longrightarrow> flt_lt a c"
  by (cases a; cases b; cases c) (auto simp: flt_le_def)

text \<open>
  The network part of the evaluation is monotone: when every measurement gets worse or stays as it
  was, the answer moves only from acceptance to DEGRADE to DENY, never back.
\<close>

lemma network_severity_monotone:
  assumes "no_better n m"
  shows "severity (evaluate_network_requirements req m fb) \<le> severity (evaluate_network_requirements req n fb)"
proof -
  have auth: "network_state_authority_violation n = network_state_authority_violation m"
    using assms by (simp add: no_better_def network_state_authority_violation_def)
  have "flt_lt x (latency_ms_p95 m) \<Longrightarrow> flt_lt x (latency_ms_p95 n)"
    "flt_lt x (packet_loss_pct m) \<Longrightarrow> flt_lt x (packet_loss_pct n)"
    "flt_lt (uplink_mbps m) x \<Longrightarrow> flt_lt (uplink_mbps n) x" for x
    using assms by (auto simp: no_better_def intro: flt_lt_le_trans flt_le_lt_trans)
  then show ?thesis
    by (cases "network_state_authority_violation m")
      (auto simp: evaluate_network_requirements_def auth)
qed

text \<open>
  C31. A policy that requires the robot to be outside its geofence grants leases that the gate then
  refuses: the lease is bound to the geofence the robot is outside of, and the state check demands that
  the robot be inside. So an exclusion-zone policy can decide ALLOW, but the state it decided on never
  satisfies the lease.
\<close>

theorem exclusion_zone_lease_refused:
  assumes "policy_verdict E k now rq s p cp = Inr (ALLOW, r, alts, Some constraints)"
    and "geofence_required (requirements p)" and "\<not> geofence_allowed (requirements p)"
    and "lease_constraints l = constraints" and "lease_robot_id l = rq_robot_id rq"
    and "lease_edge_agent_id l = rq_edge_agent_id rq" and "lease_mission_id l = rq_mission_id rq"
  shows "validate_lease_against_state l s = (False, ''GEOFENCE_CONSTRAINT_VIOLATED'')"
proof -
  from assms(1) have g: "policy_grants E k now rq s p cp"
    and c: "constraints = apply_requested_constraints (policy_constraints p s) (rq_requested_constraints rq)"
    by (auto simp: policy_verdict_allow)
  from g have "st_robot_id s = rq_robot_id rq" "st_edge_agent_id s = rq_edge_agent_id rq"
    "st_mission_id s = rq_mission_id rq"
    by (auto simp: policy_grants_def policy_scope_violation_def Let_def split: if_splits)
  moreover from g assms(2,3) have "\<not> inside (st_geofence_state s)"
    by (auto simp: policy_grants_def Let_def)
  moreover have "con_geofence_id constraints \<noteq> None"
    by (auto simp: c apply_requested_constraints_def policy_constraints_def override_def Let_def
        split: option.splits)
  ultimately show ?thesis
    using assms(4-7) by (simp add: validate_lease_against_state_def Let_def)
qed

end
