(* ===== verification/Attestation.thy ===== *)
theory Attestation
  imports Freshness
begin

text \<open>
  Agent attestations (\<^verbatim>\<open>rclp_core/attestation.py\<close>): authentication, freshness and the trust decision
  that binds an agent to a key id, a trust tier and a manifest digest.
\<close>

definition DEFAULT_ATTESTATION_MAX_AGE_SECONDS :: int where
  "DEFAULT_ATTESTATION_MAX_AGE_SECONDS = 300"

definition ATTESTATION_CLOCK_SKEW_SECONDS :: int where
  "ATTESTATION_CLOCK_SKEW_SECONDS = 30"

definition attestation_texts :: "agent_attestation \<Rightarrow> string option list" where
  "attestation_texts a =
     [Some (protocol_version a), Some (message_id a), Some (correlation_id a),
      Some (isoformat (created_at a)), Some ''agent_attestation'', Some (att_agent_id a),
      att_authenticated_agent_id a, Some (att_kind a), Some (att_manifest_digest a),
      Some (att_public_key_id a), Some (att_trust_tier a), Some (bool_str (att_revoked a)),
      Some (signature_alg a), signature a]"

definition attestation_signed_material_too_large :: "agent_attestation \<Rightarrow> bool" where
  "attestation_signed_material_too_large a = budget_loop 0 (attestation_texts a)"

definition attestation_auth_violation ::
  "env \<Rightarrow> (string \<rightharpoonup> string) \<Rightarrow> agent_attestation \<Rightarrow> violation" where
  "attestation_auth_violation E agent_public_keys_by_id a =
     guardv (signature_algorithm_violation a ''ATTESTATION_SIGNATURE_ALGORITHM_MISSING''
               ''ATTESTATION_SIGNATURE_ALGORITHM_UNSUPPORTED'') Some
     (case att_authenticated_agent_id a of
        None \<Rightarrow> Some ''ATTESTATION_AUTHENTICATED_AGENT_MISSING''
      | Some i \<Rightarrow>
          if i \<noteq> att_agent_id a then Some ''ATTESTATION_AUTHENTICATED_AGENT_MISMATCH''
          else (case signature a of
                  None \<Rightarrow> Some ''ATTESTATION_SIGNATURE_MISSING''
                | Some sig \<Rightarrow>
                    (case agent_public_keys_by_id i of
                       None \<Rightarrow> Some ''ATTESTATION_AGENT_KEY_NOT_TRUSTED''
                     | Some public_key \<Rightarrow>
                         if attestation_signed_material_too_large a
                         then Some ''ATTESTATION_SIGNED_MATERIAL_TOO_LARGE''
                         else if \<not> verify_with_public_key_b64 E (attestation_dump E a) sig public_key
                         then Some ''ATTESTATION_SIGNATURE_INVALID''
                         else None)))"

definition attestation_time_violation :: "int \<Rightarrow> datetime \<Rightarrow> agent_attestation \<Rightarrow> violation res" where
  "attestation_time_violation max_age now a =
     stamp_violation ''ATTESTATION_TIMESTAMP_INVALID'' ''ATTESTATION_NOT_YET_VALID'' ''ATTESTATION_STALE''
       ATTESTATION_CLOCK_SKEW_SECONDS (max_age + ATTESTATION_CLOCK_SKEW_SECONDS) now (created_at a)"

text \<open>
  \<^verbatim>\<open>now\<close> is resolved by the caller; a missing mapping of key ids counts as empty, a missing set of tiers
  or of manifest digests as no policy. The accepted tiers are any sized collection; as in Python, a set
  is built from the non-blank ones and its size is compared with the size of the collection.
\<close>

definition attestation_trust_violation ::
  "env \<Rightarrow> (string \<rightharpoonup> string) \<Rightarrow> (string \<rightharpoonup> string) option \<Rightarrow> string list option
    \<Rightarrow> (string \<rightharpoonup> string) option \<Rightarrow> int \<Rightarrow> datetime \<Rightarrow> agent_attestation \<Rightarrow> violation res" where
  "attestation_trust_violation E agent_public_keys_by_id public_key_ids_by_agent_id accepted_trust_tiers
     manifest_digests_by_agent_id max_attestation_age_seconds now a =
     guardr (Inr (attestation_auth_violation E agent_public_keys_by_id a)) Some
     (guardr (attestation_time_violation max_attestation_age_seconds now a) Some
     (Inr (if py_blank (att_manifest_digest a) then Some ''ATTESTATION_MANIFEST_DIGEST_MISSING''
      else if py_blank (att_public_key_id a) then Some ''ATTESTATION_PUBLIC_KEY_ID_MISSING''
      else (case (case public_key_ids_by_agent_id of None \<Rightarrow> Map.empty | Some m \<Rightarrow> m) (att_agent_id a) of
          None \<Rightarrow> Some ''ATTESTATION_PUBLIC_KEY_ID_NOT_TRUSTED''
        | Some expected_public_key_id \<Rightarrow>
          if py_blank expected_public_key_id then Some ''ATTESTATION_PUBLIC_KEY_ID_NOT_TRUSTED''
          else if att_public_key_id a \<noteq> expected_public_key_id then Some ''ATTESTATION_PUBLIC_KEY_ID_MISMATCH''
          else if att_revoked a then Some ''ATTESTATION_AGENT_REVOKED''
          else (case accepted_trust_tiers of
              None \<Rightarrow> Some ''ATTESTATION_TRUST_TIER_POLICY_REQUIRED''
            | Some tiers \<Rightarrow>
              let normalized = remdups (filter (\<lambda>t. \<not> py_blank t) tiers) in
              if tiers = [] then Some ''ATTESTATION_TRUST_TIER_POLICY_REQUIRED''
              else if length normalized \<noteq> length tiers then Some ''ATTESTATION_TRUST_TIER_POLICY_REQUIRED''
              else if ''trust_tier'' \<notin> fields_set a then Some ''ATTESTATION_TRUST_TIER_MISSING''
              else if att_trust_tier a \<notin> set normalized then Some ''ATTESTATION_TRUST_TIER_NOT_ACCEPTED''
              else (case manifest_digests_by_agent_id of
                  None \<Rightarrow> Some ''ATTESTATION_MANIFEST_DIGEST_POLICY_REQUIRED''
                | Some digests \<Rightarrow>
                  (case digests (att_agent_id a) of
                     None \<Rightarrow> Some ''ATTESTATION_MANIFEST_DIGEST_NOT_TRUSTED''
                   | Some expected \<Rightarrow>
                     if py_blank expected then Some ''ATTESTATION_MANIFEST_DIGEST_NOT_TRUSTED''
                     else if att_manifest_digest a \<noteq> expected
                     then Some ''ATTESTATION_MANIFEST_DIGEST_MISMATCH''
                     else None)))))))"

interpretation attestation_fresh: freshness_check "attestation_time_violation max_age"
  "\<lambda>a. [created_at a]" ATTESTATION_CLOCK_SKEW_SECONDS "max_age + ATTESTATION_CLOCK_SKEW_SECONDS" "\<lambda>a. True"
  for max_age
  by unfold_locales (auto simp: attestation_time_violation_def stamp_violation_None_iff)

interpretation attestation_auth: authentication_check E "attestation_auth_violation E" None
  att_agent_id signature "attestation_dump E"
  for E
  by unfold_locales
    (auto simp: attestation_auth_violation_def guardv_def split: if_splits option.splits)

lemma attestation_trusted:
  assumes "attestation_trust_violation E keys key_ids tiers digests max_age now a = Inr None"
  shows "attestation_auth_violation E keys a = None"
    and "attestation_time_violation max_age now a = Inr None"
    and "\<exists>m. key_ids = Some m \<and> m (att_agent_id a) = Some (att_public_key_id a)"
    and "\<not> att_revoked a"
    and "\<exists>ts. tiers = Some ts \<and> att_trust_tier a \<in> set ts \<and> distinct ts \<and> (\<forall>t \<in> set ts. \<not> py_blank t)"
    and "\<exists>m. digests = Some m \<and> m (att_agent_id a) = Some (att_manifest_digest a)"
proof -
  have norm: "\<And>xs. length (remdups (filter P xs)) = length xs \<Longrightarrow> distinct xs \<and> (\<forall>x \<in> set xs. P x)"
    for P :: "string \<Rightarrow> bool"
    by (metis (no_types, lifting) distinct_remdups filter_id_conv le_antisym length_filter_le
        length_remdups_eq length_remdups_leq filter_True length_filter_less nat_neq_iff)
  show "attestation_auth_violation E keys a = None"
    "attestation_time_violation max_age now a = Inr None"
    "\<exists>m. key_ids = Some m \<and> m (att_agent_id a) = Some (att_public_key_id a)"
    "\<not> att_revoked a"
    "\<exists>ts. tiers = Some ts \<and> att_trust_tier a \<in> set ts \<and> distinct ts \<and> (\<forall>t \<in> set ts. \<not> py_blank t)"
    "\<exists>m. digests = Some m \<and> m (att_agent_id a) = Some (att_manifest_digest a)"
    using assms
    by (auto simp: attestation_trust_violation_def guardr_None_iff Let_def dest!: norm
        split: if_splits option.splits)
qed

end
