(* ===== verification/Scenario.thy ===== *)
theory Scenario
  imports Gate_Liveness Policy Attestation
begin

text \<open>
  One concrete deployment on which the properties are exercised: an environment whose functions meet
  what the model asks of them, one issuer, one edge with its gate, one robot, and the messages of a
  remote-assist session. Every property with hypotheses has an instance here in which they hold.
\<close>

section \<open>The environment\<close>

text \<open>
  A stand-in for the outside: a signature is 64 fixed bytes and verifies only as such, every digest is
  the same, the clock stands still and the identifiers are runs of one letter.
\<close>

definition demo_raw_signature :: string where
  "demo_raw_signature = replicate 64 (CHR ''s'')"

definition demo_time :: datetime where
  "demo_time = utc 63902822400000000"

text \<open>A rational number as numerator and denominator.\<close>

definition demo_repr :: "rat \<Rightarrow> string" where
  "demo_repr q = int_str (fst (quotient_of q)) @ ''.'' @ int_str (snd (quotient_of q))"

definition demo_env :: env where
  "demo_env = \<lparr>float_repr = demo_repr, sha256_hex = (\<lambda>_. ''00''), ed25519_pk_ok = (\<lambda>_. True),
     ed25519_verify = (\<lambda>pk raw msg. raw = demo_raw_signature), ed25519_sign = (\<lambda>sk msg. demo_raw_signature),
     ed25519_public = (\<lambda>sk. sk), datetime_json = (\<lambda>_. []), clock = (\<lambda>_. demo_time),
     uuid4_hex = (\<lambda>n. replicate n (CHR ''a''))\<rparr>"

definition demo_sig :: string where
  "demo_sig = b64 demo_raw_signature"

definition demo_key :: string where
  "demo_key = b64 ''key''"

definition demo_world :: world where
  "demo_world = \<lparr>clock_reads = 0, uuid_draws = 0\<rparr>"

named_theorems demo_simps \<open>how the stand-in environment behaves\<close>

lemma demo_ed25519: "ed25519_correct demo_env"
  by (simp add: ed25519_correct_def demo_env_def demo_raw_signature_def)

lemma demo_sig_facts [demo_simps]:
  "length demo_sig = 88" "demo_sig \<noteq> []" "unb64 demo_sig = Inr demo_raw_signature"
  "key_sign demo_env sk d = demo_sig" "public_key_b64 demo_env ''key'' = demo_key"
  by (simp_all add: demo_sig_def length_b64 demo_raw_signature_def unb64_Inr_iff key_sign_def demo_env_def
      public_key_b64_def demo_key_def)
    (simp add: length_b64 flip: length_greater_0_conv)

lemma demo_verify [demo_simps]: "verify_with_public_key_b64 demo_env d demo_sig demo_key"
  unfolding verify_with_public_key_b64_iff demo_sig_def demo_key_def
  by (intro exI conjI, rule refl, rule refl) (simp_all add: demo_env_def)

lemma demo_hash [demo_simps]: "stable_json_hash demo_env j = ''sha256:00''"
  by (simp add: stable_json_hash_def demo_env_def)

lemma demo_env_selectors [demo_simps]:
  "float_repr demo_env = demo_repr" "clock demo_env n = demo_time" "utc_now demo_env w = demo_time"
  "sha256_hex demo_env x = ''00''" "now_or_clock demo_env (Some t) w = (t, w)"
  "now_or_clock demo_env None w = (demo_time, tick w)"
  by (simp_all add: demo_env_def utc_now_def now_or_clock_def)

lemma demo_repr_values [demo_simps]:
  "demo_repr 1 = ''1.1''" "demo_repr 2 = ''2.1''" "demo_repr 3 = ''3.1''" "demo_repr 5 = ''5.1''"
  "demo_repr 20 = ''20.1''" "demo_repr 40 = ''40.1''" "demo_repr 150 = ''150.1''"
  by (simp_all add: demo_repr_def) (code_simp+)

lemma demo_uuid_inj: "inj_on (uuid4_hex demo_env) A"
  by (auto simp: inj_on_def demo_env_def)

lemma demo_draws_distinct [simp]: "draws_distinct demo_env s n"
  by (simp add: draws_distinct_def demo_uuid_inj)

lemma demo_time_facts [demo_simps]:
  "wall demo_time = 63902822400000000" "\<not> dt_naive demo_time" "instant demo_time = 63902822400000000"
  by (simp_all add: demo_time_def utc_def dt_naive_def instant_def)

lemma demo_isoformat [demo_simps]: "isoformat demo_time = ''2026-01-01T00:00:00+00:00''"
  by (simp add: demo_time_def utc_def, code_simp)

lemma demo_not_blank [demo_simps]:
  "\<not> py_blank ''zone-1''" "\<not> py_blank ''policy-1''" "\<not> py_blank ''sha256:00''" "\<not> py_blank ''edge-1''"
  "\<not> py_blank ''cmd-1''" "\<not> py_blank ''cmd-2''" "\<not> py_blank ''cnonce-1''" "\<not> py_blank ''cnonce-2''"
  by (simp_all add: ascii_space_def two_byte_space_def three_byte_space_def)

section \<open>The messages\<close>

definition demo_network :: network_state where
  "demo_network = \<lparr>net_fields_set = {''attached''}, net_profile = NORMAL, attached = True,
     latency_ms_p95 = Fin 40, packet_loss_pct = Fin 1, uplink_mbps = Fin 20, net_observed_at = demo_time\<rparr>"

definition demo_robot_state_at :: "bool \<Rightarrow> robot_state_assertion" where
  "demo_robot_state_at here = \<lparr>protocol_version = SUPPORTED_PROTOCOL_VERSION, message_id = ''state-1'',
     correlation_id = ''corr-1'', created_at = demo_time,
     fields_set = {''safety_state'', ''human_operator_available'', ''signature_alg''},
     signature_alg = ED25519_SIGNATURE_ALGORITHM, signature = Some demo_sig, st_robot_id = ''robot-1'',
     st_edge_agent_id = ''edge-1'', st_authenticated_edge_agent_id = Some ''edge-1'',
     st_mission_id = ''mission-1'', st_safety_state = NOMINAL, st_network_state = demo_network,
     st_geofence_state = \<lparr>gf_geofence_id = ''zone-1'', inside = here, verified_at = demo_time\<rparr>,
     st_observed_at = demo_time, st_human_operator_available = True\<rparr>"

text \<open>The session of the other examples runs inside the zone.\<close>

abbreviation demo_robot_state :: robot_state_assertion where
  "demo_robot_state \<equiv> demo_robot_state_at True"

definition demo_request :: "string \<Rightarrow> capability_request" where
  "demo_request nonce = \<lparr>protocol_version = SUPPORTED_PROTOCOL_VERSION, message_id = ''request-1'',
     correlation_id = ''corr-1'', created_at = demo_time,
     fields_set = {''requested_duration_seconds'', ''signature_alg''},
     signature_alg = ED25519_SIGNATURE_ALGORITHM, signature = Some demo_sig,
     rq_requesting_agent_id = ''agent-1'', rq_authenticated_agent_id = Some ''agent-1'',
     rq_edge_agent_id = ''edge-1'', rq_robot_id = ''robot-1'', rq_mission_id = ''mission-1'',
     rq_capability = REMOTE_ASSIST, rq_reason = ''blocked aisle'', rq_requested_duration_seconds = 120,
     rq_requested_constraints = None, rq_request_nonce = nonce\<rparr>"

definition demo_policy_for :: "bool \<Rightarrow> policy" where
  "demo_policy_for here = \<lparr>policy_id = ''policy-1'', policy_capability = REMOTE_ASSIST, lease_ttl_seconds = 120,
     requirements = \<lparr>allowed_agents = [''agent-1''], allowed_edge_agents = [''edge-1''],
       allowed_robots = [''robot-1''], allowed_missions = [''mission-1''], pr_max_speed_mps = Some (Fin 2),
       geofence_required = True, pr_geofence_id = Some ''zone-1'', geofence_allowed = here,
       pr_human_operator_available = True, control_plane_required = False,
       control_plane_must_be_reachable = False,
       network = \<lparr>nr_max_latency_ms_p95 = Fin 150, nr_max_packet_loss_pct = Fin 3,
         nr_min_uplink_mbps = Fin 5, deny_above_latency_ms_p95 = Fin 300,
         deny_above_packet_loss_pct = Fin 8, deny_below_uplink_mbps = Fin 2\<rparr>\<rparr>,
     fallback = \<lparr>on_deny = LOCAL_AUTONOMY_ONLY, on_network_degrade = CRAWL_TO_SAFE_ZONE,
       on_disconnect = HOLD_POSITION, on_expiry = LOCAL_AUTONOMY_ONLY\<rparr>\<rparr>"

abbreviation demo_policy :: policy where
  "demo_policy \<equiv> demo_policy_for True"

definition demo_lease :: "string \<Rightarrow> string \<Rightarrow> capability_lease" where
  "demo_lease lid nonce = \<lparr>protocol_version = SUPPORTED_PROTOCOL_VERSION, message_id = ''msg-lease'',
     correlation_id = ''corr-1'', created_at = demo_time, fields_set = lease_issued_fields,
     signature_alg = ED25519_SIGNATURE_ALGORITHM, signature = Some demo_sig, lease_id = lid,
     lease_issuer_id = ''issuer-1'', lease_agent_id = ''agent-1'', lease_edge_agent_id = ''edge-1'',
     lease_robot_id = ''robot-1'', lease_mission_id = ''mission-1'', lease_capability = REMOTE_ASSIST,
     lease_constraints = policy_constraints demo_policy demo_robot_state, issued_at = demo_time,
     expires_at = demo_time\<lparr>wall := wall demo_time + 120000000\<rparr>, lease_nonce = nonce,
     lease_policy_id = ''policy-1'', lease_policy_digest = ''sha256:00''\<rparr>"

definition demo_command :: "string \<Rightarrow> string \<Rightarrow> edge_command" where
  "demo_command cid nonce = \<lparr>protocol_version = SUPPORTED_PROTOCOL_VERSION, message_id = ''msg-cmd'',
     correlation_id = ''corr-1'', created_at = demo_time, fields_set = {''signature_alg''},
     signature_alg = ED25519_SIGNATURE_ALGORITHM, signature = Some demo_sig, command_id = cid,
     cmd_agent_id = ''agent-1'', cmd_authenticated_agent_id = Some ''agent-1'',
     cmd_edge_agent_id = ''edge-1'', cmd_robot_id = ''robot-1'', cmd_mission_id = ''mission-1'',
     cmd_capability = ''remote_assist'', command_nonce = nonce, cmd_payload = [(''speed_mps'', JFloat (Fin 1))]\<rparr>"

definition demo_revocation :: lease_revocation where
  "demo_revocation = \<lparr>protocol_version = SUPPORTED_PROTOCOL_VERSION, message_id = ''msg-rev'',
     correlation_id = ''corr-1'', created_at = demo_time, fields_set = {''signature_alg''},
     signature_alg = ED25519_SIGNATURE_ALGORITHM, signature = Some demo_sig, rev_lease_id = ''lease-1'',
     rev_revoked_by = ''revoker-1'', rev_edge_agent_id = ''edge-1'',
     rev_reason_code = ''NETWORK_DEGRADED_REVOKE'', rev_revoked_at = demo_time,
     rev_fallback_action = LOCAL_AUTONOMY_ONLY, rev_robot_id = None, rev_mission_id = None,
     rev_capability = None\<rparr>"

lemmas demo_message_defs = demo_network_def demo_robot_state_at_def demo_request_def demo_policy_for_def
  demo_lease_def demo_command_def demo_revocation_def

section \<open>The decision point\<close>

definition demo_checks :: policy_checks where
  "demo_checks = \<lparr>pc_agent_public_keys_by_id = [''agent-1'' \<mapsto> demo_key],
     pc_edge_public_keys_by_id = [''edge-1'' \<mapsto> demo_key], pc_accepted_policy_digests = {''sha256:00''},
     pc_max_request_age_seconds = 60, pc_max_state_age_seconds = 30\<rparr>"

definition demo_cache :: request_replay_cache where
  "demo_cache = \<lparr>rc_store_path = Some ''requests.db'', rc_durable = True, rc_seen_request_nonces = {},
     rc_table = Map.empty\<rparr>"

definition demo_issuer :: issuer_state where
  "demo_issuer = \<lparr>is_cache = Some demo_cache, is_log = AuditLog, is_world = demo_world\<rparr>"

lemma demo_isoformat_expiry [demo_simps]:
  "isoformat (demo_time\<lparr>wall := 63902822520000000\<rparr>) = ''2026-01-01T00:02:00+00:00''"
  by (simp add: demo_time_def utc_def, code_simp)

lemma demo_window [demo_simps]: "window_ok 30 60 demo_time" "window_ok 30 330 demo_time" "window_ok 30 630 demo_time"
  by (simp_all add: window_ok_def timedelta_s_def td_check_def td_limit_def dt_limit_def demo_time_facts)

lemma demo_fresh [demo_simps]: "0 \<le> a \<Longrightarrow> 0 \<le> b \<Longrightarrow> fresh a b demo_time demo_time"
  by (simp add: fresh_def demo_time_facts)

lemma demo_state_authentic [demo_simps]:
  "required \<subseteq> {''safety_state'', ''human_operator_available'', ''signature_alg''} \<Longrightarrow>
     state_auth_violation demo_env required [''edge-1'' \<mapsto> demo_key] (demo_robot_state_at here) = None"
  by (cases here) (simp_all add: state_auth_violation_def demo_robot_state_at_def demo_network_def
      network_state_required_fields_missing_def NETWORK_STATE_REQUIRED_WIRE_FIELDS_def
      signature_algorithm_violation_def robot_state_signed_material_too_large_def robot_state_texts_def Let_def
      budget_exceeded_def MAX_SIGNED_TEXT_FIELD_BYTES_def MAX_SIGNED_TEXT_TOTAL_BYTES_def
      SUPPORTED_PROTOCOL_VERSION_def ED25519_SIGNATURE_ALGORITHM_def bool_str_def guardv_def demo_simps)

lemma demo_state_fresh [demo_simps]: "state_time_violation 30 demo_time (demo_robot_state_at here) = Inr None"
  by (rule state_fresh.complete) (auto simp: state_timestamps_def STATE_CLOCK_SKEW_SECONDS_def
      demo_robot_state_at_def demo_network_def demo_simps)

lemma demo_request_budget:
  assumes "length nonce \<le> 20"
  shows "\<not> signed_request_material_budget_violation demo_env (demo_request nonce)"
proof -
  have six: "replicate 6 None = [None, None, None, None, None, None :: string option]"
    by (simp add: eval_nat_numeral)
  have "int_str 120 = ''120''" by code_simp
  with assms show ?thesis
    by (simp add: signed_request_material_budget_violation_def request_signature_material_too_large_def
      ED25519_SIGNATURE_B64_MAX_TEXT_BYTES_def request_texts_def six budget_exceeded_def Let_def
      MAX_SIGNED_TEXT_FIELD_BYTES_def MAX_SIGNED_TEXT_TOTAL_BYTES_def SUPPORTED_PROTOCOL_VERSION_def
      ED25519_SIGNATURE_ALGORITHM_def demo_request_def demo_simps)
qed

lemma demo_request_admitted:
  assumes "length nonce \<le> 20" and "request_cache_durable c" and "rc_table c (''agent-1'', nonce) = None"
  shows "request_admitted demo_env demo_checks demo_time (demo_request nonce) demo_robot_state None c"
proof -
  have "request_auth_violation demo_env [''agent-1'' \<mapsto> demo_key] (demo_request nonce) = None"
    using demo_request_budget [OF assms(1)]
    by (simp add: request_auth_violation_def CAPABILITY_REQUEST_REQUIRED_WIRE_FIELDS_def guardv_def
        signature_algorithm_violation_def demo_simps) (simp add: demo_request_def demo_simps)
  moreover have "request_time_violation 60 demo_time (demo_request nonce) = Inr None"
    by (rule request_fresh.complete) (auto simp: REQUEST_CLOCK_SKEW_SECONDS_def demo_request_def demo_simps)
  ultimately show ?thesis
    using assms(2,3) by (simp add: request_admitted_def demo_checks_def request_key_def)
      (simp add: demo_request_def demo_robot_state_at_def)
qed

lemma demo_policy_grants:
  "policy_grants demo_env demo_checks demo_time (demo_request nonce) (demo_robot_state_at here) (demo_policy_for here) None"
  unfolding policy_grants_def Let_def
proof (intro conjI)
  show "state_auth_violation demo_env
     (ROBOT_STATE_REQUIRED_WIRE_FIELDS \<union>
      (if pr_human_operator_available (requirements (demo_policy_for here)) then {''human_operator_available''} else {}))
     (pc_edge_public_keys_by_id demo_checks) (demo_robot_state_at here) = None"
    by (simp add: demo_checks_def ROBOT_STATE_REQUIRED_WIRE_FIELDS_def demo_simps)
qed (simp_all add: demo_checks_def policy_digest_def policy_scope_violation_def explicit_member_def Let_def
    control_plane_outcome_def network_requirements_valid_def network_state_valid_def float_field_ok_def
    validate_degrade_window_def geofence_requirements_malformed_def network_grants_def
    lease_constraints_valid_def opt_float_field_ok_def policy_constraints_def requested_constraint_violation_def
    demo_simps, simp_all add: demo_message_defs float_field_ok_def demo_simps del: py_blank.simps)

section \<open>The gate\<close>

definition demo_requirement :: capability_constraint_requirement where
  "demo_requirement = \<lparr>crq_capability = REMOTE_ASSIST, require_geofence_id = True,
     require_network_thresholds = True, require_fallback_on_degrade = True, require_max_speed_mps = True\<rparr>"

definition demo_args :: gate_args where
  "demo_args = \<lparr>ga_issuer_public_key_b64 = demo_key, ga_local_edge_agent_id = ''edge-1'',
     ga_trusted_issuer_ids = {''issuer-1''}, ga_trusted_revoker_ids = {''revoker-1''},
     ga_accepted_capabilities = Some {''remote_assist''}, ga_accepted_policy_id = Some ''policy-1'',
     ga_accepted_policy_digests = Some {''sha256:00''},
     ga_issuer_capability_scopes = Some [''issuer-1'' \<mapsto> {''remote_assist''}],
     ga_requirements = Some [''remote_assist'' \<mapsto> demo_requirement],
     ga_bounds = Some (policy_constraint_bounds demo_policy),
     ga_agent_public_keys_by_id = Some [''agent-1'' \<mapsto> demo_key],
     ga_issuer_public_keys_by_id = None, ga_revoker_public_keys_by_id = Some [''revoker-1'' \<mapsto> demo_key],
     ga_revoker_edge_scopes_by_id = Some [''revoker-1'' \<mapsto> {''edge-1''}],
     ga_state_public_keys_by_edge_id = Some [''edge-1'' \<mapsto> demo_key], ga_fallback_sink = None,
     ga_fallback_actions_by_reason = None, ga_max_lease_age_seconds = DEFAULT_LEASE_MAX_AGE_SECONDS,
     ga_max_lease_ttl_seconds = DEFAULT_LEASE_MAX_TTL_SECONDS,
     ga_max_state_age_seconds = DEFAULT_STATE_MAX_AGE_SECONDS,
     ga_max_command_age_seconds = DEFAULT_COMMAND_MAX_AGE_SECONDS,
     ga_max_revocation_age_seconds = DEFAULT_REVOCATION_MAX_AGE_SECONDS,
     ga_fallback_signer = None, ga_fallback_authenticated_declared_by = None\<rparr>"

definition demo_command_cache :: command_replay_cache where
  "demo_command_cache = \<lparr>cc_store_path = Some ''commands.db'', cc_durable = True, cc_seen_command_ids = {},
     cc_seen_nonces = {}, cc_seen_lease_nonces = {}, cc_entries = Map.empty\<rparr>"

definition demo_store :: revocation_store where
  "demo_store = \<lparr>rs_store_path = Some ''revocations.db'', rs_durable = True, rs_revoked_leases = [], rs_messages = []\<rparr>"

definition demo_gate :: command_gate where
  "demo_gate = gate_of_args the_elem demo_args"

definition demo_start :: gate_state where
  "demo_start = \<lparr>gs_command_replay_cache = demo_command_cache, gs_revocation_store = demo_store,
     gs_revocations = Map.empty, gs_fallback_events = [], gs_audit_log = AuditLog, gs_delivered = [],
     gs_world = demo_world\<rparr>"

lemma demo_gate_selectors [demo_simps]:
  "local_edge_agent_id demo_gate = ''edge-1''" "agent_public_keys_by_id demo_gate = [''agent-1'' \<mapsto> demo_key]"
  "issuer_public_key_b64 demo_gate = demo_key" "trusted_issuer_ids demo_gate = {''issuer-1''}"
  "accepted_capabilities demo_gate = {''remote_assist''}" "accepted_policy_id demo_gate = ''policy-1''"
  "accepted_policy_digests demo_gate = {''sha256:00''}"
  "issuer_capability_scopes demo_gate = [''issuer-1'' \<mapsto> {''remote_assist''}]"
  "capability_constraint_requirements demo_gate = [''remote_assist'' \<mapsto> demo_requirement]"
  "capability_constraint_bounds_by_id demo_gate = policy_constraint_bounds demo_policy"
  "issuer_public_keys_by_id demo_gate = [''issuer-1'' \<mapsto> demo_key]"
  "trusted_revoker_ids demo_gate = {''revoker-1''}"
  "revoker_public_keys_by_id demo_gate = [''revoker-1'' \<mapsto> demo_key]"
  "revoker_edge_scopes_by_id demo_gate ''revoker-1'' = Some {''edge-1''}"
  "state_public_keys_by_edge_id demo_gate = [''edge-1'' \<mapsto> demo_key]"
  "max_lease_age_seconds demo_gate = 600" "max_lease_ttl_seconds demo_gate = 600"
  "max_state_age_seconds demo_gate = 30" "max_command_age_seconds demo_gate = 30"
  "max_revocation_age_seconds demo_gate = 300"
  "fallback_signer demo_gate = None" "fallback_sink demo_gate = None"
  by (simp_all add: demo_gate_def gate_of_args_def demo_args_def or_map_def revoker_scopes_def
      DEFAULT_LEASE_MAX_AGE_SECONDS_def DEFAULT_LEASE_MAX_TTL_SECONDS_def DEFAULT_STATE_MAX_AGE_SECONDS_def
      DEFAULT_COMMAND_MAX_AGE_SECONDS_def DEFAULT_REVOCATION_MAX_AGE_SECONDS_def)

lemma demo_args_accepted:
  assumes "command_cache_durable c" and "revocation_store_durable st"
  shows "gate_args_violation demo_args (Some c) (Some st) = None"
  using assms by (simp add: gate_args_violation_def demo_args_def falsy_set_def demo_requirement_def
      policy_constraint_bounds_def demo_policy_for_def Let_def demo_simps del: py_blank.simps)

lemma demo_constructed:
  "CommandGate the_elem demo_args (Some demo_command_cache) (Some demo_store) None demo_world =
     Inr (demo_gate, demo_start)"
proof -
  have "gate_args_violation demo_args (Some demo_command_cache) (Some demo_store) = None"
    by (rule demo_args_accepted)
      (simp_all add: command_cache_durable_def revocation_store_durable_def demo_command_cache_def demo_store_def)
  then show ?thesis
    by (simp add: CommandGate_def demo_gate_def demo_start_def load_all_def demo_store_def)
qed

lemma demo_start_ok: "gate_ok demo_env demo_start"
  by (rule CommandGate_ok [OF demo_constructed]) simp

lemma demo_command_authentic:
  assumes "\<not> py_blank cid" "length cid \<le> 20" "\<not> py_blank nonce" "length nonce \<le> 20"
  shows "command_signature_violation demo_env [''agent-1'' \<mapsto> demo_key] (demo_command cid nonce) = Inr None"
proof -
  have "command_payload_budget_violation (float_repr demo_env) (JDict [(''speed_mps'', JFloat (Fin 1))]) = Inr False"
    by (simp add: command_payload_budget_violation_def utf8_encode_def MAX_COMMAND_PAYLOAD_DEPTH_def
        MAX_COMMAND_PAYLOAD_NODES_def MAX_COMMAND_PAYLOAD_ESTIMATED_BYTES_def demo_simps)
  with assms show ?thesis
    by (simp add: command_signature_violation_def demo_command_def signature_algorithm_violation_def
        signed_command_material_budget_violation_def command_texts_def budget_exceeded_def Let_def
        MAX_SIGNED_TEXT_FIELD_BYTES_def MAX_SIGNED_TEXT_TOTAL_BYTES_def SUPPORTED_PROTOCOL_VERSION_def
        ED25519_SIGNATURE_ALGORITHM_def demo_simps)
qed

lemma demo_lease_vouched:
  assumes "length lid \<le> 20" "length nonce \<le> 20"
  shows "issuer_vouches demo_env (gate_lease_checks demo_gate s) (demo_lease lid nonce)"
proof -
  have "\<not> lease_signed_material_too_large demo_env (demo_lease lid nonce)"
    using assms by (simp add: lease_signed_material_too_large_def lease_signature_material_too_large_def
        ED25519_SIGNATURE_B64_MAX_TEXT_BYTES_def lease_texts_def constraint_texts_def demo_lease_def
        policy_constraints_def demo_policy_for_def demo_robot_state_at_def budget_exceeded_def Let_def
        MAX_SIGNED_TEXT_FIELD_BYTES_def MAX_SIGNED_TEXT_TOTAL_BYTES_def SUPPORTED_PROTOCOL_VERSION_def
        ED25519_SIGNATURE_ALGORITHM_def demo_simps)
  then show ?thesis
    by (simp add: issuer_vouches_def gate_lease_checks_def issuer_key_registry_def
        lease_signature_algorithm_violation_def signature_algorithm_violation_def verify_lease_signature_def
        demo_simps) (simp add: demo_lease_def lease_issued_fields_def demo_simps)
qed

lemma demo_policy_vouched: "policy_vouches (gate_lease_checks demo_gate s) (demo_lease lid nonce)"
proof -
  let ?l = "demo_lease lid nonce"
  have sel: "lease_capability ?l = REMOTE_ASSIST" "lease_issuer_id ?l = ''issuer-1''"
    "lease_policy_id ?l = ''policy-1''" "lease_policy_digest ?l = ''sha256:00''"
    "lease_constraints ?l = policy_constraints demo_policy demo_robot_state"
    by (simp_all add: demo_lease_def)
  have digests: "{d \<in> {''sha256:00''}. \<not> py_blank d} = {''sha256:00''}"
    using demo_not_blank(3) by blast
  have "lease_policy_provenance_violation ?l (Some ''policy-1'') (Some {''sha256:00''}) = None"
    unfolding lease_policy_provenance_violation_def sel prod.case option.case digests
    by (simp add: demo_not_blank del: py_blank.simps)
  moreover have "capability_scope_violation ?l (Some {''remote_assist''})
      (Some [''issuer-1'' \<mapsto> {''remote_assist''}]) = None"
    by (simp add: capability_scope_violation_def sel)
  moreover have "capability_constraint_requirement_violation ?l (Some [''remote_assist'' \<mapsto> demo_requirement]) = None"
    by (simp add: capability_constraint_requirement_violation_def sel demo_requirement_def
        capability_constraints_missing_def policy_constraints_def demo_policy_for_def
        del: py_blank.simps fallback_action_str.simps)
  moreover have "lease_constraints_valid (lease_constraints ?l)"
    by (simp add: sel lease_constraints_valid_def opt_float_field_ok_def float_field_ok_def
        policy_constraints_def demo_policy_for_def)
  moreover have "capability_constraint_bound_violation ?l (Some (policy_constraint_bounds demo_policy)) = None"
    by (simp add: capability_constraint_bound_violation_def sel policy_constraint_bounds_def
        policy_constraints_def capability_constraints_exceed_bounds_def max_field_exceeds_policy_def
        min_field_exceeds_policy_def fallback_exceeds_policy_def demo_policy_for_def demo_robot_state_at_def Let_def)
  ultimately show ?thesis
    by (simp add: policy_vouches_def gate_lease_checks_def demo_simps)
qed

lemma demo_lease_authorizes:
  assumes "length lid \<le> 20" "length nonce \<le> 20" "lid \<notin> dom (gs_revocations s)"
  shows "lease_authorizes demo_env (gate_lease_checks demo_gate s)
    (command_context_of (demo_command cid cnonce) (Some demo_robot_state)) demo_time (demo_lease lid nonce)"
proof -
  have "lease_in_window (demo_lease lid nonce) demo_time 600 600 30"
    by (simp add: lease_in_window_def demo_lease_def demo_simps dt_naive_def instant_def)
      (simp add: demo_time_def utc_def)
  moreover have "lease_window_computable demo_time 600 600 30"
    by (simp add: lease_window_computable_def timedelta_s_def td_check_def td_limit_def demo_simps)
  moreover have "state_satisfies (demo_lease lid nonce) demo_robot_state"
    by (simp add: state_satisfies_def demo_lease_def policy_constraints_def demo_robot_state_at_def demo_network_def
        demo_policy_for_def network_state_valid_def float_field_ok_def)
  moreover have "payload_authorized (lease_constraints (demo_lease lid nonce)) [(''speed_mps'', JFloat (Fin 1))]"
    by (simp add: payload_authorized_def demo_lease_def policy_constraints_def demo_policy_for_def float_field_ok_def
        requested_speed_def dict_get_def payload_speed_def)
  ultimately show ?thesis
    using assms demo_lease_vouched [OF assms(1,2)] demo_policy_vouched
    by (simp add: lease_authorizes_def state_vouches_def command_context_of_def LEASE_CLOCK_SKEW_SECONDS_def
        ROBOT_STATE_REQUIRED_WIRE_FIELDS_def)
      (simp add: gate_lease_checks_def demo_simps revoked_lease_ids_def, simp add: demo_message_defs
        lease_matches_context_def)
qed

lemma demo_command_authorized:
  assumes "\<not> py_blank cid" "length cid \<le> 20" "\<not> py_blank cnonce" "length cnonce \<le> 20"
    and "length lid \<le> 20" "length nonce \<le> 20" "lid \<notin> dom (gs_revocations s)"
    and "use_keys (demo_command cid cnonce) (demo_lease lid nonce) \<inter> used_keys s = {}"
  shows "command_authorized demo_env demo_gate (demo_command cid cnonce) (demo_lease lid nonce)
    (Some demo_robot_state) None s"
proof -
  have "command_time_violation 30 demo_time (demo_command cid cnonce) = Inr None"
    by (rule command_fresh.complete) (auto simp: COMMAND_CLOCK_SKEW_SECONDS_def demo_command_def demo_simps)
  moreover have "cmd_edge_agent_id (demo_command cid cnonce) = ''edge-1''"
    "lease_edge_agent_id (demo_lease lid nonce) = ''edge-1''" by (simp_all add: demo_message_defs)
  ultimately show ?thesis
    using demo_command_authentic [OF assms(1-4)] demo_lease_authorizes [OF assms(5-7)] assms(8)
    by (simp add: command_authorized_def lease_check_time_def demo_simps)
qed

lemma demo_revocation_authorized:
  "revocation_authorized demo_env demo_gate demo_time demo_revocation (demo_lease ''lease-1'' nonce)"
proof -
  have "revocation_time_violation 300 demo_time demo_revocation = Inr None"
    by (rule revocation_fresh.complete) (auto simp: REVOCATION_CLOCK_SKEW_SECONDS_def demo_revocation_def
        revocation_consistent_def dt_limit_def demo_simps)
  moreover have "\<not> signed_revocation_material_budget_violation demo_revocation"
    by (simp add: signed_revocation_material_budget_violation_def revocation_texts_def demo_revocation_def
        budget_exceeded_def Let_def MAX_SIGNED_TEXT_FIELD_BYTES_def MAX_SIGNED_TEXT_TOTAL_BYTES_def
        SUPPORTED_PROTOCOL_VERSION_def ED25519_SIGNATURE_ALGORITHM_def demo_simps)
  ultimately show ?thesis
    by (simp add: revocation_authorized_def demo_simps revoker_scope_def)
      (simp add: demo_revocation_def demo_lease_def revocation_context_conflicts_def demo_simps)
qed

section \<open>The policy evaluated\<close>

abbreviation demo_constraints :: lease_constraints where
  "demo_constraints \<equiv> policy_constraints demo_policy demo_robot_state"

lemma demo_issuer_drawn: "log_drawn demo_env (is_log demo_issuer) (is_world demo_issuer)"
  by (simp add: demo_issuer_def AuditLog_ok)

lemma demo_issuer_admitted:
  "is_cache demo_issuer = Some demo_cache"
  "request_admitted demo_env demo_checks (fst (now_or_clock demo_env None (is_world demo_issuer)))
     (demo_request ''nonce-1'') demo_robot_state None demo_cache"
  by (simp_all add: demo_issuer_def demo_simps demo_request_admitted demo_cache_def request_cache_durable_def)

lemma demo_grants_now:
  "policy_grants demo_env demo_checks (fst (now_or_clock demo_env None w)) (demo_request nonce) demo_robot_state
     demo_policy None"
  by (simp add: demo_policy_grants demo_simps)

lemma demo_verdict:
  "policy_verdict demo_env demo_checks (fst (now_or_clock demo_env None w)) (demo_request nonce)
     demo_robot_state demo_policy None = Inr (ALLOW, ''POLICY_SATISFIED'', [], Some demo_constraints)"
  using demo_grants_now by (simp add: policy_verdict_allow) (simp add: demo_request_def apply_requested_constraints_def)

lemma demo_evaluation:
  assumes "log_drawn demo_env (is_log t) (is_world t)" and "is_cache t = Some c" and "request_cache_durable c"
    and "length nonce \<le> 20" and "rc_table c (''agent-1'', nonce) = None"
  obtains ev t' where "evaluate_policy demo_env demo_checks ''issuer-1'' (demo_request nonce) demo_robot_state
      demo_policy None None t = (Inr ((ALLOW, ''POLICY_SATISFIED'', [], Some demo_constraints), ev), t')"
    "log_drawn demo_env (is_log t') (is_world t')"
    "is_cache t' = Some (snd (consume (demo_request nonce) demo_time c))"
proof -
  have "request_admitted demo_env demo_checks (fst (now_or_clock demo_env None (is_world t))) (demo_request nonce)
      demo_robot_state None c"
    using assms(3-5) by (simp add: demo_simps demo_request_admitted)
  from evaluate_policy_inputs_admitted [OF assms(2) this demo_verdict]
  obtain t1 where "evaluate_policy_inputs demo_env demo_checks (demo_request nonce) demo_robot_state demo_policy
      None None t = (Inr (ALLOW, ''POLICY_SATISFIED'', [], Some demo_constraints), t1)" by blast
  from evaluate_policy_records [OF demo_uuid_inj assms(1) this] obtain ev t' where
    eval: "evaluate_policy demo_env demo_checks ''issuer-1'' (demo_request nonce) demo_robot_state
      demo_policy None None t = (Inr ((ALLOW, ''POLICY_SATISFIED'', [], Some demo_constraints), ev), t')" by blast
  from eval obtain c' where "is_cache t = Some c'" "is_cache t' = Some (snd (consume (demo_request nonce) demo_time c'))"
    by (rule evaluate_policy_allowE) (auto simp: demo_simps)
  with keepsD [OF evaluate_policy_keeps eval] assms(1,2) eval show thesis
    by (intro that) (simp_all add: issuer_progress_def)
qed

theorem policy_allows_only_granted_witness:
  "\<exists>ev t'. evaluate_policy demo_env demo_checks ''issuer-1'' (demo_request ''nonce-1'') demo_robot_state
      demo_policy None None demo_issuer =
      (Inr ((ALLOW, ''POLICY_SATISFIED'', [], Some demo_constraints), ev), t') \<and>
    policy_grants demo_env demo_checks demo_time (demo_request ''nonce-1'') demo_robot_state demo_policy None"
proof (rule demo_evaluation [OF demo_issuer_drawn demo_issuer_admitted(1), of "''nonce-1''"])
  fix ev t'
  assume eval: "evaluate_policy demo_env demo_checks ''issuer-1'' (demo_request ''nonce-1'') demo_robot_state
      demo_policy None None demo_issuer = (Inr ((ALLOW, ''POLICY_SATISFIED'', [], Some demo_constraints), ev), t')"
  with policy_allows_only_granted [OF eval] show ?thesis by (auto simp: demo_simps)
qed (simp_all add: demo_cache_def request_cache_durable_def)

theorem granted_request_allowed_witness:
  "\<exists>ev t'. evaluate_policy demo_env demo_checks ''issuer-1'' (demo_request ''nonce-1'') demo_robot_state
      demo_policy None None demo_issuer =
      (Inr ((ALLOW, ''POLICY_SATISFIED'', [], Some (apply_requested_constraints demo_constraints None)), ev), t')"
  using granted_request_allowed [OF demo_uuid_inj demo_issuer_drawn demo_issuer_admitted demo_grants_now]
  by (simp add: demo_request_def)

theorem granted_constraints_within_bounds_witness:
  "capability_constraint_bound_violation (demo_lease ''lease-1'' ''lnonce-1'')
     (Some (policy_constraint_bounds demo_policy)) = None"
  by (rule granted_constraints_within_bounds [OF demo_verdict [of demo_world "''nonce-1''"]])
    (simp_all add: demo_lease_def demo_request_def)

theorem decision_audited_witness:
  "\<exists>ev t'. evaluate_policy demo_env demo_checks ''issuer-1'' (demo_request ''nonce-1'') demo_robot_state
      demo_policy None None demo_issuer =
      (Inr ((ALLOW, ''POLICY_SATISFIED'', [], Some demo_constraints), ev), t') \<and>
    events (is_log t') = [ev] \<and> event_type ev = CAPABILITY_ALLOWED \<and> correlation_id ev = ''corr-1''"
proof (rule demo_evaluation [OF demo_issuer_drawn demo_issuer_admitted(1), of "''nonce-1''"])
  fix ev t'
  assume eval: "evaluate_policy demo_env demo_checks ''issuer-1'' (demo_request ''nonce-1'') demo_robot_state
      demo_policy None None demo_issuer = (Inr ((ALLOW, ''POLICY_SATISFIED'', [], Some demo_constraints), ev), t')"
  have "log_ok demo_env (is_log demo_issuer)" by (simp add: demo_issuer_def AuditLog_ok)
  from decision_audited [OF eval this] eval show ?thesis
    by (auto simp: demo_issuer_def AuditLog_def demo_request_def)
qed (simp_all add: demo_cache_def request_cache_durable_def)

theorem exclusion_zone_lease_refused_witness:
  "validate_lease_against_state
     ((demo_lease ''lease-1'' ''lnonce-1'')\<lparr>lease_constraints :=
        policy_constraints (demo_policy_for False) (demo_robot_state_at False)\<rparr>)
     (demo_robot_state_at False) = (False, ''GEOFENCE_CONSTRAINT_VIOLATED'')"
proof -
  have "policy_verdict demo_env demo_checks demo_time (demo_request ''nonce-1'') (demo_robot_state_at False)
      (demo_policy_for False) None = Inr (ALLOW, ''POLICY_SATISFIED'', [],
        Some (policy_constraints (demo_policy_for False) (demo_robot_state_at False)))"
    using demo_policy_grants [of "''nonce-1''" False]
    by (simp add: policy_verdict_allow) (simp add: demo_request_def apply_requested_constraints_def)
  from exclusion_zone_lease_refused [OF this] show ?thesis
    by (simp add: demo_policy_for_def demo_lease_def demo_request_def)
qed

section \<open>The conformance check\<close>


section \<open>Audit chains\<close>

definition demo_event :: "string option \<Rightarrow> string \<Rightarrow> audit_commit" where
  "demo_event h i = \<lparr>protocol_version = SUPPORTED_PROTOCOL_VERSION, message_id = ''msg-1'',
     correlation_id = ''corr-1'', created_at = demo_time, audit_id = i, event_type = DIAGNOSTIC,
     ac_actor_id = ''edge-1'', ac_robot_id = None, ac_mission_id = None, ac_summary = ''note'', ac_payload = [],
     payload_hash = Some ''sha256:00'', authority_relevant = False, integrity_profile = ''local_hash_chain_v0'',
     integrity_proof = Some ''sha256:00'', previous_audit_hash = h, ac_policy_id = None, ac_policy_digest = None,
     state_refs = [], related_message_ids = []\<rparr>"

fun demo_chain :: "string option \<Rightarrow> string list \<Rightarrow> audit_commit list" where
  "demo_chain h [] = []"
| "demo_chain h (i # is) = demo_event h i # demo_chain (Some ''sha256:00'') is"

lemma demo_chain_ok: "chained demo_env h (demo_chain h is)" "map audit_id (demo_chain h is) = is"
  by (induction "is" arbitrary: h)
    (simp_all add: demo_event_def in_place_def validate_context_def integrity_proof_of_def demo_simps)

lemma demo_chain_last: "is \<noteq> [] \<Longrightarrow> integrity_proof (last (demo_chain h is)) = Some ''sha256:00''"
proof (induction "is" arbitrary: h)
  case (Cons i "is")
  then show ?case by (cases "is") (simp_all add: demo_event_def)
qed simp

lemma demo_batch:
  assumes "distinct is" and "is \<noteq> []"
  obtains b where "create_signed_audit_batch demo_env (demo_chain None is) ''edge-1''
      (\<lambda>b. key_sign demo_env ''key'' (audit_batch_dump demo_env b)) None demo_world = (Inr b, draw (draw (draw (tick demo_world))))"
    "b = (audit_batch_of demo_env (demo_chain None is) (projr (audit_batch_payload demo_env (demo_chain None is)))
       ''sha256:00'' ''edge-1'' None demo_world)\<lparr>signature := Some demo_sig\<rparr>"
proof -
  have ne: "demo_chain None is \<noteq> []" using assms(2) by (cases "is") simp_all
  have "audit_batch_chain_violation demo_env (demo_chain None is) = None"
    using assms ne by (simp add: batch_chain_accepts demo_chain_ok)
  then obtain p where p: "audit_batch_payload demo_env (demo_chain None is) = Inr p"
    by (simp add: audit_batch_payload_def)
  have "length (demo_chain None is) = length is"
    using arg_cong [OF demo_chain_ok(2) [of None "is"], of length] by simp
  then have "validate_batch_commit
      (audit_batch_of demo_env (demo_chain None is) p ''sha256:00'' ''edge-1'' None demo_world) = Inr ()"
    using ne by (simp add: validate_batch_commit_def audit_batch_of_def demo_simps startswith_def del: py_blank.simps)
  then show thesis
    using p demo_chain_last [OF assms(2), of None]
    by (intro that) (simp_all add: create_signed_audit_batch_def validate_protocol_version_def audit_batch_of_def
        demo_simps)
qed

theorem import_sound_witness:
  "load_jsonl demo_env (\<lambda>_. Inr (demo_event None ''audit-1''))
     [Inr (map (\<lambda>f. (f, JBool True)) LOAD_REQUIRED_FIELDS)] (Some ''sha256:00'') ''authority_chain'' =
     Inr [demo_event None ''audit-1''] \<and>
   chained demo_env None [demo_event None ''audit-1'']"
proof -
  have "required_fields_check (map (\<lambda>f. (f, JBool True)) LOAD_REQUIRED_FIELDS) = Inr ()"
    by (simp add: required_fields_check_def LOAD_REQUIRED_FIELDS_def dict_get_def)
  then have load: "load_jsonl demo_env (\<lambda>_. Inr (demo_event None ''audit-1''))
     [Inr (map (\<lambda>f. (f, JBool True)) LOAD_REQUIRED_FIELDS)] (Some ''sha256:00'') ''authority_chain'' =
     Inr [demo_event None ''audit-1'']"
    by (simp add: load_jsonl_def demo_event_def validate_context_def validate_payload_hash_def
        integrity_proof_of_def demo_simps)
  with import_sound [OF load] show ?thesis by blast
qed

theorem signed_batch_accepted_witness:
  "\<exists>b w'. create_signed_audit_batch demo_env (demo_chain None [''a1'', ''a2'']) ''edge-1''
      (\<lambda>b. key_sign demo_env ''key'' (audit_batch_dump demo_env b)) None demo_world = (Inr b, w') \<and>
     audit_batch_auth_violation demo_env [''edge-1'' \<mapsto> public_key_b64 demo_env ''key''] b = None"
proof (rule demo_batch [of "[''a1'', ''a2'']"])
  fix b
  assume create: "create_signed_audit_batch demo_env (demo_chain None [''a1'', ''a2'']) ''edge-1''
      (\<lambda>b. key_sign demo_env ''key'' (audit_batch_dump demo_env b)) None demo_world =
      (Inr b, draw (draw (draw (tick demo_world))))"
    and b: "b = (audit_batch_of demo_env (demo_chain None [''a1'', ''a2''])
       (projr (audit_batch_payload demo_env (demo_chain None [''a1'', ''a2''])))
       ''sha256:00'' ''edge-1'' None demo_world)\<lparr>signature := Some demo_sig\<rparr>"
  have "int_str 2 = ''2''" by code_simp
  then have "\<not> text_over_budget (batch_texts b)"
    unfolding budget_loop_eq [symmetric]
    by (simp add: b batch_texts_def audit_batch_of_def budget_exceeded_def Let_def demo_event_def uuid_text_def
        demo_world_def draw_def demo_env_def [THEN arg_cong, of uuid4_hex] or_str_def
        MAX_SIGNED_TEXT_FIELD_BYTES_def MAX_SIGNED_TEXT_TOTAL_BYTES_def SUPPORTED_PROTOCOL_VERSION_def
        ED25519_SIGNATURE_ALGORITHM_def demo_simps)
  from signed_batch_accepted [OF demo_ed25519 create this] create show ?thesis by blast
qed simp_all

definition demo_long_ids :: "string list" where
  "demo_long_ids = map (\<lambda>n. replicate n (CHR ''a'') @ replicate (38 - n) (CHR ''b'')) [0..<27]"

lemma demo_long_ids_facts:
  "distinct demo_long_ids" "length demo_long_ids = 27" "i \<in> set demo_long_ids \<Longrightarrow> length i = 38"
proof -
  have "inj_on (\<lambda>n. replicate n (CHR ''a'') @ replicate (38 - n) (CHR ''b'')) {0..<27}"
    by (rule inj_on_inverseI [where g = "\<lambda>s. length (filter (\<lambda>c. c = CHR ''a'') s)"]) simp
  then show "distinct demo_long_ids"
    unfolding demo_long_ids_def by (simp only: distinct_map distinct_upt set_upt simp_thms)
  show "length demo_long_ids = 27" by (simp only: demo_long_ids_def length_map length_upt)
  show "i \<in> set demo_long_ids \<Longrightarrow> length i = 38" unfolding demo_long_ids_def set_map set_upt by auto
qed

theorem large_batch_never_authenticates_witness:
  "\<exists>b w'. create_signed_audit_batch demo_env (demo_chain None demo_long_ids) ''edge-1''
      (\<lambda>b. key_sign demo_env ''key'' (audit_batch_dump demo_env b)) None demo_world = (Inr b, w') \<and>
     audit_batch_auth_violation demo_env [''edge-1'' \<mapsto> public_key_b64 demo_env ''key''] b \<noteq> None"
proof -
  have "demo_long_ids \<noteq> []" using demo_long_ids_facts(2) by auto
  with demo_long_ids_facts(1) obtain b where
    create: "create_signed_audit_batch demo_env (demo_chain None demo_long_ids) ''edge-1''
      (\<lambda>b. key_sign demo_env ''key'' (audit_batch_dump demo_env b)) None demo_world =
      (Inr b, draw (draw (draw (tick demo_world))))"
    by (rule demo_batch)
  note ids = demo_chain_ok(2) [of None demo_long_ids]
  have "length (demo_chain None demo_long_ids) = 27"
    using arg_cong [OF ids, of length] demo_long_ids_facts(2) by simp
  moreover have "\<forall>e \<in> set (demo_chain None demo_long_ids). length (audit_id e) = 38"
    using arg_cong [OF ids, of set] demo_long_ids_facts(3) by auto
  ultimately have "audit_batch_auth_violation demo_env [''edge-1'' \<mapsto> public_key_b64 demo_env ''key''] b \<noteq> None"
    by (intro large_batch_never_authenticates [OF create]) simp_all
  with create show ?thesis by blast
qed

end
