(* ===== verification/Authority_Spec.thy ===== *)
theory Authority_Spec
  imports Gate_Runs Policy
begin

text \<open>
  What the two authority components promise, without their stores, logs, signatures and clocks. The
  authority of a gate is a set of used identifiers and a set of revoked leases; the authority of a policy
  decision point is a set of used request keys. Each has a step relation of a few rules, and the detailed
  definitions refine it: mapping the state of the component to its authority turns every step into one of
  the specification. The locale \<open>simulation\<close> carries this from steps to runs.
\<close>

section \<open>Simulation\<close>

fun path :: "('s \<Rightarrow> 'l \<Rightarrow> 's \<Rightarrow> bool) \<Rightarrow> 's \<Rightarrow> 'l list \<Rightarrow> 's \<Rightarrow> bool" where
  "path step s [] u \<longleftrightarrow> u = s"
| "path step s (x # xs) u \<longleftrightarrow> (\<exists>t. step s x t \<and> path step t xs u)"

lemma path_append [simp]: "path step s (xs @ ys) u \<longleftrightarrow> (\<exists>t. path step s xs t \<and> path step t ys u)"
  by (induction xs arbitrary: s) auto

locale simulation =
  fixes step :: "'s \<Rightarrow> 'l \<Rightarrow> 's \<Rightarrow> bool"
    and spec :: "'a \<Rightarrow> 'l \<Rightarrow> 'a \<Rightarrow> bool"
    and ok :: "'s \<Rightarrow> bool"
    and abstract :: "'s \<Rightarrow> 'a"
  assumes step_ok: "step s x s' \<Longrightarrow> ok s \<Longrightarrow> ok s'"
    and step_simulated: "step s x s' \<Longrightarrow> ok s \<Longrightarrow> spec (abstract s) x (abstract s')"
begin

lemma path_simulated: "path step s xs u \<Longrightarrow> ok s \<Longrightarrow> path spec (abstract s) xs (abstract u) \<and> ok u"
proof (induction xs arbitrary: s)
  case (Cons x xs)
  then obtain t where "step s x t" "path step t xs u" by auto
  with Cons.IH [of t] Cons.prems(2) show ?case by (auto intro: step_ok step_simulated)
qed simp

end

section \<open>The authority of a gate\<close>

record authority =
  au_used :: "replay_key set"
  au_revoked :: "string set"

definition authority_of :: "gate_state \<Rightarrow> authority" where
  "authority_of s = \<lparr>au_used = used_keys s, au_revoked = dom (gs_revocations s)\<rparr>"

definition command_keys :: "edge_command \<Rightarrow> replay_key set" where
  "command_keys cmd = set (map fst (command_entries (cmd_agent_id cmd) cmd))"

text \<open>The identifiers a message can use up: those of the command, and the nonce of its lease with them.\<close>

definition presented_keys :: "edge_command \<Rightarrow> capability_lease option \<Rightarrow> replay_key set set" where
  "presented_keys cmd lease =
     {{}, command_keys cmd} \<union> (case lease of None \<Rightarrow> {} | Some l \<Rightarrow> {use_keys cmd l})"

text \<open>
  A command is granted only with unused identifiers and an unrevoked lease, and uses up exactly its own.
  A refused one uses up the identifiers of the command or nothing. Where the gate raises, it has used up
  identifiers of the message or none. A revocation adds the lease it names or is refused without effect.
  A restart changes nothing. Nothing ever becomes unused or unrevoked.
\<close>

inductive authority_step :: "authority \<Rightarrow> gate_label \<Rightarrow> authority \<Rightarrow> bool" where
  granted: "gr_allowed r \<Longrightarrow> use_keys cmd l \<inter> au_used a = {} \<Longrightarrow> lease_id l \<notin> au_revoked a \<Longrightarrow>
    authority_step a (Evaluated cmd (Some l) (Inr r)) (a\<lparr>au_used := au_used a \<union> use_keys cmd l\<rparr>)"
| refused: "\<not> gr_allowed r \<Longrightarrow> K \<in> {{}, command_keys cmd} \<Longrightarrow> K \<inter> au_used a = {} \<Longrightarrow>
    authority_step a (Evaluated cmd lease (Inr r)) (a\<lparr>au_used := au_used a \<union> K\<rparr>)"
| raised: "K \<in> presented_keys cmd lease \<Longrightarrow> K \<inter> au_used a = {} \<Longrightarrow>
    authority_step a (Evaluated cmd lease (Inl e)) (a\<lparr>au_used := au_used a \<union> K\<rparr>)"
| revoked: "res \<noteq> Inr None \<Longrightarrow> authority_step a (Revoked (Revocation rv) (Some l) res)
    (a\<lparr>au_revoked := insert (rev_lease_id rv) (au_revoked a)\<rparr>)"
| unrevoked: "\<forall>d. res \<noteq> Inr (Some d) \<Longrightarrow> authority_step a (Revoked arg lease res) a"
| restarted: "authority_step a Restarted a"

text \<open>What follows from the specification alone.\<close>

lemma authority_step_mono:
  "authority_step a x a' \<Longrightarrow> au_used a \<subseteq> au_used a' \<and> au_revoked a \<subseteq> au_revoked a'"
  by (cases rule: authority_step.cases) auto

lemma path_authority_mono:
  "path authority_step a xs a' \<Longrightarrow> au_used a \<subseteq> au_used a' \<and> au_revoked a \<subseteq> au_revoked a'"
proof (induction xs arbitrary: a)
  case (Cons x xs)
  then obtain t where "authority_step a x t" "path authority_step t xs a'" by auto
  with Cons.IH authority_step_mono show ?case by blast
qed simp

inductive_cases granted_stepE: "authority_step a (Evaluated cmd (Some l) (Inr r)) a'"
inductive_cases revoked_stepE: "authority_step a (Revoked (Revocation rv) lease (Inr (Some d))) a'"

lemma granted_unused:
  "authority_step a (Evaluated cmd (Some l) (Inr r)) a' \<Longrightarrow> gr_allowed r \<Longrightarrow>
     use_keys cmd l \<inter> au_used a = {} \<and> use_keys cmd l \<subseteq> au_used a' \<and> lease_id l \<notin> au_revoked a"
  by (erule granted_stepE) auto

lemma revoked_effective:
  "authority_step a (Revoked (Revocation rv) lease (Inr (Some d))) a' \<Longrightarrow> rev_lease_id rv \<in> au_revoked a'"
  by (erule revoked_stepE) auto

section \<open>What a command uses up\<close>

definition authority_same :: "gate_state \<Rightarrow> gate_state \<Rightarrow> bool" where
  "authority_same s s' \<longleftrightarrow>
     gs_command_replay_cache s' = gs_command_replay_cache s \<and> gs_revocations s' = gs_revocations s"

interpretation inert: effect_relation authority_same
  by unfold_locales (auto simp: authority_same_def)

lemma inert_steps:
  "keeps authority_same (gate_now E now)" "keeps authority_same (gate_record E n)"
  "keeps authority_same (new_declaration E corr rb ed mi tr ac lid rid)"
  "keeps authority_same (deliver g d)"
  "keeps authority_same (modify (\<lambda>s. s\<lparr>gs_fallback_events := gs_fallback_events s @ [d]\<rparr>))"
  by (rule keepsI; auto simp: gate_now_eq new_declaration_def deliver_def gate_record_def Let_def
      authority_same_def split: option.splits prod.splits)+

lemma inert_rejections:
  "keeps authority_same (emit_fallback E g d)"
  "keeps authority_same (reject_command E g cmd lease st reason emit auth)"
  "keeps authority_same (reject_local_edge_mismatch E g cmd lease)"
  "keeps authority_same (command_auth_violation E g cmd now)"
proof -
  show emit: "keeps authority_same (emit_fallback E g d)" for d
    unfolding emit_fallback_def by (intro inert.keeps_rules inert_steps)
  show "keeps authority_same (reject_command E g cmd lease st reason emit auth)"
    unfolding reject_command_def Let_def by (intro inert.keeps_rules inert_steps emit)
  show "keeps authority_same (reject_local_edge_mismatch E g cmd lease)"
    unfolding reject_local_edge_mismatch_def by (intro inert.keeps_rules inert_steps)
  show "keeps authority_same (command_auth_violation E g cmd now)"
    unfolding command_auth_violation_def by (intro inert.keeps_rules inert_steps)
qed

text \<open>
  \<open>spends cmd lease m\<close>: on open stores, \<open>m\<close> answers a command under a lease and changes the authority the
  way the specification says.
\<close>

definition spent :: "edge_command \<Rightarrow> capability_lease option \<Rightarrow> gate_result res \<Rightarrow> replay_key set \<Rightarrow> bool" where
  "spent cmd lease res K \<longleftrightarrow>
     (case res of
        Inl _ \<Rightarrow> K \<in> presented_keys cmd lease
      | Inr r \<Rightarrow> if gr_allowed r then \<exists>l. lease = Some l \<and> K = use_keys cmd l
                 else K \<in> {{}, command_keys cmd})"

definition spends ::
  "edge_command \<Rightarrow> capability_lease option \<Rightarrow> (gate_state, gate_result) op \<Rightarrow> bool" where
  "spends cmd lease m \<longleftrightarrow>
     (\<forall>s res s'. m s = (res, s') \<longrightarrow> cc_store_path (gs_command_replay_cache s) \<noteq> None \<longrightarrow>
        gs_revocations s' = gs_revocations s \<and>
        (\<exists>K. used_keys s' = used_keys s \<union> K \<and> K \<inter> used_keys s = {} \<and> spent cmd lease res K))"

lemma spends_refusal:
  assumes "keeps authority_same m" and "\<And>s r s'. m s = (Inr r, s') \<Longrightarrow> \<not> gr_allowed r"
  shows "spends cmd lease m"
  unfolding spends_def
proof (intro allI impI)
  fix s res s' assume run: "m s = (res, s')"
  with assms(1) have "authority_same s s'" by (rule keepsD)
  moreover have "spent cmd lease res {}"
    using assms(2) run by (auto simp: spent_def presented_keys_def split: sum.splits)
  ultimately show "gs_revocations s' = gs_revocations s \<and>
      (\<exists>K. used_keys s' = used_keys s \<union> K \<and> K \<inter> used_keys s = {} \<and> spent cmd lease res K)"
    by (auto simp: authority_same_def used_keys_def)
qed

lemma spends_reject:
  "spends cmd lease (reject_command E g cmd' lease' st reason emit auth)"
  "spends cmd lease (reject_local_edge_mismatch E g cmd' lease')"
  by (rule spends_refusal [OF inert_rejections(2)], drule reject_command_Inr, simp)
    (rule spends_refusal [OF inert_rejections(3)], auto simp: reject_local_edge_mismatch_def res_simps)

lemma spends_bind:
  assumes "keeps authority_same m" and "\<And>a s u. m s = (Inr a, u) \<Longrightarrow> spends cmd lease (f a)"
  shows "spends cmd lease (bindo m f)"
  unfolding spends_def
proof (intro allI impI)
  fix s res s'
  assume run: "bindo m f s = (res, s')" and opn: "cc_store_path (gs_command_replay_cache s) \<noteq> None"
  obtain x u where mu: "m s = (x, u)" by force
  with assms(1) have same: "authority_same s u" by (rule keepsD)
  show "gs_revocations s' = gs_revocations s \<and>
      (\<exists>K. used_keys s' = used_keys s \<union> K \<and> K \<inter> used_keys s = {} \<and> spent cmd lease res K)"
  proof (cases x)
    case (Inl e)
    with run mu same show ?thesis
      by (auto simp: bindo_run authority_same_def used_keys_def spent_def presented_keys_def)
  next
    case (Inr a)
    with run mu assms(2) have "f a u = (res, s')" "spends cmd lease (f a)" by (auto simp: bindo_run)
    with opn same show ?thesis unfolding spends_def authority_same_def used_keys_def by metis
  qed
qed

lemma spends_split:
  "(b \<Longrightarrow> spends cmd lease m) \<Longrightarrow> (\<not> b \<Longrightarrow> spends cmd lease k) \<Longrightarrow> spends cmd lease (if b then m else k)"
  "(\<And>r. spends cmd lease (h r)) \<Longrightarrow> (v = None \<Longrightarrow> spends cmd lease k) \<Longrightarrow> spends cmd lease (checko v h k)"
  "(\<And>a b. spends cmd lease (q a b)) \<Longrightarrow> spends cmd lease (case p of (a, b) \<Rightarrow> q a b)"
  by (simp, cases v, simp_all, cases p, simp)

text \<open>The two operations that use identifiers up, followed by what no longer does.\<close>

lemma spends_store:
  assumes "\<And>s. m s = (Inr (f s), s\<lparr>gs_command_replay_cache := c s, gs_world := w s\<rparr>)"
    and "\<And>s. cc_store_path (gs_command_replay_cache s) \<noteq> None \<Longrightarrow>
      \<exists>K. dom (cc_entries (c s)) = used_keys s \<union> K \<and> K \<inter> used_keys s = {} \<and>
        (\<forall>res u u'. k (f s) u = (res, u') \<longrightarrow> spent cmd lease res K)"
    and "\<And>a. keeps authority_same (k a)"
  shows "spends cmd lease (bindo m k)"
  unfolding spends_def
proof (intro allI impI)
  fix s res s'
  assume run: "bindo m k s = (res, s')" and opn: "cc_store_path (gs_command_replay_cache s) \<noteq> None"
  let ?u = "s\<lparr>gs_command_replay_cache := c s, gs_world := w s\<rparr>"
  from run have k: "k (f s) ?u = (res, s')" by (simp add: bindo_run assms(1))
  with assms(3) have same: "authority_same ?u s'" by (rule keepsD)
  obtain K where "dom (cc_entries (c s)) = used_keys s \<union> K" "K \<inter> used_keys s = {}" "spent cmd lease res K"
    using assms(2) [OF opn] k by blast
  with same show "gs_revocations s' = gs_revocations s \<and>
      (\<exists>K. used_keys s' = used_keys s \<union> K \<and> K \<inter> used_keys s = {} \<and> spent cmd lease res K)"
    by (intro conjI exI [of _ K]) (auto simp: authority_same_def used_keys_def)
qed

lemma remember_spends:
  assumes agent: "cmd_authenticated_agent_id cmd = Some (cmd_agent_id cmd)"
    and "\<And>b. keeps authority_same (k b)" and "\<And>b s r s'. k b s = (Inr r, s') \<Longrightarrow> \<not> gr_allowed r"
  shows "spends cmd lease (bindo (remember_op E cmd) k)"
proof (rule spends_store [OF _ _ assms(2)])
  fix s :: gate_state
  let ?t = "remember E cmd (gs_command_replay_cache s) (gs_world s)"
  show "remember_op E cmd s =
      (Inr (fst ?t), s\<lparr>gs_command_replay_cache := fst (snd ?t), gs_world := snd (snd ?t)\<rparr>)"
    by (simp add: remember_op_eq Let_def)
  assume "cc_store_path (gs_command_replay_cache s) \<noteq> None"
  note store = remember_store [OF agent this, of E "gs_world s"]
  let ?es = "command_entries (cmd_agent_id cmd) cmd"
  let ?i = "insert_all ?es (replay_row cmd (isoformat (utc_now E (gs_world s))))
    (cc_entries (gs_command_replay_cache s))"
  define K where "K = (if fst ?i then command_keys cmd else {})"
  have "spent cmd lease res K" if "k (fst ?t) u = (res, u')" for res u u'
    using assms(3) that by (auto simp: spent_def K_def presented_keys_def split: sum.splits)
  moreover have "dom (cc_entries (fst (snd ?t))) = used_keys s \<union> K"
    by (simp add: store Let_def case_prod_beta insert_all_dom K_def command_keys_def used_keys_def)
  moreover have "K \<inter> used_keys s = {}"
    using insert_all_accepts [OF entries_distinct(1)] by (simp add: K_def command_keys_def used_keys_def)
  ultimately show "\<exists>K. dom (cc_entries (fst (snd ?t))) = used_keys s \<union> K \<and> K \<inter> used_keys s = {} \<and>
      (\<forall>res u u'. k (fst ?t) u = (res, u') \<longrightarrow> spent cmd lease res K)" by blast
qed

lemma remember_use_spends:
  assumes agent: "cmd_authenticated_agent_id cmd = Some (cmd_agent_id cmd)"
    and "\<And>b. keeps authority_same (k b)"
    and "\<And>ok rr s r s'. k (ok, rr) s = (Inr r, s') \<Longrightarrow> gr_allowed r = ok"
  shows "spends cmd (Some l) (bindo (remember_use_op E cmd l) k)"
proof (rule spends_store [OF _ _ assms(2)])
  fix s :: gate_state
  let ?t = "remember_authorized_use E cmd l (gs_command_replay_cache s) (gs_world s)"
  show "remember_use_op E cmd l s =
      (Inr (fst ?t), s\<lparr>gs_command_replay_cache := fst (snd ?t), gs_world := snd (snd ?t)\<rparr>)"
    by (simp add: remember_use_op_eq Let_def)
  assume opn: "cc_store_path (gs_command_replay_cache s) \<noteq> None"
  obtain ok rr c w where t: "?t = ((ok, rr), c, w)" by (metis prod.collapse)
  let ?i = "insert_all (use_entries (cmd_agent_id cmd) cmd l)
    (replay_row cmd (isoformat (utc_now E (gs_world s)))) (cc_entries (gs_command_replay_cache s))"
  have i: "fst ?i = ok" "snd ?i = cc_entries c"
    using remember_use_store(1) [OF agent opn t] by (metis fst_conv, metis snd_conv)
  define K where "K = (if ok then use_keys cmd l else {})"
  have "spent cmd (Some l) res K" if "k (ok, rr) u = (res, u')" for res u u'
    using assms(3) that by (auto simp: spent_def K_def presented_keys_def split: sum.splits)
  moreover have "dom (cc_entries c) = used_keys s \<union> K"
    unfolding i(2) [symmetric] insert_all_dom i(1) by (simp add: K_def use_keys_def used_keys_def)
  moreover have "K \<inter> used_keys s = {}"
    using insert_all_accepts [OF entries_distinct(2)] i(1) by (auto simp: K_def use_keys_def used_keys_def)
  ultimately show "\<exists>K. dom (cc_entries (fst (snd ?t))) = used_keys s \<union> K \<and> K \<inter> used_keys s = {} \<and>
      (\<forall>res u u'. k (fst ?t) u = (res, u') \<longrightarrow> spent cmd (Some l) res K)" by (auto simp: t)
qed

lemma allow_command_spends:
  assumes "cmd_authenticated_agent_id cmd = Some (cmd_agent_id cmd)"
  shows "spends cmd (Some l) (allow_command E g cmd l st reason)"
  unfolding allow_command_def
  by (rule remember_use_spends [OF assms])
    (auto simp: res_simps split: if_splits intro!: inert.keeps_rules inert_steps inert_rejections
      dest: reject_command_Inr)

lemma evaluate_lease_spends:
  assumes "cmd_authenticated_agent_id cmd = Some (cmd_agent_id cmd)"
  shows "spends cmd (Some l) (evaluate_lease E g cmd l st now)"
  unfolding evaluate_lease_def
  by (intro spends_bind spends_split inert.keeps_rules inert_steps allow_command_spends [OF assms]
      remember_spends [OF assms] inert_rejections)
    (auto split: if_splits dest: reject_command_Inr)

lemma evaluate_spends: "spends cmd lease (evaluate E g cmd lease st now)"
  unfolding evaluate_def
proof (intro spends_bind spends_split spends_reject inert_rejections inert.keeps_rules)
  fix v b s u assume "command_auth_violation E g cmd now s = (Inr v, u)" "v = None"
  then have "cmd_authenticated_agent_id cmd = Some (cmd_agent_id cmd)"
    using command_auth_None(1) command_signature_accepted by blast
  then show "spends cmd lease (case lease of
        None \<Rightarrow> reject_command E g cmd lease st ''NO_LEASE'' False True
      | Some l \<Rightarrow> evaluate_lease E g cmd l st now)"
    by (cases lease) (auto intro: spends_reject evaluate_lease_spends)
qed

section \<open>The gate refines its specification\<close>

definition cache_same :: "gate_state \<Rightarrow> gate_state \<Rightarrow> bool" where
  "cache_same s s' \<longleftrightarrow> gs_command_replay_cache s' = gs_command_replay_cache s"

interpretation unspent: effect_relation cache_same
  by unfold_locales (auto simp: cache_same_def)

lemma inert_unspent: "keeps authority_same m \<Longrightarrow> keeps cache_same m"
  by (simp add: keeps_def authority_same_def cache_same_def)

lemmas unspent_steps = inert_steps [THEN inert_unspent] inert_rejections [THEN inert_unspent]

lemma record_and_revoke_unspent: "keeps cache_same (record_and_revoke E r)"
  by (rule keepsI) (auto simp: record_and_revoke_eq cache_same_def split: prod.splits sum.splits bool.splits)

lemma revoke_unspent: "keeps cache_same (revoke E g arg lease now)"
  unfolding revoke_def revoke_raw_def commit_revocation_eq record_revocation_rejected_def
  by (cases arg) (auto intro!: unspent.keeps_rules unspent_steps record_and_revoke_unspent)

lemma revoke_simulated:
  assumes "revoke E g arg lease now s = (res, s')"
  shows "authority_step (authority_of s) (Revoked arg lease res) (authority_of s')"
proof -
  have used: "used_keys s' = used_keys s"
    using keepsD [OF revoke_unspent assms] by (simp add: cache_same_def used_keys_def)
  consider "gs_revocations s' = gs_revocations s" "\<forall>d. res \<noteq> Inr (Some d)"
    | rv l where "arg = Revocation rv" "lease = Some l" "res \<noteq> Inr None"
        "dom (gs_revocations s') = insert (rev_lease_id rv) (dom (gs_revocations s))"
  proof (cases "\<exists>rv l. arg = Revocation rv \<and> lease = Some l")
    case True
    then obtain rv l where arg: "arg = Revocation rv" "lease = Some l" by blast
    with revoke_revokes [of E g now rv l] assms
    have "gs_revocations s' = gs_revocations s \<and> (\<forall>d. res \<noteq> Inr (Some d)) \<or>
        gs_revocations s' = (gs_revocations s)(rev_lease_id rv \<mapsto> revoked_lease_of rv (Some l)) \<and> res \<noteq> Inr None"
      unfolding revokes_if_def by blast
    with that arg show ?thesis by auto
  next
    case False
    with that(1) raw_revocation_unrevoked [OF assms] show ?thesis by blast
  qed
  then show ?thesis
  proof cases
    case 1
    with used have "authority_of s' = authority_of s" by (simp add: authority_of_def)
    with 1(2) show ?thesis by (simp add: authority_step.unrevoked)
  next
    case (2 rv l)
    with used have "authority_of s' =
        (authority_of s)\<lparr>au_revoked := insert (rev_lease_id rv) (au_revoked (authority_of s))\<rparr>"
      by (simp add: authority_of_def)
    with 2 show ?thesis by (simp add: authority_step.revoked)
  qed
qed

lemma evaluate_simulated:
  assumes "evaluate E g cmd lease st now s = (res, s')" and "stores_open s"
  shows "authority_step (authority_of s) (Evaluated cmd lease res) (authority_of s')"
proof -
  have "cc_store_path (gs_command_replay_cache s) \<noteq> None" using assms(2) by (simp add: stores_open_def)
  with evaluate_spends assms(1) obtain K where K: "gs_revocations s' = gs_revocations s"
    "used_keys s' = used_keys s \<union> K" "K \<inter> used_keys s = {}" "spent cmd lease res K"
    unfolding spends_def by metis
  then have eq: "authority_of s' = (authority_of s)\<lparr>au_used := au_used (authority_of s) \<union> K\<rparr>"
    by (simp add: authority_of_def)
  have new: "K \<inter> au_used (authority_of s) = {}" using K(3) by (simp add: authority_of_def)
  show ?thesis
  proof (cases res)
    case (Inl e)
    with K(4) new show ?thesis unfolding eq by (auto simp: spent_def intro: authority_step.raised)
  next
    case (Inr r)
    show ?thesis
    proof (cases "gr_allowed r")
      case True
      with K(4) Inr obtain l where l: "lease = Some l" "K = use_keys cmd l" by (auto simp: spent_def)
      have "lease_id l \<notin> au_revoked (authority_of s)"
        using evaluate_allowed_lease [OF assms(1) [unfolded Inr] True] l(1) by (auto simp: authority_of_def)
      with new True show ?thesis unfolding eq Inr l by (intro authority_step.granted)
    next
      case False
      with K(4) new Inr show ?thesis unfolding eq by (auto simp: spent_def intro: authority_step.refused)
    qed
  qed
qed

interpretation gate_authority: simulation "gate_step E g" authority_step "gate_ok E" authority_of for E g
proof unfold_locales
  fix s x s' assume step: "gate_step E g s x s'" and ok: "gate_ok E s"
  from gate_step_ok [OF this] show "gate_ok E s'" by simp
  from step show "authority_step (authority_of s) x (authority_of s')"
  proof (cases rule: gate_step.cases)
    case (step_evaluate cmd lease st now r)
    with ok show ?thesis by (auto simp: gate_ok_def intro: evaluate_simulated)
  next
    case (step_revoke arg lease now r)
    then show ?thesis by (auto intro: revoke_simulated)
  next
    case (step_restart first_of a keep_log)
    from reopened_ok [OF step_restart(2) ok]
    have "authority_of s' = authority_of s" by (simp add: authority_of_def)
    with step_restart(1) show ?thesis by (simp add: authority_step.restarted)
  qed
qed

lemma gate_run_path: "gate_run E g s xs s' \<longleftrightarrow> path (gate_step E g) s xs s'"
  by (induction xs arbitrary: s) auto

section \<open>Properties\<close>

text \<open>
  C8. The gate refines its abstract specification: forgetting stores, messages, signatures, clocks and the
  log, every run of commands, revocations and restarts is a run of the authority machine, in which a
  grant needs unused identifiers and an unrevoked lease and uses up exactly its own, a refusal uses up
  the command's identifiers or none, a declaration means the lease is revoked, and nothing else changes
  the authority.
\<close>

theorem gate_refines_authority:
  assumes "gate_ok E s" and "gate_run E g s xs s'"
  shows "path authority_step (authority_of s) xs (authority_of s')"
  using gate_authority.path_simulated [OF assms(2) [unfolded gate_run_path] assms(1)] by simp

text \<open>Two consequences for one gate; the fleet of the theory \<open>Shared_Stores\<close> has them for several.\<close>

lemma allowed_at_most_once:
  assumes "gate_ok E s0"
    and "gate_run E g s0 (xs @ [Evaluated c1 (Some l1) (Inr r1)] @ ys @ [Evaluated c2 (Some l2) (Inr r2)]) s1"
    and "gr_allowed r1" and "gr_allowed r2"
  shows "lease_nonce l1 \<noteq> lease_nonce l2 \<and>
    (cmd_agent_id c1 = cmd_agent_id c2 \<longrightarrow> command_id c1 \<noteq> command_id c2 \<and> command_nonce c1 \<noteq> command_nonce c2)"
proof -
  from gate_authority.path_simulated [OF assms(2) [unfolded gate_run_path] assms(1)]
  have "use_keys c1 l1 \<inter> use_keys c2 l2 = {}"
    using assms(3,4) by (auto dest!: granted_unused path_authority_mono)
  then show ?thesis by (auto simp: use_keys_def use_entries_def command_entries_def)
qed

lemma revocation_is_final:
  assumes "gate_ok E s0"
    and "gate_run E g s0 (xs @ [Revoked (Revocation rv) lease0 (Inr (Some d))] @ ys @
           [Evaluated cmd (Some l) (Inr r)]) s1"
    and "lease_id l = rev_lease_id rv"
  shows "\<not> gr_allowed r"
proof
  assume "gr_allowed r"
  with gate_authority.path_simulated [OF assms(2) [unfolded gate_run_path] assms(1)] assms(3) show False
    by (auto dest!: revoked_effective granted_unused path_authority_mono)
qed

end
