(* ===== verification/Gate_Scenario.thy ===== *)
theory Gate_Scenario
  imports Scenario Authority_Spec
begin

text \<open>
  The gate of the scenario at work: commands allowed one after the other, a revocation and the command
  it stops, a restart. Each run is an instance of a property of the gate.
\<close>

section \<open>Steps of the gate\<close>

abbreviation "cmd_1 \<equiv> demo_command ''cmd-1'' ''cnonce-1''"
abbreviation "cmd_2 \<equiv> demo_command ''cmd-2'' ''cnonce-2''"
abbreviation "lease_1 \<equiv> demo_lease ''lease-1'' ''lnonce-1''"
abbreviation "lease_2 \<equiv> demo_lease ''lease-2'' ''lnonce-2''"

lemma demo_use_keys:
  "use_keys (demo_command cid cnonce) (demo_lease lid nonce) =
     {(''agent-1'', ''command_id'', cid), (''agent-1'', ''command_nonce'', cnonce),
      (lease_nonce_replay_scope, ''lease_nonce'', nonce)}"
  by (auto simp: use_keys_def use_entries_def command_entries_def demo_command_def demo_lease_def)

lemma demo_start_facts [simp]:
  "used_keys demo_start = {}" "gs_revocations demo_start = Map.empty" "gs_world demo_start = demo_world"
  "rs_messages (gs_revocation_store demo_start) = []"
  by (simp_all add: demo_start_def used_keys_def demo_command_cache_def demo_store_def)

lemma demo_cmd_1: "command_authorized demo_env demo_gate cmd_1 lease_1 (Some demo_robot_state) None demo_start"
  by (rule demo_command_authorized) (simp_all add: demo_simps del: py_blank.simps)

lemma demo_allowed_1:
  obtains r s where "evaluate demo_env demo_gate cmd_1 (Some lease_1) (Some demo_robot_state) None demo_start = (Inr r, s)"
    "gr_allowed r" "gate_ok demo_env s" "used_keys s = use_keys cmd_1 lease_1" "gs_revocations s = Map.empty"
proof -
  obtain r s where eval:
    "evaluate demo_env demo_gate cmd_1 (Some lease_1) (Some demo_robot_state) None demo_start = (Inr r, s)"
    and r: "gr_allowed r" "used_keys s = used_keys demo_start \<union> use_keys cmd_1 lease_1"
    "gs_revocations s = gs_revocations demo_start"
    using evaluate_authorized [OF demo_start_ok _ demo_cmd_1] by auto
  have "gate_ok demo_env s"
    using progress_ok [OF keepsD [OF evaluate_keeps eval] demo_start_ok] by simp
  with eval r show thesis by (intro that) simp_all
qed

lemma demo_hooks: "fallback_hooks_ok demo_gate"
  by (simp add: fallback_hooks_ok_def demo_simps)

lemma demo_revoked:
  obtains d s where "revoke demo_env demo_gate (Revocation demo_revocation) (Some lease_1) None demo_start = (Inr (Some d), s)"
    "gs_revocations s = [''lease-1'' \<mapsto> revoked_lease_of demo_revocation (Some lease_1)]" "gate_ok demo_env s"
proof -
  have auth: "revocation_authorized demo_env demo_gate (fst (now_or_clock demo_env None (gs_world demo_start)))
      demo_revocation lease_1"
    by (simp add: demo_revocation_authorized demo_simps)
  obtain d s where rev: "revoke demo_env demo_gate (Revocation demo_revocation) (Some lease_1) None demo_start = (Inr (Some d), s)"
    and s: "gs_revocations s = (gs_revocations demo_start)(lease_id lease_1 \<mapsto> revoked_lease_of demo_revocation (Some lease_1))"
    using revoke_authorized [OF demo_start_ok _ demo_hooks auth] by auto
  have "gate_ok demo_env s"
    using progress_ok [OF keepsD [OF revoke_keeps rev] demo_start_ok] by simp
  with rev s show thesis by (intro that) (simp_all add: demo_lease_def)
qed

section \<open>Instances of the gate's properties\<close>

theorem authorized_command_allowed_witness:
  "\<exists>r s'. evaluate demo_env demo_gate cmd_1 (Some lease_1) (Some demo_robot_state) None demo_start = (Inr r, s') \<and>
     gr_allowed r \<and> gr_reason_code r = ''LEASE_VALID''"
  using authorized_command_allowed [OF demo_start_ok _ demo_cmd_1] by auto

theorem authorized_revocation_effective_witness:
  "\<exists>d s'. revoke demo_env demo_gate (Revocation demo_revocation) (Some lease_1) None demo_start = (Inr (Some d), s') \<and>
     ''lease-1'' \<in> dom (gs_revocations s') \<and> fb_fallback_action d = CRAWL_TO_SAFE_ZONE"
proof -
  have auth: "revocation_authorized demo_env demo_gate (fst (now_or_clock demo_env None (gs_world demo_start)))
      demo_revocation lease_1"
    by (simp add: demo_revocation_authorized demo_simps)
  have "local_fallback_action demo_gate (rev_reason_code demo_revocation) = CRAWL_TO_SAFE_ZONE"
    by (simp add: local_fallback_action_def demo_gate_def gate_of_args_def demo_args_def or_map_def
        DEFAULT_LOCAL_FALLBACK_ACTIONS_BY_REASON_def demo_revocation_def)
  with authorized_revocation_effective [OF demo_start_ok _ demo_hooks auth] show ?thesis
    by (fastforce simp: demo_lease_def)
qed

theorem gate_allows_only_authorized_witness:
  "\<exists>r s'. evaluate demo_env demo_gate cmd_1 (Some lease_1) (Some demo_robot_state) None demo_start = (Inr r, s') \<and>
     gr_allowed r \<and> command_signature_violation demo_env (agent_public_keys_by_id demo_gate) cmd_1 = Inr None \<and>
     lease_authorizes demo_env (gate_lease_checks demo_gate demo_start) (command_context_of cmd_1 (Some demo_robot_state))
       demo_time lease_1"
proof (rule demo_allowed_1)
  fix r s
  assume eval: "evaluate demo_env demo_gate cmd_1 (Some lease_1) (Some demo_robot_state) None demo_start = (Inr r, s)"
    and allowed: "gr_allowed r"
  from gate_allows_only_authorized [OF this] eval allowed show ?thesis by (auto simp: lease_check_time_def demo_simps)
qed

lemma demo_allowed_2:
  obtains r1 s1 r2 s2 where
    "evaluate demo_env demo_gate cmd_1 (Some lease_1) (Some demo_robot_state) None demo_start = (Inr r1, s1)"
    "evaluate demo_env demo_gate cmd_2 (Some lease_2) (Some demo_robot_state) None s1 = (Inr r2, s2)"
    "gr_allowed r1" "gr_allowed r2" "gate_ok demo_env s2"
proof (rule demo_allowed_1)
  fix r1 s1
  assume one: "evaluate demo_env demo_gate cmd_1 (Some lease_1) (Some demo_robot_state) None demo_start = (Inr r1, s1)"
    "gr_allowed r1" and ok: "gate_ok demo_env s1"
    and s1: "used_keys s1 = use_keys cmd_1 lease_1" "gs_revocations s1 = Map.empty"
  have "command_authorized demo_env demo_gate cmd_2 lease_2 (Some demo_robot_state) None s1"
    by (rule demo_command_authorized) (simp_all add: demo_simps s1 demo_use_keys del: py_blank.simps)
  with evaluate_authorized [OF ok] obtain r2 s2 where
    two: "evaluate demo_env demo_gate cmd_2 (Some lease_2) (Some demo_robot_state) None s1 = (Inr r2, s2)" "gr_allowed r2"
    by force
  moreover have "gate_ok demo_env s2"
    using progress_ok [OF keepsD [OF evaluate_keeps two(1)] ok] by simp
  ultimately show thesis using one that by blast
qed

text \<open>After the revocation the same command is answered, and with a refusal.\<close>

lemma demo_answered:
  assumes "gate_ok demo_env s" and "lease_id lease_1 \<in> dom (gs_revocations s)"
  obtains r s' where "evaluate demo_env demo_gate cmd_1 (Some lease_1) (Some demo_robot_state) None s = (Inr r, s')"
proof -
  have cmd: "command_authorized demo_env demo_gate cmd_1 lease_1 (Some demo_robot_state) None demo_start"
    by (rule demo_cmd_1)
  have time: "command_time_violation (max_command_age_seconds demo_gate)
      (fst (now_or_clock demo_env None (gs_world s))) cmd_1 = Inr None"
    using cmd by (simp add: command_authorized_def demo_simps)
  have auth: "lease_authorizes demo_env (gate_lease_checks demo_gate demo_start)
      (command_context_of cmd_1 (Some demo_robot_state)) demo_time lease_1"
    by (rule demo_lease_authorizes) simp_all
  have "\<exists>v. validate_lease_for_command demo_env (gate_lease_checks demo_gate s)
      (command_context_of cmd_1 (Some demo_robot_state)) demo_time (Some lease_1) = Inr v"
    using auth assms(2)
    by (auto simp: validate_lease_for_command_def lease_authorizes_def issuer_vouches_def policy_vouches_def
        gate_lease_checks_def revoked_lease_ids_def guardr_def lease_time_violation_None_iff [THEN iffD2]
        lease_constraints_malformed_iff)
  then have "\<exists>r s'. evaluate demo_env demo_gate cmd_1 (Some lease_1) (Some demo_robot_state) None s = (Inr r, s')"
    using printable_evaluate_returns [OF assms(1) _ demo_hooks time, of "Some lease_1" "Some demo_robot_state"]
    by (auto simp: lease_check_time_def demo_command_def demo_simps)
  then show thesis using that by blast
qed

theorem revocations_change_only_authorized_witness:
  "\<exists>d s'. revoke demo_env demo_gate (Revocation demo_revocation) (Some lease_1) None demo_start = (Inr (Some d), s') \<and>
     revocation_authorized demo_env demo_gate demo_time demo_revocation lease_1"
proof (rule demo_revoked)
  fix d s
  assume rev: "revoke demo_env demo_gate (Revocation demo_revocation) (Some lease_1) None demo_start = (Inr (Some d), s)"
    and revs: "gs_revocations s = [''lease-1'' \<mapsto> revoked_lease_of demo_revocation (Some lease_1)]"
  have "gs_revocations s \<noteq> gs_revocations demo_start" by (simp add: revs)
  from revocations_change_only_authorized [OF rev this] rev show ?thesis by (auto simp: demo_simps)
qed

theorem every_answer_audited_witness:
  "\<exists>r s'. evaluate demo_env demo_gate cmd_1 (Some lease_1) (Some demo_robot_state) None demo_start = (Inr r, s') \<and>
     on_record demo_start r s'"
proof (rule demo_allowed_1)
  fix r s
  assume eval: "evaluate demo_env demo_gate cmd_1 (Some lease_1) (Some demo_robot_state) None demo_start = (Inr r, s)"
  from every_answer_audited [OF demo_start_ok eval] eval show ?thesis by blast
qed

text \<open>A restart with the configuration the gate was built with.\<close>

lemma demo_restart:
  assumes "stores_open s"
  obtains s' where "reopened the_elem demo_args keep_log s = Inr (demo_gate, s')"
proof -
  from assms obtain pc pr where paths: "cc_store_path (gs_command_replay_cache s) = Some pc"
    "rs_store_path (gs_revocation_store s) = Some pr" by (auto simp: stores_open_def)
  obtain c' st' where stores:
    "CommandReplayCache (Some pc) None (cc_entries (gs_command_replay_cache s)) = Inr c'" "command_cache_durable c'"
    "RevocationStore (Some pr) None (rs_revoked_leases (gs_revocation_store s)) (rs_messages (gs_revocation_store s)) = Inr st'"
    "revocation_store_durable st'"
    by (simp add: CommandReplayCache_def RevocationStore_def command_cache_durable_def revocation_store_durable_def)
  then have "gate_args_violation demo_args (Some c') (Some st') = None" by (intro demo_args_accepted)
  with stores that show thesis
    by (simp add: reopened_def Let_def paths CommandGate_def demo_gate_def)
qed

text \<open>The restart after a revocation.\<close>

theorem restart_restores_authority_witness:
  "\<exists>s s'. gate_ok demo_env s \<and> reopened the_elem demo_args True s = Inr (demo_gate, s') \<and>
     gs_revocations s' = [''lease-1'' \<mapsto> revoked_lease_of demo_revocation (Some lease_1)]"
proof (rule demo_revoked)
  fix d s
  assume revs: "gs_revocations s = [''lease-1'' \<mapsto> revoked_lease_of demo_revocation (Some lease_1)]"
    and ok: "gate_ok demo_env s"
  then have "stores_open s" by (simp add: gate_ok_def)
  then obtain s' where re: "reopened the_elem demo_args True s = Inr (demo_gate, s')" by (rule demo_restart)
  from restart_restores_authority [OF ok re] revs ok re show ?thesis by metis
qed

theorem gate_invariant_witness:
  "\<exists>r s'. gate_run demo_env demo_gate demo_start [Evaluated cmd_1 (Some lease_1) (Inr r)] s' \<and>
     log_ok demo_env (gs_audit_log s')"
proof (rule demo_allowed_1)
  fix r s
  assume "evaluate demo_env demo_gate cmd_1 (Some lease_1) (Some demo_robot_state) None demo_start = (Inr r, s)"
  then have run: "gate_run demo_env demo_gate demo_start [Evaluated cmd_1 (Some lease_1) (Inr r)] s"
    by (auto intro: gate_step.intros)
  from gate_invariant [OF demo_constructed run] run show ?thesis by blast
qed

section \<open>An answer that never comes\<close>

text \<open>A command whose payload holds a lone surrogate, U+D800.\<close>

abbreviation lone_surrogate :: string where
  "lone_surrogate \<equiv> [CHR 0xED, CHR 0xA0, CHR 0x80]"

definition demo_surrogate_command :: edge_command where
  "demo_surrogate_command = cmd_1\<lparr>cmd_payload := [(''speed_mps'', JStr lone_surrogate)]\<rparr>"

lemma surrogate_payload_raises:
  "command_payload_budget_violation (float_repr demo_env) (JDict [(''speed_mps'', JStr lone_surrogate)]) = Inl UnicodeEncodeError"
  by (simp add: command_payload_budget_violation_def utf8_encode_def MAX_COMMAND_PAYLOAD_DEPTH_def
      MAX_COMMAND_PAYLOAD_NODES_def MAX_COMMAND_PAYLOAD_ESTIMATED_BYTES_def)

lemma demo_surrogate_raises:
  "evaluate demo_env demo_gate demo_surrogate_command None (Some demo_robot_state) None demo_start =
     (Inl UnicodeEncodeError, demo_start)"
proof (rule evaluate_signature_raises)
  show "command_signature_violation demo_env (agent_public_keys_by_id demo_gate) demo_surrogate_command = Inl UnicodeEncodeError"
    using surrogate_payload_raises
    by (simp add: command_signature_violation_def demo_surrogate_command_def demo_command_def
        signature_algorithm_violation_def signed_command_material_budget_violation_def command_texts_def
        budget_exceeded_def Let_def MAX_SIGNED_TEXT_FIELD_BYTES_def MAX_SIGNED_TEXT_TOTAL_BYTES_def
        SUPPORTED_PROTOCOL_VERSION_def ED25519_SIGNATURE_ALGORITHM_def demo_simps del: py_blank.simps)
qed

theorem gate_always_answers_witness:
  "(\<exists>r s'. evaluate demo_env demo_gate cmd_1 None (Some demo_robot_state) None demo_start = (Inr r, s')) \<and>
   evaluate demo_env demo_gate demo_surrogate_command None (Some demo_robot_state) None demo_start =
     (Inl UnicodeEncodeError, demo_start)"
proof -
  have "command_time_violation (max_command_age_seconds demo_gate)
      (fst (now_or_clock demo_env None (gs_world demo_start))) cmd_1 = Inr None"
    using demo_cmd_1 by (simp add: command_authorized_def)
  from gate_always_answers [OF demo_start_ok _ demo_hooks this, of None "Some demo_robot_state"]
  have "\<exists>r s'. evaluate demo_env demo_gate cmd_1 None (Some demo_robot_state) None demo_start = (Inr r, s')"
    by (simp add: demo_command_def)
  with demo_surrogate_raises show ?thesis by blast
qed

theorem payload_budget_exact_witness:
  "command_payload_budget_violation (float_repr demo_env) (JDict [(''a'', JList [JNull, JStr ''b''])]) = Inr False \<and>
   \<not> json_printable (JDict [(''speed_mps'', JStr lone_surrogate)]) \<and>
   command_payload_budget_violation (float_repr demo_env) (JDict [(''speed_mps'', JStr lone_surrogate)]) = Inl UnicodeEncodeError"
proof -
  have "json_printable (JDict [(''a'', JList [JNull, JStr ''b''])])" by simp
  with payload_budget_exact [of "float_repr demo_env" "JDict [(''a'', JList [JNull, JStr ''b''])]"]
  have "command_payload_budget_violation (float_repr demo_env) (JDict [(''a'', JList [JNull, JStr ''b''])]) = Inr False"
    by (simp add: payload_over_budget_def MAX_COMMAND_PAYLOAD_DEPTH_def MAX_COMMAND_PAYLOAD_NODES_def
        MAX_COMMAND_PAYLOAD_ESTIMATED_BYTES_def)
  moreover from payload_budget_exact [of "float_repr demo_env" "JDict [(''speed_mps'', JStr lone_surrogate)]"]
    surrogate_payload_raises have "\<not> json_printable (JDict [(''speed_mps'', JStr lone_surrogate)])"
    by (simp del: json_printable.simps)
  ultimately show ?thesis using surrogate_payload_raises by blast
qed

text \<open>The command asks for a speed beyond the range of a double, as an integer.\<close>

definition demo_huge_command :: edge_command where
  "demo_huge_command = cmd_1\<lparr>cmd_payload := [(''speed_mps'', JInt (2 ^ 1024))]\<rparr>"

lemma demo_huge_authentic:
  "command_signature_violation demo_env [''agent-1'' \<mapsto> demo_key] demo_huge_command = Inr None"
proof -
  have "length (nat_str (2 ^ 1024)) \<le> Suc 308"
    by (rule length_nat_str) simp
  then have "command_payload_budget_violation (float_repr demo_env) (JDict [(''speed_mps'', JInt (2 ^ 1024))]) = Inr False"
    by (simp add: command_payload_budget_violation_def utf8_encode_def str_of_int_def MAX_STR_DIGITS_def
        MAX_COMMAND_PAYLOAD_DEPTH_def int_str_def nat_power_eq
        MAX_COMMAND_PAYLOAD_NODES_def MAX_COMMAND_PAYLOAD_ESTIMATED_BYTES_def demo_simps del: power_numeral)
  then show ?thesis
    by (simp add: command_signature_violation_def demo_huge_command_def demo_command_def
        signature_algorithm_violation_def signed_command_material_budget_violation_def command_texts_def
        budget_exceeded_def Let_def MAX_SIGNED_TEXT_FIELD_BYTES_def MAX_SIGNED_TEXT_TOTAL_BYTES_def
        SUPPORTED_PROTOCOL_VERSION_def ED25519_SIGNATURE_ALGORITHM_def demo_simps
        del: power_numeral py_blank.simps)
qed

theorem huge_speed_escapes_gate_witness:
  "\<exists>w. evaluate demo_env demo_gate demo_huge_command (Some lease_1) (Some demo_robot_state) None demo_start =
     (Inl OverflowError, demo_start\<lparr>gs_world := w\<rparr>)"
proof (rule huge_speed_escapes_gate)
  show "command_signature_violation demo_env (agent_public_keys_by_id demo_gate) demo_huge_command = Inr None"
    by (simp add: demo_huge_authentic demo_simps)
  show "command_time_violation (max_command_age_seconds demo_gate)
      (fst (now_or_clock demo_env None (gs_world demo_start))) demo_huge_command = Inr None"
    using demo_cmd_1 by (simp add: command_authorized_def command_time_violation_def demo_huge_command_def
        del: power_numeral)
  show "\<not> local_edge_context_mismatch demo_gate demo_huge_command (Some lease_1)"
    by (simp add: local_edge_context_mismatch_def demo_huge_command_def demo_command_def demo_lease_def demo_simps)
  show "\<not> contains demo_huge_command (gs_command_replay_cache demo_start)"
    by (simp add: contains_def demo_start_def demo_command_cache_def split: option.splits)
  have "lease_authorizes demo_env (gate_lease_checks demo_gate demo_start)
      (command_context_of cmd_1 (Some demo_robot_state)) demo_time lease_1"
    by (rule demo_lease_authorizes) simp_all
  then show "lease_authorizes demo_env (gate_lease_checks demo_gate demo_start)
      ((command_context_of demo_huge_command (Some demo_robot_state))\<lparr>cc_command_payload := Some (cmd_payload cmd_1)\<rparr>)
      (lease_check_time demo_env None demo_start) lease_1"
    by (simp add: lease_check_time_def demo_simps command_context_of_def demo_huge_command_def del: power_numeral)
  show "con_max_speed_mps (lease_constraints lease_1) = Some (Fin 2)"
    by (simp add: demo_lease_def policy_constraints_def demo_policy_for_def)
  show "cmd_payload demo_huge_command = [(''speed_mps'', JInt (2 ^ 1024))]"
    by (simp add: demo_huge_command_def del: power_numeral)
qed (simp_all add: SUPPORTED_SPEED_PAYLOAD_FIELDS_def del: power_numeral)

end
