(* ===== verification/Issuance.thy ===== *)
theory Issuance
  imports Policy
begin

text \<open>
  From the decision to the edge: a lease issued on an ALLOW decision is one that the conformance check of a
  correctly configured edge accepts, for as long as the lease and the robot state are valid. This is where
  the decision point (\<^verbatim>\<open>policy.py\<close>), the issuer (\<^verbatim>\<open>leases.py\<close>) and the edge check (\<^verbatim>\<open>conformance.py\<close>) have
  to agree on every field.
\<close>

section \<open>An edge that follows a policy\<close>

text \<open>
  The configuration of an edge for one policy and one issuer: it trusts the issuer under its key, accepts
  the policy by id and digest, grants the capability and bounds the constraints by the policy.
\<close>

definition checks_follow_policy :: "env \<Rightarrow> policy \<Rightarrow> string \<Rightarrow> string \<Rightarrow> lease_checks \<Rightarrow> bool" where
  "checks_follow_policy E p issuer sk k \<longleftrightarrow>
     issuer \<in> lc_trusted_issuer_ids k \<and>
     issuer_key_registry (lc_trusted_issuer_ids k) (lc_issuer_public_key_b64 k) (lc_issuer_public_keys_by_id k)
       issuer = Some (public_key_b64 E sk) \<and>
     lc_accepted_policy_id k = Some (policy_id p) \<and>
     (\<exists>ds. lc_accepted_policy_digests k = Some ds \<and> policy_digest E p \<in> ds \<and> (\<forall>d \<in> ds. \<not> py_blank d)) \<and>
     (\<exists>caps scopes scope. lc_accepted_capabilities k = Some caps \<and> capability_str (policy_capability p) \<in> caps \<and>
        lc_issuer_capability_scopes k = Some scopes \<and> scopes issuer = Some scope \<and>
        capability_str (policy_capability p) \<in> scope) \<and>
     (\<exists>m r. lc_requirements k = Some m \<and> m (capability_str (policy_capability p)) = Some r \<and>
        crq_capability r = policy_capability p \<and>
        (require_max_speed_mps r \<longrightarrow> pr_max_speed_mps (requirements p) \<noteq> None)) \<and>
     lc_bounds k = Some (policy_constraint_bounds p)"

text \<open>The command the lease was asked for, with the state it was granted on.\<close>

definition context_of_request ::
  "capability_request \<Rightarrow> robot_state_assertion \<Rightarrow> dump \<Rightarrow> command_context" where
  "context_of_request rq s payload =
     \<lparr>cc_agent_id = rq_requesting_agent_id rq, cc_edge_agent_id = rq_edge_agent_id rq,
      cc_robot_id = rq_robot_id rq, cc_mission_id = rq_mission_id rq,
      cc_capability = capability_str (rq_capability rq), cc_current_state = Some s,
      cc_command_payload = Some payload\<rparr>"

section \<open>The issued lease meets each check\<close>

lemma granted_scope:
  assumes "policy_grants E k now rq s p cp"
  shows "rq_capability rq = policy_capability p" and "st_robot_id s = rq_robot_id rq"
    and "st_edge_agent_id s = rq_edge_agent_id rq" and "st_mission_id s = rq_mission_id rq"
  using assms by (auto simp: policy_grants_def policy_scope_violation_def Let_def split: if_splits)

lemma state_auth_fewer_fields:
  "state_auth_violation E req keys s = None \<Longrightarrow> req' \<subseteq> req \<Longrightarrow> state_auth_violation E req' keys s = None"
  by (auto simp: state_auth_violation_def split: if_splits)

lemma granted_state_satisfies:
  assumes "policy_grants E k now rq s p cp" and "inside (st_geofence_state s)"
    and "issue_lease E rq (policy_constraints p s) issuer sk ttl pid pdg w = (Inr l, w')"
  shows "state_satisfies l s"
proof -
  have "network_state_valid (st_network_state s)" "network_requirements_valid (network (requirements p))"
    "network_grants (network (requirements p)) (st_network_state s)"
    using assms(1) by (simp_all add: policy_grants_def Let_def)
  moreover have "lease_robot_id l = rq_robot_id rq" "lease_edge_agent_id l = rq_edge_agent_id rq"
    "lease_mission_id l = rq_mission_id rq"
    using issue_lease_Inr(1) [OF assms(3)] by (simp_all add: lease_matches_context_def)
  moreover have "flt_le a b \<Longrightarrow> \<not> flt_lt b a" for a b
    by (cases a; cases b) (auto simp: flt_le_def)
  ultimately show ?thesis
    using granted_scope [OF assms(1)] issue_lease_Inr(3) [OF assms(3)] assms(2)
    by (simp add: state_satisfies_def network_grants_def policy_constraints_def Let_def)
qed

lemma issuer_vouches_issued:
  assumes "ed25519_correct E" and "issue_lease E rq c issuer sk ttl pid pdg w = (Inr l, w')"
    and "checks_follow_policy E p issuer sk k" and "\<not> lease_signed_material_too_large E l"
  shows "issuer_vouches E k l"
  using assms(3,4) issued_lease_verifies(1) [OF assms(1,2)] issue_lease_Inr(2,7) [OF assms(2)]
  by (simp add: issuer_vouches_def checks_follow_policy_def)

lemma policy_vouches_issued:
  assumes "policy_grants E pk now rq s p cp"
    and "issue_lease E rq (policy_constraints p s) issuer sk ttl (policy_id p) (policy_digest E p) w = (Inr l, w')"
    and "checks_follow_policy E p issuer sk k"
  shows "policy_vouches k l"
proof -
  note l = issue_lease_Inr [OF assms(2)]
  have cap: "lease_capability l = policy_capability p"
    using l(1) granted_scope(1) [OF assms(1)] by (simp add: lease_matches_context_def)
  have valid: "lease_constraints_valid (policy_constraints p s)"
    and none: "requested_constraint_violation (policy_constraints p s) None = None"
    and geo: "geofence_required (requirements p) \<longrightarrow>
      pr_geofence_id (requirements p) = Some (gf_geofence_id (st_geofence_state s))"
    using assms(1) by (auto simp: policy_grants_def Let_def requested_constraint_violation_def)
  have blank: "\<not> py_blank (policy_id p)" "\<not> py_blank (policy_digest E p)"
    using assms(2) by (auto simp: issue_lease_def split: if_splits)
  obtain b where b: "policy_constraint_bounds p (capability_str (policy_capability p)) = Some b"
    "cb_capability b = policy_capability p"
    by (simp add: policy_constraint_bounds_def Let_def)
  have bounds: "\<not> capability_constraints_exceed_bounds (policy_constraints p s) b"
    using apply_requested_within [OF none geo valid b(1)] by (simp add: apply_requested_constraints_def)
  have "lease_policy_provenance_violation l (lc_accepted_policy_id k) (lc_accepted_policy_digests k) = None"
  proof -
    from assms(3) obtain ds where ds: "lc_accepted_policy_digests k = Some ds" "policy_digest E p \<in> ds"
      "{d \<in> ds. \<not> py_blank d} = ds" "lc_accepted_policy_id k = Some (policy_id p)"
      by (auto simp: checks_follow_policy_def)
    then have "ds \<noteq> {}" by blast
    with ds blank show ?thesis
      by (auto simp: lease_policy_provenance_violation_def l(4,5))
  qed
  moreover have "capability_scope_violation l (lc_accepted_capabilities k) (lc_issuer_capability_scopes k) = None"
    using assms(3) by (auto simp: capability_scope_violation_def checks_follow_policy_def cap l(2))
  moreover have "capability_constraint_requirement_violation l (lc_requirements k) = None"
    using assms(3)
    by (auto simp: capability_constraint_requirement_violation_def checks_follow_policy_def cap l(3)
        capability_constraints_missing_def policy_constraints_def)
  moreover have "capability_constraint_bound_violation l (lc_bounds k) = None"
    using assms(3) b bounds
    by (simp add: capability_constraint_bound_violation_def checks_follow_policy_def cap l(3))
  ultimately show ?thesis using valid by (simp add: policy_vouches_def l(3))
qed

lemma granted_lease_authorizes:
  assumes "ed25519_correct E" and grants: "policy_grants E pk now rq s p cp"
    and issued: "issue_lease E rq (policy_constraints p s) issuer sk ttl (policy_id p) (policy_digest E p) w = (Inr l, w')"
    and follows: "checks_follow_policy E p issuer sk k" and "\<not> lease_signed_material_too_large E l"
    and state: "protocol_version s = SUPPORTED_PROTOCOL_VERSION" "inside (st_geofence_state s)"
      "lc_state_public_keys_by_edge_id k = Some (pc_edge_public_keys_by_id pk)"
      "state_time_violation (lc_max_state_age_seconds k) now' s = Inr None"
    and "lease_id l \<notin> lc_revoked_lease_ids k"
    and window: "lease_in_window l now' (lc_max_lease_age_seconds k) (lc_max_lease_ttl_seconds k)
        LEASE_CLOCK_SKEW_SECONDS"
      "lease_window_computable now' (lc_max_lease_age_seconds k) (lc_max_lease_ttl_seconds k)
        LEASE_CLOCK_SKEW_SECONDS"
    and "payload_authorized (policy_constraints p s) payload"
  shows "lease_authorizes E k (context_of_request rq s payload) now' l"
proof -
  note l = issue_lease_Inr [OF issued]
  have "state_auth_violation E ROBOT_STATE_REQUIRED_WIRE_FIELDS (pc_edge_public_keys_by_id pk) s = None"
    by (rule state_auth_fewer_fields) (use grants in \<open>unfold policy_grants_def Let_def, blast+\<close>)
  moreover have "state_satisfies l s" using grants state(2) issued by (rule granted_state_satisfies)
  ultimately have "state_vouches E k (context_of_request rq s payload) now' l"
    using state by (simp add: state_vouches_def context_of_request_def)
  moreover have "issuer_vouches E k l" using assms(1) issued follows assms(5) by (rule issuer_vouches_issued)
  moreover have "policy_vouches k l" using grants issued follows by (rule policy_vouches_issued)
  ultimately show ?thesis
    using window assms(10,13) l(1,3,6)
    by (simp add: lease_authorizes_def context_of_request_def)
qed

section \<open>Properties\<close>

text \<open>
  C33. An issued lease is well formed: what \<open>issue_lease\<close> returns passes the validators of its class, is bound
  to the agent, edge, robot, mission and capability of the request, carries the given constraints and
  provenance, lives exactly the given time, not longer than the request asked for, and verifies under the
  issuer's public key.
\<close>

theorem issued_lease_well_formed:
  assumes "ed25519_correct E" and "issue_lease E rq c issuer sk ttl pid pdg w = (Inr l, w')"
  shows "validate_protocol_version l = Inr () \<and> validate_time_window l = Inr () \<and>
    lease_matches_context l (rq_requesting_agent_id rq) (rq_edge_agent_id rq) (rq_robot_id rq)
      (rq_mission_id rq) (capability_str (rq_capability rq)) \<and>
    lease_issuer_id l = issuer \<and> lease_constraints l = c \<and> lease_policy_id l = pid \<and>
    lease_policy_digest l = pdg \<and>
    instant (expires_at l) = instant (issued_at l) + ttl * 1000000 \<and>
    0 < ttl \<and> ttl \<le> rq_requested_duration_seconds rq \<and>
    verify_lease_signature E l (public_key_b64 E sk)"
proof -
  note l = issue_lease_Inr [OF assms(2)]
  have blank: "\<not> py_blank pid" "\<not> py_blank pdg"
    using assms(2) by (auto simp: issue_lease_def split: if_splits)
  show ?thesis
  proof (rule issue_lease_InrE [OF assms(2)])
    fix expires l0
    assume ttl: "0 < ttl" "ttl \<le> rq_requested_duration_seconds rq"
      and exp: "instant expires = instant (utc_now E w) + ttl * 1000000"
      and aware: "\<not> dt_naive (utc_now E w)" "\<not> dt_naive expires"
      and l0: "l0 = lease_of_request E rq c issuer pid pdg (utc_now E w) expires (tick w)"
      and sig: "l = l0\<lparr>signature := Some (key_sign E sk (lease_dump E l0))\<rparr>"
    have "issued_at l = utc_now E w" "expires_at l = expires"
      by (simp_all add: sig l0 lease_of_request_def)
    moreover from this have "validate_time_window l = Inr ()"
      using blank aware exp ttl l(4,5) by (simp add: validate_time_window_def dt_le_def)
    ultimately show ?thesis
      using l ttl exp issued_lease_verifies(1) [OF assms] by (simp add: validate_protocol_version_def)
  qed
qed

text \<open>
  C7. A granted lease is honoured at the edge: when the decision point answers a request that asks for no
  narrower constraints with ALLOW and the issuer issues the lease for it, the conformance check of an edge
  that follows the same policy accepts the lease for a permitted command of that request, as long as the
  lease is inside its window, is not revoked and fits the text budget, and the robot state it was granted
  on is inside the geofence and still fresh.
\<close>

theorem granted_lease_accepted:
  assumes "ed25519_correct E"
    and "evaluate_policy E pk actor rq s p cp now t = (Inr ((ALLOW, reason, alternatives, Some c), ev), t')"
    and "issue_lease E rq c issuer sk (lease_ttl_seconds p) (policy_id p) (policy_digest E p) w = (Inr l, w')"
    and "rq_requested_constraints rq = None" and "inside (st_geofence_state s)"
    and "checks_follow_policy E p issuer sk k" and "\<not> lease_signed_material_too_large E l"
    and "lc_state_public_keys_by_edge_id k = Some (pc_edge_public_keys_by_id pk)"
    and "state_time_violation (lc_max_state_age_seconds k) now' s = Inr None"
    and "lease_id l \<notin> lc_revoked_lease_ids k"
    and "lease_time_violation l now' (lc_max_lease_age_seconds k) (lc_max_lease_ttl_seconds k)
      LEASE_CLOCK_SKEW_SECONDS = Inr None"
    and "payload_authorized c payload"
  shows "validate_lease_for_command E k (context_of_request rq s payload) now' (Some l) = Inr (True, ''LEASE_VALID'')"
proof -
  from assms(2) obtain n cache where adm: "request_admitted E pk n rq s cp cache"
    and verdict: "policy_verdict E pk n rq s p cp = Inr (ALLOW, reason, alternatives, Some c)"
    by (rule evaluate_policy_allowE) blast
  from verdict have grants: "policy_grants E pk n rq s p cp" and c: "c = policy_constraints p s"
    by (auto simp: policy_verdict_allow assms(4) apply_requested_constraints_def)
  have "protocol_version s = SUPPORTED_PROTOCOL_VERSION" using adm by (simp add: request_admitted_def)
  with granted_lease_authorizes [OF assms(1) grants assms(3) [unfolded c] assms(6,7) _ assms(5,8-10)]
    assms(11,12)
  show ?thesis by (simp add: validate_lease_accepts lease_time_violation_None_iff c)
qed

end
