(* ===== verification/Audit_Export.thy ===== *)
theory Audit_Export
  imports Audit_Log
begin

text \<open>
  The audit log as a file of JSON lines: \<^verbatim>\<open>to_jsonl\<close> and \<^verbatim>\<open>write_jsonl\<close> of \<^verbatim>\<open>rclp_core/audit.py\<close>, and the
  reading side of \<^verbatim>\<open>load_jsonl\<close> down to the text. Pydantic's \<^verbatim>\<open>model_dump_json\<close> and \<^verbatim>\<open>json.loads\<close> are
  parameters; \<^verbatim>\<open>str.splitlines\<close>, which decides where a line ends, is modelled.
\<close>

section \<open>Lines\<close>

text \<open>
  \<open>line_end s\<close> is the rest after the line boundary that \<open>s\<close> starts with, if it does: LF, VT, FF, CR with an
  optional LF, FS, GS, RS, and in UTF-8 U+0085 (NEL), U+2028 (LS) and U+2029 (PS). The universal newlines
  of \<^verbatim>\<open>read_text\<close> turn CR and CR LF into LF, which are boundaries either way.
\<close>

definition line_end :: "string \<Rightarrow> string option" where
  "line_end s =
     (case s of
        [] \<Rightarrow> None
      | c # r \<Rightarrow>
          if byte_of c \<in> {10, 11, 12, 28, 29, 30 :: nat} then Some r
          else if byte_of c = (13 :: nat)
          then Some (case r of [] \<Rightarrow> [] | d # r' \<Rightarrow> if byte_of d = (10 :: nat) then r' else r)
          else (case r of
              [] \<Rightarrow> None
            | d # r' \<Rightarrow>
                if byte_of c = (194 :: nat) \<and> byte_of d = (133 :: nat) then Some r'
                else (case r' of
                    [] \<Rightarrow> None
                  | e # r'' \<Rightarrow>
                      if byte_of c = (226 :: nat) \<and> byte_of d = (128 :: nat) \<and> byte_of e \<in> {168, 169 :: nat}
                      then Some r'' else None)))"

lemma line_end_shorter: "line_end s = Some r \<Longrightarrow> length r < length s"
  by (auto simp: line_end_def split: list.splits if_splits)

text \<open>\<^verbatim>\<open>str.splitlines\<close>; \<open>cur\<close> is the current line, reversed. A boundary at the end adds no empty line.\<close>

function split_lines :: "string \<Rightarrow> string \<Rightarrow> string list" where
  "split_lines cur [] = (if cur = [] then [] else [rev cur])"
| "split_lines cur (c # s) =
     (case line_end (c # s) of
        Some r \<Rightarrow> rev cur # split_lines [] r
      | None \<Rightarrow> split_lines (c # cur) s)"
  by pat_completeness auto
termination
  by (relation "measure (\<lambda>(cur, s). length s)") (auto dest: line_end_shorter)

definition splitlines :: "string \<Rightarrow> string list" where
  "splitlines s = split_lines [] s"

section \<open>Writing and reading\<close>

definition newline :: string where
  "newline = [CHR 0x0A]"

definition to_jsonl :: "(audit_commit \<Rightarrow> string) \<Rightarrow> audit_log \<Rightarrow> string" where
  "to_jsonl model_dump_json lg = join_with newline (map model_dump_json (events lg))"

text \<open>The text that \<^verbatim>\<open>write_jsonl\<close> writes.\<close>

definition write_jsonl :: "(audit_commit \<Rightarrow> string) \<Rightarrow> audit_log \<Rightarrow> string" where
  "write_jsonl model_dump_json lg =
     (let text = to_jsonl model_dump_json lg in text @ (if text \<noteq> [] then newline else []))"

definition load_jsonl_text ::
  "env \<Rightarrow> (string \<Rightarrow> dump res) \<Rightarrow> (dump \<Rightarrow> audit_commit res) \<Rightarrow> string \<Rightarrow> string option \<Rightarrow> string
    \<Rightarrow> audit_commit list res" where
  "load_jsonl_text E json_loads model_validate text trusted_chain_head import_profile =
     load_jsonl E model_validate (map json_loads (filter (\<lambda>line. \<not> py_blank line) (splitlines text)))
       trusted_chain_head import_profile"

section \<open>Where lines end\<close>

fun one_line :: "string \<Rightarrow> bool" where
  "one_line [] = True"
| "one_line (c # s) \<longleftrightarrow> line_end (c # s) = None \<and> one_line s"

lemma line_end_newline: "line_end (newline @ r) = Some r"
  by (simp add: line_end_def newline_def)

lemma line_end_extend:
  "line_end (c # s) = None \<Longrightarrow> line_end (c # s @ newline @ r) = None"
  by (auto simp: line_end_def newline_def split: list.splits if_splits)

lemma split_lines_break:
  assumes "line_end b = Some r" and "one_line a"
    and "\<And>c s. line_end (c # s) = None \<Longrightarrow> one_line s \<Longrightarrow> line_end (c # s @ b) = None"
  shows "split_lines cur (a @ b) = (rev cur @ a) # split_lines [] r"
  using assms(2)
proof (induction a arbitrary: cur)
  case Nil
  obtain c s where "b = c # s" using assms(1) by (cases b) (auto simp: line_end_def)
  with assms(1) show ?case by simp
next
  case (Cons c a)
  then have "line_end (c # a @ b) = None" by (intro assms(3)) auto
  with Cons show ?case by simp
qed

lemma split_lines_newline: "one_line a \<Longrightarrow> split_lines cur (a @ newline @ r) = (rev cur @ a) # split_lines [] r"
  by (rule split_lines_break [OF line_end_newline]) (auto intro: line_end_extend)

text \<open>The file is its lines, each ended by a newline.\<close>

lemma join_with_newlines:
  "ls \<noteq> [] \<Longrightarrow> join_with newline ls @ newline = concat (map (\<lambda>l. l @ newline) ls)"
  by (induction newline ls rule: join_with.induct) auto

lemma join_with_empty: "join_with sep ls = [] \<Longrightarrow> \<forall>l \<in> set ls. l \<noteq> [] \<Longrightarrow> ls = []"
  by (induction sep ls rule: join_with.induct) auto

lemma written_lines:
  assumes "\<forall>e \<in> set (events lg). mdj e \<noteq> []"
  shows "write_jsonl mdj lg = concat (map (\<lambda>l. l @ newline) (map mdj (events lg)))"
proof (cases "events lg")
  case Nil
  then show ?thesis by (simp add: write_jsonl_def to_jsonl_def)
next
  case (Cons e es)
  with assms join_with_empty [of newline "map mdj (events lg)"] have "to_jsonl mdj lg \<noteq> []"
    by (auto simp: to_jsonl_def)
  with Cons join_with_newlines [of "map mdj (events lg)"] show ?thesis
    by (simp add: write_jsonl_def Let_def to_jsonl_def)
qed

lemma splitlines_concat:
  "\<forall>l \<in> set ls. one_line l \<Longrightarrow> splitlines (concat (map (\<lambda>l. l @ newline) ls) @ r) = ls @ splitlines r"
proof (induction ls)
  case (Cons l ls)
  then show ?case
    using split_lines_newline [of l "[]" "concat (map (\<lambda>l. l @ newline) ls) @ r"] by (simp add: splitlines_def)
qed simp

lemma splitlines_written:
  assumes "\<forall>e \<in> set (events lg). one_line (mdj e) \<and> mdj e \<noteq> []"
  shows "splitlines (write_jsonl mdj lg) = map mdj (events lg)"
  using splitlines_concat [of "map mdj (events lg)" "[]"] assms by (simp add: written_lines splitlines_def)

text \<open>U+2028, which JSON text may contain unescaped inside a string.\<close>

definition line_separator :: string where
  "line_separator = [CHR 0xE2, CHR 0x80, CHR 0xA8]"

lemma line_end_separator: "line_end (line_separator @ r) = Some r"
  by (simp add: line_end_def line_separator_def)

lemma line_end_extend_separator:
  assumes "line_end (c # s) = None"
  shows "line_end (c # s @ line_separator @ r) = None"
proof (cases s)
  case Nil
  with assms show ?thesis by (simp add: line_end_def line_separator_def split: if_splits)
next
  case (Cons d s')
  with assms show ?thesis by (cases s') (simp_all add: line_end_def line_separator_def split: if_splits)
qed

lemma split_lines_separator:
  "one_line a \<Longrightarrow> split_lines cur (a @ line_separator @ r) = (rev cur @ a) # split_lines [] r"
  by (rule split_lines_break [OF line_end_separator]) (auto intro: line_end_extend_separator)

lemma load_loop_good_lines:
  "load_loop E mv ids prev a lines = Inr r \<Longrightarrow> Inl x \<notin> set lines"
proof (induction lines arbitrary: ids prev a r)
  case (Cons line lines)
  then show ?case by (auto simp: res_simps split: if_splits prod.splits)
qed simp

lemma load_loop_bad_line: "Inl x \<in> set lines \<Longrightarrow> \<exists>y. load_loop E mv ids prev a lines = Inl y"
  using load_loop_good_lines [of E mv ids prev a lines] by (cases "load_loop E mv ids prev a lines") auto

section \<open>Reading a chain back\<close>

lemma dump_required_fields:
  assumes "payload_hash e = Some h" and "integrity_proof e = Some q"
  shows "required_fields_check (audit_commit_dump E e) = Inr ()"
proof -
  have "\<forall>f \<in> set LOAD_REQUIRED_FIELDS. dict_get (audit_commit_dump E e) f \<notin> {None, Some JNull}"
    using assms by (simp add: LOAD_REQUIRED_FIELDS_def audit_commit_dump_def base_dump_def dict_get_def jopt_def)
  then have "filter (\<lambda>f. dict_get (audit_commit_dump E e) f = None) LOAD_REQUIRED_FIELDS = []"
    "filter (\<lambda>f. dict_get (audit_commit_dump E e) f \<in> {None, Some JNull}) LOAD_REQUIRED_FIELDS = []"
    by (auto simp: filter_empty_conv)
  then show ?thesis by (simp add: required_fields_check_def Let_def)
qed

lemma load_loop_chain:
  assumes "chained E prev es" and "distinct (map audit_id es)" and "ids \<inter> audit_id ` set es = {}"
    and "\<forall>e \<in> set es. mv (audit_commit_dump E e) = Inr e"
  shows "\<exists>a'. load_loop E mv ids prev a (map (\<lambda>e. Inr (audit_commit_dump E e)) es) =
    Inr (es, last_proof prev es, a')"
  using assms
proof (induction es arbitrary: ids prev a)
  case (Cons e es)
  let ?a = "a \<or> authority_relevant e \<or> authority_event (event_type e)"
  from Cons.prems have place: "in_place E prev e" by simp
  then have fields: "required_fields_check (audit_commit_dump E e) = Inr ()"
    by (auto simp: in_place_def intro: dump_required_fields)
  obtain a' where "load_loop E mv (insert (audit_id e) ids) (integrity_proof e) ?a
      (map (\<lambda>e. Inr (audit_commit_dump E e)) es) = Inr (es, last_proof (integrity_proof e) es, a')"
    using Cons.IH [of "integrity_proof e" "insert (audit_id e) ids" ?a] Cons.prems by auto
  moreover have "audit_id e \<notin> ids" "mv (audit_commit_dump E e) = Inr e" using Cons.prems by auto
  ultimately show ?case
    using place fields by (simp add: in_place_def validate_payload_hash_def)
qed simp

section \<open>Properties\<close>

text \<open>
  C36. Export and import are inverse: the file written for a log that is a chain is read back, with the head of
  the log as the trusted head, as exactly the events of the log, provided that pydantic and the JSON reader
  restore what they wrote, line by line, and that no event's JSON text contains a line boundary.
\<close>

theorem export_import_roundtrip:
  assumes "log_ok E lg"
    and "\<And>e. e \<in> set (events lg) \<Longrightarrow> json_loads (model_dump_json e) = Inr (audit_commit_dump E e)"
    and "\<And>e. e \<in> set (events lg) \<Longrightarrow> model_validate (audit_commit_dump E e) = Inr e"
    and "\<And>e. e \<in> set (events lg) \<Longrightarrow> one_line (model_dump_json e) \<and> \<not> py_blank (model_dump_json e)"
  shows "load_jsonl_text E json_loads model_validate (write_jsonl model_dump_json lg) (chain_head lg)
    ''authority_chain'' = Inr (events lg)"
proof -
  have "\<forall>e \<in> set (events lg). one_line (model_dump_json e) \<and> model_dump_json e \<noteq> []"
    using assms(4) by (metis py_blank.simps(1))
  then have lines: "splitlines (write_jsonl model_dump_json lg) = map model_dump_json (events lg)"
    by (rule splitlines_written)
  have "map json_loads (filter (\<lambda>line. \<not> py_blank line) (map model_dump_json (events lg))) =
      map (\<lambda>e. Inr (audit_commit_dump E e)) (events lg)"
    using assms(2,4) by (simp add: filter_map comp_def)
  moreover obtain a where "load_loop E model_validate {} None False
      (map (\<lambda>e. Inr (audit_commit_dump E e)) (events lg)) = Inr (events lg, last_proof None (events lg), a)"
    using load_loop_chain [of E None "events lg" "{}" model_validate False] assms(1,3)
    by (auto simp: log_ok_def)
  moreover have "events lg = [] \<or> chain_head lg \<noteq> None"
    using assms(1) by (auto simp: log_ok_def chain_head_def elim: chained_last_proof)
  ultimately show ?thesis
    by (simp add: load_jsonl_text_def lines load_jsonl_def chain_head_eq)
qed

text \<open>
  C37. One text with a line separator in it makes the exported log unreadable: when the JSON text of an event
  contains U+2028, which pydantic writes unescaped, the reader splits the event in two, and the import
  fails for every trusted head and profile, because the first half is not JSON.
\<close>

theorem separator_breaks_import:
  assumes "events lg = pre @ [e] @ post" and "model_dump_json e = a @ line_separator @ b"
    and "one_line a" and "\<not> py_blank a" and "json_loads a = Inl x"
    and "\<forall>f \<in> set (events lg). model_dump_json f \<noteq> []" and "\<forall>f \<in> set pre. one_line (model_dump_json f)"
  shows "\<exists>y. load_jsonl_text E json_loads model_validate (write_jsonl model_dump_json lg) head profile = Inl y"
proof -
  let ?rest = "b @ newline @ concat (map (\<lambda>f. model_dump_json f @ newline) post)"
  have "splitlines (write_jsonl model_dump_json lg) =
      map model_dump_json pre @ splitlines (a @ line_separator @ ?rest)"
    using splitlines_concat [of "map model_dump_json pre" "a @ line_separator @ ?rest"] assms(1,2,6,7)
    by (simp add: written_lines comp_def)
  then have "a \<in> set (splitlines (write_jsonl model_dump_json lg))"
    using split_lines_separator [OF assms(3), of "[]" ?rest] by (simp add: splitlines_def)
  with assms(4,5) have "Inl x \<in> set (map json_loads (filter (\<lambda>line. \<not> py_blank line)
      (splitlines (write_jsonl model_dump_json lg))))"
    by force
  from load_loop_bad_line [OF this, of E model_validate "{}" None False] show ?thesis
    by (auto simp: load_jsonl_text_def load_jsonl_def)
qed

end
