(* ===== verification/Issuance_Scenario.thy ===== *)
theory Issuance_Scenario
  imports Gate_Scenario Issuance Audit_Export
begin

text \<open>
  The scenario continued: a lease issued for the request of the session and honoured by its gate, a run
  of the gate seen as a run of the authority machine, and the log written to a file and read back.
\<close>

section \<open>Issuing\<close>

definition issued_lease_at :: "world \<Rightarrow> capability_lease" where
  "issued_lease_at w = (lease_of_request demo_env (demo_request ''nonce-1'') demo_constraints ''issuer-1'' ''policy-1''
     ''sha256:00'' demo_time (demo_time\<lparr>wall := wall demo_time + 120000000\<rparr>) (tick w))
     \<lparr>signature := Some demo_sig\<rparr>"

abbreviation issued_lease :: capability_lease where
  "issued_lease \<equiv> issued_lease_at demo_world"

lemma demo_policy_digest [demo_simps]: "policy_digest demo_env p = ''sha256:00''"
  by (simp add: policy_digest_def demo_simps)

lemma demo_lease_expiry [demo_simps]:
  "bindr (timedelta_s 120) (dt_add demo_time) = Inr (demo_time\<lparr>wall := 63902822520000000\<rparr>)"
  by (simp add: timedelta_s_def td_check_def td_limit_def dt_add_def dt_limit_def demo_simps)

lemma demo_issued_at:
  "issue_lease demo_env (demo_request ''nonce-1'') demo_constraints ''issuer-1'' ''key'' 120 ''policy-1'' ''sha256:00''
     w = (Inr (issued_lease_at w), draw (draw (draw (tick w))))"
proof -
  have "rq_requested_duration_seconds (demo_request ''nonce-1'') = 120" by (simp add: demo_request_def)
  then show ?thesis
    by (simp add: issue_lease_def issued_lease_at_def demo_simps Let_def del: py_blank.simps)
      (simp add: validate_protocol_version_def validate_time_window_def lease_of_request_def demo_simps
        dt_naive_def dt_le_def instant_def del: py_blank.simps, simp add: demo_time_def utc_def)
qed

lemmas demo_issued = demo_issued_at [of demo_world]

lemma issued_small:
  assumes "uuid_draws w \<le> 100"
  shows "\<not> lease_signed_material_too_large demo_env (issued_lease_at w)"
  using assms
  by (simp add: lease_signed_material_too_large_def lease_signature_material_too_large_def issued_lease_at_def
      lease_of_request_def uuid_text_def tick_def draw_def demo_env_def [THEN arg_cong, of uuid4_hex]
      ED25519_SIGNATURE_B64_MAX_TEXT_BYTES_def lease_texts_def constraint_texts_def demo_request_def
      policy_constraints_def demo_policy_for_def demo_robot_state_at_def budget_exceeded_def Let_def
      MAX_SIGNED_TEXT_FIELD_BYTES_def MAX_SIGNED_TEXT_TOTAL_BYTES_def SUPPORTED_PROTOCOL_VERSION_def
      ED25519_SIGNATURE_ALGORITHM_def demo_simps)

lemma issued_window:
  "lease_in_window (issued_lease_at w) demo_time 600 600 LEASE_CLOCK_SKEW_SECONDS"
  "lease_window_computable demo_time 600 600 LEASE_CLOCK_SKEW_SECONDS"
  by (simp_all add: issue_lease_window [OF demo_issued_at] lease_window_computable_def
      timedelta_s_def td_check_def td_limit_def LEASE_CLOCK_SKEW_SECONDS_def demo_simps)

lemma issued_payload: "payload_authorized demo_constraints [(''speed_mps'', JFloat (Fin 1))]"
  by (simp add: payload_authorized_def policy_constraints_def demo_policy_for_def float_field_ok_def
      requested_speed_def dict_get_def payload_speed_def)

theorem issued_lease_well_formed_witness:
  "\<exists>l w'. issue_lease demo_env (demo_request ''nonce-1'') demo_constraints ''issuer-1'' ''key'' 120 ''policy-1''
      ''sha256:00'' demo_world = (Inr l, w') \<and>
     instant (expires_at l) = instant (issued_at l) + 120000000 \<and> verify_lease_signature demo_env l demo_key"
  using issued_lease_well_formed [OF demo_ed25519 demo_issued] demo_issued by (simp add: demo_simps)

lemma demo_gate_follows:
  "checks_follow_policy demo_env demo_policy ''issuer-1'' ''key'' (gate_lease_checks demo_gate s)"
  by (simp add: checks_follow_policy_def gate_lease_checks_def issuer_key_registry_def demo_simps del: py_blank.simps)
    (simp add: demo_policy_for_def demo_requirement_def)

theorem granted_lease_accepted_witness:
  "validate_lease_for_command demo_env (gate_lease_checks demo_gate demo_start)
     (context_of_request (demo_request ''nonce-1'') demo_robot_state [(''speed_mps'', JFloat (Fin 1))]) demo_time
     (Some issued_lease) = Inr (True, ''LEASE_VALID'')"
proof (rule demo_evaluation [OF demo_issuer_drawn demo_issuer_admitted(1), of "''nonce-1''"])
  fix ev t'
  assume eval: "evaluate_policy demo_env demo_checks ''issuer-1'' (demo_request ''nonce-1'') demo_robot_state
      demo_policy None None demo_issuer = (Inr ((ALLOW, ''POLICY_SATISFIED'', [], Some demo_constraints), ev), t')"
  have ttl: "lease_ttl_seconds demo_policy = 120" "policy_id demo_policy = ''policy-1''"
    by (simp_all add: demo_policy_for_def)
  have issued: "issue_lease demo_env (demo_request ''nonce-1'') demo_constraints ''issuer-1'' ''key''
      (lease_ttl_seconds demo_policy) (policy_id demo_policy) (policy_digest demo_env demo_policy) demo_world =
      (Inr issued_lease, draw (draw (draw (tick demo_world))))"
    by (simp add: ttl demo_simps demo_issued)
  have window: "lease_time_violation issued_lease demo_time 600 600 LEASE_CLOCK_SKEW_SECONDS = Inr None"
    by (simp add: lease_time_violation_None_iff issued_window)
  have small: "\<not> lease_signed_material_too_large demo_env issued_lease"
    by (rule issued_small) (simp add: demo_world_def)
  show ?thesis
    by (rule granted_lease_accepted [OF demo_ed25519 eval issued _ _ demo_gate_follows small _ _ _ _ issued_payload])
      (simp_all add: gate_lease_checks_def demo_simps window revoked_lease_ids_def demo_checks_def,
        simp_all add: demo_request_def demo_robot_state_at_def)
qed (simp_all add: demo_cache_def request_cache_durable_def)

section \<open>A run as a run of the authority machine\<close>

theorem gate_refines_authority_witness:
  "\<exists>r1 r2 s. gr_allowed r1 \<and> gr_allowed r2 \<and>
     path authority_step (authority_of demo_start)
       [Evaluated cmd_1 (Some lease_1) (Inr r1), Evaluated cmd_2 (Some lease_2) (Inr r2)] (authority_of s)"
proof (rule demo_allowed_2)
  fix r1 s1 r2 s2
  assume steps: "evaluate demo_env demo_gate cmd_1 (Some lease_1) (Some demo_robot_state) None demo_start = (Inr r1, s1)"
    "evaluate demo_env demo_gate cmd_2 (Some lease_2) (Some demo_robot_state) None s1 = (Inr r2, s2)"
    and allowed: "gr_allowed r1" "gr_allowed r2"
  from steps have run: "gate_run demo_env demo_gate demo_start
      [Evaluated cmd_1 (Some lease_1) (Inr r1), Evaluated cmd_2 (Some lease_2) (Inr r2)] s2"
    by (auto intro: gate_step.intros)
  from gate_refines_authority [OF demo_start_ok run] allowed show ?thesis by blast
qed

section \<open>The log as a file\<close>

definition demo_log :: audit_log where
  "demo_log = \<lparr>events = demo_chain None [''a1'', ''a2''], audit_ids = {''a1'', ''a2''}\<rparr>"

text \<open>A stand-in for the two JSON libraries on these two events: the text of an event is its identifier.\<close>

definition demo_read :: "string \<Rightarrow> dump res" where
  "demo_read line =
     (if line = ''a1'' then Inr (audit_commit_dump demo_env (demo_event None ''a1''))
      else if line = ''a2'' then Inr (audit_commit_dump demo_env (demo_event (Some ''sha256:00'') ''a2''))
      else Inl (ValueError ''Expecting value''))"

definition demo_validate :: "dump \<Rightarrow> audit_commit res" where
  "demo_validate d =
     (if d = audit_commit_dump demo_env (demo_event None ''a1'') then Inr (demo_event None ''a1'')
      else Inr (demo_event (Some ''sha256:00'') ''a2''))"

lemma demo_log_ok: "log_ok demo_env demo_log"
  using demo_chain_ok [of None "[''a1'', ''a2'']"]
  by (simp add: log_ok_def demo_log_def)

theorem export_import_roundtrip_witness:
  "load_jsonl_text demo_env demo_read demo_validate (write_jsonl audit_id demo_log) (chain_head demo_log)
     ''authority_chain'' = Inr (events demo_log)"
proof (rule export_import_roundtrip [OF demo_log_ok])
  fix e assume "e \<in> set (events demo_log)"
  then have e: "e = demo_event None ''a1'' \<or> e = demo_event (Some ''sha256:00'') ''a2''"
    by (simp add: demo_log_def)
  have ids: "audit_id (demo_event h i) = i" for h i by (simp add: demo_event_def)
  have ne: "audit_commit_dump demo_env (demo_event (Some ''sha256:00'') ''a2'') \<noteq>
      audit_commit_dump demo_env (demo_event None ''a1'')"
    by (simp add: audit_commit_dump_def base_dump_def demo_event_def)
  from e show "demo_read (audit_id e) = Inr (audit_commit_dump demo_env e)"
    by (auto simp: demo_read_def ids)
  from e ne show "demo_validate (audit_commit_dump demo_env e) = Inr e" by (auto simp: demo_validate_def)
  from e show "one_line (audit_id e) \<and> \<not> py_blank (audit_id e)"
    by (auto simp: ids line_end_def ascii_space_def two_byte_space_def three_byte_space_def)
qed

theorem separator_breaks_import_witness:
  "\<exists>y. load_jsonl_text demo_env demo_read demo_validate
     (write_jsonl (\<lambda>e. ''{'' @ line_separator @ audit_id e) demo_log) (chain_head demo_log) ''authority_chain'' = Inl y"
  by (rule separator_breaks_import [where pre = "[]" and e = "demo_event None ''a1''"
        and post = "[demo_event (Some ''sha256:00'') ''a2'']" and a = "''{''" and b = "''a1''"
        and x = "ValueError ''Expecting value''"])
    (simp_all add: demo_log_def demo_event_def demo_read_def line_end_def ascii_space_def two_byte_space_def
      three_byte_space_def)

end
