(* ===== verification/Remote_Assist.thy ===== *)
theory Remote_Assist
  imports Gate_Runs Policy Attestation
begin

text \<open>
  The parties around the decision point and the gate: the central agent that asks for remote assistance
  (\<^verbatim>\<open>rclp_agents/central_agent_mock.py\<close>) and the demonstration that plays a whole session on shared stores
  and one audit log (\<^verbatim>\<open>rclp_agents/demo_remote_assist.py\<close>). What the demonstration prints is the value its
  model returns. The policy it reads from a YAML file, the private keys it generates and the directory it
  creates are arguments.
\<close>

section \<open>The central agent\<close>

definition request_remote_assist :: "env \<Rightarrow> string \<Rightarrow> world \<Rightarrow> capability_request \<times> world" where
  "request_remote_assist E signing_key w =
     (let request = \<lparr>protocol_version = SUPPORTED_PROTOCOL_VERSION, message_id = uuid_text E ''msg_'' w,
            correlation_id = uuid_text E ''corr_'' (draw w), created_at = utc_now E w,
            fields_set = {''requesting_agent_id'', ''authenticated_agent_id'', ''edge_agent_id'', ''robot_id'',
              ''mission_id'', ''capability'', ''reason'', ''requested_duration_seconds'', ''signature_alg'',
              ''signature''},
            signature_alg = ED25519_SIGNATURE_ALGORITHM, signature = None,
            rq_requesting_agent_id = ''fleet-agent:v0.1'', rq_authenticated_agent_id = Some ''fleet-agent:v0.1'',
            rq_edge_agent_id = ''edge-agent:rover-001'', rq_robot_id = ''rover-001'',
            rq_mission_id = ''mission-001'', rq_capability = REMOTE_ASSIST,
            rq_reason = ''central mock requests remote assist'', rq_requested_duration_seconds = 600,
            rq_requested_constraints = None, rq_request_nonce = uuid_text E ''nonce_'' (draw (draw w))\<rparr>
      in (request\<lparr>signature := Some (key_sign E signing_key (request_dump E request))\<rparr>,
          draw (draw (draw (tick w)))))"

section \<open>Messages of the demonstration\<close>

definition CORRELATION_ID :: string where "CORRELATION_ID = ''corr_demo_remote_assist''"
definition CENTRAL_AGENT_ID :: string where "CENTRAL_AGENT_ID = ''fleet-agent:v0.1''"
definition EDGE_AGENT_ID :: string where "EDGE_AGENT_ID = ''edge-agent:rover-001''"
definition ROBOT_ID :: string where "ROBOT_ID = ''rover-001''"
definition MISSION_ID :: string where "MISSION_ID = ''mission-001''"
definition GEOFENCE_ID :: string where "GEOFENCE_ID = ''test-zone-a''"
definition ISSUER_ID :: string where "ISSUER_ID = ''rclp-demo-issuer''"

text \<open>
  The clock is read for the geofence state, then for the message and for the observation. The network
  state is a copy of the profile's, observation time included.
\<close>

definition make_state ::
  "env \<Rightarrow> (network_profile \<Rightarrow> datetime) \<Rightarrow> string \<Rightarrow> string \<Rightarrow> world \<Rightarrow> robot_state_assertion res \<times> world" where
  "make_state E t network_profile key w =
     (case profile t network_profile of
        Inl e \<Rightarrow> (Inl e, w)
      | Inr n \<Rightarrow>
          let w1 = tick w;
              state = \<lparr>protocol_version = SUPPORTED_PROTOCOL_VERSION, message_id = uuid_text E ''msg_'' w1,
                correlation_id = CORRELATION_ID, created_at = utc_now E w1,
                fields_set = {''correlation_id'', ''robot_id'', ''edge_agent_id'', ''authenticated_edge_agent_id'',
                  ''mission_id'', ''safety_state'', ''network_state'', ''geofence_state'',
                  ''human_operator_available'', ''signature_alg'', ''signature''},
                signature_alg = ED25519_SIGNATURE_ALGORITHM, signature = None, st_robot_id = ROBOT_ID,
                st_edge_agent_id = EDGE_AGENT_ID, st_authenticated_edge_agent_id = Some EDGE_AGENT_ID,
                st_mission_id = MISSION_ID, st_safety_state = NOMINAL, st_network_state = n,
                st_geofence_state = \<lparr>gf_geofence_id = GEOFENCE_ID, inside = True, verified_at = utc_now E w\<rparr>,
                st_observed_at = utc_now E (tick w1), st_human_operator_available = True\<rparr>
          in (Inr (state\<lparr>signature := Some (key_sign E key (robot_state_dump E state))\<rparr>),
              draw (tick (tick w1))))"

definition audit ::
  "env \<Rightarrow> audit_event_type \<Rightarrow> string \<Rightarrow> string \<Rightarrow> dump \<Rightarrow> bool \<Rightarrow> (gate_state, string) op" where
  "audit E ty actor_id summary payload authority_rel =
     bindo (gate_record E
       \<lparr>en_event_type = ty, en_actor_id = actor_id, en_summary = summary, en_correlation_id = CORRELATION_ID,
        en_robot_id = Some ROBOT_ID, en_mission_id = Some MISSION_ID, en_payload = payload,
        en_authority_relevant = authority_rel, en_policy_id = None, en_policy_digest = None,
        en_state_refs = [], en_related_message_ids = []\<rparr>) (\<lambda>event. ret (audit_id event))"

definition gate_result_dump :: "env \<Rightarrow> gate_result \<Rightarrow> dump" where
  "gate_result_dump E r =
     [(''allowed'', JBool (gr_allowed r)), (''reason_code'', JStr (gr_reason_code r)),
      (''audit_id'', jstr_opt (gr_audit_id r)),
      (''fallback_action'', jopt (\<lambda>a. JStr (fallback_action_str a)) (gr_fallback_action r)),
      (''fallback_declaration'', jopt (\<lambda>d. JDict (fallback_dump E d)) (gr_fallback_declaration r))]"

definition command_denial_payload ::
  "env \<Rightarrow> string \<Rightarrow> string \<Rightarrow> gate_result \<Rightarrow> fallback_action list \<Rightarrow> int option \<Rightarrow> dump" where
  "command_denial_payload E summary recorded_as gate_result safe_alternatives retry_after_seconds =
     [(''decision'', JStr ''deny''), (''reason_code'', JStr (gr_reason_code gate_result)),
      (''summary'', JStr summary),
      (''safe_alternatives'', JList (map (\<lambda>a. JStr (fallback_action_str a)) safe_alternatives)),
      (''retry_after_seconds'', jopt JInt retry_after_seconds), (''audit_id'', JStr recorded_as),
      (''gate_result'', JDict (gate_result_dump E gate_result))]"

text \<open>Assigning a field adds it to the fields set; the signature is over the message without it.\<close>

definition sign_command :: "env \<Rightarrow> edge_command \<Rightarrow> string \<Rightarrow> edge_command" where
  "sign_command E command key =
     (let c = command\<lparr>cmd_authenticated_agent_id := Some (cmd_agent_id command),
            signature_alg := ED25519_SIGNATURE_ALGORITHM, signature := None,
            fields_set := fields_set command \<union> {''authenticated_agent_id'', ''signature_alg'', ''signature''}\<rparr>
      in c\<lparr>signature := Some (key_sign E key (command_dump E c))\<rparr>)"

definition sign_attestation :: "env \<Rightarrow> agent_attestation \<Rightarrow> string \<Rightarrow> agent_attestation" where
  "sign_attestation E attestation key =
     (let a = attestation\<lparr>att_authenticated_agent_id := Some (att_agent_id attestation),
            signature_alg := ED25519_SIGNATURE_ALGORITHM, signature := None,
            fields_set := fields_set attestation \<union> {''authenticated_agent_id'', ''signature_alg'', ''signature''}\<rparr>
      in a\<lparr>signature := Some (key_sign E key (attestation_dump E a))\<rparr>)"

text \<open>The command id is drawn for the argument, then the message id and the nonce by their defaults.\<close>

definition make_command :: "env \<Rightarrow> string \<Rightarrow> string \<Rightarrow> world \<Rightarrow> edge_command \<times> world" where
  "make_command E command_id_prefix key w =
     (sign_command E \<lparr>protocol_version = SUPPORTED_PROTOCOL_VERSION,
        message_id = uuid_text E ''msg_'' (draw w), correlation_id = CORRELATION_ID, created_at = utc_now E w,
        fields_set = {''correlation_id'', ''command_id'', ''agent_id'', ''edge_agent_id'', ''robot_id'',
          ''mission_id'', ''capability'', ''payload''},
        signature_alg = ED25519_SIGNATURE_ALGORITHM, signature = None,
        command_id = uuid_text E (command_id_prefix @ ''_'') w, cmd_agent_id = CENTRAL_AGENT_ID,
        cmd_authenticated_agent_id = None, cmd_edge_agent_id = EDGE_AGENT_ID, cmd_robot_id = ROBOT_ID,
        cmd_mission_id = MISSION_ID, cmd_capability = capability_str REMOTE_ASSIST,
        command_nonce = uuid_text E ''cmd_nonce_'' (draw (draw w)), cmd_payload = []\<rparr> key,
      draw (draw (draw (tick w))))"

definition sign_request :: "env \<Rightarrow> capability_request \<Rightarrow> string \<Rightarrow> capability_request" where
  "sign_request E request key =
     (let r = request\<lparr>rq_authenticated_agent_id := Some (rq_requesting_agent_id request),
            signature_alg := ED25519_SIGNATURE_ALGORITHM, signature := None,
            fields_set := fields_set request \<union> {''authenticated_agent_id'', ''signature_alg'', ''signature''}\<rparr>
      in r\<lparr>signature := Some (key_sign E key (request_dump E r))\<rparr>)"

definition sign_revocation :: "env \<Rightarrow> lease_revocation \<Rightarrow> string \<Rightarrow> lease_revocation" where
  "sign_revocation E revocation key =
     (let r = revocation\<lparr>signature_alg := ED25519_SIGNATURE_ALGORITHM, signature := None,
            fields_set := fields_set revocation \<union> {''signature_alg'', ''signature''}\<rparr>
      in r\<lparr>signature := Some (key_sign E key (revocation_dump E r))\<rparr>)"

section \<open>The recorded decision\<close>

definition decision_dump :: "env \<Rightarrow> capability_decision \<Rightarrow> dump" where
  "decision_dump E d = base_dump E ''capability_decision'' d @
     [(''request_id'', JStr (dec_request_id d)), (''decision'', JStr (decision_str (dec_decision d))),
      (''reason_code'', JStr (dec_reason_code d)), (''deciding_actor_id'', JStr (dec_deciding_actor_id d)),
      (''policy_id'', jstr_opt (dec_policy_id d)), (''policy_digest'', jstr_opt (dec_policy_digest d)),
      (''lease'', jopt (\<lambda>l. JDict (lease_dump E l)) (dec_lease d)),
      (''safe_alternatives'', JList (map (\<lambda>a. JStr (fallback_action_str a)) (dec_safe_alternatives d))),
      (''audit_id'', JStr (dec_audit_id d))] @ signature_dump d"

definition lease_payload :: "env \<Rightarrow> capability_lease \<Rightarrow> dump" where
  "lease_payload E l =
     [(''lease_id'', JStr (lease_id l)), (''lease_message_id'', JStr (message_id l)),
      (''lease_nonce'', JStr (lease_nonce l)), (''lease_expires_at'', JStr (isoformat (expires_at l))),
      (''lease_signature'', jstr_opt (signature l)),
      (''lease_digest'', JStr (stable_json_hash E (JDict (lease_dump E l))))]"

definition decision_payload ::
  "env \<Rightarrow> capability_decision \<Rightarrow> capability_request \<Rightarrow> robot_state_assertion \<Rightarrow> dump" where
  "decision_payload E d request state =
     [(''capability_decision'', JDict (decision_dump E d)), (''request_id'', JStr (dec_request_id d)),
      (''state_assertion_id'', JStr (message_id state)),
      (''central_agent_id'', JStr (rq_requesting_agent_id request)),
      (''edge_agent_id'', JStr (rq_edge_agent_id request)), (''robot_id'', JStr (rq_robot_id request)),
      (''mission_id'', JStr (rq_mission_id request)),
      (''requested_capability'', JStr (capability_str (rq_capability request))),
      (''decision'', JStr (decision_str (dec_decision d))), (''reason_code'', JStr (dec_reason_code d)),
      (''safe_alternatives'', JList (map (\<lambda>a. JStr (fallback_action_str a)) (dec_safe_alternatives d))),
      (''policy_id'', jstr_opt (dec_policy_id d)), (''policy_digest'', jstr_opt (dec_policy_digest d)),
      (''constraints'', jopt (\<lambda>l. JDict (lease_constraints_dump (lease_constraints l))) (dec_lease d)),
      (''network_state'', JDict (network_state_dump E (st_network_state state))),
      (''geofence_state'', JDict (geofence_state_dump E (st_geofence_state state)))]
     @ (case dec_lease d of None \<Rightarrow> [] | Some l \<Rightarrow> lease_payload E l)"

definition decision_commit ::
  "env \<Rightarrow> capability_decision \<Rightarrow> capability_request \<Rightarrow> robot_state_assertion \<Rightarrow> string \<Rightarrow> world \<Rightarrow> audit_commit" where
  "decision_commit E d request state policy_digest_value w = commit_payload_hash E
     \<lparr>protocol_version = SUPPORTED_PROTOCOL_VERSION, message_id = uuid_text E ''msg_'' w,
      correlation_id = correlation_id request, created_at = utc_now E w, audit_id = dec_audit_id d,
      event_type = decision_event (dec_decision d), ac_actor_id = dec_deciding_actor_id d,
      ac_robot_id = Some (rq_robot_id request), ac_mission_id = Some (rq_mission_id request),
      ac_summary = decision_str (dec_decision d) @ '' '' @ capability_str (rq_capability request) @ '': ''
        @ dec_reason_code d,
      ac_payload = decision_payload E d request state, payload_hash = None, authority_relevant = True,
      integrity_profile = ''local_hash_chain_v0'', integrity_proof = None, previous_audit_hash = None,
      ac_policy_id = dec_policy_id d, ac_policy_digest = Some policy_digest_value,
      state_refs = [message_id state],
      related_message_ids = [message_id request, message_id state]
        @ (case dec_lease d of None \<Rightarrow> [] | Some l \<Rightarrow> [message_id l])\<rparr>"

definition audit_capability_decision ::
  "env \<Rightarrow> capability_decision \<Rightarrow> capability_request \<Rightarrow> robot_state_assertion \<Rightarrow> string
    \<Rightarrow> (gate_state, string) op" where
  "audit_capability_decision E d request state policy_digest_value s =
     (let (r, lg) = audit_append E
            (decision_commit E d request state policy_digest_value (gs_world s)) (gs_audit_log s)
      in (bindr r (\<lambda>event. Inr (audit_id event)),
          s\<lparr>gs_audit_log := lg, gs_world := tick (draw (gs_world s))\<rparr>))"

section \<open>The session\<close>

text \<open>The gate's state, with the shared log and the outside world in it, and the store of the decision point.\<close>

record demo_state =
  ds_gate :: gate_state
  ds_requests :: request_replay_cache

definition on_gate :: "(gate_state, 'a) op \<Rightarrow> (demo_state, 'a) op" where
  "on_gate m d = (let (r, s) = m (ds_gate d) in (r, d\<lparr>ds_gate := s\<rparr>))"

definition on_world :: "(world \<Rightarrow> 'a res \<times> world) \<Rightarrow> (demo_state, 'a) op" where
  "on_world f d =
     (let (r, w) = f (gs_world (ds_gate d)) in (r, d\<lparr>ds_gate := (ds_gate d)\<lparr>gs_world := w\<rparr>\<rparr>))"

abbreviation making :: "(world \<Rightarrow> 'a \<times> world) \<Rightarrow> (demo_state, 'a) op" where
  "making f \<equiv> on_world (\<lambda>w. (Inr (fst (f w)), snd (f w)))"

text \<open>An evaluation on the decision point's store, with a log of its own or on the shared one.\<close>

definition on_issuer :: "bool \<Rightarrow> (issuer_state, 'a) op \<Rightarrow> (demo_state, 'a) op" where
  "on_issuer own_log m d =
     (let s = ds_gate d;
          (r, t) = m \<lparr>is_cache = Some (ds_requests d),
            is_log = (if own_log then AuditLog else gs_audit_log s), is_world = gs_world s\<rparr>
      in (r, d\<lparr>ds_gate := s\<lparr>gs_audit_log := (if own_log then gs_audit_log s else is_log t),
                            gs_world := is_world t\<rparr>,
               ds_requests := the (is_cache t)\<rparr>))"

record demo_keys =
  central_key :: string
  edge_key :: string
  issuer_key :: string

definition demo_requirement_of_gate :: capability_constraint_requirement where
  "demo_requirement_of_gate = \<lparr>crq_capability = REMOTE_ASSIST, require_geofence_id = True,
     require_network_thresholds = True, require_fallback_on_degrade = True, require_max_speed_mps = False\<rparr>"

definition demo_gate_args :: "env \<Rightarrow> policy \<Rightarrow> demo_keys \<Rightarrow> gate_args" where
  "demo_gate_args E p keys =
     (let edge_keys = [EDGE_AGENT_ID \<mapsto> public_key_b64 E (edge_key keys)] in
      \<lparr>ga_issuer_public_key_b64 = public_key_b64 E (issuer_key keys), ga_local_edge_agent_id = EDGE_AGENT_ID,
       ga_trusted_issuer_ids = {ISSUER_ID}, ga_trusted_revoker_ids = {EDGE_AGENT_ID},
       ga_accepted_capabilities = Some {capability_str REMOTE_ASSIST},
       ga_accepted_policy_id = Some (policy_id p), ga_accepted_policy_digests = Some {policy_digest E p},
       ga_issuer_capability_scopes = Some [ISSUER_ID \<mapsto> {capability_str REMOTE_ASSIST}],
       ga_requirements = Some [capability_str REMOTE_ASSIST \<mapsto> demo_requirement_of_gate],
       ga_bounds = Some (policy_constraint_bounds p),
       ga_agent_public_keys_by_id = Some [CENTRAL_AGENT_ID \<mapsto> public_key_b64 E (central_key keys)],
       ga_issuer_public_keys_by_id = None, ga_revoker_public_keys_by_id = Some edge_keys,
       ga_revoker_edge_scopes_by_id = None, ga_state_public_keys_by_edge_id = Some edge_keys,
       ga_fallback_sink = None, ga_fallback_actions_by_reason = None,
       ga_max_lease_age_seconds = DEFAULT_LEASE_MAX_AGE_SECONDS,
       ga_max_lease_ttl_seconds = DEFAULT_LEASE_MAX_TTL_SECONDS,
       ga_max_state_age_seconds = DEFAULT_STATE_MAX_AGE_SECONDS,
       ga_max_command_age_seconds = DEFAULT_COMMAND_MAX_AGE_SECONDS,
       ga_max_revocation_age_seconds = DEFAULT_REVOCATION_MAX_AGE_SECONDS,
       ga_fallback_signer = None, ga_fallback_authenticated_declared_by = None\<rparr>)"

text \<open>The stores are new files of a new directory. \<^verbatim>\<open>profile\<close> refuses an unknown profile here already.\<close>

definition demo_open ::
  "env \<Rightarrow> (string set \<Rightarrow> string) \<Rightarrow> (network_profile \<Rightarrow> datetime) \<Rightarrow> policy \<Rightarrow> demo_keys \<Rightarrow> string \<Rightarrow> string
    \<Rightarrow> world \<Rightarrow> (command_gate \<times> demo_state) res" where
  "demo_open E first_of t p keys dir impaired w =
     bindr (RequestReplayCache (Some (dir @ ''/request_replay.sqlite3'')) None Map.empty) (\<lambda>requests.
     bindr (CommandReplayCache (Some (dir @ ''/command_replay.sqlite3'')) None Map.empty) (\<lambda>cache.
     bindr (RevocationStore (Some (dir @ ''/revocations.sqlite3'')) None [] []) (\<lambda>store.
     bindr (CommandGate first_of (demo_gate_args E p keys) (Some cache) (Some store) (Some AuditLog) w) (\<lambda>(g, s).
     bindr (profile t impaired) (\<lambda>_. Inr (g, \<lparr>ds_gate = s, ds_requests = requests\<rparr>))))))"

definition demo_attestation ::
  "env \<Rightarrow> string \<Rightarrow> string \<Rightarrow> string \<Rightarrow> string \<Rightarrow> string \<Rightarrow> world \<Rightarrow> agent_attestation \<times> world" where
  "demo_attestation E agent_id kind manifest_digest public_key_id key w =
     (sign_attestation E \<lparr>protocol_version = SUPPORTED_PROTOCOL_VERSION, message_id = uuid_text E ''msg_'' w,
        correlation_id = uuid_text E ''corr_'' (draw w), created_at = utc_now E w,
        fields_set = {''agent_id'', ''kind'', ''manifest_digest'', ''public_key_id'', ''trust_tier''},
        signature_alg = ED25519_SIGNATURE_ALGORITHM, signature = None, att_agent_id = agent_id,
        att_authenticated_agent_id = None, att_kind = kind, att_manifest_digest = manifest_digest,
        att_public_key_id = public_key_id, att_trust_tier = ''development'', att_revoked = False\<rparr> key,
      draw (draw (tick w)))"

text \<open>The two identities, the geofence state (which reads the clock) and the setup event.\<close>

definition demo_setup :: "env \<Rightarrow> policy \<Rightarrow> demo_keys \<Rightarrow> (demo_state, agent_attestation \<times> agent_attestation) op" where
  "demo_setup E p keys =
     bindo (making (demo_attestation E CENTRAL_AGENT_ID ''central_agent'' ''sha256:demo-central-agent-v0.1''
       ''demo-central-ed25519-non-production'' (central_key keys))) (\<lambda>central_identity.
     bindo (making (demo_attestation E EDGE_AGENT_ID ''edge_agent'' ''sha256:demo-edge-agent-v0.1''
       ''demo-edge-ed25519-non-production'' (edge_key keys))) (\<lambda>edge_identity.
     bindo (making (\<lambda>w. ((), tick w))) (\<lambda>_.
     bindo (on_gate (audit E DEMO_SETUP EDGE_AGENT_ID
        ''created local central agent, edge agent, robot, mission, geofence, and policy''
        [(''central_agent_id'', JStr CENTRAL_AGENT_ID), (''edge_agent_id'', JStr EDGE_AGENT_ID),
         (''robot_id'', JStr ROBOT_ID), (''mission_id'', JStr MISSION_ID), (''geofence_id'', JStr GEOFENCE_ID),
         (''policy_id'', JStr (policy_id p))] False)) (\<lambda>_.
       ret (central_identity, edge_identity)))))"

definition session_request :: "env \<Rightarrow> string \<Rightarrow> string \<Rightarrow> world \<Rightarrow> capability_request \<times> world" where
  "session_request E reason key w =
     (sign_request E \<lparr>protocol_version = SUPPORTED_PROTOCOL_VERSION, message_id = uuid_text E ''msg_'' w,
        correlation_id = CORRELATION_ID, created_at = utc_now E w,
        fields_set = {''correlation_id'', ''requesting_agent_id'', ''authenticated_agent_id'', ''edge_agent_id'',
          ''robot_id'', ''mission_id'', ''capability'', ''reason'', ''requested_duration_seconds''},
        signature_alg = ED25519_SIGNATURE_ALGORITHM, signature = None,
        rq_requesting_agent_id = CENTRAL_AGENT_ID, rq_authenticated_agent_id = Some CENTRAL_AGENT_ID,
        rq_edge_agent_id = EDGE_AGENT_ID, rq_robot_id = ROBOT_ID, rq_mission_id = MISSION_ID,
        rq_capability = REMOTE_ASSIST, rq_reason = reason, rq_requested_duration_seconds = 600,
        rq_requested_constraints = None, rq_request_nonce = uuid_text E ''nonce_'' (draw w)\<rparr> key,
      draw (draw (tick w)))"

definition session_checks :: "env \<Rightarrow> policy \<Rightarrow> demo_keys \<Rightarrow> policy_checks" where
  "session_checks E p keys =
     \<lparr>pc_agent_public_keys_by_id = [CENTRAL_AGENT_ID \<mapsto> public_key_b64 E (central_key keys)],
      pc_edge_public_keys_by_id = [EDGE_AGENT_ID \<mapsto> public_key_b64 E (edge_key keys)],
      pc_accepted_policy_digests = {policy_digest E p},
      pc_max_request_age_seconds = DEFAULT_REQUEST_MAX_AGE_SECONDS,
      pc_max_state_age_seconds = DEFAULT_STATE_MAX_AGE_SECONDS\<rparr>"

definition session_decision ::
  "env \<Rightarrow> policy \<Rightarrow> capability_request \<Rightarrow> outcome \<Rightarrow> capability_lease option \<Rightarrow> string \<Rightarrow> world
    \<Rightarrow> capability_decision \<times> world" where
  "session_decision E p request out lease recorded_as w =
     (case out of (decision, reason, alternatives, _) \<Rightarrow>
       (\<lparr>protocol_version = SUPPORTED_PROTOCOL_VERSION, message_id = uuid_text E ''msg_'' w,
         correlation_id = correlation_id request, created_at = utc_now E w,
         fields_set = {''correlation_id'', ''request_id'', ''decision'', ''reason_code'', ''deciding_actor_id'',
           ''policy_id'', ''policy_digest'', ''lease'', ''safe_alternatives'', ''audit_id''},
         signature_alg = ED25519_SIGNATURE_ALGORITHM, signature = None, dec_request_id = message_id request,
         dec_decision = decision, dec_reason_code = reason, dec_deciding_actor_id = ISSUER_ID,
         dec_policy_id = Some (policy_id p), dec_policy_digest = Some (policy_digest E p), dec_lease = lease,
         dec_safe_alternatives = alternatives, dec_audit_id = recorded_as\<rparr>,
        tick (draw w)))"

text \<open>The request under the normal network: the decision, and the lease when it is to allow.\<close>

definition demo_grant ::
  "env \<Rightarrow> (network_profile \<Rightarrow> datetime) \<Rightarrow> policy \<Rightarrow> demo_keys
    \<Rightarrow> (demo_state, robot_state_assertion \<times> capability_decision) op" where
  "demo_grant E t p keys =
     bindo (making (session_request E ''low-confidence obstacle negotiation'' (central_key keys))) (\<lambda>request.
     bindo (on_gate (audit E CAPABILITY_REQUESTED (rq_requesting_agent_id request)
        ''central agent requested remote_assist'' (request_dump E request) True)) (\<lambda>_.
     bindo (on_world (make_state E t ''normal'' (edge_key keys))) (\<lambda>normal_state.
     bindo (on_gate (audit E NETWORK_STATE_ASSERTED EDGE_AGENT_ID
        ''normal network state observed for remote_assist request'' (robot_state_dump E normal_state) True)) (\<lambda>_.
     bindo (on_issuer True (evaluate_policy E (session_checks E p keys) ISSUER_ID request normal_state p None None))
       (\<lambda>(out, _).
     bindo (case out of
         (ALLOW, _, _, Some constraints) \<Rightarrow>
           bindo (on_world (issue_lease E request constraints ISSUER_ID (issuer_key keys) (lease_ttl_seconds p)
             (policy_id p) (policy_digest E p))) (\<lambda>l. ret (Some l))
       | _ \<Rightarrow> ret None) (\<lambda>lease.
     bindo (making (\<lambda>w. (uuid_text E ''audit_'' w, draw w))) (\<lambda>recorded_as.
     bindo (making (session_decision E p request out lease recorded_as)) (\<lambda>cap_decision.
     bindo (on_gate (audit_capability_decision E cap_decision request normal_state (policy_digest E p))) (\<lambda>_.
       ret (normal_state, cap_decision))))))))))"

text \<open>The same request under the impaired network; its evaluation is recorded in the shared log.\<close>

definition demo_impaired ::
  "env \<Rightarrow> (network_profile \<Rightarrow> datetime) \<Rightarrow> policy \<Rightarrow> demo_keys \<Rightarrow> string
    \<Rightarrow> (demo_state, robot_state_assertion \<times> capability_decision) op" where
  "demo_impaired E t p keys impaired =
     bindo (on_world (make_state E t impaired (edge_key keys))) (\<lambda>degraded_state.
     bindo (on_gate (audit E NETWORK_STATE_ASSERTED EDGE_AGENT_ID
        (''network profile changed to '' @ impaired) (robot_state_dump E degraded_state) True)) (\<lambda>_.
     bindo (making (session_request E ''network impairment authority reevaluation'' (central_key keys)))
       (\<lambda>degraded_request.
     bindo (on_gate (audit E CAPABILITY_REQUESTED (rq_requesting_agent_id degraded_request)
        ''central agent requested remote_assist after network impairment'' (request_dump E degraded_request) True)) (\<lambda>_.
     bindo (on_issuer False (evaluate_policy E (session_checks E p keys) ISSUER_ID degraded_request degraded_state p
        None None)) (\<lambda>(out, event).
     bindo (making (session_decision E p degraded_request out None (audit_id event))) (\<lambda>cap_decision.
       ret (degraded_state, cap_decision)))))))"

definition impaired_fallback :: "capability_decision \<Rightarrow> fallback_action" where
  "impaired_fallback d = (case dec_safe_alternatives d of [] \<Rightarrow> CRAWL_TO_SAFE_ZONE | a # _ \<Rightarrow> a)"

definition session_revocation ::
  "env \<Rightarrow> capability_lease \<Rightarrow> fallback_action \<Rightarrow> string \<Rightarrow> world \<Rightarrow> lease_revocation \<times> world" where
  "session_revocation E lease action key w =
     (sign_revocation E \<lparr>protocol_version = SUPPORTED_PROTOCOL_VERSION, message_id = uuid_text E ''msg_'' w,
        correlation_id = CORRELATION_ID, created_at = utc_now E w,
        fields_set = {''correlation_id'', ''lease_id'', ''revoked_by'', ''edge_agent_id'', ''reason_code'',
          ''fallback_action'', ''robot_id'', ''mission_id'', ''capability''},
        signature_alg = ED25519_SIGNATURE_ALGORITHM, signature = None, rev_lease_id = lease_id lease,
        rev_revoked_by = EDGE_AGENT_ID, rev_edge_agent_id = EDGE_AGENT_ID,
        rev_reason_code = ''NETWORK_PROFILE_REVOKE'', rev_revoked_at = utc_now E (tick w),
        rev_fallback_action = action, rev_robot_id = Some ROBOT_ID, rev_mission_id = Some MISSION_ID,
        rev_capability = Some REMOTE_ASSIST\<rparr> key,
      draw (tick (tick w)))"

text \<open>The block under \<^verbatim>\<open>if lease\<close>; the assertion is the source's own.\<close>

definition demo_revoke ::
  "env \<Rightarrow> command_gate \<Rightarrow> demo_keys \<Rightarrow> capability_lease option \<Rightarrow> fallback_action
    \<Rightarrow> (demo_state, lease_revocation option) op" where
  "demo_revoke E g keys lease action =
     (case lease of
        None \<Rightarrow> ret None
      | Some l \<Rightarrow>
          bindo (making (session_revocation E l action (edge_key keys))) (\<lambda>revocation.
          bindo (on_gate (revoke E g (Revocation revocation) (Some l) None)) (\<lambda>revocation_fallback.
            if revocation_fallback = None then raise AssertionError else ret (Some revocation))))"

definition demo_command_result ::
  "env \<Rightarrow> command_gate \<Rightarrow> demo_keys \<Rightarrow> string \<Rightarrow> capability_lease option \<Rightarrow> robot_state_assertion
    \<Rightarrow> (demo_state, gate_result) op" where
  "demo_command_result E g keys prefix lease state =
     bindo (making (make_command E prefix (central_key keys))) (\<lambda>command.
       on_gate (evaluate E g command lease (Some state) None))"

text \<open>What is printed, in order. The last entry is the text of the replay, or what computing it raised.\<close>

record demo_output =
  do_identities :: "agent_attestation \<times> agent_attestation"
  do_normal_decision :: capability_decision
  do_valid_lease :: gate_result
  do_no_lease :: dump
  do_no_lease_result :: gate_result
  do_impaired_decision :: capability_decision
  do_revocation :: "lease_revocation option"
  do_after_revocation :: dump
  do_after_revocation_result :: gate_result
  do_events :: "audit_commit list"
  do_replay_summary :: "string res"

definition demo_session ::
  "env \<Rightarrow> command_gate \<Rightarrow> (network_profile \<Rightarrow> datetime) \<Rightarrow> policy \<Rightarrow> demo_keys \<Rightarrow> string
    \<Rightarrow> (demo_state, demo_output) op" where
  "demo_session E g t p keys impaired =
     bindo (demo_setup E p keys) (\<lambda>identities.
     bindo (demo_grant E t p keys) (\<lambda>(normal_state, cap_decision).
     let lease = dec_lease cap_decision in
     bindo (demo_command_result E g keys ''cmd_valid_lease'' lease normal_state) (\<lambda>gate_result.
     bindo (demo_command_result E g keys ''cmd_no_lease'' None normal_state) (\<lambda>no_lease_result.
     bindo (demo_impaired E t p keys impaired) (\<lambda>(degraded_state, degraded_decision).
     let action = impaired_fallback degraded_decision in
     bindo (demo_revoke E g keys lease action) (\<lambda>revocation.
     bindo (demo_command_result E g keys ''cmd_after_revocation'' lease degraded_state) (\<lambda>revoked_result.
     bindo (gets (\<lambda>d. gs_audit_log (ds_gate d))) (\<lambda>log.
       ret \<lparr>do_identities = identities, do_normal_decision = cap_decision, do_valid_lease = gate_result,
            do_no_lease = command_denial_payload E ''command without a valid lease was rejected''
              (or_str (gr_audit_id no_lease_result) []) no_lease_result [LOCAL_AUTONOMY_ONLY] None,
            do_no_lease_result = no_lease_result, do_impaired_decision = degraded_decision,
            do_revocation = revocation,
            do_after_revocation = command_denial_payload E
              (''command after network-profile revocation rejected: '' @ gr_reason_code revoked_result)
              (or_str (gr_audit_id revoked_result) []) revoked_result [action] (Some 30),
            do_after_revocation_result = revoked_result, do_events = events log,
            do_replay_summary = replay_summary log\<rparr>))))))))"

definition demo_main ::
  "env \<Rightarrow> (string set \<Rightarrow> string) \<Rightarrow> (network_profile \<Rightarrow> datetime) \<Rightarrow> policy \<Rightarrow> demo_keys \<Rightarrow> string \<Rightarrow> string
    \<Rightarrow> world \<Rightarrow> (demo_output \<times> demo_state) res" where
  "demo_main E first_of t p keys dir impaired w =
     bindr (demo_open E first_of t p keys dir impaired w) (\<lambda>(g, d).
       case demo_session E g t p keys impaired d of
         (Inl e, _) \<Rightarrow> Inl e
       | (Inr out, d') \<Rightarrow> Inr (out, d'))"

section \<open>What a session keeps\<close>

text \<open>Revoked leases stay revoked and the shared log stays a chain.\<close>

definition session_progress :: "env \<Rightarrow> demo_state \<Rightarrow> demo_state \<Rightarrow> bool" where
  "session_progress E d d' \<longleftrightarrow>
     dom (gs_revocations (ds_gate d)) \<subseteq> dom (gs_revocations (ds_gate d')) \<and>
     (log_ok E (gs_audit_log (ds_gate d)) \<longrightarrow> log_ok E (gs_audit_log (ds_gate d')))"

interpretation session: effect_relation "session_progress E" for E
  by unfold_locales (auto simp: session_progress_def)

lemma on_gate_keeps: "keeps (gate_progress E) m \<Longrightarrow> keeps (session_progress E) (on_gate m)"
  by (auto simp: keeps_def on_gate_def session_progress_def gate_progress_def case_prod_beta)

lemma on_world_keeps: "keeps (session_progress E) (on_world f)"
  by (rule keepsI) (auto simp: on_world_def session_progress_def split: prod.splits)

lemma on_issuer_keeps: "keeps (issuer_progress E) m \<Longrightarrow> keeps (session_progress E) (on_issuer own m)"
  by (auto simp: keeps_def on_issuer_def session_progress_def issuer_progress_def Let_def case_prod_beta)

lemma audit_keeps: "keeps (gate_progress E) (audit E ty actor summary payload auth)"
  unfolding audit_def by (intro gate.keeps_rules gate_record_keeps)

lemma audit_decision_keeps: "keeps (session_progress E) (on_gate (audit_capability_decision E d rq s dg))"
  by (rule keepsI) (auto simp: on_gate_def audit_capability_decision_def session_progress_def Let_def
      split: prod.splits dest: audit_append_log_ok)

lemma session_keeps_outcome:
  "keeps R (case out of (ALLOW, _, _, Some c) \<Rightarrow> m c | _ \<Rightarrow> k)"
  if "\<And>c. keeps R (m c)" "keeps R k"
  using that by (auto split: prod.splits decision.splits option.splits)

lemmas session_rules = session.keeps_rules on_world_keeps on_gate_keeps on_issuer_keeps audit_keeps
  audit_decision_keeps evaluate_policy_keeps evaluate_keeps revoke_keeps session_keeps_outcome

lemma session_phases_keep:
  "keeps (session_progress E) (demo_setup E p keys)"
  "keeps (session_progress E) (demo_grant E t p keys)"
  "keeps (session_progress E) (demo_impaired E t p keys impaired)"
  "keeps (session_progress E) (demo_revoke E g keys lease action)"
  "keeps (session_progress E) (demo_command_result E g keys prefix lease state)"
  unfolding demo_setup_def demo_grant_def demo_impaired_def demo_revoke_def demo_command_result_def
  by (intro session_rules)+

lemma demo_session_keeps: "keeps (session_progress E) (demo_session E g t p keys impaired)"
  unfolding demo_session_def Let_def by (intro session.keeps_rules session_phases_keep)

section \<open>What a session shows\<close>

lemma on_gate_Inr: "on_gate m d = (Inr a, d') \<longleftrightarrow> (\<exists>s. m (ds_gate d) = (Inr a, s) \<and> d' = d\<lparr>ds_gate := s\<rparr>)"
  by (auto simp: on_gate_def split: prod.splits)

lemma command_result_allowed:
  assumes "demo_command_result E g keys prefix lease state d = (Inr r, d')" and "gr_allowed r"
  shows "\<exists>l. lease = Some l \<and> lease_id l \<notin> dom (gs_revocations (ds_gate d))"
proof -
  from assms(1) obtain cmd w s where
    "evaluate E g cmd lease (Some state) None ((ds_gate d)\<lparr>gs_world := w\<rparr>) = (Inr r, s)"
    by (auto simp: demo_command_result_def res_simps on_gate_Inr on_world_def)
  from evaluate_allowed_lease [OF this assms(2)] show ?thesis by simp
qed

lemma command_result_recorded:
  assumes "demo_command_result E g keys prefix lease state d = (Inr r, d')"
  shows "events (gs_audit_log (ds_gate d')) \<noteq> []"
proof -
  from assms obtain cmd u s where "evaluate E g cmd lease (Some state) None u = (Inr r, s)" "ds_gate d' = s"
    by (auto simp: demo_command_result_def res_simps on_gate_Inr on_world_def)
  with evaluate_records have "on_record u r (ds_gate d')" by (metis records_answer_def)
  then show ?thesis by (auto simp: on_record_def)
qed

lemma demo_revoke_effective:
  assumes "demo_revoke E g keys (Some l) action d = (Inr rv, d')"
  shows "lease_id l \<in> dom (gs_revocations (ds_gate d'))"
proof -
  let ?rv = "fst (session_revocation E l action (edge_key keys) (gs_world (ds_gate d)))"
  have id: "rev_lease_id ?rv = lease_id l"
    by (simp add: session_revocation_def sign_revocation_def Let_def)
  from assms obtain w a s where run: "revoke E g (Revocation ?rv) (Some l) None
      ((ds_gate d)\<lparr>gs_world := w\<rparr>) = (Inr a, s)" "a \<noteq> None" "ds_gate d' = s"
    by (auto simp: demo_revoke_def res_simps on_gate_Inr on_world_def split: if_splits)
  with revoke_revokes [of E g None ?rv l] have "gs_revocations s (lease_id l) \<noteq> None"
    unfolding revokes_if_def id by fastforce
  with run(3) show ?thesis by auto
qed

lemma demo_grant_lease:
  assumes "demo_grant E t p keys d = (Inr (st, dec), d')" and "dec_lease dec \<noteq> None"
  shows "dec_decision dec = ALLOW"
proof -
  from assms obtain d1 out x d2 d3 d4 lease rq ra where
    l: "(case out of (ALLOW, _, _, Some constraints) \<Rightarrow>
           bindo (on_world (issue_lease E rq constraints ISSUER_ID (issuer_key keys) (lease_ttl_seconds p)
             (policy_id p) (policy_digest E p))) (\<lambda>l. ret (Some l))
       | _ \<Rightarrow> ret None) d1 = (Inr lease, d2)"
    and dec: "making (session_decision E p rq out lease ra) d3 = (Inr dec, d4)"
    by (auto simp: demo_grant_def res_simps)
  from dec have "dec_lease dec = lease" "dec_decision dec = fst out"
    by (auto simp: on_world_def session_decision_def split: prod.splits)
  with l assms(2) show ?thesis by (auto split: prod.splits decision.splits option.splits)
qed

text \<open>The parts of a session that returned, in order.\<close>

lemma demo_session_InrE:
  assumes "demo_session E g t p keys impaired d = (Inr out, d')"
  obtains d1 d2 d3 d4 d5 d6 nst dst where "demo_setup E p keys d = (Inr (do_identities out), d1)"
    "demo_grant E t p keys d1 = (Inr (nst, do_normal_decision out), d2)"
    "demo_command_result E g keys ''cmd_valid_lease'' (dec_lease (do_normal_decision out)) nst d2 =
       (Inr (do_valid_lease out), d3)"
    "demo_command_result E g keys ''cmd_no_lease'' None nst d3 = (Inr (do_no_lease_result out), d4)"
    "demo_impaired E t p keys impaired d4 = (Inr (dst, do_impaired_decision out), d5)"
    "demo_revoke E g keys (dec_lease (do_normal_decision out)) (impaired_fallback (do_impaired_decision out)) d5 =
       (Inr (do_revocation out), d6)"
    "demo_command_result E g keys ''cmd_after_revocation'' (dec_lease (do_normal_decision out)) dst d6 =
       (Inr (do_after_revocation_result out), d')"
    "do_events out = events (gs_audit_log (ds_gate d'))"
  using assms by (auto simp: demo_session_def Let_def res_simps)

lemma demo_main_Inr:
  "demo_main E first_of t p keys dir impaired w = Inr (out, d) \<longleftrightarrow>
     (\<exists>g d0. demo_open E first_of t p keys dir impaired w = Inr (g, d0) \<and>
        demo_session E g t p keys impaired d0 = (Inr out, d))"
proof -
  have "(case x of (Inl e, _) \<Rightarrow> Inl e | (Inr o', d') \<Rightarrow> Inr (o', d')) = Inr (out, d) \<longleftrightarrow> x = (Inr out, d)"
    for x :: "demo_output res \<times> demo_state"
    by (cases x; cases "fst x") auto
  then show ?thesis by (simp add: demo_main_def bindr_Inr_iff)
qed

text \<open>The network state of a profile keeps the observation time of its import.\<close>

lemma profile_observed: "profile t name = Inr n \<Longrightarrow> \<exists>p. net_observed_at n = t p"
  by (auto simp: profile_def PROFILES_def profile_state_def split: option.splits if_splits)

section \<open>What a session shows\<close>

text \<open>
  Under every policy, environment and impaired profile: whenever the session runs to its end, the command without a lease and the command after the impairment are
  refused; a command is allowed before it only under a lease granted by an ALLOW decision, which is
  revoked at the end; and the recorded events are a chain that the batch validator accepts.
\<close>

lemma session_refuses_unauthorized:
  assumes "demo_main E first_of t p keys dir impaired w = Inr (out, d)"
  shows "\<not> gr_allowed (do_no_lease_result out) \<and> \<not> gr_allowed (do_after_revocation_result out) \<and>
    (gr_allowed (do_valid_lease out) \<longrightarrow>
       (\<exists>l. dec_lease (do_normal_decision out) = Some l \<and> dec_decision (do_normal_decision out) = ALLOW \<and>
          lease_id l \<in> dom (gs_revocations (ds_gate d)))) \<and>
    audit_batch_chain_violation E (do_events out) = None"
proof -
  from assms obtain g d0 where opn: "demo_open E first_of t p keys dir impaired w = Inr (g, d0)"
    and run: "demo_session E g t p keys impaired d0 = (Inr out, d)"
    by (auto simp: demo_main_Inr)
  have log0: "log_ok E (gs_audit_log (ds_gate d0))"
    using opn AuditLog_ok(1) by (auto simp: demo_open_def res_simps CommandGate_def split: option.splits)
  from run show ?thesis
  proof (rule demo_session_InrE)
    fix d1 d2 d3 d4 d5 d6 nst dst
    assume grant: "demo_grant E t p keys d1 = (Inr (nst, do_normal_decision out), d2)"
      and valid: "demo_command_result E g keys ''cmd_valid_lease'' (dec_lease (do_normal_decision out)) nst d2 =
        (Inr (do_valid_lease out), d3)"
      and none: "demo_command_result E g keys ''cmd_no_lease'' None nst d3 = (Inr (do_no_lease_result out), d4)"
      and rev: "demo_revoke E g keys (dec_lease (do_normal_decision out))
        (impaired_fallback (do_impaired_decision out)) d5 = (Inr (do_revocation out), d6)"
      and after: "demo_command_result E g keys ''cmd_after_revocation'' (dec_lease (do_normal_decision out)) dst d6 =
        (Inr (do_after_revocation_result out), d)"
      and ev: "do_events out = events (gs_audit_log (ds_gate d))"
    have revoked: "lease_id l \<in> dom (gs_revocations (ds_gate d6))"
      if "dec_lease (do_normal_decision out) = Some l" for l
      using rev unfolding that by (rule demo_revoke_effective)
    have "lease_id l \<in> dom (gs_revocations (ds_gate d))"
      if "dec_lease (do_normal_decision out) = Some l" for l
      using keepsD [OF session_phases_keep(5) after] revoked [OF that] by (auto simp: session_progress_def)
    moreover have "\<not> gr_allowed (do_no_lease_result out)"
      using command_result_allowed [OF none] by blast
    moreover have "\<not> gr_allowed (do_after_revocation_result out)"
      using command_result_allowed [OF after] revoked by blast
    moreover have "log_ok E (gs_audit_log (ds_gate d))"
      using keepsD [OF demo_session_keeps run] log0 by (simp add: session_progress_def)
    moreover have "do_events out \<noteq> []"
      using command_result_recorded [OF after] ev by simp
    ultimately show ?thesis
      using command_result_allowed [OF valid] demo_grant_lease [OF grant]
      by (auto simp: batch_chain_accepts log_ok_def ev)
  qed
qed

section \<open>Properties\<close>

text \<open>
  C38. States made from a network profile expire with the process: \<open>make_state\<close> copies the state of the
  profile with the time it was built at import, so later than the allowed age and skew after the import
  the robot state it makes is refused, however fresh its own timestamps are.
\<close>

theorem profile_states_expire:
  assumes "make_state E t name key w = (Inr s, w')"
    and "\<And>p. (max_age + STATE_CLOCK_SKEW_SECONDS) * 1000000 < instant now - instant (t p)"
  shows "state_time_violation max_age now s \<noteq> Inr None"
proof -
  from assms(1) obtain n where n: "profile t name = Inr n" "st_network_state s = n"
    by (auto simp: make_state_def Let_def split: sum.splits)
  then obtain p where "net_observed_at (st_network_state s) = t p" using profile_observed by metis
  then have "t p \<in> set (state_timestamps s)" by (simp add: state_timestamps_def)
  from state_fresh.expiry_is_final [OF this assms(2)] show ?thesis by simp
qed

end
