(* ===== verification/Session_Scenario.thy ===== *)
theory Session_Scenario
  imports Issuance_Scenario Remote_Assist
begin

text \<open>
  The demonstration run on the environment of the scenario, with the policy of
  \<^verbatim>\<open>examples/policies/remote_assist_policy.yaml\<close>: the lease is granted, the first command is allowed, the
  network degrades, the lease is revoked and the last command is refused. The run is put together from
  one lemma per phase in a small logic of total correctness.
\<close>

section \<open>The deployment\<close>

definition session_policy :: policy where
  "session_policy = \<lparr>policy_id = ''remote-assist-authority-v0'', policy_capability = REMOTE_ASSIST,
     lease_ttl_seconds = 600,
     requirements = \<lparr>allowed_agents = [CENTRAL_AGENT_ID], allowed_edge_agents = [EDGE_AGENT_ID],
       allowed_robots = [ROBOT_ID], allowed_missions = [MISSION_ID], pr_max_speed_mps = None,
       geofence_required = True, pr_geofence_id = Some GEOFENCE_ID, geofence_allowed = True,
       pr_human_operator_available = True, control_plane_required = False,
       control_plane_must_be_reachable = True,
       network = \<lparr>nr_max_latency_ms_p95 = Fin 80, nr_max_packet_loss_pct = Fin 1, nr_min_uplink_mbps = Fin 3,
         deny_above_latency_ms_p95 = Fin 250, deny_above_packet_loss_pct = Fin 10,
         deny_below_uplink_mbps = Fin 0.8\<rparr>\<rparr>,
     fallback = \<lparr>on_deny = LOCAL_AUTONOMY_ONLY, on_network_degrade = CRAWL_TO_SAFE_ZONE,
       on_disconnect = LOCAL_AUTONOMY_ONLY, on_expiry = REVOKE_REMOTE_ASSIST\<rparr>\<rparr>"

definition session_keys :: demo_keys where
  "session_keys = \<lparr>central_key = ''key'', edge_key = ''key'', issuer_key = ''key''\<rparr>"

definition session_gate :: command_gate where
  "session_gate = gate_of_args the_elem (demo_gate_args demo_env session_policy session_keys)"

definition session_requests :: request_replay_cache where
  "session_requests = \<lparr>rc_store_path = Some ''demo/request_replay.sqlite3'', rc_durable = True,
     rc_seen_request_nonces = {}, rc_table = Map.empty\<rparr>"

lemmas party_defs = CORRELATION_ID_def CENTRAL_AGENT_ID_def EDGE_AGENT_ID_def ROBOT_ID_def MISSION_ID_def
  GEOFENCE_ID_def ISSUER_ID_def

lemma session_gate_selectors [demo_simps]:
  "local_edge_agent_id session_gate = EDGE_AGENT_ID"
  "agent_public_keys_by_id session_gate = [CENTRAL_AGENT_ID \<mapsto> demo_key]"
  "issuer_public_key_b64 session_gate = demo_key" "trusted_issuer_ids session_gate = {ISSUER_ID}"
  "accepted_capabilities session_gate = {''remote_assist''}"
  "accepted_policy_id session_gate = ''remote-assist-authority-v0''"
  "accepted_policy_digests session_gate = {''sha256:00''}"
  "issuer_capability_scopes session_gate = [ISSUER_ID \<mapsto> {''remote_assist''}]"
  "capability_constraint_requirements session_gate = [''remote_assist'' \<mapsto> demo_requirement_of_gate]"
  "capability_constraint_bounds_by_id session_gate = policy_constraint_bounds session_policy"
  "issuer_public_keys_by_id session_gate = [ISSUER_ID \<mapsto> demo_key]"
  "trusted_revoker_ids session_gate = {EDGE_AGENT_ID}"
  "revoker_public_keys_by_id session_gate = [EDGE_AGENT_ID \<mapsto> demo_key]"
  "revoker_edge_scopes_by_id session_gate EDGE_AGENT_ID = Some {EDGE_AGENT_ID}"
  "state_public_keys_by_edge_id session_gate = [EDGE_AGENT_ID \<mapsto> demo_key]"
  "max_lease_age_seconds session_gate = 600" "max_lease_ttl_seconds session_gate = 600"
  "max_state_age_seconds session_gate = 30" "max_command_age_seconds session_gate = 30"
  "max_revocation_age_seconds session_gate = 300"
  "fallback_signer session_gate = None" "fallback_sink session_gate = None"
  by (simp_all add: session_gate_def gate_of_args_def demo_gate_args_def or_map_def revoker_scopes_def Let_def
      session_keys_def session_policy_def demo_simps
      DEFAULT_LEASE_MAX_AGE_SECONDS_def DEFAULT_LEASE_MAX_TTL_SECONDS_def DEFAULT_STATE_MAX_AGE_SECONDS_def
      DEFAULT_COMMAND_MAX_AGE_SECONDS_def DEFAULT_REVOCATION_MAX_AGE_SECONDS_def)

lemma session_not_blank [demo_simps]:
  "\<not> py_blank ''remote-assist-authority-v0''" "\<not> py_blank EDGE_AGENT_ID" "\<not> py_blank CENTRAL_AGENT_ID"
  by (simp_all add: ascii_space_def two_byte_space_def three_byte_space_def party_defs)

lemma session_hooks: "fallback_hooks_ok session_gate"
  by (simp add: fallback_hooks_ok_def demo_simps)

definition session_at :: "nat \<Rightarrow> replay_key set \<Rightarrow> request_replay_cache \<Rightarrow> demo_state \<Rightarrow> bool" where
  "session_at n K c d \<longleftrightarrow>
     gate_ok demo_env (ds_gate d) \<and> uuid_draws (gs_world (ds_gate d)) \<le> n \<and> used_keys (ds_gate d) = K \<and>
     gs_revocations (ds_gate d) = Map.empty \<and> rs_messages (gs_revocation_store (ds_gate d)) = [] \<and>
     ds_requests d = c"

lemma session_opens:
  obtains d where "demo_open demo_env the_elem (\<lambda>_. demo_time) session_policy session_keys ''demo''
      ''degraded_teleop'' demo_world = Inr (session_gate, d)"
    "session_at 0 {} session_requests d"
proof -
  let ?a = "demo_gate_args demo_env session_policy session_keys"
  obtain c where c: "CommandReplayCache (Some ''demo/command_replay.sqlite3'') None Map.empty = Inr c"
    "command_cache_durable c" "cc_entries c = Map.empty"
    by (simp add: CommandReplayCache_def command_cache_durable_def)
  obtain st where st: "RevocationStore (Some ''demo/revocations.sqlite3'') None [] [] = Inr st"
    "revocation_store_durable st" "load_all st = Map.empty" "rs_messages st = []"
    by (simp add: RevocationStore_def revocation_store_durable_def load_all_def)
  have "gate_args_violation ?a (Some c) (Some st) = None"
    using c(2) st(2) by (simp add: gate_args_violation_def demo_gate_args_def Let_def falsy_set_def
        demo_requirement_of_gate_def policy_constraint_bounds_def session_policy_def session_keys_def demo_simps
        del: py_blank.simps)
  then obtain s where gate: "CommandGate the_elem ?a (Some c) (Some st) (Some AuditLog) demo_world =
      Inr (session_gate, s)"
    by (simp add: CommandGate_def session_gate_def)
  have "gate_ok demo_env s" by (rule CommandGate_ok [OF gate]) (simp add: AuditLog_ok)
  moreover have "\<exists>n. profile (\<lambda>_. demo_time) ''degraded_teleop'' = Inr n"
    by (simp add: profile_def network_profile_of_str_def PROFILES_def)
  ultimately show thesis
    using c st gate CommandGate_Inr [OF gate]
    by (intro that [of "\<lparr>ds_gate = s, ds_requests = session_requests\<rparr>"])
      (auto simp: demo_open_def session_at_def used_keys_def RequestReplayCache_def session_requests_def
        demo_world_def)
qed

section \<open>The messages\<close>

abbreviation short :: "world \<Rightarrow> bool" where
  "short w \<equiv> uuid_draws w \<le> 100"

lemma demo_uuid_length [demo_simps]:
  "length (uuid_text demo_env pre w) = length pre + uuid_draws w"
  by (simp add: uuid_text_def demo_env_def)

lemma session_profiles:
  "profile (\<lambda>_. demo_time) ''normal'' = Inr (profile_state NORMAL True 45 0.1 8 demo_time)"
  "profile (\<lambda>_. demo_time) ''degraded_teleop'' = Inr (profile_state DEGRADED_TELEOP True 180 3.5 1 demo_time)"
  by (simp_all add: profile_def network_profile_of_str_def PROFILES_def)

definition session_state :: "network_state \<Rightarrow> world \<Rightarrow> robot_state_assertion" where
  "session_state n w = \<lparr>protocol_version = SUPPORTED_PROTOCOL_VERSION, message_id = uuid_text demo_env ''msg_'' w,
     correlation_id = CORRELATION_ID, created_at = demo_time,
     fields_set = {''correlation_id'', ''robot_id'', ''edge_agent_id'', ''authenticated_edge_agent_id'',
       ''mission_id'', ''safety_state'', ''network_state'', ''geofence_state'',
       ''human_operator_available'', ''signature_alg'', ''signature''},
     signature_alg = ED25519_SIGNATURE_ALGORITHM, signature = Some demo_sig, st_robot_id = ROBOT_ID,
     st_edge_agent_id = EDGE_AGENT_ID, st_authenticated_edge_agent_id = Some EDGE_AGENT_ID,
     st_mission_id = MISSION_ID, st_safety_state = NOMINAL, st_network_state = n,
     st_geofence_state = \<lparr>gf_geofence_id = GEOFENCE_ID, inside = True, verified_at = demo_time\<rparr>,
     st_observed_at = demo_time, st_human_operator_available = True\<rparr>"

lemma session_make_state:
  assumes "profile (\<lambda>_. demo_time) name = Inr n"
  shows "make_state demo_env (\<lambda>_. demo_time) name ''key'' w =
    (Inr (session_state n (tick w)), draw (tick (tick (tick w))))"
  by (simp add: make_state_def assms session_state_def Let_def demo_simps)

abbreviation "normal_net \<equiv> profile_state NORMAL True 45 0.1 8 demo_time"
abbreviation "degraded_net \<equiv> profile_state DEGRADED_TELEOP True 180 3.5 1 demo_time"

lemmas budget_defs = budget_exceeded_def Let_def MAX_SIGNED_TEXT_FIELD_BYTES_def MAX_SIGNED_TEXT_TOTAL_BYTES_def
  SUPPORTED_PROTOCOL_VERSION_def ED25519_SIGNATURE_ALGORITHM_def ED25519_SIGNATURE_B64_MAX_TEXT_BYTES_def

lemma session_repr_values [demo_simps]:
  "demo_repr 8 = ''8.1''" "demo_repr 45 = ''45.1''" "demo_repr 80 = ''80.1''" "demo_repr 180 = ''180.1''"
  "demo_repr (1 / 10) = ''1.10''" "demo_repr (7 / 2) = ''7.2''"
  by (simp_all add: demo_repr_def) (code_simp+)

lemma session_state_selectors [demo_simps]:
  "protocol_version (session_state n w) = SUPPORTED_PROTOCOL_VERSION"
  "signature_alg (session_state n w) = ED25519_SIGNATURE_ALGORITHM" "signature (session_state n w) = Some demo_sig"
  "st_edge_agent_id (session_state n w) = EDGE_AGENT_ID" "st_robot_id (session_state n w) = ROBOT_ID"
  "st_authenticated_edge_agent_id (session_state n w) = Some EDGE_AGENT_ID"
  "st_mission_id (session_state n w) = MISSION_ID" "st_network_state (session_state n w) = n"
  "st_geofence_state (session_state n w) = \<lparr>gf_geofence_id = GEOFENCE_ID, inside = True, verified_at = demo_time\<rparr>"
  "st_human_operator_available (session_state n w)" "''signature_alg'' \<in> fields_set (session_state n w)"
  by (simp_all add: session_state_def)

lemma session_state_authentic:
  assumes "short w" and "required \<subseteq> {''safety_state'', ''human_operator_available'', ''signature_alg''}"
  shows "state_auth_violation demo_env required [EDGE_AGENT_ID \<mapsto> demo_key] (session_state normal_net w) = None"
proof -
  have "\<not> robot_state_signed_material_too_large demo_env (session_state normal_net w)"
    using assms(1) by (simp add: robot_state_signed_material_too_large_def robot_state_texts_def budget_defs
        session_state_def profile_state_def bool_str_def party_defs demo_simps)
  moreover have "required \<subseteq> fields_set (session_state normal_net w)"
    by (rule subset_trans [OF assms(2)]) (simp add: session_state_def)
  moreover have "\<not> network_state_required_fields_missing normal_net"
    by (simp add: network_state_required_fields_missing_def NETWORK_STATE_REQUIRED_WIRE_FIELDS_def profile_state_def)
  ultimately show ?thesis
    by (simp add: state_auth_violation_def guardv_def signature_algorithm_violation_def demo_simps)
qed

lemma session_state_fresh:
  assumes "n = normal_net \<or> n = degraded_net"
  shows "state_time_violation 30 demo_time (session_state n w) = Inr None"
  using assms by (intro state_fresh.complete) (auto simp: state_timestamps_def STATE_CLOCK_SKEW_SECONDS_def
      session_state_def profile_state_def demo_simps)

abbreviation session_ask :: "string \<Rightarrow> world \<Rightarrow> capability_request" where
  "session_ask reason w \<equiv> fst (session_request demo_env reason ''key'' w)"

lemma session_ask_selectors [demo_simps]:
  "protocol_version (session_ask reason w) = SUPPORTED_PROTOCOL_VERSION"
  "signature_alg (session_ask reason w) = ED25519_SIGNATURE_ALGORITHM"
  "signature (session_ask reason w) = Some demo_sig" "created_at (session_ask reason w) = demo_time"
  "correlation_id (session_ask reason w) = CORRELATION_ID"
  "rq_requesting_agent_id (session_ask reason w) = CENTRAL_AGENT_ID"
  "rq_authenticated_agent_id (session_ask reason w) = Some CENTRAL_AGENT_ID"
  "rq_edge_agent_id (session_ask reason w) = EDGE_AGENT_ID" "rq_robot_id (session_ask reason w) = ROBOT_ID"
  "rq_mission_id (session_ask reason w) = MISSION_ID" "rq_capability (session_ask reason w) = REMOTE_ASSIST"
  "rq_requested_duration_seconds (session_ask reason w) = 600"
  "rq_requested_constraints (session_ask reason w) = None" "rq_reason (session_ask reason w) = reason"
  "length (message_id (session_ask reason w)) = 4 + uuid_draws w"
  "length (rq_request_nonce (session_ask reason w)) = 7 + uuid_draws w"
  "{''requested_duration_seconds'', ''signature_alg''} \<subseteq> fields_set (session_ask reason w)"
  by (simp_all add: session_request_def sign_request_def Let_def demo_simps draw_def)

lemma session_request_admitted:
  assumes "short w" and "length reason \<le> 100"
  shows "request_admitted demo_env (session_checks demo_env session_policy session_keys) demo_time
    (session_ask reason w) (session_state n w') None session_requests"
proof -
  have six: "replicate 6 None = [None, None, None, None, None, None :: string option]"
    by (simp add: eval_nat_numeral)
  have "int_str 600 = ''600''" by code_simp
  then have budget: "\<not> signed_request_material_budget_violation demo_env (session_ask reason w)"
    using assms by (simp add: signed_request_material_budget_violation_def budget_defs
        request_signature_material_too_large_def request_texts_def six demo_simps party_defs)
  have "request_auth_violation demo_env [CENTRAL_AGENT_ID \<mapsto> demo_key] (session_ask reason w) = None"
    using session_ask_selectors(17) [of reason w] budget
    by (simp add: request_auth_violation_def CAPABILITY_REQUEST_REQUIRED_WIRE_FIELDS_def guardv_def
        signature_algorithm_violation_def demo_simps)
  moreover have "request_time_violation 300 demo_time (session_ask reason w) = Inr None"
    by (rule request_fresh.complete) (auto simp: REQUEST_CLOCK_SKEW_SECONDS_def window_ok_def timedelta_s_def
        td_check_def td_limit_def dt_limit_def demo_simps)
  ultimately show ?thesis
    by (simp add: request_admitted_def session_checks_def session_keys_def request_cache_durable_def
        session_requests_def DEFAULT_REQUEST_MAX_AGE_SECONDS_def demo_simps)
qed

lemma session_policy_grants:
  assumes "short w"
  shows "policy_grants demo_env (session_checks demo_env session_policy session_keys) demo_time
    (session_ask reason w') (session_state normal_net w) session_policy None"
  unfolding policy_grants_def Let_def
proof (intro conjI)
  show "state_auth_violation demo_env
     (ROBOT_STATE_REQUIRED_WIRE_FIELDS \<union>
      (if pr_human_operator_available (requirements session_policy) then {''human_operator_available''} else {}))
     (pc_edge_public_keys_by_id (session_checks demo_env session_policy session_keys))
     (session_state normal_net w) = None"
    using session_state_authentic [OF assms]
    by (simp add: session_checks_def session_keys_def ROBOT_STATE_REQUIRED_WIRE_FIELDS_def demo_simps)
qed (simp_all add: session_checks_def session_keys_def policy_scope_violation_def explicit_member_def Let_def
    control_plane_outcome_def network_requirements_valid_def network_state_valid_def float_field_ok_def
    validate_degrade_window_def geofence_requirements_malformed_def network_grants_def
    lease_constraints_valid_def opt_float_field_ok_def policy_constraints_def requested_constraint_violation_def
    DEFAULT_STATE_MAX_AGE_SECONDS_def session_state_fresh
    demo_simps, simp_all add: session_policy_def profile_state_def float_field_ok_def demo_simps party_defs
    ascii_space_def two_byte_space_def three_byte_space_def)

text \<open>The lease that the grant issues, at a world \<open>w\<close>.\<close>

abbreviation session_constraints :: "world \<Rightarrow> lease_constraints" where
  "session_constraints w \<equiv> policy_constraints session_policy (session_state normal_net w)"

definition session_lease :: "string \<Rightarrow> world \<Rightarrow> world \<Rightarrow> world \<Rightarrow> capability_lease" where
  "session_lease reason wr ws w = (lease_of_request demo_env (session_ask reason wr) (session_constraints ws) ISSUER_ID
     ''remote-assist-authority-v0'' ''sha256:00'' demo_time (demo_time\<lparr>wall := 63902823000000000\<rparr>) (tick w))
     \<lparr>signature := Some demo_sig\<rparr>"

lemma demo_isoformat_session [demo_simps]:
  "isoformat (demo_time\<lparr>wall := 63902823000000000\<rparr>) = ''2026-01-01T00:10:00+00:00''"
  by (simp add: demo_time_def utc_def, code_simp)

lemma session_policy_selectors [demo_simps]:
  "lease_ttl_seconds session_policy = 600" "policy_id session_policy = ''remote-assist-authority-v0''"
  "policy_capability session_policy = REMOTE_ASSIST"
  by (simp_all add: session_policy_def)

lemma session_issued:
  "issue_lease demo_env (session_ask reason wr) (session_constraints ws) ISSUER_ID ''key''
     (lease_ttl_seconds session_policy) (policy_id session_policy) (policy_digest demo_env session_policy) w =
     (Inr (session_lease reason wr ws w), draw (draw (draw (tick w))))"
proof -
  have "bindr (timedelta_s 600) (dt_add demo_time) = Inr (demo_time\<lparr>wall := 63902823000000000\<rparr>)"
    by (simp add: timedelta_s_def td_check_def td_limit_def dt_add_def dt_limit_def demo_simps)
  then show ?thesis
    by (simp add: issue_lease_def session_lease_def demo_simps Let_def del: py_blank.simps)
      (simp add: validate_protocol_version_def validate_time_window_def lease_of_request_def demo_simps
        dt_naive_def dt_le_def instant_def del: py_blank.simps, simp add: demo_time_def utc_def)
qed

lemma session_gate_follows:
  "checks_follow_policy demo_env session_policy ISSUER_ID ''key'' (gate_lease_checks session_gate s)"
  by (simp add: checks_follow_policy_def gate_lease_checks_def issuer_key_registry_def demo_requirement_of_gate_def
      demo_simps del: py_blank.simps)

lemma session_lease_small:
  assumes "short wr" and "short w"
  shows "\<not> lease_signed_material_too_large demo_env (session_lease reason wr ws w)"
proof -
  have draws: "uuid_draws (tick w) = uuid_draws w" "uuid_draws (draw v) = Suc (uuid_draws v)" for v
    by (simp_all add: tick_def draw_def)
  show ?thesis
    using assms by (simp add: lease_signed_material_too_large_def lease_signature_material_too_large_def
        session_lease_def lease_of_request_def draws lease_texts_def constraint_texts_def
        policy_constraints_def session_policy_def budget_defs party_defs demo_simps)
qed

abbreviation session_order :: "string \<Rightarrow> world \<Rightarrow> edge_command" where
  "session_order prefix w \<equiv> fst (make_command demo_env prefix ''key'' w)"

lemma session_order_selectors [demo_simps]:
  "protocol_version (session_order prefix w) = SUPPORTED_PROTOCOL_VERSION"
  "signature_alg (session_order prefix w) = ED25519_SIGNATURE_ALGORITHM"
  "signature (session_order prefix w) = Some demo_sig" "created_at (session_order prefix w) = demo_time"
  "correlation_id (session_order prefix w) = CORRELATION_ID"
  "cmd_agent_id (session_order prefix w) = CENTRAL_AGENT_ID"
  "cmd_authenticated_agent_id (session_order prefix w) = Some CENTRAL_AGENT_ID"
  "cmd_edge_agent_id (session_order prefix w) = EDGE_AGENT_ID" "cmd_robot_id (session_order prefix w) = ROBOT_ID"
  "cmd_mission_id (session_order prefix w) = MISSION_ID" "cmd_capability (session_order prefix w) = ''remote_assist''"
  "cmd_payload (session_order prefix w) = []" "''signature_alg'' \<in> fields_set (session_order prefix w)"
  "length (message_id (session_order prefix w)) = 5 + uuid_draws w"
  "command_id (session_order prefix w) = prefix @ ''_'' @ uuid4_hex demo_env (uuid_draws w)"
  "command_nonce (session_order prefix w) = ''cmd_nonce_'' @ uuid4_hex demo_env (Suc (Suc (uuid_draws w)))"
  by (simp_all add: make_command_def sign_command_def Let_def demo_simps draw_def uuid_text_def
      demo_env_def [THEN arg_cong, of uuid4_hex])

lemma session_order_authentic:
  assumes "short w"
  shows "command_signature_violation demo_env [CENTRAL_AGENT_ID \<mapsto> demo_key] (session_order ''cmd_valid_lease'' w) = Inr None"
proof -
  have "command_payload_budget_violation (float_repr demo_env) (JDict []) = Inr False"
    by (simp add: command_payload_budget_violation_def MAX_COMMAND_PAYLOAD_DEPTH_def
        MAX_COMMAND_PAYLOAD_NODES_def MAX_COMMAND_PAYLOAD_ESTIMATED_BYTES_def)
  moreover have "length (uuid4_hex demo_env n) = n" for n by (simp add: demo_env_def)
  ultimately show ?thesis
    using assms by (simp add: command_signature_violation_def signature_algorithm_violation_def
        signed_command_material_budget_violation_def command_texts_def budget_defs ascii_space_def
        two_byte_space_def three_byte_space_def party_defs demo_simps)
qed

lemma session_order_fresh:
  "command_time_violation 30 demo_time (session_order prefix w) = Inr None"
  by (rule command_fresh.complete) (auto simp: COMMAND_CLOCK_SKEW_SECONDS_def demo_simps)

lemma session_order_context:
  "command_context_of (session_order prefix w) (Some s) = context_of_request (session_ask reason w') s []"
  by (simp add: command_context_of_def context_of_request_def demo_simps)

lemma session_lease_authorizes:
  assumes "short wr" "short ws" "short w" and "gs_revocations s = Map.empty"
  shows "lease_authorizes demo_env (gate_lease_checks session_gate s)
    (command_context_of (session_order prefix w') (Some (session_state normal_net ws))) demo_time
    (session_lease reason wr ws w)"
  unfolding session_order_context [of _ _ _ reason wr]
proof (rule granted_lease_authorizes [OF demo_ed25519 session_policy_grants [OF assms(2), of reason wr] session_issued
      session_gate_follows session_lease_small [OF assms(1,3)]])
  show "lease_in_window (session_lease reason wr ws w) demo_time
      (lc_max_lease_age_seconds (gate_lease_checks session_gate s))
      (lc_max_lease_ttl_seconds (gate_lease_checks session_gate s)) LEASE_CLOCK_SKEW_SECONDS"
    by (simp add: issue_lease_window [OF session_issued] gate_lease_checks_def LEASE_CLOCK_SKEW_SECONDS_def demo_simps)
  show "payload_authorized (session_constraints ws) []"
    by (simp add: payload_authorized_def policy_constraints_def session_policy_def)
qed (simp_all add: gate_lease_checks_def demo_simps session_checks_def session_keys_def session_state_fresh
    revoked_lease_ids_def assms(4) lease_window_computable_def timedelta_s_def td_check_def td_limit_def
    LEASE_CLOCK_SKEW_SECONDS_def)

lemma session_lease_selectors [demo_simps]:
  "lease_edge_agent_id (session_lease reason wr ws w) = EDGE_AGENT_ID"
  "lease_robot_id (session_lease reason wr ws w) = ROBOT_ID"
  "lease_mission_id (session_lease reason wr ws w) = MISSION_ID"
  "lease_capability (session_lease reason wr ws w) = REMOTE_ASSIST"
  "length (lease_id (session_lease reason wr ws w)) = 8 + uuid_draws w"
  by (simp_all add: session_lease_def lease_of_request_def demo_simps draw_def tick_def)

lemma session_revocation_authorized:
  assumes "short w" and "short wl"
  shows "revocation_authorized demo_env session_gate demo_time
    (fst (session_revocation demo_env (session_lease reason wr ws wl) action ''key'' w))
    (session_lease reason wr ws wl)"
proof -
  let ?l = "session_lease reason wr ws wl"
  let ?rv = "fst (session_revocation demo_env ?l action ''key'' w)"
  have sel: "protocol_version ?rv = SUPPORTED_PROTOCOL_VERSION" "rev_edge_agent_id ?rv = EDGE_AGENT_ID"
    "rev_revoked_by ?rv = EDGE_AGENT_ID" "''signature_alg'' \<in> fields_set ?rv"
    "signature_alg ?rv = ED25519_SIGNATURE_ALGORITHM" "signature ?rv = Some demo_sig"
    "rev_lease_id ?rv = lease_id ?l" "rev_robot_id ?rv = Some ROBOT_ID" "rev_mission_id ?rv = Some MISSION_ID"
    "rev_capability ?rv = Some REMOTE_ASSIST" "created_at ?rv = demo_time" "rev_revoked_at ?rv = demo_time"
    "length (message_id ?rv) = 4 + uuid_draws w" "correlation_id ?rv = CORRELATION_ID"
    "rev_reason_code ?rv = ''NETWORK_PROFILE_REVOKE''" "rev_fallback_action ?rv = action"
    by (simp_all add: session_revocation_def sign_revocation_def Let_def demo_simps)
  have "revocation_time_violation 300 demo_time ?rv = Inr None"
    by (rule revocation_fresh.complete) (auto simp: REVOCATION_CLOCK_SKEW_SECONDS_def sel
        revocation_consistent_def dt_limit_def demo_simps)
  moreover have "length (fallback_action_str action) \<le> 30" by (cases action) simp_all
  then have "\<not> signed_revocation_material_budget_violation ?rv"
    using assms by (simp add: signed_revocation_material_budget_violation_def revocation_texts_def sel
        budget_defs party_defs demo_simps)
  ultimately show ?thesis
    by (simp add: revocation_authorized_def sel revoker_scope_def revocation_context_conflicts_def demo_simps)
qed

section \<open>Total correctness\<close>

definition runs :: "('s \<Rightarrow> bool) \<Rightarrow> ('s, 'a) op \<Rightarrow> ('a \<Rightarrow> 's \<Rightarrow> bool) \<Rightarrow> bool" where
  "runs P m Q \<longleftrightarrow> (\<forall>s. P s \<longrightarrow> (\<exists>a s'. m s = (Inr a, s') \<and> Q a s'))"

lemma runs_bind: "runs P m Q \<Longrightarrow> (\<And>a. runs (Q a) (f a) R) \<Longrightarrow> runs P (bindo m f) R"
  unfolding runs_def by (metis bindo_run(1))

lemma runs_bind_pair:
  "runs P m Q \<Longrightarrow> (\<And>a b. runs (Q (a, b)) (f a b) R) \<Longrightarrow> runs P (bindo m (\<lambda>(a, b). f a b)) R"
  by (erule runs_bind) (auto simp: case_prod_beta)

lemma runs_ret: "(\<And>s. P s \<Longrightarrow> Q a s) \<Longrightarrow> runs P (ret a) Q"
  by (simp add: runs_def)

lemma runs_post: "runs P m Q \<Longrightarrow> (\<And>a s. Q a s \<Longrightarrow> Q' a s) \<Longrightarrow> runs P m Q'"
  unfolding runs_def by blast

lemma runs_if_pure: "(b \<Longrightarrow> runs P m Q) \<Longrightarrow> runs (\<lambda>s. b \<and> P s) m Q"
  by (auto simp: runs_def)

lemma runs_ex: "(\<And>x. runs (P x) m Q) \<Longrightarrow> runs (\<lambda>s. \<exists>x. P x s) m Q"
  unfolding runs_def by blast

section \<open>The steps\<close>

lemma gate_ok_world:
  "gate_ok E s \<Longrightarrow> uuid_draws (gs_world s) \<le> uuid_draws w \<Longrightarrow> gate_ok E (s\<lparr>gs_world := w\<rparr>)"
  using progress_world [of s w E] progress_ok by blast

lemma session_world:
  assumes "session_at n K c d" and "uuid_draws (gs_world (ds_gate d)) \<le> uuid_draws w" and "uuid_draws w \<le> m"
  shows "session_at m K c (d\<lparr>ds_gate := (ds_gate d)\<lparr>gs_world := w\<rparr>\<rparr>)"
  using assms gate_ok_world by (simp add: session_at_def used_keys_def)

lemma making_runs:
  assumes "\<And>w. uuid_draws (snd (f w)) = uuid_draws w + k"
  shows "runs (session_at n K c) (making f) (\<lambda>a d. (\<exists>w. uuid_draws w \<le> n \<and> a = fst (f w)) \<and> session_at (n + k) K c d)"
  unfolding runs_def
proof (intro allI impI)
  fix d assume d: "session_at n K c d"
  let ?w = "gs_world (ds_gate d)"
  have "uuid_draws ?w \<le> n" using d by (simp add: session_at_def)
  moreover from this d have "session_at (n + k) K c (d\<lparr>ds_gate := (ds_gate d)\<lparr>gs_world := snd (f ?w)\<rparr>\<rparr>)"
    by (intro session_world [OF d]) (simp_all add: assms)
  ultimately show "\<exists>a d'. making f d = (Inr a, d') \<and> (\<exists>w. uuid_draws w \<le> n \<and> a = fst (f w)) \<and> session_at (n + k) K c d'"
    by (auto simp: on_world_def)
qed

lemma session_more: "session_at n K c d \<Longrightarrow> n \<le> m \<Longrightarrow> session_at m K c d"
  by (auto simp: session_at_def)

lemma audit_runs:
  assumes "authority_event ty \<longrightarrow> rel"
  shows "runs (session_at n K c) (on_gate (audit demo_env ty actor summary payload rel)) (\<lambda>_. session_at (n + 2) K c)"
  unfolding runs_def
proof (intro allI impI)
  fix d assume d: "session_at n K c d"
  let ?s = "ds_gate d"
  let ?n = "\<lparr>en_event_type = ty, en_actor_id = actor, en_summary = summary, en_correlation_id = CORRELATION_ID,
        en_robot_id = Some ROBOT_ID, en_mission_id = Some MISSION_ID, en_payload = payload,
        en_authority_relevant = rel, en_policy_id = None, en_policy_digest = None,
        en_state_refs = [], en_related_message_ids = []\<rparr>"
  from d have ok: "gate_ok demo_env ?s" by (simp add: session_at_def)
  then have "gate_log_ok demo_env ?s" by (simp add: gate_ok_def)
  moreover have "entry_complete ?n" using assms by (simp add: entry_complete_def)
  ultimately obtain e s' where rec: "gate_record demo_env ?n ?s = (Inr e, s')"
    and s': "uuid_draws (gs_world s') = uuid_draws (gs_world ?s) + 2" "used_keys s' = used_keys ?s"
      "gs_revocations s' = gs_revocations ?s" "gs_revocation_store s' = gs_revocation_store ?s"
    by (simp add: gate_record_ok used_keys_def)
  have "gate_ok demo_env s'" using progress_ok [OF keepsD [OF gate_record_keeps rec] ok] by simp
  with d s' have "session_at (n + 2) K c (d\<lparr>ds_gate := s'\<rparr>)" by (simp add: session_at_def)
  with rec show "\<exists>a d'. on_gate (audit demo_env ty actor summary payload rel) d = (Inr a, d') \<and> session_at (n + 2) K c d'"
    by (simp add: on_gate_def audit_def bindo_run)
qed

lemma session_setup_runs:
  "runs (session_at 0 K c) (demo_setup demo_env session_policy session_keys) (\<lambda>_. session_at 6 K c)"
proof -
  have att: "uuid_draws (snd (demo_attestation demo_env a b m p k w)) = uuid_draws w + 2" for a b m p k w
    by (simp add: demo_attestation_def draw_def tick_def)
  have id: "uuid_draws (snd ((), tick w)) = uuid_draws w + 0" for w by (simp add: tick_def)
  note rules = making_runs [where f = "demo_attestation demo_env a b m p k" for a b m p k, OF att]
    making_runs [where f = "\<lambda>w. ((), tick w)", OF id]
  show ?thesis
    unfolding demo_setup_def
    by (rule runs_bind, rule rules(1), rule runs_if_pure, rule runs_bind, rule rules(1), rule runs_if_pure,
        rule runs_bind, rule rules(2), rule runs_if_pure, rule runs_bind, rule audit_runs, simp, rule runs_ret, erule session_more, simp)
qed

lemma make_state_runs:
  assumes "profile (\<lambda>_. demo_time) name = Inr net"
  shows "runs (session_at n K c) (on_world (make_state demo_env (\<lambda>_. demo_time) name ''key''))
    (\<lambda>s d. (\<exists>w. uuid_draws w \<le> n \<and> s = session_state net w) \<and> session_at (n + 1) K c d)"
proof -
  have "on_world (make_state demo_env (\<lambda>_. demo_time) name ''key'') =
      making (\<lambda>w. (session_state net (tick w), draw (tick (tick (tick w)))))"
    by (simp add: fun_eq_iff on_world_def session_make_state [OF assms])
  then have "runs (session_at n K c) (on_world (make_state demo_env (\<lambda>_. demo_time) name ''key''))
      (\<lambda>s d. (\<exists>w. uuid_draws w \<le> n \<and> s = fst (session_state net (tick w), draw (tick (tick (tick w))))) \<and>
        session_at (n + 1) K c d)"
    using making_runs [where f = "\<lambda>w. (session_state net (tick w), draw (tick (tick (tick w))))" and k = 1]
    by (simp add: tick_def draw_def)
  moreover have "uuid_draws (tick w) = uuid_draws w" for w by (simp add: tick_def)
  ultimately show ?thesis by (elim runs_post) (metis fst_conv)
qed

lemma on_issuer_runs:
  assumes "\<And>t. is_cache t = Some c \<Longrightarrow> log_drawn demo_env (is_log t) (is_world t) \<Longrightarrow>
      \<exists>out ev t'. evaluate_policy demo_env k actor rq s p None None t = (Inr (out, ev), t') \<and> Q out"
  shows "runs (session_at n K c) (on_issuer own (evaluate_policy demo_env k actor rq s p None None))
    (\<lambda>x d. Q (fst x) \<and> (\<exists>c'. session_at (n + 2) K c' d))"
  unfolding runs_def
proof (intro allI impI)
  fix d assume d: "session_at n K c d"
  let ?s = "ds_gate d"
  let ?t = "\<lparr>is_cache = Some (ds_requests d), is_log = (if own then AuditLog else gs_audit_log ?s), is_world = gs_world ?s\<rparr>"
  from d have log: "log_ok demo_env (gs_audit_log ?s)" "log_drawn demo_env (gs_audit_log ?s) (gs_world ?s)"
    by (simp_all add: session_at_def gate_ok_def gate_log_ok_def)
  have "is_cache ?t = Some c" "log_drawn demo_env (is_log ?t) (is_world ?t)" "log_ok demo_env (is_log ?t)"
    using d log AuditLog_ok by (simp_all add: session_at_def)
  with assms obtain out ev t' where eval: "evaluate_policy demo_env k actor rq s p None None ?t = (Inr (out, ev), t')"
    and Q: "Q out" by blast
  define lg where "lg = (if own then gs_audit_log ?s else is_log t')"
  have w: "uuid_draws (is_world t') = uuid_draws (gs_world ?s) + 2" using evaluate_policy_draws [OF eval] by simp
  have "log_ok demo_env lg \<and> log_drawn demo_env lg (is_world t')"
    using keepsD [OF evaluate_policy_keeps eval] log log_drawn_same_draws [OF _ log(2), of "is_world t'"] w
    by (auto simp: lg_def issuer_progress_def split: if_splits)
  then have "gate_ok demo_env (?s\<lparr>gs_audit_log := lg, gs_world := is_world t'\<rparr>)"
    using d by (simp add: session_at_def gate_ok_def stores_open_def revocations_synced_def gate_log_ok_def)
  with d w have "session_at (n + 2) K (the (is_cache t'))
      (d\<lparr>ds_gate := ?s\<lparr>gs_audit_log := lg, gs_world := is_world t'\<rparr>, ds_requests := the (is_cache t')\<rparr>)"
    by (simp add: session_at_def used_keys_def)
  with Q eval show "\<exists>a d'. on_issuer own (evaluate_policy demo_env k actor rq s p None None) d = (Inr a, d') \<and>
      Q (fst a) \<and> (\<exists>c'. session_at (n + 2) K c' d')"
    by (auto simp: on_issuer_def Let_def lg_def)
qed

lemma session_allows:
  assumes "short wr" "short ws" "length reason \<le> 100"
    and "is_cache t = Some session_requests" and "log_drawn demo_env (is_log t) (is_world t)"
  shows "\<exists>out ev t'. evaluate_policy demo_env (session_checks demo_env session_policy session_keys) actor
      (session_ask reason wr) (session_state normal_net ws) session_policy None None t = (Inr (out, ev), t') \<and>
    out = (ALLOW, ''POLICY_SATISFIED'', [], Some (session_constraints ws))"
proof -
  have now: "fst (now_or_clock demo_env None (is_world t)) = demo_time" by (simp add: demo_simps)
  have "policy_verdict demo_env (session_checks demo_env session_policy session_keys) demo_time
      (session_ask reason wr) (session_state normal_net ws) session_policy None =
      Inr (ALLOW, ''POLICY_SATISFIED'', [], Some (session_constraints ws))"
    using session_policy_grants [OF assms(2)]
    by (simp add: policy_verdict_allow apply_requested_constraints_def demo_simps)
  then obtain t1 where "evaluate_policy_inputs demo_env (session_checks demo_env session_policy session_keys)
      (session_ask reason wr) (session_state normal_net ws) session_policy None None t =
      (Inr (ALLOW, ''POLICY_SATISFIED'', [], Some (session_constraints ws)), t1)"
    using evaluate_policy_inputs_admitted [OF assms(4), of demo_env _ None] session_request_admitted [OF assms(1,3)]
    unfolding now by blast
  from evaluate_policy_records [OF demo_uuid_inj assms(5) this] show ?thesis by blast
qed

lemma decision_commit_facts:
  fixes dec request state dg w
  defines "e \<equiv> decision_commit demo_env dec request state dg w"
  shows "audit_id e = dec_audit_id dec" "previous_audit_hash e = None" "integrity_proof e = None"
    "validate_context e = Inr ()" "validate_payload_hash demo_env e = Inr ()"
  by (simp_all add: e_def decision_commit_def commit_payload_hash_def validate_context_def validate_payload_hash_def)

lemma decision_runs:
  "runs (session_at n K c)
     (bindo (making (\<lambda>w. (uuid_text demo_env ''audit_'' w, draw w))) (\<lambda>recorded_as.
      bindo (making (session_decision demo_env p request out lease recorded_as)) (\<lambda>cap_decision.
      bindo (on_gate (audit_capability_decision demo_env cap_decision request state dg)) (\<lambda>_.
        ret (state, cap_decision)))))
     (\<lambda>x d. fst x = state \<and> dec_lease (snd x) = lease \<and> session_at (n + 3) K c d)"
  unfolding runs_def
proof (intro allI impI)
  fix d assume d: "session_at n K c d"
  define s where "s = ds_gate d"
  define w where "w = gs_world s"
  define dec where "dec = fst (session_decision demo_env p request out lease (uuid_text demo_env ''audit_'' w) (draw w))"
  define s1 where "s1 = s\<lparr>gs_world := tick (draw (draw w))\<rparr>"
  let ?e = "decision_commit demo_env dec request state dg (gs_world s1)"
  have dec: "dec_lease dec = lease" "dec_audit_id dec = ''audit_'' @ uuid4_hex demo_env (uuid_draws w)"
    "snd (session_decision demo_env p request out lease r w') = tick (draw w')" for r w'
    by (simp_all add: dec_def session_decision_def uuid_text_def split: prod.splits)
  from d have lg: "log_ok demo_env (gs_audit_log s)" "log_drawn demo_env (gs_audit_log s) w"
    by (simp_all add: session_at_def gate_ok_def gate_log_ok_def s_def w_def)
  have "dec_audit_id dec \<notin> audit_ids (gs_audit_log s)"
    using lg(2) inj_onD [OF demo_uuid_inj [of UNIV]] by (fastforce simp: log_drawn_def dec)
  then obtain ev lg' where app: "audit_append demo_env ?e (gs_audit_log s) = (Inr ev, lg')"
    and ids: "audit_ids lg' = insert (dec_audit_id dec) (audit_ids (gs_audit_log s))"
    by (simp add: audit_append_def decision_commit_facts Let_def committed_event_def)
  have draws: "uuid_draws (tick v) = uuid_draws v" "uuid_draws (draw v) = Suc (uuid_draws v)" for v
    by (simp_all add: tick_def draw_def)
  define s2 where "s2 = s\<lparr>gs_audit_log := lg', gs_world := tick (draw (gs_world s1))\<rparr>"
  have w2: "uuid_draws (gs_world s2) = uuid_draws w + 3" by (simp add: s2_def s1_def draws)
  have "log_drawn demo_env lg' (gs_world s2)"
    using log_drawn_same_draws [OF _ lg(2), of "gs_world s2"] w2
    by (auto simp: log_drawn_def ids dec intro!: exI [of _ "uuid_draws w"])
  then have "gate_log_ok demo_env s2"
    using audit_append_log_ok [OF lg(1) app] by (simp add: gate_log_ok_def s2_def)
  then have "gate_ok demo_env s2"
    using d by (simp add: session_at_def gate_ok_def stores_open_def revocations_synced_def s_def s2_def)
  with d w2 have "session_at (n + 3) K c (d\<lparr>ds_gate := s2\<rparr>)"
    by (simp add: session_at_def used_keys_def s2_def s_def w_def)
  moreover have "audit_capability_decision demo_env dec request state dg s1 = (Inr (audit_id ev), s2)"
    using app by (simp add: audit_capability_decision_def s1_def s2_def)
  ultimately show "\<exists>a d'. bindo (making (\<lambda>w. (uuid_text demo_env ''audit_'' w, draw w))) (\<lambda>recorded_as.
      bindo (making (session_decision demo_env p request out lease recorded_as)) (\<lambda>cap_decision.
      bindo (on_gate (audit_capability_decision demo_env cap_decision request state dg)) (\<lambda>_.
        ret (state, cap_decision)))) d = (Inr a, d') \<and>
      fst a = state \<and> dec_lease (snd a) = lease \<and> session_at (n + 3) K c d'"
    by (simp add: bindo_def on_world_def on_gate_def dec(1,3) flip: s_def w_def)
      (simp add: dec(1) s1_def flip: dec_def)
qed

lemma issue_runs:
  "runs (session_at n K c) (on_world (issue_lease demo_env (session_ask reason wr) (session_constraints ws) ISSUER_ID
      ''key'' (lease_ttl_seconds session_policy) (policy_id session_policy) (policy_digest demo_env session_policy)))
    (\<lambda>l d. (\<exists>w. uuid_draws w \<le> n \<and> l = session_lease reason wr ws w) \<and> session_at (n + 3) K c d)"
proof -
  have "on_world (issue_lease demo_env (session_ask reason wr) (session_constraints ws) ISSUER_ID
      ''key'' (lease_ttl_seconds session_policy) (policy_id session_policy) (policy_digest demo_env session_policy)) =
      making (\<lambda>w. (session_lease reason wr ws w, draw (draw (draw (tick w)))))"
    by (simp add: fun_eq_iff on_world_def session_issued)
  then show ?thesis
    using making_runs [where f = "\<lambda>w. (session_lease reason wr ws w, draw (draw (draw (tick w))))" and k = 3]
    by (simp add: tick_def draw_def)
qed

text \<open>What the grant leaves: the normal state and a decision with the issued lease.\<close>

definition granted :: "robot_state_assertion \<times> capability_decision \<Rightarrow> bool" where
  "granted x \<longleftrightarrow> (\<exists>wr ws wl. short wr \<and> short ws \<and> short wl \<and> fst x = session_state normal_net ws \<and>
     dec_lease (snd x) = Some (session_lease ''low-confidence obstacle negotiation'' wr ws wl))"

lemma session_request_draws: "uuid_draws (snd (session_request E reason key w)) = uuid_draws w + 2"
  by (simp add: session_request_def draw_def tick_def)

lemma grant_tail_runs:
  assumes "short wr" "short ws" "n \<le> 15"
  shows "runs (session_at n K c)
    (bindo (case (ALLOW, ''POLICY_SATISFIED'', [], Some (session_constraints ws)) of
       (ALLOW, _, _, Some constraints) \<Rightarrow>
         bindo (on_world (issue_lease demo_env (session_ask ''low-confidence obstacle negotiation'' wr) constraints
           ISSUER_ID ''key'' (lease_ttl_seconds session_policy) (policy_id session_policy)
           (policy_digest demo_env session_policy))) (\<lambda>l. ret (Some l))
     | _ \<Rightarrow> ret None) (\<lambda>lease.
     bindo (making (\<lambda>w. (uuid_text demo_env ''audit_'' w, draw w))) (\<lambda>recorded_as.
     bindo (making (session_decision demo_env p rq out lease recorded_as)) (\<lambda>cap_decision.
     bindo (on_gate (audit_capability_decision demo_env cap_decision rq (session_state normal_net ws) dg)) (\<lambda>_.
       ret (session_state normal_net ws, cap_decision))))))
    (\<lambda>x d. granted x \<and> (\<exists>c. session_at 21 K c d))"
  unfolding prod.case decision.case option.case
proof (rule runs_bind)
  let ?l = "session_lease ''low-confidence obstacle negotiation'' wr ws"
  show "runs (session_at n K c) (bindo (on_world (issue_lease demo_env
        (session_ask ''low-confidence obstacle negotiation'' wr) (session_constraints ws)
        ISSUER_ID ''key'' (lease_ttl_seconds session_policy) (policy_id session_policy)
        (policy_digest demo_env session_policy))) (\<lambda>l. ret (Some l)))
      (\<lambda>lease d. (\<exists>w. uuid_draws w \<le> n \<and> lease = Some (?l w)) \<and> session_at (n + 3) K c d)"
    by (rule runs_bind [OF issue_runs]) (auto simp: runs_def)
  fix lease
  show "runs (\<lambda>d. (\<exists>w. uuid_draws w \<le> n \<and> lease = Some (?l w)) \<and> session_at (n + 3) K c d)
    (bindo (making (\<lambda>w. (uuid_text demo_env ''audit_'' w, draw w))) (\<lambda>recorded_as.
     bindo (making (session_decision demo_env p rq out lease recorded_as)) (\<lambda>cap_decision.
     bindo (on_gate (audit_capability_decision demo_env cap_decision rq (session_state normal_net ws) dg)) (\<lambda>_.
       ret (session_state normal_net ws, cap_decision)))))
    (\<lambda>x d. granted x \<and> (\<exists>c. session_at 21 K c d))"
  proof (rule runs_if_pure, erule exE, rule runs_post [OF decision_runs])
    fix w d and x :: "robot_state_assertion \<times> capability_decision"
    assume "uuid_draws w \<le> n \<and> lease = Some (?l w)"
      "fst x = session_state normal_net ws \<and> dec_lease (snd x) = lease \<and> session_at (n + 3 + 3) K c d"
    moreover from this assms(3) have "short w" "session_at 21 K c d" by (auto elim!: session_more)
    ultimately show "granted x \<and> (\<exists>c. session_at 21 K c d)"
      using assms(1,2) by (auto simp: granted_def)
  qed
qed

lemma session_grant_runs:
  "runs (session_at 6 K session_requests) (demo_grant demo_env (\<lambda>_. demo_time) session_policy session_keys)
     (\<lambda>x d. granted x \<and> (\<exists>c. session_at 21 K c d))"
proof -
  have keys: "central_key session_keys = ''key''" "edge_key session_keys = ''key''" "issuer_key session_keys = ''key''"
    by (simp_all add: session_keys_def)
  show ?thesis
    unfolding demo_grant_def keys
    apply (rule runs_bind, rule making_runs, rule session_request_draws, rule runs_if_pure, elim exE conjE, simp only:)
    apply (rule runs_bind, rule audit_runs, simp)
    apply (rule runs_bind, rule make_state_runs, rule session_profiles, rule runs_if_pure, elim exE conjE, simp only:)
    apply (rule runs_bind, rule audit_runs, simp)
    apply (rule runs_bind_pair, rule on_issuer_runs, rule session_allows, simp, simp, simp, assumption, assumption)
    apply (rule runs_if_pure, drule fst_eqD, simp only:, rule runs_ex, rule grant_tail_runs)
    by simp_all
qed

text \<open>Commands leave the store and the table of revocations alone.\<close>

definition revocation_frame :: "gate_state \<Rightarrow> gate_state \<Rightarrow> bool" where
  "revocation_frame s s' \<longleftrightarrow>
     gs_revocation_store s' = gs_revocation_store s \<and> gs_revocations s' = gs_revocations s"

interpretation revocation_frame: effect_relation revocation_frame
  by unfold_locales (auto simp: revocation_frame_def)

lemma revocation_frame_steps:
  "keeps revocation_frame (gate_now E now)" "keeps revocation_frame (gate_record E n)"
  "keeps revocation_frame (new_declaration E corr rb ed mi tr ac lid rid)" "keeps revocation_frame (deliver g d)"
  "keeps revocation_frame (modify (\<lambda>s. s\<lparr>gs_fallback_events := gs_fallback_events s @ [d]\<rparr>))"
  "keeps revocation_frame (remember_op E cmd)" "keeps revocation_frame (remember_use_op E cmd l)"
  by (rule keepsI; auto simp: gate_now_eq new_declaration_def deliver_def gate_record_def Let_def remember_op_eq
      remember_use_op_eq revocation_frame_def split: option.splits prod.splits)+

lemma evaluate_revocation_frame: "keeps revocation_frame (evaluate E g cmd lease st now)"
  unfolding evaluate_def evaluate_lease_def allow_command_def reject_command_def emit_fallback_def
    reject_local_edge_mismatch_def command_auth_violation_def Let_def
  by (intro revocation_frame.keeps_rules revocation_frame_steps)

lemma session_after_evaluate:
  assumes "session_at n K c d" and "evaluate demo_env session_gate cmd lease st now (ds_gate d) = (Inr r, s')"
    and "uuid_draws (gs_world s') \<le> n + 5"
  shows "session_at (n + 5) (used_keys s') c (d\<lparr>ds_gate := s'\<rparr>)"
  using keepsD [OF evaluate_revocation_frame assms(2)] progress_ok [OF keepsD [OF evaluate_keeps assms(2)]] assms(1,3)
  by (simp add: session_at_def revocation_frame_def)

lemma make_command_draws: "uuid_draws (snd (make_command E prefix key w)) = uuid_draws w + 3"
  by (simp add: make_command_def draw_def tick_def)

lemma order_runs:
  assumes "\<And>w d. uuid_draws w \<le> n \<Longrightarrow> session_at (n + 3) K c d \<Longrightarrow>
      \<exists>r s'. evaluate demo_env session_gate (session_order prefix w) lease (Some st) None (ds_gate d) = (Inr r, s') \<and>
        uuid_draws (gs_world s') \<le> uuid_draws (gs_world (ds_gate d)) + 5 \<and> Q r"
  shows "runs (session_at n K c) (demo_command_result demo_env session_gate session_keys prefix lease st)
    (\<lambda>r d. Q r \<and> (\<exists>K. session_at (n + 8) K c d))"
  unfolding demo_command_result_def
proof (rule runs_bind, rule making_runs, rule make_command_draws, rule runs_if_pure, elim exE conjE)
  fix cmd w assume w: "uuid_draws w \<le> n" "cmd = fst (make_command demo_env prefix (central_key session_keys) w)"
  show "runs (session_at (n + 3) K c) (on_gate (evaluate demo_env session_gate cmd lease (Some st) None))
      (\<lambda>r d. Q r \<and> (\<exists>K. session_at (n + 8) K c d))"
    unfolding runs_def
  proof (intro allI impI)
    fix d assume d: "session_at (n + 3) K c d"
    from assms [OF w(1) this] obtain r s' where
      eval: "evaluate demo_env session_gate cmd lease (Some st) None (ds_gate d) = (Inr r, s')"
      and s': "uuid_draws (gs_world s') \<le> uuid_draws (gs_world (ds_gate d)) + 5" and Q: "Q r"
      by (auto simp: w(2) session_keys_def)
    have "uuid_draws (gs_world s') \<le> n + 3 + 5" using s' d by (simp add: session_at_def)
    from session_after_evaluate [OF d eval this] have "session_at (n + 8) (used_keys s') c (d\<lparr>ds_gate := s'\<rparr>)"
      by (simp add: add.assoc)
    with eval Q show "\<exists>a d'. on_gate (evaluate demo_env session_gate cmd lease (Some st) None) d = (Inr a, d') \<and>
        Q a \<and> (\<exists>K. session_at (n + 8) K c d')" by (auto simp: on_gate_def)
  qed
qed

lemma valid_command_runs:
  assumes "granted x"
  shows "runs (session_at 21 {} c)
    (demo_command_result demo_env session_gate session_keys ''cmd_valid_lease'' (dec_lease (snd x)) (fst x))
    (\<lambda>r d. gr_allowed r \<and> (\<exists>K. session_at 29 K c d))"
proof -
  from assms obtain wr ws wl where short: "short wr" "short ws" "short wl"
    and x: "fst x = session_state normal_net ws"
      "dec_lease (snd x) = Some (session_lease ''low-confidence obstacle negotiation'' wr ws wl)" (is "_ = Some ?l")
    by (auto simp: granted_def)
  have "\<exists>r s'. evaluate demo_env session_gate (session_order ''cmd_valid_lease'' w) (Some ?l)
        (Some (session_state normal_net ws)) None (ds_gate d) = (Inr r, s') \<and>
      uuid_draws (gs_world s') \<le> uuid_draws (gs_world (ds_gate d)) + 5 \<and> gr_allowed r"
    if "uuid_draws w \<le> 21" "session_at (21 + 3) {} c d" for w d
  proof -
    have ok: "gate_ok demo_env (ds_gate d)" using that(2) by (simp add: session_at_def)
    have "command_authorized demo_env session_gate (session_order ''cmd_valid_lease'' w) ?l
        (Some (session_state normal_net ws)) None (ds_gate d)"
      using that short session_order_authentic [of w] session_order_fresh session_lease_authorizes
      by (simp add: command_authorized_def session_at_def lease_check_time_def demo_simps)
    from evaluate_authorized [OF ok _ this] show ?thesis by fastforce
  qed
  from order_runs [OF this] show ?thesis unfolding x by (simp add: eval_nat_numeral)
qed

lemma no_lease_runs:
  "runs (session_at n K c) (demo_command_result demo_env session_gate session_keys prefix None st)
     (\<lambda>r d. \<exists>K. session_at (n + 8) K c d)"
proof (rule runs_post, rule order_runs [where Q = "\<lambda>_. True"])
  fix w d assume "session_at (n + 3) K c d"
  then have ok: "gate_ok demo_env (ds_gate d)" by (simp add: session_at_def)
  have "command_time_violation (max_command_age_seconds session_gate)
      (fst (now_or_clock demo_env None (gs_world (ds_gate d)))) (session_order prefix w) = Inr None"
    by (simp add: session_order_fresh demo_simps)
  from printable_evaluate_returns [OF ok _ session_hooks this, of None]
  show "\<exists>r s'. evaluate demo_env session_gate (session_order prefix w) None (Some st) None (ds_gate d) = (Inr r, s') \<and>
      uuid_draws (gs_world s') \<le> uuid_draws (gs_world (ds_gate d)) + 5 \<and> True" by (auto simp: demo_simps)
qed simp

lemma session_decides:
  assumes "log_drawn demo_env (is_log t) (is_world t)"
  shows "\<exists>out ev t'. evaluate_policy demo_env (session_checks demo_env session_policy session_keys) actor
      (session_ask reason wr) (session_state degraded_net ws) session_policy None None t = (Inr (out, ev), t') \<and> True"
proof -
  let ?k = "session_checks demo_env session_policy session_keys"
  have "control_plane_outcome demo_env ?k demo_time (session_ask reason wr) session_policy None = Inr None"
    by (simp add: control_plane_outcome_def session_policy_def)
  moreover have "state_time_violation (pc_max_state_age_seconds ?k) demo_time (session_state degraded_net ws) = Inr None"
    using session_state_fresh by (simp add: session_checks_def DEFAULT_STATE_MAX_AGE_SECONDS_def)
  moreover obtain r where "evaluate_network_requirements (network (requirements session_policy)) degraded_net
      (fallback session_policy) = Some r"
    by (simp add: evaluate_network_requirements_def network_state_authority_violation_def guardv_def
        session_policy_def profile_state_def)
  ultimately have "\<exists>v. policy_verdict demo_env ?k demo_time (session_ask reason wr) (session_state degraded_net ws)
      session_policy None = Inr v"
    unfolding policy_verdict_def Let_def guardr_def session_state_selectors by (cases r) (simp split: option.split)
  moreover have "request_time_violation (pc_max_request_age_seconds ?k) demo_time (session_ask reason wr) = Inr None"
    using session_request_admitted [of demo_world "[]"]
    by (simp add: request_admitted_def demo_world_def request_time_violation_def demo_simps)
  ultimately have "\<exists>out t1. evaluate_policy_inputs demo_env ?k (session_ask reason wr) (session_state degraded_net ws)
      session_policy None None t = (Inr out, t1)"
    by (auto simp: evaluate_policy_inputs_def Let_def bindo_def now_op_eq consume_op_eq checko_def demo_simps
        split: option.splits)
  with evaluate_policy_records [OF demo_uuid_inj assms] show ?thesis by blast
qed

lemma session_impaired_runs:
  "runs (session_at n K c) (demo_impaired demo_env (\<lambda>_. demo_time) session_policy session_keys ''degraded_teleop'')
     (\<lambda>x d. \<exists>c. session_at (n + 10) K c d)"
proof -
  have keys: "central_key session_keys = ''key''" "edge_key session_keys = ''key''" by (simp_all add: session_keys_def)
  have dec: "uuid_draws (snd (session_decision E p rq out l r w)) = uuid_draws w + 1" for E p rq out l r w
    by (simp add: session_decision_def draw_def tick_def split: prod.splits)
  show ?thesis
    unfolding demo_impaired_def keys
    apply (rule runs_bind, rule make_state_runs, rule session_profiles, rule runs_if_pure, elim exE conjE, simp only:)
    apply (rule runs_bind, rule audit_runs, simp)
    apply (rule runs_bind, rule making_runs, rule session_request_draws, rule runs_if_pure, elim exE conjE, simp only:)
    apply (rule runs_bind, rule audit_runs, simp)
    apply (rule runs_bind_pair, rule on_issuer_runs [where Q = "\<lambda>_. True"])
     apply (rule session_decides, assumption)
    apply (rule runs_if_pure, rule runs_ex, rule runs_bind, rule making_runs, rule dec, rule runs_if_pure, rule runs_ret)
    by (rule exI, erule session_more, simp)
qed

text \<open>After the revocation only the table of revocations matters.\<close>

definition revoked_at :: "capability_lease \<Rightarrow> demo_state \<Rightarrow> bool" where
  "revoked_at l d \<longleftrightarrow> gate_ok demo_env (ds_gate d) \<and> lease_id l \<in> dom (gs_revocations (ds_gate d))"

lemma session_revoke_runs:
  assumes "n \<le> 100" and "short wl"
  shows "runs (session_at n K c)
    (demo_revoke demo_env session_gate session_keys (Some (session_lease reason wr ws wl)) action)
    (\<lambda>_. revoked_at (session_lease reason wr ws wl))"
proof -
  let ?l = "session_lease reason wr ws wl"
  have draws: "uuid_draws (snd (session_revocation demo_env ?l action (edge_key session_keys) w)) = uuid_draws w + 1" for w
    by (simp add: session_revocation_def draw_def tick_def)
  have step: "runs (session_at (n + 1) K c)
      (bindo (on_gate (revoke demo_env session_gate (Revocation rv) (Some ?l) None)) (\<lambda>fb.
         if fb = None then raise AssertionError else ret (Some rv))) (\<lambda>_. revoked_at ?l)"
    if w: "uuid_draws w \<le> n" and rv: "rv = fst (session_revocation demo_env ?l action ''key'' w)" for rv w
    unfolding runs_def
  proof (intro allI impI)
    fix d assume d: "session_at (n + 1) K c d"
    then have ok: "gate_ok demo_env (ds_gate d)" by (simp add: session_at_def)
    have auth: "revocation_authorized demo_env session_gate (fst (now_or_clock demo_env None (gs_world (ds_gate d)))) rv ?l"
      using session_revocation_authorized [OF _ assms(2)] w assms(1) by (simp add: rv demo_simps)
    have "message_id rv \<notin> dom (map_of (rs_messages (gs_revocation_store (ds_gate d))))"
      using d by (simp add: session_at_def)
    from revoke_authorized [OF ok _ session_hooks auth this] obtain fb s' where
      rev: "revoke demo_env session_gate (Revocation rv) (Some ?l) None (ds_gate d) = (Inr (Some fb), s')"
      and s': "gs_revocations s' = (gs_revocations (ds_gate d))(lease_id ?l \<mapsto> revoked_lease_of rv (Some ?l))" by auto
    have "gate_ok demo_env s'" using progress_ok [OF keepsD [OF revoke_keeps rev] ok] by simp
    with rev s' show "\<exists>a d'. bindo (on_gate (revoke demo_env session_gate (Revocation rv) (Some ?l) None)) (\<lambda>fb.
        if fb = None then raise AssertionError else ret (Some rv)) d = (Inr a, d') \<and> revoked_at ?l d'"
      by (simp add: bindo_def on_gate_def revoked_at_def)
  qed
  show ?thesis
    unfolding demo_revoke_def option.case
    by (rule runs_bind, rule making_runs, rule draws, rule runs_if_pure, elim exE conjE, rule step)
      (simp_all add: session_keys_def)
qed

lemma session_lease_answered:
  assumes "short wr" "short ws" "short wl" and "lease_id (session_lease reason wr ws wl) \<in> dom (gs_revocations s)"
  shows "\<exists>v. validate_lease_for_command demo_env (gate_lease_checks session_gate s)
    (command_context_of (session_order prefix w) (Some st)) demo_time (Some (session_lease reason wr ws wl)) = Inr v"
proof -
  have "lease_authorizes demo_env (gate_lease_checks session_gate (s\<lparr>gs_revocations := Map.empty\<rparr>))
      (command_context_of (session_order prefix w) (Some (session_state normal_net ws))) demo_time
      (session_lease reason wr ws wl)"
    by (rule session_lease_authorizes [OF assms(1-3)]) simp
  then show ?thesis
    using assms(4)
    by (auto simp: validate_lease_for_command_def lease_authorizes_def issuer_vouches_def policy_vouches_def
        gate_lease_checks_def revoked_lease_ids_def guardr_def lease_time_violation_None_iff [THEN iffD2]
        lease_constraints_malformed_iff)
qed

lemma last_command_runs:
  assumes "short wr" "short ws" "short wl"
  shows "runs (revoked_at (session_lease reason wr ws wl))
    (demo_command_result demo_env session_gate session_keys prefix (Some (session_lease reason wr ws wl)) st) (\<lambda>_ _. True)"
  unfolding runs_def
proof (intro allI impI)
  fix d assume d: "revoked_at (session_lease reason wr ws wl) d"
  let ?w = "gs_world (ds_gate d)"
  let ?s = "(ds_gate d)\<lparr>gs_world := snd (make_command demo_env prefix ''key'' ?w)\<rparr>"
  have ok: "gate_ok demo_env ?s"
    using d by (intro gate_ok_world) (simp_all add: revoked_at_def make_command_draws)
  have "command_time_violation (max_command_age_seconds session_gate)
      (fst (now_or_clock demo_env None (gs_world ?s))) (session_order prefix ?w) = Inr None"
    by (simp add: session_order_fresh demo_simps)
  from printable_evaluate_returns [OF ok _ session_hooks this, of "Some (session_lease reason wr ws wl)" "Some st"]
    session_lease_answered [OF assms, of reason ?s prefix ?w st] d
  have "\<exists>r s'. evaluate demo_env session_gate (session_order prefix ?w) (Some (session_lease reason wr ws wl)) (Some st)
      None ?s = (Inr r, s')"
    by (auto simp: revoked_at_def lease_check_time_def demo_simps)
  then show "\<exists>a d'. demo_command_result demo_env session_gate session_keys prefix
      (Some (session_lease reason wr ws wl)) st d = (Inr a, d') \<and> True"
    by (auto simp: demo_command_result_def bindo_def on_world_def on_gate_def session_keys_def)
qed

section \<open>The whole session\<close>

lemma session_runs:
  "runs (session_at 0 {} session_requests)
     (demo_session demo_env session_gate (\<lambda>_. demo_time) session_policy session_keys ''degraded_teleop'')
     (\<lambda>out d. gr_allowed (do_valid_lease out))"
proof -
  have rest: "runs (session_at 29 K c)
      (bindo (demo_command_result demo_env session_gate session_keys ''cmd_no_lease'' None st) (\<lambda>no_lease_result.
       bindo (demo_impaired demo_env (\<lambda>_. demo_time) session_policy session_keys ''degraded_teleop'')
         (\<lambda>(degraded_state, degraded_decision).
       bindo (demo_revoke demo_env session_gate session_keys (dec_lease dec) (impaired_fallback degraded_decision))
         (\<lambda>revocation.
       bindo (demo_command_result demo_env session_gate session_keys ''cmd_after_revocation'' (dec_lease dec)
         degraded_state) (\<lambda>revoked_result.
       bindo (gets (\<lambda>d. gs_audit_log (ds_gate d))) (\<lambda>log.
         ret (out no_lease_result degraded_state degraded_decision revocation revoked_result log)))))))
      (\<lambda>o' d. gr_allowed (do_valid_lease o'))"
    if x: "granted (st, dec)" and out: "\<And>a b c d e f. gr_allowed (do_valid_lease (out a b c d e f))" for st dec K c out
  proof -
    from x obtain wr ws wl where short: "short wr" "short ws" "short wl"
      and l: "dec_lease dec = Some (session_lease ''low-confidence obstacle negotiation'' wr ws wl)"
      by (auto simp: granted_def)
    show ?thesis
      unfolding l
      by (rule runs_bind, rule no_lease_runs, rule runs_ex, rule runs_bind_pair, rule session_impaired_runs,
          rule runs_ex, rule runs_bind, rule session_revoke_runs, simp, rule short(3), rule runs_bind,
          rule last_command_runs, rule short(1), rule short(2), rule short(3))
        (simp add: runs_def bindo_def out)
  qed
  show ?thesis
    unfolding demo_session_def Let_def
    apply (rule runs_bind, rule session_setup_runs, rule runs_bind_pair, rule session_grant_runs)
    apply (rule runs_if_pure, rule runs_ex, rule runs_bind)
     apply (rule valid_command_runs [where x = "(a, b)" for a b, unfolded fst_conv snd_conv], assumption)
    apply (rule runs_if_pure, rule runs_ex)
    apply (rule rest, assumption)
    by simp
qed

lemma session_main_runs:
  "\<exists>out d. demo_main demo_env the_elem (\<lambda>_. demo_time) session_policy session_keys ''demo'' ''degraded_teleop''
       demo_world = Inr (out, d) \<and> gr_allowed (do_valid_lease out)"
proof (rule session_opens)
  fix d0
  assume opn: "demo_open demo_env the_elem (\<lambda>_. demo_time) session_policy session_keys ''demo'' ''degraded_teleop''
      demo_world = Inr (session_gate, d0)" and d0: "session_at 0 {} session_requests d0"
  from session_runs d0 obtain out d where run: "demo_session demo_env session_gate (\<lambda>_. demo_time) session_policy
      session_keys ''degraded_teleop'' d0 = (Inr out, d)" and allowed: "gr_allowed (do_valid_lease out)"
    unfolding runs_def by blast
  with opn show ?thesis by (auto simp: demo_main_Inr)
qed

theorem profile_states_expire_witness:
  "\<exists>s w'. make_state demo_env (\<lambda>_. demo_time) ''normal'' ''key'' demo_world = (Inr s, w') \<and>
     state_time_violation 30 (demo_time\<lparr>wall := wall demo_time + 61000000\<rparr>) s \<noteq> Inr None"
proof -
  note state = session_make_state [OF session_profiles(1), of demo_world]
  have "(30 + STATE_CLOCK_SKEW_SECONDS) * 1000000 <
      instant (demo_time\<lparr>wall := wall demo_time + 61000000\<rparr>) - instant demo_time"
    by (simp add: instant_def STATE_CLOCK_SKEW_SECONDS_def)
  from profile_states_expire [OF state this] state show ?thesis by blast
qed

end
