(* ===== verification/Policy_Document.thy ===== *)
theory Policy_Document
  imports Policy "HOL-Library.Monad_Syntax"
begin

text \<open>
  How a policy is read from its document (\<^verbatim>\<open>Policy.from_yaml\<close> of \<^verbatim>\<open>rclp_core/policy.py\<close>): the four classes
  with their declared fields, defaults, ranges, validators and \<^verbatim>\<open>extra="forbid"\<close>. A reader gives \<open>None\<close>
  where validation raises; the text of a validation error is not modelled.
\<close>

section \<open>Fields\<close>

text \<open>A field of a document: absent it has its default, which may itself fail.\<close>

definition field_of :: "dump \<Rightarrow> string \<Rightarrow> (json \<Rightarrow> 'a option) \<Rightarrow> 'a option \<Rightarrow> 'a option" where
  "field_of d k read absent = (case dict_get d k of None \<Rightarrow> absent | Some v \<Rightarrow> read v)"

fun str_field :: "json \<Rightarrow> string option" where
  "str_field (JStr s) = Some s"
| "str_field _ = None"

fun opt_str_field :: "json \<Rightarrow> string option option" where
  "opt_str_field JNull = Some None"
| "opt_str_field v = map_option Some (str_field v)"

fun str_list_field :: "json \<Rightarrow> string list option" where
  "str_list_field (JList xs) = those (map str_field xs)"
| "str_list_field _ = None"

definition bool_field :: "json \<Rightarrow> bool option" where
  "bool_field v = (case reject_coerced_bool v of Inr (JBool b) \<Rightarrow> Some b | _ \<Rightarrow> None)"

definition positive_int_field :: "json \<Rightarrow> int option" where
  "positive_int_field v = (case reject_coerced_int v of Inr (JInt n) \<Rightarrow> if 0 < n then Some n else None | _ \<Rightarrow> None)"

text \<open>An integer is converted to a double first, then the range is checked.\<close>

definition ranged :: "rat option \<Rightarrow> pyfloat \<Rightarrow> pyfloat option" where
  "ranged hi x = (if float_field_ok hi x then Some x else None)"

definition number_field :: "rat option \<Rightarrow> json \<Rightarrow> pyfloat option" where
  "number_field hi v =
     (case reject_coerced_number v of
        Inr (JInt n) \<Rightarrow> (case float_of_int n of Inl _ \<Rightarrow> None | Inr x \<Rightarrow> ranged hi x)
      | Inr (JFloat x) \<Rightarrow> ranged hi x
      | _ \<Rightarrow> None)"

definition opt_number_field :: "rat option \<Rightarrow> json \<Rightarrow> pyfloat option option" where
  "opt_number_field hi v =
     (case reject_coerced_optional_number v of
        Inr JNull \<Rightarrow> Some None
      | Inr w \<Rightarrow> map_option Some (number_field hi w)
      | Inl _ \<Rightarrow> None)"

text \<open>An enumeration is read by the values of its members.\<close>

definition member_of :: "('a \<Rightarrow> string) \<Rightarrow> 'a list \<Rightarrow> json \<Rightarrow> 'a option" where
  "member_of str members v = (case v of JStr s \<Rightarrow> find (\<lambda>a. str a = s) members | _ \<Rightarrow> None)"

definition capability_field :: "json \<Rightarrow> capability option" where
  "capability_field = member_of capability_str [REMOTE_ASSIST, MISSION_CONTINUE, AUTONOMY_ESCALATION]"

definition fallback_field :: "json \<Rightarrow> fallback_action option" where
  "fallback_field = member_of fallback_action_str
     [LOCAL_AUTONOMY_ONLY, CRAWL_TO_SAFE_ZONE, HOLD_POSITION, REVOKE_REMOTE_ASSIST, ESCALATE_TO_HUMAN]"

text \<open>\<^verbatim>\<open>extra="forbid"\<close>.\<close>

definition only_fields :: "string list \<Rightarrow> dump \<Rightarrow> bool" where
  "only_fields names d \<longleftrightarrow> (\<forall>kv \<in> set d. fst kv \<in> set names)"

section \<open>The four classes\<close>

definition NETWORK_REQUIREMENTS_FIELDS :: "string list" where
  "NETWORK_REQUIREMENTS_FIELDS =
     [''max_latency_ms_p95'', ''max_packet_loss_pct'', ''min_uplink_mbps'', ''deny_above_latency_ms_p95'',
      ''deny_above_packet_loss_pct'', ''deny_below_uplink_mbps'']"

fun network_requirements_of :: "json \<Rightarrow> network_requirements option" where
  "network_requirements_of (JDict d) =
     (if \<not> only_fields NETWORK_REQUIREMENTS_FIELDS d then None
      else do {
        latency \<leftarrow> field_of d ''max_latency_ms_p95'' (number_field None) (Some (Fin 80));
        loss \<leftarrow> field_of d ''max_packet_loss_pct'' (number_field (Some 100)) (Some (Fin 1));
        uplink \<leftarrow> field_of d ''min_uplink_mbps'' (number_field None) (Some (Fin 3));
        deny_latency \<leftarrow> field_of d ''deny_above_latency_ms_p95'' (number_field None) (Some (Fin 250));
        deny_loss \<leftarrow> field_of d ''deny_above_packet_loss_pct'' (number_field (Some 100)) (Some (Fin 10));
        deny_uplink \<leftarrow> field_of d ''deny_below_uplink_mbps'' (number_field None) (Some (Fin 0.8));
        let r = \<lparr>nr_max_latency_ms_p95 = latency, nr_max_packet_loss_pct = loss, nr_min_uplink_mbps = uplink,
          deny_above_latency_ms_p95 = deny_latency, deny_above_packet_loss_pct = deny_loss,
          deny_below_uplink_mbps = deny_uplink\<rparr>;
        if validate_degrade_window r = Inr () then Some r else None
      })"
| "network_requirements_of _ = None"

definition POLICY_REQUIREMENTS_FIELDS :: "string list" where
  "POLICY_REQUIREMENTS_FIELDS =
     [''allowed_agents'', ''allowed_edge_agents'', ''allowed_robots'', ''allowed_missions'', ''max_speed_mps'',
      ''geofence_required'', ''geofence_id'', ''geofence_allowed'', ''human_operator_available'',
      ''control_plane_required'', ''control_plane_must_be_reachable'', ''network'']"

text \<open>The default of a nested object is the result of its constructor without arguments.\<close>

fun policy_requirements_of :: "json \<Rightarrow> policy_requirements option" where
  "policy_requirements_of (JDict d) =
     (if \<not> only_fields POLICY_REQUIREMENTS_FIELDS d then None
      else do {
        agents \<leftarrow> field_of d ''allowed_agents'' str_list_field (Some []);
        edges \<leftarrow> field_of d ''allowed_edge_agents'' str_list_field (Some []);
        robots \<leftarrow> field_of d ''allowed_robots'' str_list_field (Some []);
        missions \<leftarrow> field_of d ''allowed_missions'' str_list_field (Some []);
        speed \<leftarrow> field_of d ''max_speed_mps'' (opt_number_field None) (Some None);
        gf_required \<leftarrow> field_of d ''geofence_required'' bool_field (Some True);
        gf_id \<leftarrow> field_of d ''geofence_id'' opt_str_field (Some None);
        gf_allowed \<leftarrow> field_of d ''geofence_allowed'' bool_field (Some True);
        human \<leftarrow> field_of d ''human_operator_available'' bool_field (Some True);
        cp_required \<leftarrow> field_of d ''control_plane_required'' bool_field (Some False);
        cp_reachable \<leftarrow> field_of d ''control_plane_must_be_reachable'' bool_field (Some True);
        net \<leftarrow> field_of d ''network'' network_requirements_of (network_requirements_of (JDict []));
        let r = \<lparr>allowed_agents = agents, allowed_edge_agents = edges, allowed_robots = robots,
          allowed_missions = missions, pr_max_speed_mps = speed, geofence_required = gf_required,
          pr_geofence_id = gf_id, geofence_allowed = gf_allowed, pr_human_operator_available = human,
          control_plane_required = cp_required, control_plane_must_be_reachable = cp_reachable, network = net\<rparr>;
        if validate_geofence_identity r = Inr () then Some r else None
      })"
| "policy_requirements_of _ = None"

definition FALLBACK_POLICY_FIELDS :: "string list" where
  "FALLBACK_POLICY_FIELDS = [''on_deny'', ''on_network_degrade'', ''on_disconnect'', ''on_expiry'']"

fun fallback_policy_of :: "json \<Rightarrow> fallback_policy option" where
  "fallback_policy_of (JDict d) =
     (if \<not> only_fields FALLBACK_POLICY_FIELDS d then None
      else do {
        deny \<leftarrow> field_of d ''on_deny'' fallback_field (Some LOCAL_AUTONOMY_ONLY);
        degrade \<leftarrow> field_of d ''on_network_degrade'' fallback_field (Some CRAWL_TO_SAFE_ZONE);
        disconnect \<leftarrow> field_of d ''on_disconnect'' fallback_field (Some LOCAL_AUTONOMY_ONLY);
        expiry \<leftarrow> field_of d ''on_expiry'' fallback_field (Some REVOKE_REMOTE_ASSIST);
        Some \<lparr>on_deny = deny, on_network_degrade = degrade, on_disconnect = disconnect, on_expiry = expiry\<rparr>
      })"
| "fallback_policy_of _ = None"

definition POLICY_FIELDS :: "string list" where
  "POLICY_FIELDS = [''policy_id'', ''capability'', ''lease_ttl_seconds'', ''requirements'', ''fallback'']"

fun policy_of :: "json \<Rightarrow> policy option" where
  "policy_of (JDict d) =
     (if \<not> only_fields POLICY_FIELDS d then None
      else do {
        ident \<leftarrow> field_of d ''policy_id'' str_field None;
        cap \<leftarrow> field_of d ''capability'' capability_field None;
        ttl \<leftarrow> field_of d ''lease_ttl_seconds'' positive_int_field (Some 600);
        reqs \<leftarrow> field_of d ''requirements'' policy_requirements_of (policy_requirements_of (JDict []));
        fb \<leftarrow> field_of d ''fallback'' fallback_policy_of (fallback_policy_of (JDict []));
        Some \<lparr>policy_id = ident, policy_capability = cap, lease_ttl_seconds = ttl, requirements = reqs, fallback = fb\<rparr>
      })"
| "policy_of _ = None"

text \<open>\<open>safe_load\<close> is the YAML reader; it may refuse the text.\<close>

datatype load_error = YamlError | ValidationError

definition policy_from_yaml :: "(string \<Rightarrow> json option) \<Rightarrow> string \<Rightarrow> load_error + policy" where
  "policy_from_yaml safe_load text =
     (case safe_load text of
        None \<Rightarrow> Inl YamlError
      | Some v \<Rightarrow> (case policy_of v of None \<Rightarrow> Inl ValidationError | Some p \<Rightarrow> Inr p))"

section \<open>Reading and writing documents\<close>

text \<open>
  What the classes have in common: reading gives valid objects only, and the document that an object is
  written as is read back as that object.
\<close>

locale document_class =
  fixes read :: "json \<Rightarrow> 'a option"
    and dump :: "'a \<Rightarrow> dump"
    and valid :: "'a \<Rightarrow> bool"
  assumes read_valid: "read v = Some a \<Longrightarrow> valid a"
    and read_dump: "valid a \<Longrightarrow> read (JDict (dump a)) = Some a"
begin

lemma valid_iff_readable: "valid a \<longleftrightarrow> (\<exists>v. read v = Some a)"
  using read_valid read_dump by blast

lemma reload: "read v = Some a \<Longrightarrow> read (JDict (dump a)) = Some a"
  using read_valid read_dump by blast

lemma dump_injective: "valid a \<Longrightarrow> valid b \<Longrightarrow> dump a = dump b \<Longrightarrow> a = b"
  by (metis option.inject read_dump)

end

named_theorems field_simps \<open>reading of fields that a dump has written\<close>

lemma number_field_valid: "number_field hi v = Some x \<Longrightarrow> float_field_ok hi x"
  by (auto simp: number_field_def ranged_def split: sum.splits json.splits if_splits)

lemma opt_number_field_valid: "opt_number_field hi v = Some x \<Longrightarrow> opt_float_field_ok hi x"
  by (auto simp: opt_number_field_def opt_float_field_ok_def number_field_valid split: sum.splits json.splits option.splits)

lemma number_field_dump [field_simps]:
  "float_field_ok hi x \<Longrightarrow> number_field hi (JFloat x) = Some x"
  "opt_float_field_ok hi y \<Longrightarrow> opt_number_field hi (jopt JFloat y) = Some y"
  by (auto simp: number_field_def reject_coerced_number_def ranged_def opt_number_field_def
      reject_coerced_optional_number_def opt_float_field_ok_def jopt_def split: option.splits)

lemma those_map_Some: "those (map Some xs) = Some xs"
  by (induction xs) simp_all

lemma scalar_field_dump [field_simps]:
  "bool_field (JBool b) = Some b" "opt_str_field (jstr_opt s) = Some s" "str_list_field (JList (map JStr ss)) = Some ss"
  "0 < n \<Longrightarrow> positive_int_field (JInt n) = Some n"
  by (auto simp: bool_field_def reject_coerced_bool_def positive_int_field_def reject_coerced_int_def jopt_def
      comp_def those_map_Some split: option.splits)

lemma enum_field_dump [field_simps]:
  "capability_field (JStr (capability_str c)) = Some c" "fallback_field (JStr (fallback_action_str f)) = Some f"
  by (cases c; simp add: capability_field_def member_of_def) (cases f; simp add: fallback_field_def member_of_def)

lemma only_fields_simps [field_simps]:
  "only_fields names []" "only_fields names ((k, v) # d) \<longleftrightarrow> k \<in> set names \<and> only_fields names d"
  by (auto simp: only_fields_def)

lemma field_of_Nil [field_simps]: "field_of [] k read absent = absent"
  by (simp add: field_of_def dict_get_def)

lemma field_of_Cons [field_simps]:
  "field_of ((k', v) # d) k read absent = (if k' = k then read v else field_of d k read absent)"
  by (simp add: field_of_def dict_get_def)

lemma number_field_of_valid:
  "field_of d k (number_field hi) (Some x) = Some y \<Longrightarrow> float_field_ok hi x \<Longrightarrow> float_field_ok hi y"
  "field_of d k (opt_number_field hi) (Some None) = Some z \<Longrightarrow> opt_float_field_ok hi z"
  by (auto simp: field_of_def opt_float_field_ok_def [of hi None] split: option.splits
      dest: number_field_valid opt_number_field_valid)

lemma positive_int_field_of_valid:
  "field_of d k positive_int_field (Some m) = Some n \<Longrightarrow> 0 < m \<Longrightarrow> 0 < n"
  by (auto simp: field_of_def positive_int_field_def split: option.splits sum.splits json.splits if_splits)

lemma object_field_of_valid:
  "field_of d k read (read v) = Some a \<Longrightarrow> \<exists>v. read v = Some a"
  by (auto simp: field_of_def split: option.splits)

interpretation network_document: document_class network_requirements_of network_requirements_dump network_requirements_valid
proof unfold_locales
  fix v r assume "network_requirements_of v = Some r"
  then show "network_requirements_valid r"
    by (cases v) (auto simp: network_requirements_valid_def bind_eq_Some_conv Let_def float_field_ok_def [of _ "Fin _"]
        split: if_splits dest!: number_field_of_valid(1))
next
  fix r assume "network_requirements_valid r"
  then show "network_requirements_of (JDict (network_requirements_dump r)) = Some r"
    by (cases r) (simp add: network_requirements_valid_def network_requirements_dump_def NETWORK_REQUIREMENTS_FIELDS_def field_simps Let_def)
qed

definition requirements_valid :: "policy_requirements \<Rightarrow> bool" where
  "requirements_valid r \<longleftrightarrow>
     opt_float_field_ok None (pr_max_speed_mps r) \<and> validate_geofence_identity r = Inr () \<and>
     network_requirements_valid (network r)"

lemma policy_valid_iff: "policy_valid p \<longleftrightarrow> 0 < lease_ttl_seconds p \<and> requirements_valid (requirements p)"
  by (auto simp: policy_valid_def requirements_valid_def)

interpretation requirements_document: document_class policy_requirements_of policy_requirements_dump requirements_valid
proof unfold_locales
  fix v r assume "policy_requirements_of v = Some r"
  then show "requirements_valid r"
    by (cases v) (auto simp: requirements_valid_def bind_eq_Some_conv Let_def network_document.valid_iff_readable
        simp del: network_requirements_of.simps split: if_splits dest!: number_field_of_valid(2) object_field_of_valid)
next
  fix r assume "requirements_valid r"
  then show "policy_requirements_of (JDict (policy_requirements_dump r)) = Some r"
    by (cases r) (simp add: requirements_valid_def policy_requirements_dump_def POLICY_REQUIREMENTS_FIELDS_def field_simps
        network_document.read_dump Let_def del: network_requirements_of.simps str_list_field.simps)
qed

interpretation fallback_document: document_class fallback_policy_of fallback_policy_dump "\<lambda>_. True"
  by unfold_locales (simp_all add: fallback_policy_dump_def FALLBACK_POLICY_FIELDS_def field_simps)

interpretation policy_document: document_class policy_of policy_dump policy_valid
proof unfold_locales
  fix v p assume "policy_of v = Some p"
  then show "policy_valid p"
    by (cases v) (auto simp: policy_valid_iff bind_eq_Some_conv requirements_document.valid_iff_readable
        simp del: policy_requirements_of.simps split: if_splits
        dest!: object_field_of_valid [of _ _ policy_requirements_of] dest: positive_int_field_of_valid)
next
  fix p assume "policy_valid p"
  then show "policy_of (JDict (policy_dump p)) = Some p"
    by (simp add: policy_valid_iff policy_dump_def POLICY_FIELDS_def field_simps requirements_document.read_dump
        fallback_document.read_dump del: policy_requirements_of.simps fallback_policy_of.simps)
qed

text \<open>A policy document needs its requirements: without them the default has no geofence and is refused.\<close>

lemma default_requirements_refused: "policy_requirements_of (JDict []) = None"
  by (simp add: field_simps Let_def validate_degrade_window_def validate_geofence_identity_def)

lemma field_of_required: "field_of d k read None = Some a \<Longrightarrow> k \<in> fst ` set d"
  by (auto simp: field_of_def dict_get_def split: option.splits dest: map_of_SomeD intro: rev_image_eqI)

lemma network_valid_not_malformed: "network_requirements_valid r \<Longrightarrow> \<not> network_requirements_malformed r"
  by (auto simp: network_requirements_valid_def network_requirements_malformed_def finite_nonnegative_number_iff
      validate_degrade_window_def split: if_splits)

lemma policy_loaded_valid: "policy_from_yaml safe_load text = Inr p \<Longrightarrow> policy_valid p"
  by (auto simp: policy_from_yaml_def policy_document.read_valid split: option.splits)

text \<open>The keys of a document that is read, class by class.\<close>

lemma network_requirements_of_keys:
  "network_requirements_of v = Some r \<Longrightarrow> \<exists>n. v = JDict n \<and> fst ` set n \<subseteq> set NETWORK_REQUIREMENTS_FIELDS"
  by (cases v) (auto simp: only_fields_def split: if_splits)

lemma fallback_policy_of_keys:
  "fallback_policy_of v = Some r \<Longrightarrow> \<exists>f. v = JDict f \<and> fst ` set f \<subseteq> set FALLBACK_POLICY_FIELDS"
  by (cases v) (auto simp: only_fields_def split: if_splits)

lemma field_of_present: "field_of d k read absent = Some a \<Longrightarrow> dict_get d k = Some v \<Longrightarrow> read v = Some a"
  by (simp add: field_of_def)

lemma policy_requirements_of_keys:
  assumes "policy_requirements_of v = Some r"
  shows "\<exists>rs. v = JDict rs \<and> fst ` set rs \<subseteq> set POLICY_REQUIREMENTS_FIELDS \<and>
    (\<forall>w. dict_get rs ''network'' = Some w \<longrightarrow> (\<exists>n. w = JDict n \<and> fst ` set n \<subseteq> set NETWORK_REQUIREMENTS_FIELDS))"
proof -
  from assms obtain rs where v: "v = JDict rs" by (cases v) simp_all
  from assms have "fst ` set rs \<subseteq> set POLICY_REQUIREMENTS_FIELDS"
    by (auto simp: v only_fields_def simp del: network_requirements_of.simps split: if_splits)
  moreover from assms obtain net where
    "field_of rs ''network'' network_requirements_of (network_requirements_of (JDict [])) = Some net"
    by (auto simp: v bind_eq_Some_conv simp del: network_requirements_of.simps split: if_splits)
  from field_of_present [OF this] have "\<forall>w. dict_get rs ''network'' = Some w \<longrightarrow>
      (\<exists>n. w = JDict n \<and> fst ` set n \<subseteq> set NETWORK_REQUIREMENTS_FIELDS)"
    using network_requirements_of_keys by blast
  ultimately show ?thesis using v by blast
qed

lemma policy_of_SomeE:
  assumes "policy_of v = Some p"
  shows "\<exists>d rs. v = JDict d \<and> fst ` set d \<subseteq> set POLICY_FIELDS \<and>
    {''policy_id'', ''capability'', ''requirements''} \<subseteq> fst ` set d \<and>
    dict_get d ''requirements'' = Some (JDict rs) \<and> fst ` set rs \<subseteq> set POLICY_REQUIREMENTS_FIELDS \<and>
    (\<forall>v. dict_get rs ''network'' = Some v \<longrightarrow> (\<exists>n. v = JDict n \<and> fst ` set n \<subseteq> set NETWORK_REQUIREMENTS_FIELDS)) \<and>
    (\<forall>v. dict_get d ''fallback'' = Some v \<longrightarrow> (\<exists>f. v = JDict f \<and> fst ` set f \<subseteq> set FALLBACK_POLICY_FIELDS))"
proof -
  from assms obtain d where v: "v = JDict d" by (cases v) simp_all
  note simps = v bind_eq_Some_conv only_fields_def default_requirements_refused
  from assms have keys: "fst ` set d \<subseteq> set POLICY_FIELDS" "{''policy_id'', ''capability'', ''requirements''} \<subseteq> fst ` set d"
    by (auto simp: simps simp del: policy_requirements_of.simps split: if_splits dest: field_of_required)
  from assms obtain r f where r: "field_of d ''requirements'' policy_requirements_of None = Some r"
    and f: "field_of d ''fallback'' fallback_policy_of (fallback_policy_of (JDict [])) = Some f"
    by (auto simp: simps simp del: policy_requirements_of.simps fallback_policy_of.simps split: if_splits)
  from r obtain w where w: "dict_get d ''requirements'' = Some w" "policy_requirements_of w = Some r"
    by (auto simp: field_of_def split: option.splits)
  from policy_requirements_of_keys [OF w(2)] obtain rs where "w = JDict rs"
    "fst ` set rs \<subseteq> set POLICY_REQUIREMENTS_FIELDS"
    "\<forall>w. dict_get rs ''network'' = Some w \<longrightarrow> (\<exists>n. w = JDict n \<and> fst ` set n \<subseteq> set NETWORK_REQUIREMENTS_FIELDS)"
    by blast
  moreover have "\<forall>v. dict_get d ''fallback'' = Some v \<longrightarrow> (\<exists>f. v = JDict f \<and> fst ` set f \<subseteq> set FALLBACK_POLICY_FIELDS)"
    using field_of_present [OF f] fallback_policy_of_keys by blast
  ultimately show ?thesis using v w(1) keys by (intro exI [of _ d] exI [of _ rs]) simp
qed

section \<open>Properties\<close>

text \<open>
  C28. A policy document round trip: every policy that satisfies the declared ranges and validators is read
  back unchanged from the document it is written as, the document its digest is taken of; so two valid
  policies with one document are one policy.
\<close>

theorem policy_document_roundtrip:
  assumes "policy_valid p"
  shows "policy_of (JDict (policy_dump p)) = Some p \<and> (policy_valid q \<and> policy_dump q = policy_dump p \<longrightarrow> q = p)"
  using policy_document.read_dump [OF assms] policy_document.dump_injective [OF _ assms] by blast

text \<open>
  C40. What a loaded policy can be relied on for: it satisfies every declared range and validator, has a
  positive lease lifetime, and trips neither of the checks for malformed requirements that the evaluation
  makes; its document has no undeclared key, neither at the top nor in the requirements, their network part
  or the fallbacks, and does have the keys for the identifier, the capability and, although they have a
  declared default, the requirements.
\<close>

theorem loaded_policy_well_formed:
  assumes "policy_from_yaml safe_load text = Inr p"
  shows "policy_valid p \<and> 0 < lease_ttl_seconds p \<and>
    \<not> network_requirements_malformed (network (requirements p)) \<and> \<not> geofence_requirements_malformed (requirements p) \<and>
    (\<exists>d rs. safe_load text = Some (JDict d) \<and> fst ` set d \<subseteq> set POLICY_FIELDS \<and>
       {''policy_id'', ''capability'', ''requirements''} \<subseteq> fst ` set d \<and>
       dict_get d ''requirements'' = Some (JDict rs) \<and> fst ` set rs \<subseteq> set POLICY_REQUIREMENTS_FIELDS \<and>
       (\<forall>v. dict_get rs ''network'' = Some v \<longrightarrow> (\<exists>n. v = JDict n \<and> fst ` set n \<subseteq> set NETWORK_REQUIREMENTS_FIELDS)) \<and>
       (\<forall>v. dict_get d ''fallback'' = Some v \<longrightarrow> (\<exists>f. v = JDict f \<and> fst ` set f \<subseteq> set FALLBACK_POLICY_FIELDS)))"
proof -
  from assms obtain v where load: "safe_load text = Some v" "policy_of v = Some p"
    by (auto simp: policy_from_yaml_def split: option.splits)
  from assms have valid: "policy_valid p" by (rule policy_loaded_valid)
  then have "\<not> network_requirements_malformed (network (requirements p))"
    "\<not> geofence_requirements_malformed (requirements p)" "0 < lease_ttl_seconds p"
    by (auto simp: policy_valid_def network_valid_not_malformed geofence_requirements_malformed_def
        validate_geofence_identity_def split: option.splits if_splits)
  with valid load(1) policy_of_SomeE [OF load(2)] show ?thesis by metis
qed

end
