(* ===== verification/Demo_Cli.thy ===== *)
theory Demo_Cli
  imports Remote_Assist Policy_Document
begin

text \<open>
  The command line of the demonstration (\<^verbatim>\<open>cli\<close> and the start of \<^verbatim>\<open>main\<close> in
  \<^verbatim>\<open>rclp_agents/demo_remote_assist.py\<close>): the profile is chosen among those of the network other than the
  normal one, the policy is read from its file, and the session runs under it.
\<close>

section \<open>From the command line to the session\<close>

datatype demo_failure =
    UsageError
  | LoadFailed load_error
  | Raised exn

definition cli_choices :: "string list" where
  "cli_choices = filter (\<lambda>name. name \<noteq> ''normal'') profile_names"

text \<open>\<open>arg\<close> is the value given with \<^verbatim>\<open>--network-profile\<close>, if it is given.\<close>

definition cli_profile :: "string option \<Rightarrow> demo_failure + string" where
  "cli_profile arg =
     (case arg of
        None \<Rightarrow> Inr ''degraded_teleop''
      | Some name \<Rightarrow> if name \<in> set cli_choices then Inr name else Inl UsageError)"

definition main_on ::
  "env \<Rightarrow> (string set \<Rightarrow> string) \<Rightarrow> (network_profile \<Rightarrow> datetime) \<Rightarrow> (string \<Rightarrow> json option) \<Rightarrow> string \<Rightarrow> demo_keys
    \<Rightarrow> string \<Rightarrow> string \<Rightarrow> world \<Rightarrow> demo_failure + (demo_output \<times> demo_state)" where
  "main_on E first_of t safe_load policy_text keys dir impaired w =
     (case policy_from_yaml safe_load policy_text of
        Inl e \<Rightarrow> Inl (LoadFailed e)
      | Inr p \<Rightarrow> (case demo_main E first_of t p keys dir impaired w of
          Inl e \<Rightarrow> Inl (Raised e)
        | Inr r \<Rightarrow> Inr r))"

definition cli ::
  "env \<Rightarrow> (string set \<Rightarrow> string) \<Rightarrow> (network_profile \<Rightarrow> datetime) \<Rightarrow> (string \<Rightarrow> json option) \<Rightarrow> string \<Rightarrow> demo_keys
    \<Rightarrow> string \<Rightarrow> string option \<Rightarrow> world \<Rightarrow> demo_failure + (demo_output \<times> demo_state)" where
  "cli E first_of t safe_load policy_text keys dir arg w =
     (case cli_profile arg of
        Inl e \<Rightarrow> Inl e
      | Inr impaired \<Rightarrow> main_on E first_of t safe_load policy_text keys dir impaired w)"

section \<open>What a completed run has passed\<close>

lemma cli_profile_choice: "cli_profile arg = Inr name \<Longrightarrow> name \<in> set cli_choices"
  by (auto simp: cli_profile_def cli_choices_def profile_names_def split: option.splits if_splits)

text \<open>Every choice names a profile, so no run fails for want of one.\<close>

lemma cli_choice_profile: "name \<in> set cli_choices \<Longrightarrow> \<exists>n. profile t name = Inr n"
  by (simp add: cli_choices_def profile_defined_iff)

lemma cli_Inr:
  "cli E first_of t safe_load policy_text keys dir arg w = Inr r \<longleftrightarrow>
     (\<exists>impaired p. cli_profile arg = Inr impaired \<and> policy_from_yaml safe_load policy_text = Inr p \<and>
        demo_main E first_of t p keys dir impaired w = Inr r)"
  by (auto simp: cli_def main_on_def split: sum.splits)

section \<open>Properties\<close>

text \<open>
  C34. The demonstration shows what it claims, from the command line on: under every environment, policy
  file and choice of profile, whenever the program runs to its end it has loaded a well-formed policy and
  impaired the network with a profile that exists and is not the normal one; the command without a lease
  and the command after the impairment are refused; a command is allowed before it only under a lease
  granted by an ALLOW decision, which is revoked at the end; and the recorded events are a chain that the
  batch validator accepts.
\<close>

theorem demonstration_refuses_unauthorized:
  assumes "cli E first_of t safe_load policy_text keys dir arg w = Inr (out, d)"
  shows "(\<exists>p impaired n. policy_from_yaml safe_load policy_text = Inr p \<and> policy_valid p \<and>
       cli_profile arg = Inr impaired \<and> impaired \<noteq> ''normal'' \<and> profile t impaired = Inr n) \<and>
    \<not> gr_allowed (do_no_lease_result out) \<and> \<not> gr_allowed (do_after_revocation_result out) \<and>
    (gr_allowed (do_valid_lease out) \<longrightarrow>
       (\<exists>l. dec_lease (do_normal_decision out) = Some l \<and> dec_decision (do_normal_decision out) = ALLOW \<and>
          lease_id l \<in> dom (gs_revocations (ds_gate d)))) \<and>
    audit_batch_chain_violation E (do_events out) = None"
proof -
  from assms obtain impaired p where chosen: "cli_profile arg = Inr impaired"
    and loaded: "policy_from_yaml safe_load policy_text = Inr p"
    and run: "demo_main E first_of t p keys dir impaired w = Inr (out, d)" by (auto simp: cli_Inr)
  from cli_profile_choice [OF chosen] have "impaired \<noteq> ''normal''" "\<exists>n. profile t impaired = Inr n"
    by (auto simp: cli_choice_profile) (simp add: cli_choices_def)
  with chosen loaded policy_loaded_valid [OF loaded] session_refuses_unauthorized [OF run] show ?thesis by blast
qed

end
