(* ===== verification/Policy_Scenario.thy ===== *)
theory Policy_Scenario
  imports Session_Scenario Demo_Cli
begin

text \<open>
  The policy of the demonstration as it is written in \<^verbatim>\<open>examples/policies/remote_assist_policy.yaml\<close>: what
  the YAML reader makes of the file is read as the policy that the demonstration of the theory
  \<open>Session_Scenario\<close> runs with.
\<close>

definition session_document :: json where
  "session_document = JDict
     [(''policy_id'', JStr ''remote-assist-authority-v0''),
      (''capability'', JStr ''remote_assist''),
      (''lease_ttl_seconds'', JInt 600),
      (''requirements'', JDict
         [(''allowed_agents'', JList [JStr ''fleet-agent:v0.1'']),
          (''allowed_edge_agents'', JList [JStr ''edge-agent:rover-001'']),
          (''allowed_robots'', JList [JStr ''rover-001'']),
          (''allowed_missions'', JList [JStr ''mission-001'']),
          (''geofence_required'', JBool True),
          (''geofence_id'', JStr ''test-zone-a''),
          (''geofence_allowed'', JBool True),
          (''human_operator_available'', JBool True),
          (''network'', JDict
             [(''max_latency_ms_p95'', JInt 80),
              (''max_packet_loss_pct'', JFloat (Fin 1)),
              (''min_uplink_mbps'', JFloat (Fin 3))])]),
      (''fallback'', JDict
         [(''on_deny'', JStr ''local_autonomy_only''),
          (''on_network_degrade'', JStr ''crawl_to_safe_zone''),
          (''on_disconnect'', JStr ''local_autonomy_only''),
          (''on_expiry'', JStr ''revoke_remote_assist'')])]"

lemma session_network_loaded:
  "network_requirements_of (JDict
     [(''max_latency_ms_p95'', JInt 80), (''max_packet_loss_pct'', JFloat (Fin 1)), (''min_uplink_mbps'', JFloat (Fin 3))]) =
   Some (network (requirements session_policy))"
  by (simp add: NETWORK_REQUIREMENTS_FIELDS_def field_simps number_field_def reject_coerced_number_def float_of_int_def
      ranged_def float_field_ok_def Let_def validate_degrade_window_def session_policy_def)

lemma session_geofence_named: "\<not> py_blank ''test-zone-a''"
  by code_simp

lemma session_policy_loaded: "policy_of session_document = Some session_policy"
proof -
  have "session_policy = \<lparr>policy_id = ''remote-assist-authority-v0'', policy_capability = REMOTE_ASSIST,
      lease_ttl_seconds = 600,
      requirements = \<lparr>allowed_agents = [''fleet-agent:v0.1''], allowed_edge_agents = [''edge-agent:rover-001''],
        allowed_robots = [''rover-001''], allowed_missions = [''mission-001''], pr_max_speed_mps = None,
        geofence_required = True, pr_geofence_id = Some ''test-zone-a'', geofence_allowed = True,
        pr_human_operator_available = True, control_plane_required = False, control_plane_must_be_reachable = True,
        network = network (requirements session_policy)\<rparr>,
      fallback = \<lparr>on_deny = LOCAL_AUTONOMY_ONLY, on_network_degrade = CRAWL_TO_SAFE_ZONE,
        on_disconnect = LOCAL_AUTONOMY_ONLY, on_expiry = REVOKE_REMOTE_ASSIST\<rparr>\<rparr>"
    by (simp add: session_policy_def CENTRAL_AGENT_ID_def EDGE_AGENT_ID_def ROBOT_ID_def MISSION_ID_def GEOFENCE_ID_def)
  then show ?thesis
    by (simp add: session_document_def POLICY_FIELDS_def POLICY_REQUIREMENTS_FIELDS_def FALLBACK_POLICY_FIELDS_def
        field_simps session_network_loaded bool_field_def reject_coerced_bool_def positive_int_field_def
        reject_coerced_int_def capability_field_def fallback_field_def member_of_def Let_def
        validate_geofence_identity_def session_geofence_named del: network_requirements_of.simps py_blank.simps)
qed

text \<open>With a YAML reader that gives this document, whatever the text.\<close>

theorem loaded_policy_well_formed_witness:
  "policy_from_yaml (\<lambda>text. Some session_document) ''policy'' = Inr session_policy \<and> policy_valid session_policy"
proof -
  have load: "policy_from_yaml (\<lambda>text. Some session_document) ''policy'' = Inr session_policy"
    by (simp add: policy_from_yaml_def session_policy_loaded)
  with loaded_policy_well_formed [OF load] show ?thesis by simp
qed

theorem demonstration_refuses_unauthorized_witness:
  "\<exists>out d. cli demo_env the_elem (\<lambda>_. demo_time) (\<lambda>text. Some session_document) ''policy'' session_keys ''demo'' None
       demo_world = Inr (out, d) \<and>
     gr_allowed (do_valid_lease out) \<and> \<not> gr_allowed (do_no_lease_result out) \<and>
     \<not> gr_allowed (do_after_revocation_result out)"
proof -
  from session_main_runs obtain out d where main: "demo_main demo_env the_elem (\<lambda>_. demo_time) session_policy
      session_keys ''demo'' ''degraded_teleop'' demo_world = Inr (out, d)" and allowed: "gr_allowed (do_valid_lease out)"
    by blast
  then have run: "cli demo_env the_elem (\<lambda>_. demo_time) (\<lambda>text. Some session_document) ''policy'' session_keys ''demo''
      None demo_world = Inr (out, d)"
    by (simp add: cli_Inr cli_profile_def policy_from_yaml_def session_policy_loaded)
  from demonstration_refuses_unauthorized [OF run] run allowed show ?thesis by blast
qed

theorem policy_document_roundtrip_witness:
  "policy_valid session_policy \<and> policy_of (JDict (policy_dump session_policy)) = Some session_policy"
proof -
  have valid: "policy_valid session_policy" using policy_document.read_valid [OF session_policy_loaded] .
  with policy_document_roundtrip [OF valid] show ?thesis by simp
qed

end
