(* ===== verification/Parity_Report.thy ===== *)
theory Parity_Report
  imports Wire
begin

text \<open>
  The comparison of the two implementations (\<^verbatim>\<open>scripts/run_cross_language_conformance.py\<close>): the scenarios of
  the Python evaluation and the test vectors of the Rust verifier are paired, and each pair has to agree on
  the decision and to give the expected reasons. The subprocesses and the contents of the files that they
  leave are arguments; what the script prints is a list of lines.
\<close>

section \<open>The pairs\<close>

record parity_case =
  python_name :: string
  rust_name :: string
  python_reason_codes :: "string set"
  rust_reason_codes :: "string set"

definition ParityCase :: "string \<Rightarrow> string \<Rightarrow> string set \<Rightarrow> string set \<Rightarrow> parity_case" where
  "ParityCase p r pcs rcs =
     \<lparr>python_name = p, rust_name = r, python_reason_codes = pcs, rust_reason_codes = rcs\<rparr>"

definition PARITY_CASES :: "parity_case list" where
  "PARITY_CASES =
     [ParityCase ''valid_remote_assist'' ''valid_remote_assist_lease'' {''LEASE_VALID''} {''ALLOW''},
      ParityCase ''expired_lease_denied'' ''expired_lease_rejected'' {''LEASE_EXPIRED''} {''DENY_EXPIRED_LEASE''},
      ParityCase ''revoked_lease_denied'' ''revoked_lease_rejected'' {''LEASE_REVOKED''} {''DENY_REVOKED_LEASE''},
      ParityCase ''replay_nonce_denied'' ''replay_nonce_rejected'' {''REQUEST_REPLAYED''} {''DENY_REPLAYED_NONCE''},
      ParityCase ''wrong_central_agent_denied'' ''wrong_agent_rejected'' {''COMMAND_AGENT_KEY_NOT_TRUSTED''} {''DENY_AGENT_MISMATCH''},
      ParityCase ''wrong_edge_agent_denied'' ''wrong_edge_agent_rejected'' {''EDGE_AGENT_MISMATCH''} {''DENY_AGENT_MISMATCH''},
      ParityCase ''wrong_robot_denied'' ''wrong_robot_rejected'' {''LEASE_CONTEXT_MISMATCH''} {''DENY_ROBOT_MISMATCH''},
      ParityCase ''wrong_mission_denied'' ''wrong_mission_rejected'' {''LEASE_CONTEXT_MISMATCH''} {''DENY_MISSION_MISMATCH''},
      ParityCase ''capability_not_granted_denied'' ''wrong_capability_rejected'' {''LEASE_CONTEXT_MISMATCH''} {''DENY_CAPABILITY_NOT_GRANTED''},
      ParityCase ''unknown_alg_denied'' ''unknown_algorithm_rejected'' {''LEASE_SIGNATURE_ALGORITHM_UNSUPPORTED''} {''DENY_UNKNOWN_ALGORITHM''},
      ParityCase ''malformed_signature_denied'' ''malformed_signature_rejected'' {''INVALID_SIGNATURE''} {''DENY_INVALID_SIGNATURE''},
      ParityCase ''geofence_violation_denied'' ''geofence_violation_rejected'' {''GEOFENCE_CONSTRAINT_VIOLATED''} {''DENY_GEOFENCE_VIOLATION''},
      ParityCase ''cloud_partition_no_new_authority'' ''network_partition_rejected'' {''NETWORK_DETACHED''} {''DENY_NETWORK_POLICY''},
      ParityCase ''stale_current_state_denied'' ''stale_local_state_rejected'' {''STATE_STALE''} {''DENY_STALE_STATE''},
      ParityCase ''max_speed_too_high_denied'' ''max_speed_too_high_rejected'' {''COMMAND_SPEED_TOO_HIGH''} {''DENY_COMMAND_CONSTRAINT''}]"

section \<open>Python's view of parsed JSON\<close>

text \<open>\<^verbatim>\<open>d.get(k)\<close>: an absent entry and a null are both \<^verbatim>\<open>None\<close>.\<close>

definition get_or_none :: "dump \<Rightarrow> string \<Rightarrow> json" where
  "get_or_none d k = (case dict_get d k of None \<Rightarrow> JNull | Some v \<Rightarrow> v)"

fun hashable :: "json \<Rightarrow> bool" where
  "hashable (JList _) = False"
| "hashable (JDict _) = False"
| "hashable _ = True"

text \<open>\<^verbatim>\<open>for x in v\<close>: the items of a list, the keys of a dict, the characters of a text.\<close>

fun json_iter :: "json \<Rightarrow> json list res" where
  "json_iter (JList xs) = Inr xs"
| "json_iter (JDict d) = Inr (map (\<lambda>kv. JStr (fst kv)) d)"
| "json_iter (JStr s) = Inr (map (\<lambda>c. JStr [c]) s)"
| "json_iter _ = Inl TypeError"

text \<open>\<^verbatim>\<open>v in codes\<close> for a set of texts; an unhashable value raises.\<close>

definition in_codes :: "json \<Rightarrow> string set \<Rightarrow> bool res" where
  "in_codes v codes =
     (if \<not> hashable v then Inl TypeError
      else Inr (case v of JStr s \<Rightarrow> s \<in> codes | _ \<Rightarrow> False))"

definition ascii_lower :: "char \<Rightarrow> char" where
  "ascii_lower c = (if 65 \<le> byte_of c \<and> byte_of c \<le> (90 :: nat) then char_of (byte_of c + 32 :: nat) else c)"

text \<open>
  \<^verbatim>\<open>str(value).lower()\<close>, written out for ASCII text and booleans; \<open>str_lower\<close> is what the interpreter gives
  for everything else.
\<close>

definition normalize_decision :: "(json \<Rightarrow> string) \<Rightarrow> json \<Rightarrow> string option" where
  "normalize_decision str_lower v =
     (case v of
        JNull \<Rightarrow> None
      | JBool b \<Rightarrow> Some (if b then ''true'' else ''false'')
      | JStr s \<Rightarrow> if \<exists>c \<in> set s. 128 \<le> byte_of c then Some (str_lower v) else Some (map ascii_lower s)
      | _ \<Rightarrow> Some (str_lower v))"

text \<open>
  The dict that maps each \<^verbatim>\<open>x["name"]\<close> to \<open>x\<close>, the last one for a repeated name. Only text names can be
  looked up later.
\<close>

definition json_name :: "json \<Rightarrow> json res" where
  "json_name v =
     (case v of
        JDict d \<Rightarrow> (case dict_get d ''name'' of None \<Rightarrow> Inl (KeyError ''name'') | Some n \<Rightarrow> Inr n)
      | _ \<Rightarrow> Inl TypeError)"

fun index_by_name :: "(string \<rightharpoonup> dump) \<Rightarrow> json list \<Rightarrow> (string \<rightharpoonup> dump) res" where
  "index_by_name m [] = Inr m"
| "index_by_name m (v # vs) =
     bindr (json_name v) (\<lambda>n.
       if \<not> hashable n then Inl TypeError
       else index_by_name (case (n, v) of (JStr s, JDict d) \<Rightarrow> m(s \<mapsto> d) | _ \<Rightarrow> m) vs)"

definition python_results_of :: "dump \<Rightarrow> (string \<rightharpoonup> dump) res" where
  "python_results_of report =
     bindr (json_iter (case dict_get report ''results'' of None \<Rightarrow> JList [] | Some v \<Rightarrow> v)) (index_by_name Map.empty)"

text \<open>The vectors, given the contents of the files in the order of their sorted paths.\<close>

definition load_rust_vectors :: "json list \<Rightarrow> (string \<rightharpoonup> dump) res" where
  "load_rust_vectors files = index_by_name Map.empty files"

section \<open>The report\<close>

text \<open>One constructor per message, holding what the message interpolates.\<close>

datatype parity_error =
    MissingPython string
  | PythonNotPassed string
  | MissingRust string
  | DecisionMismatch "string option" "string option"
  | PythonReasonMismatch json "string set"
  | RustReasonMismatch json "string set"

record report_case =
  rep_python_scenario :: string
  rep_rust_vector :: string
  rep_passed :: bool
  rep_python_status :: json
  rep_python_decision :: "string option"
  rep_python_reason_code :: json
  rep_rust_decision :: "string option"
  rep_rust_reason_code :: json
  rep_errors :: "parity_error list"

text \<open>The values read from the Python side: decision, reason, status, and the errors so far.\<close>

definition python_side ::
  "(json \<Rightarrow> string) \<Rightarrow> parity_case \<Rightarrow> dump option \<Rightarrow> string option \<times> json \<times> json \<times> parity_error list" where
  "python_side str_lower c python_result =
     (case python_result of
        None \<Rightarrow> (None, JNull, JStr ''missing'', [MissingPython (python_name c)])
      | Some r \<Rightarrow>
          (normalize_decision str_lower (get_or_none r ''actual_decision''),
           get_or_none r ''actual_reason_code'', get_or_none r ''status'',
           if get_or_none r ''status'' \<noteq> JStr ''passed'' then [PythonNotPassed (python_name c)] else []))"

definition rust_side ::
  "(json \<Rightarrow> string) \<Rightarrow> parity_case \<Rightarrow> dump option \<Rightarrow> (string option \<times> json \<times> parity_error list) res" where
  "rust_side str_lower c rust_vector =
     (case rust_vector of
        None \<Rightarrow> Inr (None, JNull, [MissingRust (rust_name c)])
      | Some r \<Rightarrow>
          (case (case dict_get r ''expected'' of None \<Rightarrow> JDict [] | Some v \<Rightarrow> v) of
             JDict expected \<Rightarrow> Inr (normalize_decision str_lower (get_or_none expected ''decision''),
               get_or_none expected ''reason_code'', [])
           | _ \<Rightarrow> Inl AttributeError))"

text \<open>A reason is looked up only when its side is present.\<close>

definition reason_errors ::
  "dump option \<Rightarrow> json \<Rightarrow> string set \<Rightarrow> (json \<Rightarrow> string set \<Rightarrow> parity_error) \<Rightarrow> parity_error list res" where
  "reason_errors side v codes err =
     (if side = None then Inr []
      else bindr (in_codes v codes) (\<lambda>ok. Inr (if ok then [] else [err v codes])))"

definition compare_case ::
  "(json \<Rightarrow> string) \<Rightarrow> (string \<rightharpoonup> dump) \<Rightarrow> (string \<rightharpoonup> dump) \<Rightarrow> parity_case \<Rightarrow> report_case res" where
  "compare_case str_lower python_results rust_vectors c =
     (let pr = python_results (python_name c);
          rv = rust_vectors (rust_name c);
          (python_decision, python_reason, python_status, errors) = python_side str_lower c pr
      in bindr (rust_side str_lower c rv) (\<lambda>(rust_decision, rust_reason, rust_errors).
         let mismatch = (if python_decision \<noteq> rust_decision
                         then [DecisionMismatch python_decision rust_decision] else [])
         in bindr (reason_errors pr python_reason (python_reason_codes c) PythonReasonMismatch) (\<lambda>pe.
            bindr (reason_errors rv rust_reason (rust_reason_codes c) RustReasonMismatch) (\<lambda>re.
            let all_errors = errors @ rust_errors @ mismatch @ pe @ re
            in Inr \<lparr>rep_python_scenario = python_name c, rep_rust_vector = rust_name c,
                    rep_passed = (all_errors = []), rep_python_status = python_status,
                    rep_python_decision = python_decision, rep_python_reason_code = python_reason,
                    rep_rust_decision = rust_decision, rep_rust_reason_code = rust_reason,
                    rep_errors = all_errors\<rparr>))))"

fun compare_cases ::
  "(json \<Rightarrow> string) \<Rightarrow> (string \<rightharpoonup> dump) \<Rightarrow> (string \<rightharpoonup> dump) \<Rightarrow> parity_case list \<Rightarrow> report_case list res" where
  "compare_cases str_lower python_results rust_vectors [] = Inr []"
| "compare_cases str_lower python_results rust_vectors (c # cs) =
     bindr (compare_case str_lower python_results rust_vectors c) (\<lambda>x.
       bindr (compare_cases str_lower python_results rust_vectors cs) (\<lambda>xs. Inr (x # xs)))"

record cross_language_report =
  generated_at :: string
  sum_total :: nat
  sum_passed :: nat
  sum_failed :: nat
  report_cases :: "report_case list"

definition build_cross_language_report ::
  "(json \<Rightarrow> string) \<Rightarrow> datetime \<Rightarrow> dump \<Rightarrow> (string \<rightharpoonup> dump) \<Rightarrow> cross_language_report res" where
  "build_cross_language_report str_lower now python_report rust_vectors =
     bindr (python_results_of python_report) (\<lambda>python_results.
     bindr (compare_cases str_lower python_results rust_vectors PARITY_CASES) (\<lambda>cases.
     let failed = length (filter (\<lambda>c. \<not> rep_passed c) cases)
     in Inr \<lparr>generated_at = isoformat now, sum_total = length cases, sum_passed = length cases - failed,
             sum_failed = failed, report_cases = cases\<rparr>))"

section \<open>The commands and the exit code\<close>

text \<open>
  \<open>run\<close> is \<^verbatim>\<open>subprocess.run\<close> in the root of the repository: exit code, output and error output of a command.
  A missing \<^verbatim>\<open>cargo\<close> is recorded with no exit code.
\<close>

record command_result =
  cr_command :: "string list"
  cr_returncode :: "int option"
  cr_stdout :: string
  cr_stderr :: string

definition run_command :: "(string list \<Rightarrow> int \<times> string \<times> string) \<Rightarrow> string list \<Rightarrow> command_result" where
  "run_command run command =
     (let (code, out, err) = run command
      in \<lparr>cr_command = command, cr_returncode = Some code, cr_stdout = out, cr_stderr = err\<rparr>)"

definition python_command :: "string \<Rightarrow> string \<Rightarrow> string list" where
  "python_command executable eval_report = [executable, ''tests/evals/eval_runner.py'', ''--report'', eval_report]"

definition cargo_command :: "string list" where
  "cargo_command = [''cargo'', ''test'', ''-p'', ''rclp-edge-verifier'', ''--test'', ''vector_tests'']"

record conformance_args =
  arg_report :: string
  arg_require_rust :: bool
  arg_skip_commands :: bool

definition command_results ::
  "(string list \<Rightarrow> int \<times> string \<times> string) \<Rightarrow> bool \<Rightarrow> string \<Rightarrow> string \<Rightarrow> bool \<Rightarrow> command_result list" where
  "command_results run cargo_found executable eval_report skip_commands =
     (if skip_commands then []
      else [run_command run (python_command executable eval_report),
            if cargo_found then run_command run cargo_command
            else \<lparr>cr_command = cargo_command, cr_returncode = None, cr_stdout = [],
                  cr_stderr = ''cargo not found; Rust vector execution skipped''\<rparr>])"

definition exit_code :: "bool \<Rightarrow> command_result list \<Rightarrow> cross_language_report \<Rightarrow> int" where
  "exit_code require_rust results report =
     (let command_failed = list_ex (\<lambda>c. cr_returncode c \<notin> {Some 0, None}) results;
          rust_skipped = list_ex (\<lambda>c. cr_returncode c = None) results
      in if sum_failed report \<noteq> 0 \<or> command_failed \<or> require_rust \<and> rust_skipped then 1 else 0)"

section \<open>The summary\<close>

text \<open>\<open>py_repr\<close> is \<^verbatim>\<open>repr\<close>; the expected codes are printed as a sorted list.\<close>

definition repr_opt :: "(json \<Rightarrow> string) \<Rightarrow> string option \<Rightarrow> string" where
  "repr_opt py_repr v = py_repr (jstr_opt v)"

definition codes_repr :: "(json \<Rightarrow> string) \<Rightarrow> string set \<Rightarrow> string" where
  "codes_repr py_repr codes = py_repr (JList (map JStr (sorted_list_of_set codes)))"

fun error_text :: "(json \<Rightarrow> string) \<Rightarrow> parity_error \<Rightarrow> string" where
  "error_text py_repr (MissingPython n) = ''missing Python eval scenario: '' @ n"
| "error_text py_repr (PythonNotPassed n) = ''Python eval did not pass: '' @ n"
| "error_text py_repr (MissingRust n) = ''missing Rust vector: '' @ n"
| "error_text py_repr (DecisionMismatch p r) =
     ''decision mismatch: python='' @ repr_opt py_repr p @ '' rust='' @ repr_opt py_repr r"
| "error_text py_repr (PythonReasonMismatch v codes) =
     ''Python reason mismatch: got '' @ py_repr v @ '', expected one of '' @ codes_repr py_repr codes"
| "error_text py_repr (RustReasonMismatch v codes) =
     ''Rust reason mismatch: got '' @ py_repr v @ '', expected one of '' @ codes_repr py_repr codes"

definition opt_text :: "string option \<Rightarrow> string" where
  "opt_text v = (case v of None \<Rightarrow> ''None'' | Some s \<Rightarrow> s)"

definition case_lines :: "(json \<Rightarrow> string) \<Rightarrow> report_case \<Rightarrow> string list" where
  "case_lines py_repr c =
     ((if rep_passed c then ''PASS'' else ''FAIL'') @ '' '' @ rep_python_scenario c @ '' <-> '' @ rep_rust_vector c
        @ '': '' @ opt_text (rep_python_decision c) @ '' / '' @ opt_text (rep_rust_decision c))
     # map (\<lambda>e. ''  - '' @ error_text py_repr e) (rep_errors c)"

definition print_summary :: "(json \<Rightarrow> string) \<Rightarrow> string \<Rightarrow> cross_language_report \<Rightarrow> string list" where
  "print_summary py_repr path report =
     [''RCLP cross-language conformance: '' @ nat_str (sum_passed report) @ '' passed, ''
        @ nat_str (sum_failed report) @ '' failed, '' @ nat_str (sum_total report) @ '' total'']
     @ concat (map (case_lines py_repr) (report_cases report))
     @ [''Wrote JSON report: '' @ path]"

section \<open>The written report\<close>

text \<open>\<^verbatim>\<open>json.dumps(v, indent=2, sort_keys=True)\<close>; \<open>nl\<close> is the line break with the indentation of the value.\<close>

definition enclosed :: "string \<Rightarrow> string \<Rightarrow> string \<Rightarrow> string list \<Rightarrow> string" where
  "enclosed nl opening closing items =
     (if items = [] then opening @ closing
      else opening @ nl @ ''  '' @ join_with ('','' @ nl @ ''  '') items @ nl @ closing)"

fun json_indented :: "(rat \<Rightarrow> string) \<Rightarrow> string \<Rightarrow> json \<Rightarrow> string" where
  "json_indented repr nl (JList xs) =
     enclosed nl ''['' '']'' (map (json_indented repr (nl @ ''  '')) xs)"
| "json_indented repr nl (JDict d) =
     enclosed nl ''{'' ''}'' (map (\<lambda>kv. json_string (fst kv) @ '': '' @ snd kv)
       (sort_key fst (map (\<lambda>kv. (fst kv, json_indented repr (nl @ ''  '') (snd kv))) d)))"
| "json_indented repr nl v = json_dumps repr v"

definition case_dump :: "(json \<Rightarrow> string) \<Rightarrow> report_case \<Rightarrow> dump" where
  "case_dump py_repr c =
     [(''python_scenario'', JStr (rep_python_scenario c)), (''rust_vector'', JStr (rep_rust_vector c)),
      (''status'', JStr (if rep_passed c then ''passed'' else ''failed'')),
      (''python_status'', rep_python_status c), (''python_decision'', jstr_opt (rep_python_decision c)),
      (''python_reason_code'', rep_python_reason_code c), (''rust_decision'', jstr_opt (rep_rust_decision c)),
      (''rust_reason_code'', rep_rust_reason_code c),
      (''errors'', JList (map (\<lambda>e. JStr (error_text py_repr e)) (rep_errors c)))]"

definition command_dump_of :: "command_result \<Rightarrow> dump" where
  "command_dump_of r =
     [(''command'', JList (map JStr (cr_command r))), (''returncode'', jopt JInt (cr_returncode r)),
      (''stdout'', JStr (cr_stdout r)), (''stderr'', JStr (cr_stderr r))]"

definition report_dump :: "(json \<Rightarrow> string) \<Rightarrow> cross_language_report \<Rightarrow> command_result list \<Rightarrow> dump" where
  "report_dump py_repr report results =
     [(''generated_at'', JStr (generated_at report)),
      (''summary'', JDict [(''total'', JInt (int (sum_total report))), (''passed'', JInt (int (sum_passed report))),
         (''failed'', JInt (int (sum_failed report)))]),
      (''cases'', JList (map (\<lambda>c. JDict (case_dump py_repr c)) (report_cases report))),
      (''commands'', JList (map (\<lambda>r. JDict (command_dump_of r)) results))]"

text \<open>The text that is left in the file; the directories above it are made when they are missing.\<close>

definition write_report :: "(rat \<Rightarrow> string) \<Rightarrow> dump \<Rightarrow> string" where
  "write_report repr report = json_indented repr [CHR 0x0A] (JDict report) @ [CHR 0x0A]"

record conformance_outcome =
  out_report :: cross_language_report
  out_commands :: "command_result list"
  out_written :: string
  out_printed :: "string list"
  out_code :: int

text \<open>The report of the evaluation and the vectors are read after the commands have run.\<close>

definition conformance_main ::
  "(rat \<Rightarrow> string) \<Rightarrow> (json \<Rightarrow> string) \<Rightarrow> (json \<Rightarrow> string) \<Rightarrow> datetime \<Rightarrow> (string list \<Rightarrow> int \<times> string \<times> string) \<Rightarrow> bool \<Rightarrow> string \<Rightarrow> string
    \<Rightarrow> conformance_args \<Rightarrow> dump \<Rightarrow> json list \<Rightarrow> conformance_outcome res" where
  "conformance_main repr str_lower py_repr now run cargo_found executable eval_report args python_report files =
     (let results = command_results run cargo_found executable eval_report (arg_skip_commands args)
      in bindr (load_rust_vectors files) (\<lambda>rust_vectors.
         bindr (build_cross_language_report str_lower now python_report rust_vectors) (\<lambda>report.
           Inr \<lparr>out_report = report, out_commands = results,
                out_written = write_report repr (report_dump py_repr report results),
                out_printed = print_summary py_repr (arg_report args) report,
                out_code = exit_code (arg_require_rust args) results report\<rparr>)))"

section \<open>What a green report means\<close>

text \<open>A pair agrees: both sides are there, the Python scenario passed, decisions and reasons match.\<close>

definition parity_agrees ::
  "(json \<Rightarrow> string) \<Rightarrow> (string \<rightharpoonup> dump) \<Rightarrow> (string \<rightharpoonup> dump) \<Rightarrow> parity_case \<Rightarrow> bool" where
  "parity_agrees str_lower python_results rust_vectors c \<longleftrightarrow>
     (\<exists>r v expected ps rs. python_results (python_name c) = Some r \<and> rust_vectors (rust_name c) = Some v \<and>
        get_or_none r ''status'' = JStr ''passed'' \<and>
        (case dict_get v ''expected'' of None \<Rightarrow> JDict [] | Some x \<Rightarrow> x) = JDict expected \<and>
        normalize_decision str_lower (get_or_none r ''actual_decision'') =
          normalize_decision str_lower (get_or_none expected ''decision'') \<and>
        get_or_none r ''actual_reason_code'' = JStr ps \<and> ps \<in> python_reason_codes c \<and>
        get_or_none expected ''reason_code'' = JStr rs \<and> rs \<in> rust_reason_codes c)"

lemma in_codes_True: "in_codes v codes = Inr True \<longleftrightarrow> (\<exists>s. v = JStr s \<and> s \<in> codes)"
  by (cases v) (auto simp: in_codes_def)

lemma reason_errors_Nil:
  "reason_errors (Some d) v codes err = Inr [] \<longleftrightarrow> (\<exists>s. v = JStr s \<and> s \<in> codes)"
  by (auto simp: reason_errors_def res_simps in_codes_True split: if_splits)

lemma reason_errors_text [simp]:
  "reason_errors (Some d) (JStr s) codes err = Inr (if s \<in> codes then [] else [err (JStr s) codes])"
  by (simp add: reason_errors_def in_codes_def)

lemma rust_side_Some:
  "rust_side str_lower c (Some v) = Inr (d, reason, errs) \<longleftrightarrow>
     errs = [] \<and> (\<exists>expected. (case dict_get v ''expected'' of None \<Rightarrow> JDict [] | Some x \<Rightarrow> x) = JDict expected \<and>
       d = normalize_decision str_lower (get_or_none expected ''decision'') \<and>
       reason = get_or_none expected ''reason_code'')"
  by (auto simp: rust_side_def split: json.splits)

lemma compare_case_passes:
  "(\<exists>x. compare_case str_lower py rust c = Inr x \<and> rep_passed x) \<longleftrightarrow> parity_agrees str_lower py rust c"
proof (cases "py (python_name c)"; cases "rust (rust_name c)")
  fix r v assume py: "py (python_name c) = Some r" and rust: "rust (rust_name c) = Some v"
  show ?thesis
    unfolding compare_case_def parity_agrees_def py rust
    by (auto simp: Let_def python_side_def res_simps rust_side_Some reason_errors_Nil
        split: prod.splits if_splits)
qed (auto simp: compare_case_def parity_agrees_def Let_def python_side_def rust_side_def res_simps
    split: prod.splits)

lemma compare_cases_pass:
  "(\<exists>xs. compare_cases str_lower py rust cs = Inr xs \<and> list_all rep_passed xs) \<longleftrightarrow>
     list_all (parity_agrees str_lower py rust) cs"
proof (induction cs)
  case (Cons c cs)
  have "(\<exists>xs. compare_cases str_lower py rust (c # cs) = Inr xs \<and> list_all rep_passed xs) \<longleftrightarrow>
      (\<exists>x. compare_case str_lower py rust c = Inr x \<and> rep_passed x) \<and>
      (\<exists>xs. compare_cases str_lower py rust cs = Inr xs \<and> list_all rep_passed xs)"
    by (fastforce simp: res_simps)
  with Cons.IH show ?case by (simp add: compare_case_passes)
qed simp

lemma compare_cases_length: "compare_cases str_lower py rust cs = Inr xs \<Longrightarrow> length xs = length cs"
  by (induction cs arbitrary: xs) (auto simp: res_simps)

section \<open>Properties\<close>

text \<open>
  C35. The conformance run exits with 0 exactly when everything is in order: both inputs can be indexed, every
  pair of the table agrees and, unless the commands are skipped on request, the Python command exited with 0
  and so did the Rust command, which may be left out only where cargo is missing and Rust is not required.
\<close>

theorem conformance_exit_exact:
  "(\<exists>out. conformance_main repr str_lower py_repr now run cargo_found executable eval_report args python_report files =
      Inr out \<and> out_code out = 0) \<longleftrightarrow>
   (\<exists>py rust. python_results_of python_report = Inr py \<and> load_rust_vectors files = Inr rust \<and>
      list_all (parity_agrees str_lower py rust) PARITY_CASES) \<and>
   (arg_skip_commands args \<or>
    fst (run (python_command executable eval_report)) = 0 \<and>
    (if cargo_found then fst (run cargo_command) = 0 else \<not> arg_require_rust args))"
proof -
  define results where "results = command_results run cargo_found executable eval_report (arg_skip_commands args)"
  define ran where "ran \<longleftrightarrow> arg_skip_commands args \<or> fst (run (python_command executable eval_report)) = 0 \<and>
    (if cargo_found then fst (run cargo_command) = 0 else \<not> arg_require_rust args)"
  have none_failed: "length (filter (\<lambda>c. \<not> rep_passed c) xs) = 0 \<longleftrightarrow> list_all rep_passed xs" for xs
    by (simp add: list_all_iff filter_empty_conv)
  have codes: "exit_code (arg_require_rust args) results report = 0 \<longleftrightarrow> sum_failed report = 0 \<and> ran" for report
    by (auto simp: exit_code_def results_def ran_def command_results_def run_command_def Let_def split: prod.splits)
  have "(\<exists>out. conformance_main repr str_lower py_repr now run cargo_found executable eval_report args python_report files =
        Inr out \<and> out_code out = 0) \<longleftrightarrow>
      (\<exists>py rust. python_results_of python_report = Inr py \<and> load_rust_vectors files = Inr rust \<and>
        (\<exists>xs. compare_cases str_lower py rust PARITY_CASES = Inr xs \<and> list_all rep_passed xs)) \<and> ran"
    by (auto simp: conformance_main_def build_cross_language_report_def res_simps Let_def codes
        simp flip: none_failed results_def)
  then show ?thesis by (simp only: compare_cases_pass ran_def)
qed

end
