(* ===== verification/Shared_Stores.thy ===== *)
theory Shared_Stores
  imports Authority_Spec Gate_Liveness
begin

text \<open>
  Several gate processes on the same SQLite files. The tables belong to the files; everything else of a
  gate (its table of revocations, its audit log, its clock) belongs to the process. A call of
  \<^verbatim>\<open>evaluate\<close> reaches the tables twice: it reads them in \<^verbatim>\<open>contains\<close>, and later writes them in one
  transaction of \<^verbatim>\<open>remember\<close> or \<^verbatim>\<open>remember_authorized_use\<close>. Between the two, other processes may do
  anything. A call of \<^verbatim>\<open>revoke\<close> has one transaction. So the steps of a fleet are: the first part of
  an evaluation, its second part, a revocation, a restart, and a crash after the transaction and before
  the answer.
\<close>

section \<open>An evaluation in two parts\<close>

text \<open>The first part ends with an answer, or with \<open>None\<close> after a look-up that found nothing.\<close>

definition evaluate_begin ::
  "env \<Rightarrow> command_gate \<Rightarrow> edge_command \<Rightarrow> capability_lease option \<Rightarrow> robot_state_assertion option
    \<Rightarrow> datetime option \<Rightarrow> (gate_state, gate_result option) op" where
  "evaluate_begin E g cmd lease st now =
     bindo (command_auth_violation E g cmd now) (\<lambda>auth_reason.
     checko auth_reason (\<lambda>reason. bindo (reject_command E g cmd lease st reason False False) (\<lambda>r. ret (Some r)))
     (if local_edge_context_mismatch g cmd lease
      then bindo (reject_local_edge_mismatch E g cmd lease) (\<lambda>r. ret (Some r))
      else bindo (gets (\<lambda>s. contains cmd (gs_command_replay_cache s))) (\<lambda>replayed.
        if replayed
        then bindo (reject_command E g cmd lease st ''COMMAND_REPLAYED'' False True) (\<lambda>r. ret (Some r))
        else ret None)))"

definition evaluate_finish ::
  "env \<Rightarrow> command_gate \<Rightarrow> edge_command \<Rightarrow> capability_lease option \<Rightarrow> robot_state_assertion option
    \<Rightarrow> datetime option \<Rightarrow> (gate_state, gate_result) op" where
  "evaluate_finish E g cmd lease st now =
     (case lease of
        None \<Rightarrow> reject_command E g cmd lease st ''NO_LEASE'' False True
      | Some l \<Rightarrow> evaluate_lease E g cmd l st now)"

lemma bindo_assoc: "bindo (bindo m f) h = bindo m (\<lambda>a. bindo (f a) h)"
  by (rule ext) (auto simp: bindo_def split: prod.splits sum.splits)

lemma bindo_ret: "bindo (ret a) f = f a" "bindo m ret = m"
  by (auto simp: bindo_def fun_eq_iff split: prod.splits sum.splits)

lemma bindo_branch:
  "bindo (checko v h k) f = checko v (\<lambda>r. bindo (h r) f) (bindo k f)"
  "bindo (if b then m else m') f = (if b then bindo m f else bindo m' f)"
  by (cases v) simp_all

text \<open>Without interference the two parts are \<^const>\<open>evaluate\<close>.\<close>

lemma evaluate_parts:
  "evaluate E g cmd lease st now =
     bindo (evaluate_begin E g cmd lease st now) (\<lambda>answer. case answer of
       Some r \<Rightarrow> ret r | None \<Rightarrow> evaluate_finish E g cmd lease st now)"
  by (simp only: evaluate_def evaluate_begin_def evaluate_finish_def bindo_assoc bindo_branch bindo_ret
      option.case)

section \<open>The fleet\<close>

text \<open>The tables of the two files.\<close>

record shared_tables =
  sh_entries :: "replay_key \<rightharpoonup> command_replay_row"
  sh_revoked_leases :: revoked_table
  sh_messages :: message_table

text \<open>Every statement of a process runs on a new connection to the file: it sees the tables as they are.\<close>

definition connected :: "shared_tables \<Rightarrow> gate_state \<Rightarrow> gate_state" where
  "connected T s = s\<lparr>
     gs_command_replay_cache := (gs_command_replay_cache s)\<lparr>cc_entries := sh_entries T\<rparr>,
     gs_revocation_store := (gs_revocation_store s)
       \<lparr>rs_revoked_leases := sh_revoked_leases T, rs_messages := sh_messages T\<rparr>\<rparr>"

definition tables_of :: "gate_state \<Rightarrow> shared_tables" where
  "tables_of s = \<lparr>sh_entries = cc_entries (gs_command_replay_cache s),
     sh_revoked_leases = rs_revoked_leases (gs_revocation_store s),
     sh_messages = rs_messages (gs_revocation_store s)\<rparr>"

text \<open>What a process still has to finish.\<close>

record pending_call =
  pc_command :: edge_command
  pc_lease :: "capability_lease option"
  pc_state :: "robot_state_assertion option"
  pc_now :: "datetime option"

record fleet =
  fl_tables :: shared_tables
  fl_gate :: "nat \<Rightarrow> gate_state"
  fl_pending :: "nat \<rightharpoonup> pending_call"

abbreviation process_view :: "fleet \<Rightarrow> nat \<Rightarrow> gate_state" where
  "process_view F p \<equiv> connected (fl_tables F) (fl_gate F p)"

definition moved :: "nat \<Rightarrow> gate_state \<Rightarrow> pending_call option \<Rightarrow> fleet \<Rightarrow> fleet" where
  "moved p s call F =
     \<lparr>fl_tables = tables_of s, fl_gate = (fl_gate F)(p := s), fl_pending = (fl_pending F)(p := call)\<rparr>"

abbreviation finish_call :: "env \<Rightarrow> command_gate \<Rightarrow> pending_call \<Rightarrow> (gate_state, gate_result) op" where
  "finish_call E g c \<equiv> evaluate_finish E g (pc_command c) (pc_lease c) (pc_state c) (pc_now c)"

datatype fleet_label =
    Begun nat
  | AnsweredAt nat edge_command "capability_lease option" "gate_result res"
  | RevokedAt nat revocation_arg "capability_lease option" "fallback_declaration option res"
  | RestartedAt nat
  | CrashedAt nat

text \<open>
  The constructor of a restarted process reads the tables once; \<open>G\<close> gives the configuration of each
  process. After a crash the audit log, which was in memory, is gone.
\<close>

inductive fleet_step :: "env \<Rightarrow> (nat \<Rightarrow> command_gate) \<Rightarrow> fleet \<Rightarrow> fleet_label \<Rightarrow> fleet \<Rightarrow> bool"
  for E G where
  begins: "fl_pending F p = None \<Longrightarrow>
    evaluate_begin E (G p) (pc_command c) (pc_lease c) (pc_state c) (pc_now c) (process_view F p) = (Inr None, s) \<Longrightarrow>
    fleet_step E G F (Begun p) (moved p s (Some c) F)"
| answers: "fl_pending F p = None \<Longrightarrow>
    evaluate_begin E (G p) cmd lease st now (process_view F p) = (Inr (Some r), s) \<Longrightarrow>
    fleet_step E G F (AnsweredAt p cmd lease (Inr r)) (moved p s None F)"
| fails: "fl_pending F p = None \<Longrightarrow>
    evaluate_begin E (G p) cmd lease st now (process_view F p) = (Inl e, s) \<Longrightarrow>
    fleet_step E G F (AnsweredAt p cmd lease (Inl e)) (moved p s None F)"
| finishes: "fl_pending F p = Some c \<Longrightarrow> finish_call E (G p) c (process_view F p) = (res, s) \<Longrightarrow>
    fleet_step E G F (AnsweredAt p (pc_command c) (pc_lease c) res) (moved p s None F)"
| revokes: "fl_pending F p = None \<Longrightarrow> revoke E (G p) arg lease now (process_view F p) = (res, s) \<Longrightarrow>
    fleet_step E G F (RevokedAt p arg lease res) (moved p s None F)"
| restarts: "reopened first_of a keep_log (process_view F p) = Inr (G p, s) \<Longrightarrow>
    fleet_step E G F (RestartedAt p) (moved p s None F)"
| crashes_deciding: "fl_pending F p = Some c \<Longrightarrow> finish_call E (G p) c (process_view F p) = (res, t) \<Longrightarrow>
    reopened first_of a False t = Inr (G p, s) \<Longrightarrow> fleet_step E G F (CrashedAt p) (moved p s None F)"
| crashes_revoking: "fl_pending F p = None \<Longrightarrow> revoke E (G p) arg lease now (process_view F p) = (res, t) \<Longrightarrow>
    reopened first_of a False t = Inr (G p, s) \<Longrightarrow> fleet_step E G F (CrashedAt p) (moved p s None F)"

section \<open>What the fleet promises\<close>

text \<open>
  The used identifiers and the recorded revocations are common; the revocations that a process knows are
  its own. A grant needs identifiers that nobody has used and a lease that the granting process does not
  know to be revoked. A restarted process knows what is recorded.
\<close>

record fleet_authority =
  fa_used :: "replay_key set"
  fa_recorded :: "string set"
  fa_known :: "nat \<Rightarrow> string set"

inductive fleet_spec :: "fleet_authority \<Rightarrow> fleet_label \<Rightarrow> fleet_authority \<Rightarrow> bool" where
  spec_begun: "fleet_spec a (Begun p) a"
| spec_granted: "gr_allowed r \<Longrightarrow> use_keys cmd l \<inter> fa_used a = {} \<Longrightarrow> lease_id l \<notin> fa_known a p \<Longrightarrow>
    fleet_spec a (AnsweredAt p cmd (Some l) (Inr r)) (a\<lparr>fa_used := fa_used a \<union> use_keys cmd l\<rparr>)"
| spec_refused: "\<not> gr_allowed r \<Longrightarrow> K \<in> {{}, command_keys cmd} \<Longrightarrow> K \<inter> fa_used a = {} \<Longrightarrow>
    fleet_spec a (AnsweredAt p cmd lease (Inr r)) (a\<lparr>fa_used := fa_used a \<union> K\<rparr>)"
| spec_raised: "K \<in> presented_keys cmd lease \<Longrightarrow> K \<inter> fa_used a = {} \<Longrightarrow>
    fleet_spec a (AnsweredAt p cmd lease (Inl e)) (a\<lparr>fa_used := fa_used a \<union> K\<rparr>)"
| spec_revoked: "res \<noteq> Inr None \<Longrightarrow> fleet_spec a (RevokedAt p (Revocation rv) (Some l) res)
    (a\<lparr>fa_recorded := insert (rev_lease_id rv) (fa_recorded a),
       fa_known := (fa_known a)(p := insert (rev_lease_id rv) (fa_known a p))\<rparr>)"
| spec_unrevoked: "\<forall>d. res \<noteq> Inr (Some d) \<Longrightarrow> fleet_spec a (RevokedAt p arg lease res) a"
| spec_restarted: "fleet_spec a (RestartedAt p) (a\<lparr>fa_known := (fa_known a)(p := fa_recorded a)\<rparr>)"
| spec_crashed: "K \<inter> fa_used a = {} \<Longrightarrow> fleet_spec a (CrashedAt p)
    (a\<lparr>fa_used := fa_used a \<union> K, fa_recorded := fa_recorded a \<union> L,
       fa_known := (fa_known a)(p := fa_recorded a \<union> L)\<rparr>)"

text \<open>What follows from the specification alone.\<close>

lemma fleet_spec_mono:
  "fleet_spec a x a' \<Longrightarrow> fa_used a \<subseteq> fa_used a' \<and> fa_recorded a \<subseteq> fa_recorded a'"
  by (cases rule: fleet_spec.cases) auto

lemma fleet_path_mono:
  "path fleet_spec a xs a' \<Longrightarrow> fa_used a \<subseteq> fa_used a' \<and> fa_recorded a \<subseteq> fa_recorded a'"
proof (induction xs arbitrary: a)
  case (Cons x xs)
  then obtain t where "fleet_spec a x t" "path fleet_spec t xs a'" by auto
  with Cons.IH fleet_spec_mono show ?case by blast
qed simp

inductive_cases spec_answeredE: "fleet_spec a (AnsweredAt p cmd (Some l) (Inr r)) a'"
inductive_cases spec_revokedE: "fleet_spec a (RevokedAt p (Revocation rv) lease (Inr (Some d))) a'"
inductive_cases spec_restartedE: "fleet_spec a (RestartedAt p) a'"

lemma spec_granted_unused:
  "fleet_spec a (AnsweredAt p cmd (Some l) (Inr r)) a' \<Longrightarrow> gr_allowed r \<Longrightarrow>
     use_keys cmd l \<inter> fa_used a = {} \<and> use_keys cmd l \<subseteq> fa_used a' \<and> lease_id l \<notin> fa_known a p"
  by (erule spec_answeredE) auto

lemma spec_revocation_recorded:
  "fleet_spec a (RevokedAt p (Revocation rv) lease (Inr (Some d))) a' \<Longrightarrow>
     rev_lease_id rv \<in> fa_recorded a' \<and> rev_lease_id rv \<in> fa_known a' p"
  by (erule spec_revokedE) auto

text \<open>What a process knows is on record, and it never forgets what is on record and known to it.\<close>

lemma fleet_spec_known:
  "fleet_spec a x a' \<Longrightarrow> (\<And>p. fa_known a p \<subseteq> fa_recorded a) \<Longrightarrow>
     fa_known a q \<subseteq> fa_known a' q \<and> fa_known a' q \<subseteq> fa_recorded a'"
  by (cases rule: fleet_spec.cases) (auto; blast)+

lemma fleet_path_known:
  "path fleet_spec a xs a' \<Longrightarrow> (\<And>p. fa_known a p \<subseteq> fa_recorded a) \<Longrightarrow>
     fa_known a q \<subseteq> fa_known a' q \<and> fa_known a' q \<subseteq> fa_recorded a'"
proof (induction xs arbitrary: a)
  case (Cons x xs)
  then obtain t where t: "fleet_spec a x t" "path fleet_spec t xs a'" by auto
  note known = fleet_spec_known [OF t(1) Cons.prems(2)]
  then have "fa_known t q \<subseteq> fa_known a' q \<and> fa_known a' q \<subseteq> fa_recorded a'" by (intro Cons.IH [OF t(2)]) simp
  with known [of q] show ?case by blast
qed simp

section \<open>What a step leaves of the tables\<close>

definition recorded_leases :: "shared_tables \<Rightarrow> string set" where
  "recorded_leases T = dom (map_of (sh_revoked_leases T))"

lemma connected_simps [simp]:
  "tables_of (connected T s) = T" "used_keys (connected T s) = dom (sh_entries T)"
  "gs_revocations (connected T s) = gs_revocations s" "stores_open (connected T s) = stores_open s"
  "gate_log_ok E (connected T s) = gate_log_ok E s" "gs_world (connected T s) = gs_world s"
  by (simp_all add: connected_def tables_of_def used_keys_def stores_open_def gate_log_ok_def)

lemma sh_entries_tables_of [simp]: "dom (sh_entries (tables_of s)) = used_keys s"
  by (simp add: tables_of_def used_keys_def)

text \<open>The record of revocations grows by what the live table of the process grows by.\<close>

definition revoked_together :: "gate_state \<Rightarrow> gate_state \<Rightarrow> bool" where
  "revoked_together s s' \<longleftrightarrow>
     (\<exists>L. recorded_leases (tables_of s') = recorded_leases (tables_of s) \<union> L \<and>
          dom (gs_revocations s') = dom (gs_revocations s) \<union> L)"

interpretation together: effect_relation revoked_together
proof unfold_locales
  show "revoked_together s s" for s
    unfolding revoked_together_def by (intro exI [of _ "{}"]) simp
  show "revoked_together s t \<Longrightarrow> revoked_together t u \<Longrightarrow> revoked_together s u" for s t u
    unfolding revoked_together_def by (metis Un_assoc)
qed

lemma unrecorded_together:
  "gs_revocation_store s' = gs_revocation_store s \<Longrightarrow> gs_revocations s' = gs_revocations s \<Longrightarrow> revoked_together s s'"
  unfolding revoked_together_def
  by (intro exI [of _ "{}"]) (simp add: tables_of_def recorded_leases_def)

lemma together_steps:
  "keeps revoked_together (gate_now E now)" "keeps revoked_together (gate_record E n)"
  "keeps revoked_together (new_declaration E corr rb ed mi tr ac lid rid)"
  "keeps revoked_together (deliver g d)" "keeps revoked_together (remember_op E cmd)"
  "keeps revoked_together (remember_use_op E cmd l)"
  "keeps revoked_together (modify (\<lambda>s. s\<lparr>gs_fallback_events := gs_fallback_events s @ [d]\<rparr>))"
  by (rule keepsI; auto intro!: unrecorded_together simp: gate_now_eq new_declaration_def deliver_def
      gate_record_def remember_op_eq remember_use_op_eq Let_def split: option.splits prod.splits)+

lemma together_record: "keeps revoked_together (record_and_revoke E r)"
proof (rule keepsI)
  fix s res t assume run: "record_and_revoke E r s = (res, t)"
  obtain rr st w where rec: "revocation_record E r (gs_revocation_store s) (gs_world s) = (rr, st, w)"
    by (cases "revocation_record E r (gs_revocation_store s) (gs_world s)")
  show "revoked_together s t"
  proof (cases "rr = Inr True")
    case True
    with rec obtain v where
      "map_of (rs_revoked_leases st) = (map_of (rs_revoked_leases (gs_revocation_store s)))(rl_lease_id r \<mapsto> v)"
      by (auto simp: revocation_record_def insert_revocation_def update_conv'
          split: if_splits option.splits prod.splits)
    with run True rec show ?thesis
      by (auto simp: record_and_revoke_eq revoked_together_def tables_of_def recorded_leases_def
          intro!: exI [of _ "{rl_lease_id r}"])
  next
    case False
    with revocation_record_cases(3) [OF rec] run rec show ?thesis
      by (intro unrecorded_together) (auto simp: record_and_revoke_eq split: sum.splits bool.splits)
  qed
qed

lemma together_emit: "keeps revoked_together (emit_fallback E g d)"
  unfolding emit_fallback_def by (intro together.keeps_rules together_steps)

lemma together_answers:
  "keeps revoked_together (reject_command E g cmd lease st reason emit auth)"
  "keeps revoked_together (reject_local_edge_mismatch E g cmd lease)"
  "keeps revoked_together (command_auth_violation E g cmd now)"
  "keeps revoked_together (allow_command E g cmd l st reason)"
  unfolding reject_command_def reject_local_edge_mismatch_def command_auth_violation_def allow_command_def Let_def
  by (intro together.keeps_rules together_steps together_emit)+

lemma together_handlers:
  "keeps revoked_together (evaluate_begin E g cmd lease st now)"
  "keeps revoked_together (evaluate_finish E g cmd lease st now)"
  "keeps revoked_together (revoke E g arg lease now)"
proof -
  show "keeps revoked_together (evaluate_begin E g cmd lease st now)"
    unfolding evaluate_begin_def by (intro together.keeps_rules together_steps together_answers)
  show "keeps revoked_together (evaluate_finish E g cmd lease st now)"
    unfolding evaluate_finish_def evaluate_lease_def
    by (intro together.keeps_rules together_steps together_answers)
  show "keeps revoked_together (revoke E g arg lease now)"
    unfolding revoke_def revoke_raw_def commit_revocation_eq record_revocation_rejected_def
    by (cases arg) (auto intro!: together.keeps_rules together_steps together_emit together_record)
qed

section \<open>The fleet keeps its promise\<close>

definition call_authentic :: "pending_call \<Rightarrow> bool" where
  "call_authentic c \<longleftrightarrow> cmd_authenticated_agent_id (pc_command c) = Some (cmd_agent_id (pc_command c))"

definition fleet_ok :: "env \<Rightarrow> fleet \<Rightarrow> bool" where
  "fleet_ok E F \<longleftrightarrow>
     (\<forall>p. stores_open (fl_gate F p) \<and> gate_log_ok E (fl_gate F p) \<and>
          dom (gs_revocations (fl_gate F p)) \<subseteq> recorded_leases (fl_tables F) \<and>
          (\<forall>c. fl_pending F p = Some c \<longrightarrow> call_authentic c))"

definition fleet_authority_of :: "fleet \<Rightarrow> fleet_authority" where
  "fleet_authority_of F =
     \<lparr>fa_used = dom (sh_entries (fl_tables F)), fa_recorded = recorded_leases (fl_tables F),
      fa_known = (\<lambda>p. dom (gs_revocations (fl_gate F p)))\<rparr>"

lemma moved_simps [simp]:
  "fl_tables (moved p s c F) = tables_of s" "fl_gate (moved p s c F) = (fl_gate F)(p := s)"
  "fl_pending (moved p s c F) = (fl_pending F)(p := c)"
  by (simp_all add: moved_def)

lemma moved_authority:
  "fleet_authority_of (moved p s c F) =
     \<lparr>fa_used = used_keys s, fa_recorded = recorded_leases (tables_of s),
      fa_known = (fa_known (fleet_authority_of F))(p := dom (gs_revocations s))\<rparr>"
  by (auto simp: fleet_authority_of_def fun_eq_iff)

lemma fleet_ok_process:
  assumes "fleet_ok E F"
  shows "stores_open (process_view F p)" "gate_log_ok E (process_view F p)"
    "dom (gs_revocations (process_view F p)) \<subseteq> recorded_leases (fl_tables F)"
    "fl_pending F p = Some c \<Longrightarrow> call_authentic c"
  using assms by (auto simp: fleet_ok_def)

lemma begin_finish_progress:
  "keeps (gate_progress E) (evaluate_begin E g cmd lease st now)"
  "keeps (gate_progress E) (evaluate_finish E g cmd lease st now)"
  unfolding evaluate_begin_def evaluate_finish_def
  by (intro gate.keeps_rules command_auth_violation_keeps reject_command_keeps
      reject_local_edge_mismatch_keeps evaluate_lease_keeps)+

text \<open>One step of a process, whatever it is, keeps the fleet in order; the others see a longer record.\<close>

lemma fleet_moved_ok:
  assumes "fleet_ok E F" and "stores_open s" and "gate_log_ok E s"
    and "recorded_leases (fl_tables F) \<subseteq> recorded_leases (tables_of s)"
    and "dom (gs_revocations s) \<subseteq> recorded_leases (tables_of s)"
    and "\<And>c. call = Some c \<Longrightarrow> call_authentic c"
  shows "fleet_ok E (moved p s call F)"
  using assms unfolding fleet_ok_def by (auto 4 3 split: if_splits)

lemma handler_moved:
  assumes "fleet_ok E F" and "keeps (gate_progress E) m" and "keeps revoked_together m"
    and "m (process_view F p) = (res, s)"
  shows "stores_open s" "gate_log_ok E s" "dom (gs_revocations s) \<subseteq> recorded_leases (tables_of s)"
    "recorded_leases (tables_of s) = recorded_leases (fl_tables F) \<union> dom (gs_revocations s)"
proof -
  note ok = fleet_ok_process [OF assms(1), of p]
  from keepsD [OF assms(2,4)] ok(1,2) show "stores_open s" "gate_log_ok E s"
    by (simp_all add: gate_progress_def)
  from keepsD [OF assms(3,4)] ok(3)
  show "recorded_leases (tables_of s) = recorded_leases (fl_tables F) \<union> dom (gs_revocations s)"
    unfolding revoked_together_def by (elim exE conjE) (simp, blast)
  then show "dom (gs_revocations s) \<subseteq> recorded_leases (tables_of s)" by simp
qed

lemma begin_inert: "keeps authority_same (evaluate_begin E g cmd lease st now)"
  unfolding evaluate_begin_def by (intro inert.keeps_rules inert_rejections)

lemma begin_answers:
  assumes "evaluate_begin E g cmd lease st now s = (Inr (Some r), s')"
  shows "\<not> gr_allowed r"
  using assms unfolding evaluate_begin_def checko_def
  by (auto simp: res_simps reject_local_edge_mismatch_def split: option.splits if_splits dest!: reject_command_Inr)

lemma begin_authentic:
  assumes "evaluate_begin E g cmd lease st now s = (Inr None, s')"
  shows "cmd_authenticated_agent_id cmd = Some (cmd_agent_id cmd)"
proof -
  from assms obtain u where "command_auth_violation E g cmd now s = (Inr None, u)"
    unfolding evaluate_begin_def checko_def by (auto simp: res_simps split: option.splits)
  then show ?thesis using command_auth_None(1) command_signature_accepted by blast
qed

lemma finish_spends: "call_authentic c \<Longrightarrow> spends (pc_command c) (pc_lease c) (finish_call E g c)"
  unfolding evaluate_finish_def call_authentic_def
  by (cases "pc_lease c") (auto intro: spends_reject evaluate_lease_spends)

lemma finish_allowed_lease:
  assumes "finish_call E g c s = (Inr r, s')" and "gr_allowed r"
  obtains l where "pc_lease c = Some l" "lease_id l \<notin> dom (gs_revocations s)"
proof (cases "pc_lease c")
  case None
  with assms show ?thesis by (auto simp: evaluate_finish_def dest: reject_command_Inr)
next
  case (Some l)
  with assms(1) have "evaluate_lease E g (pc_command c) l (pc_state c) (pc_now c) s = (Inr r, s')"
    by (simp add: evaluate_finish_def)
  then show ?thesis using assms(2)
    by (rule evaluate_lease_allowedE)
      (auto simp: Some lease_authorizes_def gate_lease_checks_def revoked_lease_ids_def intro!: that)
qed

lemma handler_authority:
  assumes "fleet_ok E F" and "keeps (gate_progress E) m" and "keeps revoked_together m"
    and "m (process_view F p) = (res, s)"
  shows "fleet_authority_of (moved p s c F) =
    (fleet_authority_of F)\<lparr>fa_used := used_keys s,
       fa_recorded := fa_recorded (fleet_authority_of F) \<union> dom (gs_revocations s),
       fa_known := (fa_known (fleet_authority_of F))(p := dom (gs_revocations s))\<rparr>"
  using handler_moved(4) [OF assms] by (auto simp: moved_authority fleet_authority_of_def fun_eq_iff)

text \<open>A step that changes no authority of the process changes none of the fleet.\<close>

lemma unrevoked_authority:
  assumes "fleet_ok E F" and "dom (gs_revocations s) = dom (gs_revocations (fl_gate F p))"
  shows "(fleet_authority_of F)\<lparr>fa_used := K, fa_recorded := fa_recorded (fleet_authority_of F) \<union> dom (gs_revocations s),
       fa_known := (fa_known (fleet_authority_of F))(p := dom (gs_revocations s))\<rparr> =
     (fleet_authority_of F)\<lparr>fa_used := K\<rparr>"
  using fleet_ok_process(3) [OF assms(1), of p] assms(2)
  by (auto simp: fleet_authority_of_def fun_eq_iff)

lemma begin_authority:
  assumes "fleet_ok E F" and "evaluate_begin E g cmd lease st now (process_view F p) = (res, s)"
  shows "fleet_authority_of (moved p s c F) = fleet_authority_of F"
proof -
  have same: "gs_revocations s = gs_revocations (fl_gate F p)" "used_keys s = dom (sh_entries (fl_tables F))"
    using keepsD [OF begin_inert assms(2)] by (simp_all add: authority_same_def used_keys_def connected_def)
  then show ?thesis
    by (simp add: handler_authority [OF assms(1) begin_finish_progress(1) together_handlers(1) assms(2)]
        unrevoked_authority [OF assms(1)]) (simp add: fleet_authority_of_def)
qed

lemma finish_authority:
  assumes "fleet_ok E F" and "fl_pending F p = Some c" and "finish_call E g c (process_view F p) = (res, s)"
  obtains K where "K \<inter> fa_used (fleet_authority_of F) = {}" "spent (pc_command c) (pc_lease c) res K"
    "fleet_authority_of (moved p s call F) =
       (fleet_authority_of F)\<lparr>fa_used := fa_used (fleet_authority_of F) \<union> K\<rparr>"
proof -
  have opn: "cc_store_path (gs_command_replay_cache (process_view F p)) \<noteq> None"
    using fleet_ok_process(1) [OF assms(1), of p] by (simp add: stores_open_def)
  note spends = finish_spends [OF fleet_ok_process(4) [OF assms(1,2)], unfolded spends_def]
  from spends [rule_format, OF assms(3) opn] obtain K where
    K: "gs_revocations s = gs_revocations (fl_gate F p)" "used_keys s = dom (sh_entries (fl_tables F)) \<union> K"
      "K \<inter> dom (sh_entries (fl_tables F)) = {}" "spent (pc_command c) (pc_lease c) res K"
    by auto
  have "fa_used (fleet_authority_of F) = dom (sh_entries (fl_tables F))" by (simp add: fleet_authority_of_def)
  with K show thesis
    by (intro that [of K])
      (simp_all add: handler_authority [OF assms(1) begin_finish_progress(2) together_handlers(2) assms(3)]
        unrevoked_authority [OF assms(1)])
qed

lemma finish_simulated:
  assumes "fleet_ok E F" and "fl_pending F p = Some c" and "finish_call E g c (process_view F p) = (res, s)"
  shows "fleet_spec (fleet_authority_of F) (AnsweredAt p (pc_command c) (pc_lease c) res)
    (fleet_authority_of (moved p s None F))"
proof (rule finish_authority [OF assms])
  fix K
  assume K: "K \<inter> fa_used (fleet_authority_of F) = {}" "spent (pc_command c) (pc_lease c) res K"
    and after: "fleet_authority_of (moved p s None F) =
      (fleet_authority_of F)\<lparr>fa_used := fa_used (fleet_authority_of F) \<union> K\<rparr>"
  show ?thesis
  proof (cases "\<exists>r. res = Inr r \<and> gr_allowed r")
    case True
    then obtain r where r: "res = Inr r" "gr_allowed r" by blast
    from finish_allowed_lease [OF assms(3) [unfolded r(1)] r(2)] obtain l where
      l: "pc_lease c = Some l" "lease_id l \<notin> dom (gs_revocations (fl_gate F p))" by auto
    from K(2) r l(1) have "K = use_keys (pc_command c) l" by (simp add: spent_def)
    moreover have "lease_id l \<notin> fa_known (fleet_authority_of F) p" using l(2) by (simp add: fleet_authority_of_def)
    ultimately show ?thesis unfolding after r(1) l(1) using K(1) r(2) by (simp add: spec_granted)
  next
    case False
    with K after show ?thesis
      by (cases res) (auto simp: spent_def intro: spec_refused spec_raised)
  qed
qed

lemma revoke_simulated_at:
  assumes "fleet_ok E F" and "revoke E g arg lease now (process_view F p) = (res, s)"
  shows "fleet_spec (fleet_authority_of F) (RevokedAt p arg lease res) (fleet_authority_of (moved p s None F))"
proof -
  note after = handler_authority [OF assms(1) revoke_keeps together_handlers(3) assms(2), of None]
  from revoke_simulated [OF assms(2)] show ?thesis
  proof (cases rule: authority_step.cases)
    case (revoked rv l)
    then have "used_keys s = dom (sh_entries (fl_tables F))"
      and known: "dom (gs_revocations s) = insert (rev_lease_id rv) (dom (gs_revocations (fl_gate F p)))"
      by (simp_all add: authority_of_def)
    with fleet_ok_process(3) [OF assms(1), of p] after
    have "fleet_authority_of (moved p s None F) = (fleet_authority_of F)
        \<lparr>fa_recorded := insert (rev_lease_id rv) (fa_recorded (fleet_authority_of F)),
         fa_known := (fa_known (fleet_authority_of F))(p := insert (rev_lease_id rv) (fa_known (fleet_authority_of F) p))\<rparr>"
      by (auto simp: fleet_authority_of_def)
    with revoked show ?thesis by (simp add: spec_revoked)
  next
    case unrevoked
    then have same: "used_keys s = dom (sh_entries (fl_tables F))"
      "dom (gs_revocations s) = dom (gs_revocations (fl_gate F p))" by (simp_all add: authority_of_def)
    then have "fleet_authority_of (moved p s None F) = fleet_authority_of F"
      by (simp add: after unrevoked_authority [OF assms(1)]) (simp add: fleet_authority_of_def)
    with unrevoked show ?thesis by (simp add: spec_unrevoked)
  qed
qed

text \<open>A restart, also one after a crash that left a write in the tables.\<close>

lemma restart_authority:
  assumes "fleet_ok E F" and "reopened first_of a keep_log t = Inr (g, s)" and "stores_open t" and "gate_log_ok E t"
    and "recorded_leases (fl_tables F) \<subseteq> recorded_leases (tables_of t)"
  shows "fleet_ok E (moved p s None F)"
    and "fleet_authority_of (moved p s None F) = (fleet_authority_of F)
      \<lparr>fa_used := used_keys t, fa_recorded := recorded_leases (tables_of t),
       fa_known := (fa_known (fleet_authority_of F))(p := recorded_leases (tables_of t))\<rparr>"
proof -
  note reads = reopened_reads [OF assms(2,3)]
  have tables: "recorded_leases (tables_of s) = recorded_leases (tables_of t)"
    by (simp add: recorded_leases_def tables_of_def reads(2))
  have known: "dom (gs_revocations s) = recorded_leases (tables_of t)"
    using assms(3) by (auto simp: reads(3) load_all_eq recorded_leases_def tables_of_def stores_open_def dom_def)
  show "fleet_ok E (moved p s None F)"
    by (rule fleet_moved_ok [OF assms(1) reads(4) reads(6) [OF assms(4)]]) (use assms(5) tables known in auto)
  show "fleet_authority_of (moved p s None F) = (fleet_authority_of F)
      \<lparr>fa_used := used_keys t, fa_recorded := recorded_leases (tables_of t),
       fa_known := (fa_known (fleet_authority_of F))(p := recorded_leases (tables_of t))\<rparr>"
    by (simp add: moved_authority tables known) (simp add: fleet_authority_of_def used_keys_def reads(1))
qed

lemma crash_simulated:
  assumes "fleet_ok E F" and "keeps (gate_progress E) m" and "keeps revoked_together m"
    and "m (process_view F p) = (res, t)" and "reopened first_of a False t = Inr (g, s)"
  shows "fleet_ok E (moved p s None F)"
    and "fleet_spec (fleet_authority_of F) (CrashedAt p) (fleet_authority_of (moved p s None F))"
proof -
  note t = handler_moved [OF assms(1-4)]
  note re = restart_authority [OF assms(1,5) t(1,2)]
  from t(4) show "fleet_ok E (moved p s None F)" by (intro re(1)) simp
  let ?a = "fleet_authority_of F" and ?K = "used_keys t - dom (sh_entries (fl_tables F))"
    and ?L = "dom (gs_revocations t)"
  have "dom (sh_entries (fl_tables F)) \<subseteq> used_keys t"
    using keepsD [OF assms(2,4)] by (simp add: gate_progress_def)
  then have used: "used_keys t = fa_used ?a \<union> ?K" by (auto simp: fleet_authority_of_def)
  have recorded: "recorded_leases (tables_of t) = fa_recorded ?a \<union> ?L"
    using t(4) by (simp add: fleet_authority_of_def)
  have "fleet_authority_of (moved p s None F) =
      ?a\<lparr>fa_used := fa_used ?a \<union> ?K, fa_recorded := fa_recorded ?a \<union> ?L,
        fa_known := (fa_known ?a)(p := fa_recorded ?a \<union> ?L)\<rparr>"
    unfolding used [symmetric] recorded [symmetric] using t(4) by (intro re(2)) simp
  moreover have "?K \<inter> fa_used ?a = {}" by (auto simp: fleet_authority_of_def)
  ultimately show "fleet_spec ?a (CrashedAt p) (fleet_authority_of (moved p s None F))"
    by (simp only: spec_crashed)
qed

lemma fleet_simulated:
  assumes "fleet_step E G F x F'" and "fleet_ok E F"
  shows "fleet_ok E F' \<and> fleet_spec (fleet_authority_of F) x (fleet_authority_of F')"
proof -
  have kept: "fleet_ok E (moved p s call F)"
    if "keeps (gate_progress E) m" "keeps revoked_together m" "m (process_view F p) = (res, s)"
      "\<forall>c. call = Some c \<longrightarrow> call_authentic c" for p s call m and res :: "'x res"
    using handler_moved [OF assms(2) that(1-3)] that(4) by (intro fleet_moved_ok [OF assms(2)]) auto
  note begin_ok = kept [OF begin_finish_progress(1) together_handlers(1)]
    and finish_ok = kept [OF begin_finish_progress(2) together_handlers(2)]
    and revoke_ok = kept [OF revoke_keeps together_handlers(3)]
  from assms(1) show ?thesis
  proof (cases rule: fleet_step.cases)
    case (begins p c s)
    have "fleet_ok E (moved p s (Some c) F)"
      using begin_authentic [OF begins(4)] by (intro begin_ok [OF begins(4)]) (simp add: call_authentic_def)
    with begins begin_authority [OF assms(2) begins(4)] show ?thesis by (simp add: spec_begun)
  next
    case (answers p cmd lease st now r s)
    have "fleet_spec a (AnsweredAt p cmd lease (Inr r)) a" for a
      using spec_refused [OF begin_answers [OF answers(4)], of "{}"] by simp
    with answers begin_ok [OF answers(4)] begin_authority [OF assms(2) answers(4)] show ?thesis by simp
  next
    case (fails p cmd lease st now e s)
    have "fleet_spec a (AnsweredAt p cmd lease (Inl e)) a" for a
      using spec_raised [of "{}" cmd lease a p e] by (simp add: presented_keys_def)
    with fails begin_ok [OF fails(4)] begin_authority [OF assms(2) fails(4)] show ?thesis by simp
  next
    case (finishes p c res s)
    with finish_ok [OF finishes(4)] finish_simulated [OF assms(2) finishes(3,4)] show ?thesis by simp
  next
    case (revokes p arg lease now res s)
    with revoke_ok [OF revokes(4)] revoke_simulated_at [OF assms(2) revokes(4)] show ?thesis by simp
  next
    case (restarts first_of a keep_log p s)
    note re = restart_authority [OF assms(2) restarts(3) fleet_ok_process(1,2) [OF assms(2)]]
    have "(fleet_authority_of F)\<lparr>fa_used := dom (sh_entries (fl_tables F)), fa_recorded := recorded_leases (fl_tables F),
        fa_known := known\<rparr> = (fleet_authority_of F)\<lparr>fa_known := known\<rparr>" for known
      by (simp add: fleet_authority_of_def)
    with re(1,2) [of p] spec_restarted [of "fleet_authority_of F" p] restarts(1,2) show ?thesis
      by (simp add: fleet_authority_of_def)
  next
    case (crashes_deciding p c res t first_of a s)
    with crash_simulated [OF assms(2) begin_finish_progress(2) together_handlers(2) crashes_deciding(4,5)]
    show ?thesis by simp
  next
    case (crashes_revoking p arg lease now res t first_of a s)
    with crash_simulated [OF assms(2) revoke_keeps together_handlers(3) crashes_revoking(4,5)]
    show ?thesis by simp
  qed
qed

interpretation fleet_run: simulation "fleet_step E G" fleet_spec "fleet_ok E" fleet_authority_of for E G
  by unfold_locales (use fleet_simulated in blast)+

text \<open>A call that no other process interrupts is a call of \<^const>\<open>evaluate\<close>.\<close>

lemma connected_self [simp]: "connected (tables_of s) s = s"
  by (simp add: connected_def tables_of_def)

lemma uninterrupted_call:
  assumes "fl_pending F p = None" and "evaluate E (G p) cmd lease st now (process_view F p) = (Inr r, s)"
  obtains pre F' where "path (fleet_step E G) F (pre @ [AnsweredAt p cmd lease (Inr r)]) F'"
    "set pre \<subseteq> {Begun p}" "gr_allowed r \<Longrightarrow> pre = [Begun p]"
    "fl_tables F' = tables_of s" "fl_gate F' = (fl_gate F)(p := s)" "fl_pending F' = fl_pending F"
proof -
  let ?c = "\<lparr>pc_command = cmd, pc_lease = lease, pc_state = st, pc_now = now\<rparr>"
  from assms(2) obtain answer u where
    first: "evaluate_begin E (G p) cmd lease st now (process_view F p) = (Inr answer, u)"
    and rest: "(case answer of Some r \<Rightarrow> ret r | None \<Rightarrow> evaluate_finish E (G p) cmd lease st now) u = (Inr r, s)"
    unfolding evaluate_parts by (auto simp: res_simps)
  have idle: "(fl_pending F)(p := None) = fl_pending F" using assms(1) by auto
  show thesis
  proof (cases answer)
    case None
    with first rest have parts: "evaluate_begin E (G p) cmd lease st now (process_view F p) = (Inr None, u)"
      "evaluate_finish E (G p) cmd lease st now u = (Inr r, s)" by simp_all
    let ?F = "moved p u (Some ?c) F"
    have "fleet_step E G F (Begun p) ?F"
      using begins [where c = ?c, OF assms(1)] parts(1) by simp
    moreover have "fleet_step E G ?F (AnsweredAt p cmd lease (Inr r)) (moved p s None ?F)"
      using finishes [where c = ?c and F = ?F and p = p] parts(2) by simp
    ultimately have "path (fleet_step E G) F ([Begun p] @ [AnsweredAt p cmd lease (Inr r)]) (moved p s None ?F)"
      by auto
    then show ?thesis by (rule that) (simp_all add: idle)
  next
    case (Some r')
    with first rest have "evaluate_begin E (G p) cmd lease st now (process_view F p) = (Inr (Some r), s)" by simp
    then have "path (fleet_step E G) F ([] @ [AnsweredAt p cmd lease (Inr r)]) (moved p s None F)" "\<not> gr_allowed r"
      using answers [OF assms(1)] begin_answers by auto
    then show ?thesis by (intro that [of "[]" "moved p s None F"]) (simp_all add: idle)
  qed
qed

text \<open>A fleet of gates that agree with the tables, with no call under way, is in order.\<close>

lemma fleet_ok_started:
  assumes "\<And>p. gate_ok E (fl_gate F p)" and "\<And>p. tables_of (fl_gate F p) = fl_tables F" and "fl_pending F = Map.empty"
  shows "fleet_ok E F"
proof -
  have "dom (gs_revocations (fl_gate F p)) = recorded_leases (fl_tables F)" for p
    using assms(1) [of p] unfolding assms(2) [of p, symmetric]
    by (auto simp: gate_ok_def revocations_synced_def load_all_eq stores_open_def recorded_leases_def tables_of_def dom_def)
  with assms show ?thesis by (simp add: fleet_ok_def gate_ok_def)
qed

lemma command_authorized_cong:
  assumes "gs_revocations s' = gs_revocations s" and "used_keys s' = used_keys s" and "gs_world s' = gs_world s"
  shows "command_authorized E g cmd l st now s' = command_authorized E g cmd l st now s"
  by (simp add: command_authorized_def gate_lease_checks_def revoked_lease_ids_def lease_check_time_def assms)

lemma fleet_known_recorded: "fleet_ok E F \<Longrightarrow> fa_known (fleet_authority_of F) p \<subseteq> fa_recorded (fleet_authority_of F)"
  by (simp add: fleet_authority_of_def fleet_ok_def)

lemma fleet_run_ok: "path (fleet_step E G) F xs F' \<Longrightarrow> fleet_ok E F \<Longrightarrow> fleet_ok E F'"
  using fleet_run.path_simulated by blast

section \<open>Properties\<close>

text \<open>
  C5. Single use holds for a fleet: however many gate processes share the files, and however their calls,
  restarts and crashes interleave between the look-up and the transaction of a call, two allowed commands
  never share the nonce of a lease, nor, when they come from one agent, a command id or a nonce.
\<close>

theorem fleet_single_use:
  assumes "fleet_ok E F0"
    and "path (fleet_step E G) F0
      (xs @ [AnsweredAt p c1 (Some l1) (Inr r1)] @ ys @ [AnsweredAt q c2 (Some l2) (Inr r2)]) F1"
    and "gr_allowed r1" and "gr_allowed r2"
  shows "lease_nonce l1 \<noteq> lease_nonce l2 \<and>
    (cmd_agent_id c1 = cmd_agent_id c2 \<longrightarrow> command_id c1 \<noteq> command_id c2 \<and> command_nonce c1 \<noteq> command_nonce c2)"
proof -
  from fleet_run.path_simulated [OF assms(2,1)] have "use_keys c1 l1 \<inter> use_keys c2 l2 = {}"
    using assms(3,4) by (auto dest!: spec_granted_unused fleet_path_mono)
  then show ?thesis by (auto simp: use_keys_def use_entries_def command_entries_def)
qed

text \<open>
  C6. A revocation stops the process that took it at once and every other process of the fleet from its
  next restart on: after a process has answered a revocation with a fallback declaration, no process that
  is the same one or is restarted afterwards allows a command under that lease.
\<close>

theorem fleet_revocation_reach:
  assumes "fleet_ok E F0"
    and "path (fleet_step E G) F0 (xs @ [RevokedAt p (Revocation rv) lease0 (Inr (Some d))] @ ys @
           [AnsweredAt q cmd (Some l) (Inr r)]) F1"
    and "lease_id l = rev_lease_id rv" and "q = p \<or> RestartedAt q \<in> set ys"
  shows "\<not> gr_allowed r"
proof
  assume granted: "gr_allowed r"
  let ?known = "\<lambda>a. \<forall>p. fa_known a p \<subseteq> fa_recorded a"
  from fleet_run.path_simulated [OF assms(2,1)] obtain a b c d' where
    run: "path fleet_spec (fleet_authority_of F0) xs a" "fleet_spec a (RevokedAt p (Revocation rv) lease0 (Inr (Some d))) b"
      "path fleet_spec b ys c" "fleet_spec c (AnsweredAt q cmd (Some l) (Inr r)) d'" by auto
  have a: "?known a" using fleet_path_known [OF run(1) fleet_known_recorded [OF assms(1)]] by blast
  then have b: "?known b" using fleet_spec_known [OF run(2)] by blast
  have "rev_lease_id rv \<in> fa_known c q"
  proof (cases "q = p")
    case True
    with spec_revocation_recorded [OF run(2)] fleet_path_known [OF run(3)] b show ?thesis by blast
  next
    case False
    with assms(4) obtain ys1 ys2 where ys: "ys = ys1 @ RestartedAt q # ys2" by (auto dest: split_list)
    with run(3) obtain t u where ru: "path fleet_spec b ys1 t" "fleet_spec t (RestartedAt q) u" "path fleet_spec u ys2 c"
      by auto
    have t: "?known t" using fleet_path_known [OF ru(1)] b by blast
    then have "?known u" using fleet_spec_known [OF ru(2)] by blast
    moreover have "rev_lease_id rv \<in> fa_known u q"
      using ru(2) spec_revocation_recorded [OF run(2)] fleet_path_mono [OF ru(1)] by (auto elim!: spec_restartedE)
    ultimately show ?thesis using fleet_path_known [OF ru(3)] by blast
  qed
  with spec_granted_unused [OF run(4) granted] assms(3) show False by simp
qed

text \<open>
  C26. Until then it does not: a running gate decides by the table of revocations it loaded when it was
  built, not by the shared store. A command that another process of the fleet would allow is still allowed
  by it after the store has recorded the revocation of its lease.
\<close>

theorem running_gate_misses_revocation:
  assumes "fleet_ok E F" and "p \<noteq> q" and "fl_pending F q = None" and "draws_distinct E (fl_gate F q) 2"
    and "command_authorized E (G q) cmd l st now (process_view F q)"
    and "fleet_step E G F (RevokedAt p (Revocation rv) (Some l) (Inr (Some d))) F'" and "rev_lease_id rv = lease_id l"
  shows "lease_id l \<in> recorded_leases (fl_tables F') \<and>
    (\<exists>r F''. path (fleet_step E G) F' [Begun q, AnsweredAt q cmd (Some l) (Inr r)] F'' \<and> gr_allowed r)"
  using assms(6)
proof (cases rule: fleet_step.cases)
  case (revokes now' s)
  note after = keepsD [OF revoke_unspent revokes(3)]
  have view: "process_view F' q = connected (tables_of s) (fl_gate F q)" using revokes(1) assms(2) by simp
  have "used_keys s = dom (sh_entries (fl_tables F))"
    using after by (simp add: cache_same_def used_keys_def connected_def)
  then have auth: "command_authorized E (G q) cmd l st now (process_view F' q)"
    unfolding view using assms(5) by (subst command_authorized_cong [of _ "process_view F q"]) simp_all
  have open_q: "stores_open (process_view F' q)" "gate_log_ok E (process_view F' q)" "draws_distinct E (process_view F' q) 2"
    using fleet_ok_process(1,2) [OF assms(1), of q] assms(4) by (simp_all add: view draws_distinct_def)
  from evaluate_authorized_open [OF open_q auth] obtain r s' where
    "evaluate E (G q) cmd (Some l) st now (process_view F' q) = (Inr r, s')" "gr_allowed r" by blast
  moreover have "fl_pending F' q = None" using revokes(1) assms(2,3) by simp
  moreover have "lease_id l \<in> recorded_leases (fl_tables F')"
    using fleet_simulated [OF assms(6,1)] assms(7) spec_revocation_recorded by (force simp: fleet_authority_of_def)
  ultimately show ?thesis by (metis append_Cons append_Nil uninterrupted_call)
qed

end
