(* ===== verification/Fleet_Scenario.thy ===== *)
theory Fleet_Scenario
  imports Gate_Scenario Shared_Stores
begin

text \<open>
  The gate of the scenario run by several processes on one pair of files: commands allowed by two of them,
  a revocation that one of them takes, and a restart that makes it known to another.
\<close>

definition demo_fleet :: fleet where
  "demo_fleet = \<lparr>fl_tables = tables_of demo_start, fl_gate = (\<lambda>_. demo_start), fl_pending = Map.empty\<rparr>"

abbreviation demo_fleet_step :: "fleet \<Rightarrow> fleet_label \<Rightarrow> fleet \<Rightarrow> bool" where
  "demo_fleet_step \<equiv> fleet_step demo_env (\<lambda>_. demo_gate)"

lemma demo_fleet_simps [simp]:
  "fl_tables demo_fleet = tables_of demo_start" "fl_gate demo_fleet p = demo_start" "fl_pending demo_fleet = Map.empty"
  by (simp_all add: demo_fleet_def)

lemma demo_fleet_ok: "fleet_ok demo_env demo_fleet"
  by (rule fleet_ok_started) (simp_all add: demo_start_ok)

lemma demo_fleet_allowed:
  obtains r F where "path demo_fleet_step demo_fleet [Begun 0, AnsweredAt 0 cmd_1 (Some lease_1) (Inr r)] F"
    "gr_allowed r" "fl_pending F = Map.empty" "fl_gate F 1 = demo_start"
    "dom (sh_entries (fl_tables F)) = use_keys cmd_1 lease_1"
proof (rule demo_allowed_1)
  fix r s
  assume ev: "evaluate demo_env demo_gate cmd_1 (Some lease_1) (Some demo_robot_state) None demo_start = (Inr r, s)"
    and allowed: "gr_allowed r" and used: "used_keys s = use_keys cmd_1 lease_1"
  from ev have "evaluate demo_env demo_gate cmd_1 (Some lease_1) (Some demo_robot_state) None (process_view demo_fleet 0) = (Inr r, s)"
    by simp
  then show thesis
    by (rule uninterrupted_call [where F = demo_fleet and G = "\<lambda>_. demo_gate", rotated])
      (use that allowed used in auto)
qed

theorem fleet_single_use_witness:
  "\<exists>r1 r2 F. path demo_fleet_step demo_fleet
       [Begun 0, AnsweredAt 0 cmd_1 (Some lease_1) (Inr r1), Begun 1, AnsweredAt 1 cmd_2 (Some lease_2) (Inr r2)] F \<and>
     gr_allowed r1 \<and> gr_allowed r2 \<and> lease_nonce lease_1 \<noteq> lease_nonce lease_2"
proof (rule demo_fleet_allowed)
  fix r1 F
  assume one: "path demo_fleet_step demo_fleet [Begun 0, AnsweredAt 0 cmd_1 (Some lease_1) (Inr r1)] F" "gr_allowed r1"
    and F: "fl_pending F = Map.empty" "fl_gate F 1 = demo_start" "dom (sh_entries (fl_tables F)) = use_keys cmd_1 lease_1"
  have ok: "fleet_ok demo_env F" using fleet_run_ok [OF one(1) demo_fleet_ok] .
  have "command_authorized demo_env demo_gate cmd_2 lease_2 (Some demo_robot_state) None (process_view F 1)"
    by (rule demo_command_authorized) (simp_all add: demo_simps F(2,3) demo_use_keys del: py_blank.simps One_nat_def)
  moreover have "draws_distinct demo_env (process_view F 1) 2" by (simp add: F(2) del: One_nat_def)
  ultimately obtain r2 s where "evaluate demo_env demo_gate cmd_2 (Some lease_2) (Some demo_robot_state) None (process_view F 1) = (Inr r2, s)"
    and two: "gr_allowed r2"
    using evaluate_authorized_open [OF fleet_ok_process(1,2) [OF ok]] by metis
  then obtain F' where "path demo_fleet_step F [Begun 1, AnsweredAt 1 cmd_2 (Some lease_2) (Inr r2)] F'"
    using uninterrupted_call [where F = F and p = 1 and G = "\<lambda>_. demo_gate"] F(1) by (metis append_Cons append_Nil)
  with one(1) have run: "path demo_fleet_step demo_fleet ([Begun 0] @ [AnsweredAt 0 cmd_1 (Some lease_1) (Inr r1)] @
      [Begun 1] @ [AnsweredAt 1 cmd_2 (Some lease_2) (Inr r2)]) F'" by auto
  from fleet_single_use [OF demo_fleet_ok run one(2) two] run one(2) two show ?thesis
    by (intro exI [of _ r1] exI [of _ r2] exI [of _ F']) simp
qed

lemma demo_fleet_revoked:
  obtains d F where "demo_fleet_step demo_fleet (RevokedAt 0 (Revocation demo_revocation) (Some lease_1) (Inr (Some d))) F"
    "fl_pending F = Map.empty" "fleet_ok demo_env F" "''lease-1'' \<in> recorded_leases (fl_tables F)"
proof (rule demo_revoked)
  fix d s
  assume rev: "revoke demo_env demo_gate (Revocation demo_revocation) (Some lease_1) None demo_start = (Inr (Some d), s)"
  then have step: "demo_fleet_step demo_fleet (RevokedAt 0 (Revocation demo_revocation) (Some lease_1) (Inr (Some d)))
      (moved 0 s None demo_fleet)" by (intro revokes) simp_all
  from fleet_simulated [OF step demo_fleet_ok] have "fleet_ok demo_env (moved 0 s None demo_fleet)"
    and "rev_lease_id demo_revocation \<in> fa_recorded (fleet_authority_of (moved 0 s None demo_fleet))"
    using spec_revocation_recorded by blast+
  with step show thesis
    by (intro that [OF step]) (simp_all add: fleet_authority_of_def demo_revocation_def fun_upd_idem)
qed

theorem fleet_revocation_reach_witness:
  "\<exists>d pre r F. path demo_fleet_step demo_fleet
       ([RevokedAt 0 (Revocation demo_revocation) (Some lease_1) (Inr (Some d)), RestartedAt 1] @ pre @
        [AnsweredAt 1 cmd_1 (Some lease_1) (Inr r)]) F \<and> \<not> gr_allowed r"
proof (rule demo_fleet_revoked)
  fix d F
  assume rev: "demo_fleet_step demo_fleet (RevokedAt 0 (Revocation demo_revocation) (Some lease_1) (Inr (Some d))) F"
    and F: "fl_pending F = Map.empty" "fleet_ok demo_env F" "''lease-1'' \<in> recorded_leases (fl_tables F)"
  note q = fleet_ok_process(1,2) [OF F(2), of 1]
  obtain s where re: "reopened the_elem demo_args True (process_view F 1) = Inr (demo_gate, s)"
    by (rule demo_restart [OF q(1)])
  note reads = reopened_reads [OF re q(1)]
  have ok: "gate_ok demo_env s" using reads(4,5) reads(6) [OF q(2)] by (simp add: gate_ok_def)
  have "lease_id lease_1 \<in> dom (gs_revocations s)"
    using F(3) q(1) reads(3)
    by (auto simp: load_all_eq connected_def recorded_leases_def stores_open_def demo_lease_def)
  then obtain r s' where ev: "evaluate demo_env demo_gate cmd_1 (Some lease_1) (Some demo_robot_state) None s = (Inr r, s')"
    by (rule demo_answered [OF ok])
  let ?F = "moved 1 s None F"
  have restart: "demo_fleet_step F (RestartedAt 1) ?F" using re by (rule restarts)
  have "evaluate demo_env demo_gate cmd_1 (Some lease_1) (Some demo_robot_state) None (process_view ?F 1) = (Inr r, s')"
    using ev by simp
  moreover have "fl_pending ?F 1 = None" by simp
  ultimately obtain pre F' where "path demo_fleet_step ?F (pre @ [AnsweredAt 1 cmd_1 (Some lease_1) (Inr r)]) F'"
    using uninterrupted_call [where F = ?F and p = 1 and G = "\<lambda>_. demo_gate"] by metis
  with rev restart have run: "path demo_fleet_step demo_fleet
      ([] @ [RevokedAt 0 (Revocation demo_revocation) (Some lease_1) (Inr (Some d))] @ (RestartedAt 1 # pre) @
       [AnsweredAt 1 cmd_1 (Some lease_1) (Inr r)]) F'" by auto
  have "lease_id lease_1 = rev_lease_id demo_revocation" by (simp add: demo_lease_def demo_revocation_def)
  from fleet_revocation_reach [OF demo_fleet_ok run this] run show ?thesis
    by (intro exI [of _ d] exI [of _ pre] exI [of _ r] exI [of _ F']) simp
qed

theorem running_gate_misses_revocation_witness:
  "\<exists>d r F. path demo_fleet_step demo_fleet
       [RevokedAt 0 (Revocation demo_revocation) (Some lease_1) (Inr (Some d)), Begun 1,
        AnsweredAt 1 cmd_1 (Some lease_1) (Inr r)] F \<and> gr_allowed r"
proof (rule demo_fleet_revoked)
  fix d F
  assume rev: "demo_fleet_step demo_fleet (RevokedAt 0 (Revocation demo_revocation) (Some lease_1) (Inr (Some d))) F"
  have id: "rev_lease_id demo_revocation = lease_id lease_1" by (simp add: demo_lease_def demo_revocation_def)
  have "\<exists>r F'. path demo_fleet_step F [Begun 1, AnsweredAt 1 cmd_1 (Some lease_1) (Inr r)] F' \<and> gr_allowed r"
    using running_gate_misses_revocation [OF demo_fleet_ok _ _ _ _ rev id, of 1] demo_cmd_1 by auto
  then obtain r F' where "path demo_fleet_step F [Begun 1, AnsweredAt 1 cmd_1 (Some lease_1) (Inr r)] F'" "gr_allowed r"
    by blast
  with rev show ?thesis by (intro exI [of _ d] exI [of _ r] exI [of _ F']) auto
qed

end
