(* ===== verification/Canonical_Form.thy ===== *)
theory Canonical_Form
  imports Crypto
begin

text \<open>
  What a signature binds. The text that is signed is \<^verbatim>\<open>canonical_json\<close> of the message (\<^verbatim>\<open>rclp_core/crypto.py\<close>).
  Two values have the same canonical text only when they are the same up to the order of the keys in
  their objects, so a text that was signed as one message cannot be read as another one.
\<close>

section \<open>Texts\<close>

text \<open>
  The code points of a text are those that UTF-8 has an encoding for, and the bytes are that encoding.
\<close>

definition code_point :: "nat \<Rightarrow> bool" where
  "code_point n \<longleftrightarrow> n < 1114112 \<and> \<not> (55296 \<le> n \<and> n < 57344)"

definition utf8_bytes :: "nat \<Rightarrow> string" where
  "utf8_bytes n =
     (if n < 128 then [char_of n]
      else if n < 2048 then [char_of (192 + n div 64), char_of (128 + n mod 64)]
      else if n < 65536
      then [char_of (224 + n div 4096), char_of (128 + n div 64 mod 64), char_of (128 + n mod 64)]
      else [char_of (240 + n div 262144), char_of (128 + n div 4096 mod 64),
            char_of (128 + n div 64 mod 64), char_of (128 + n mod 64)])"

definition utf8_text :: "string \<Rightarrow> bool" where
  "utf8_text s \<longleftrightarrow> list_all code_point (utf8_decode s) \<and> concat (map utf8_bytes (utf8_decode s)) = s"

lemma utf8_text_decode: "utf8_text s \<Longrightarrow> utf8_text t \<Longrightarrow> utf8_decode s = utf8_decode t \<longleftrightarrow> s = t"
  by (metis utf8_text_def)

text \<open>Every text in a value is one, its keys included.\<close>

fun json_text :: "json \<Rightarrow> bool" where
  "json_text (JStr s) = utf8_text s"
| "json_text (JList xs) = list_all json_text xs"
| "json_text (JDict d) = list_all (\<lambda>kv. utf8_text (fst kv) \<and> json_text (snd kv)) d"
| "json_text _ = True"

text \<open>
  What \<^verbatim>\<open>float.__repr__\<close> documents: the text of a finite double is made of digits, a sign, a point and an
  exponent, reads back as the double, and is not the text of an integer.
\<close>

definition number_chars :: "char set" where
  "number_chars = set ''0123456789+-.e''"

definition repr_exact :: "(rat \<Rightarrow> string) \<Rightarrow> bool" where
  "repr_exact repr \<longleftrightarrow> inj repr \<and> (\<forall>q. repr q \<noteq> [] \<and> set (repr q) \<subseteq> number_chars \<and> (\<forall>n. repr q \<noteq> int_str n))"

section \<open>Values up to the order of keys\<close>

fun json_norm :: "json \<Rightarrow> json" where
  "json_norm (JList xs) = JList (map json_norm xs)"
| "json_norm (JDict d) = JDict (sort_key fst (map (\<lambda>kv. (fst kv, json_norm (snd kv))) d))"
| "json_norm v = v"

lemma sort_key_fst_map:
  "sort_key fst (map (\<lambda>kv. (fst kv, f (snd kv))) d) = map (\<lambda>kv. (fst kv, f (snd kv))) (sort_key fst d)"
  for d :: "('a::linorder \<times> 'b) list"
proof (induction d)
  case (Cons p d)
  have "insort_key fst (fst p, f (snd p)) (map (\<lambda>kv. (fst kv, f (snd kv))) e) =
      map (\<lambda>kv. (fst kv, f (snd kv))) (insort_key fst p e)" for e
    by (induction e) auto
  with Cons show ?case by simp
qed simp

lemma sort_key_idem: "sort_key f (sort_key f xs) = sort_key f xs"
  by (rule sort_key_id_if_sorted) simp

lemma json_norm_JDict:
  "json_norm (JDict d) = JDict (map (\<lambda>kv. (fst kv, json_norm (snd kv))) (sort_key fst d))"
  by (simp add: sort_key_fst_map)

text \<open>With distinct keys, looking up a key does not see the order.\<close>

lemma map_of_sort_key:
  assumes "distinct (map fst d)"
  shows "map_of (sort_key fst d) = map_of d"
proof -
  have "distinct (map fst (sort_key fst d))" using assms by (simp add: distinct_map)
  with assms show ?thesis
    by (intro map_of_eqI) (auto simp: map_of_eq_Some_iff dom_map_of_conv_image_fst)
qed

section \<open>Reading back a sequence of printed items\<close>

text \<open>
  A sequence of items is printed one after the other and closed by a character that starts none of them. If
  each item can be told apart from what follows it, so can the items of the sequence.
\<close>

lemma sequence_decodes:
  assumes "concat (map item xs) @ c # r = concat (map item ys) @ c # s"
    and "\<And>x. x \<in> set xs \<union> set ys \<Longrightarrow> \<exists>a t. item x = a # t \<and> a \<noteq> c"
    and "\<And>x y r s. x \<in> set xs \<Longrightarrow> y \<in> set ys \<Longrightarrow> ends r \<Longrightarrow> ends s \<Longrightarrow> item x @ r = item y @ s \<Longrightarrow> same x y \<and> r = s"
    and "\<And>r. ends (c # r)" and "\<And>x r. x \<in> set xs \<union> set ys \<Longrightarrow> ends (item x @ r)"
  shows "list_all2 same xs ys \<and> r = s"
  using assms
proof (induction xs arbitrary: ys)
  case Nil
  then show ?case by (cases ys) (force simp: Cons_eq_append_conv)+
next
  case (Cons x xs)
  show ?case
  proof (cases ys)
    case Nil
    with Cons.prems(1) Cons.prems(2) [of x] show ?thesis by auto
  next
    case (Cons y zs)
    have tail: "ends (concat (map item us) @ c # t)" if "set us \<subseteq> set (x # xs) \<union> set ys" for us t
      using that Cons.prems(4,5) by (cases us) auto
    from Cons.prems(1) Cons have "item x @ concat (map item xs) @ c # r = item y @ concat (map item zs) @ c # s"
      by simp
    with Cons.prems(3) [of x y] tail Cons
    have "same x y" "concat (map item xs) @ c # r = concat (map item zs) @ c # s" by auto
    moreover from this(2) have "list_all2 same xs zs \<and> r = s"
    proof (rule Cons.IH)
      fix u v r s
      assume "u \<in> set xs" "v \<in> set zs" "ends r" "ends s" "item u @ r = item v @ s"
      then show "same u v \<and> r = s" using Cons.prems(3) [of u v r s] Cons by simp
    qed (use Cons.prems(2,4,5) Cons in auto)
    ultimately show ?thesis using Cons by simp
  qed
qed

section \<open>Strings\<close>

lemma hex_digit_inj: "a < 16 \<Longrightarrow> b < 16 \<Longrightarrow> hex_digit a = hex_digit b \<longleftrightarrow> a = b"
proof -
  assume ab: "a < 16" "b < 16"
  have "distinct (map hex_digit [0..<16])" by code_simp
  then have "inj_on hex_digit {0..<16}" by (simp add: distinct_map)
  with ab show ?thesis by (simp add: inj_on_eq_iff)
qed

lemma hex4_decodes: "hex4 n @ r = hex4 m @ s \<Longrightarrow> n < 65536 \<Longrightarrow> m < 65536 \<Longrightarrow> n = m \<and> r = s"
proof -
  assume eq: "hex4 n @ r = hex4 m @ s" and "n < 65536" "m < 65536"
  have digits: "k = (k div 4096 mod 16) * 4096 + (k div 256 mod 16) * 256 + (k div 16 mod 16) * 16 + k mod 16"
    if "k < 65536" for k :: nat
  proof -
    define a b c d where "a = k mod 16" and "b = k div 16 mod 16" and "c = k div 16 div 16 mod 16"
      and "d = k div 16 div 16 div 16"
    have "k = k div 16 * 16 + a" "k div 16 = k div 16 div 16 * 16 + b" "k div 16 div 16 = d * 16 + c"
      by (simp_all only: a_def b_def c_def d_def div_mult_mod_eq)
    then have "k = ((d * 16 + c) * 16 + b) * 16 + a" by metis
    moreover have "k div 256 = k div 16 div 16" "k div 4096 = d" "d mod 16 = d"
      using that by (simp_all add: d_def flip: div_mult2_eq)
    ultimately show ?thesis by (simp add: a_def b_def c_def algebra_simps)
  qed
  from eq have "n div 4096 mod 16 = m div 4096 mod 16" "n div 256 mod 16 = m div 256 mod 16"
    "n div 16 mod 16 = m div 16 mod 16" "n mod 16 = m mod 16" "r = s"
    by (simp_all add: hex4_def hex_digit_inj)
  with digits [OF \<open>n < 65536\<close>] digits [OF \<open>m < 65536\<close>] show ?thesis by simp
qed

definition short_escape :: "nat \<Rightarrow> char option" where
  "short_escape = map_of [(34, CHR 0x22), (92, CHR 0x5C), (10, CHR ''n''), (13, CHR ''r''), (9, CHR ''t''),
     (12, CHR ''f''), (8, CHR ''b'')]"

lemma short_escape_inj: "short_escape a = Some c \<Longrightarrow> short_escape b = Some c \<Longrightarrow> a = b"
  by (auto simp: short_escape_def split: if_splits)

lemma short_escape_not_u: "short_escape a \<noteq> Some (CHR ''u'')"
  by (simp add: short_escape_def)

text \<open>The four forms of an escaped code point.\<close>

lemma json_escape_forms:
  assumes "code_point n"
  obtains (short) c where "short_escape n = Some c" "json_escape n = [CHR 0x5C, c]"
  | (plain) "json_escape n = [char_of n]" "n < 128" "char_of n \<noteq> CHR 0x5C" "char_of n \<noteq> CHR 0x22"
  | (bmp) "json_escape n = CHR 0x5C # CHR ''u'' # hex4 n" "n < 65536" "\<not> (55296 \<le> n \<and> n < 57344)"
  | (pair) v where "n = 65536 + v" "v < 1048576" "json_escape n =
      CHR 0x5C # CHR ''u'' # hex4 (55296 + v div 1024) @ CHR 0x5C # CHR ''u'' # hex4 (56320 + v mod 1024)"
proof (cases "short_escape n")
  case (Some c)
  then have "json_escape n = [CHR 0x5C, c]" by (auto simp: short_escape_def json_escape_def split: if_splits)
  with Some show thesis by (rule short)
next
  case None
  then have n: "n \<notin> {34, 92, 10, 13, 9, 12, 8}" by (auto simp: short_escape_def split: if_splits)
  show thesis
  proof (cases "32 \<le> n \<and> n < 127")
    case True
    then have "char_of n \<noteq> CHR 0x5C" "char_of n \<noteq> CHR 0x22"
      using n by (auto simp: char_of_eq_iff take_bit_nat_eq_self)
    with True n show thesis by (intro plain) (auto simp: json_escape_def)
  next
    case False
    show thesis
    proof (cases "n < 65536")
      case True
      with False n assms show thesis by (intro bmp) (auto simp: json_escape_def code_point_def)
    next
      case big: False
      then show thesis
        using assms n by (intro pair [of "n - 65536"]) (auto simp: json_escape_def Let_def code_point_def)
    qed
  qed
qed

lemma json_escape_decodes:
  assumes "code_point a" "code_point b" "json_escape a @ r = json_escape b @ s"
  shows "a = b \<and> r = s"
proof -
  have plain: "a = b" if "char_of a = (char_of b :: char)" "a < 128" "b < 128"
    using arg_cong [OF that(1), of byte_of] that(2,3) by (simp add: take_bit_nat_eq_self)
  from assms(1) show ?thesis
  proof (cases rule: json_escape_forms)
    case (short c)
    from assms(2) show ?thesis
      by (cases rule: json_escape_forms)
        (use short assms(3) short_escape_inj short_escape_not_u in auto)
  next
    case plain_a: plain
    from assms(2) show ?thesis
      by (cases rule: json_escape_forms) (use plain_a assms(3) plain in auto)
  next
    case bmp
    from assms(2) show ?thesis
    proof (cases rule: json_escape_forms)
      case bmp_b: bmp
      with bmp assms(3) show ?thesis using hex4_decodes [of a r b s] by simp
    next
      case (pair v)
      with bmp assms(3) hex4_decodes [of a r "55296 + v div 1024"] have "a = 55296 + v div 1024" by simp
      with bmp(3) pair(2) show ?thesis by linarith
    qed (use bmp assms(3) short_escape_not_u in auto)
  next
    case (pair v)
    then have v: "v div 1024 < 1024" by simp
    from assms(2) show ?thesis
    proof (cases rule: json_escape_forms)
      case bmp
      with pair assms(3) hex4_decodes [of "55296 + v div 1024" _ b s] v have "b = 55296 + v div 1024" by force
      with bmp(3) v show ?thesis by linarith
    next
      case pair_b: (pair u)
      have u: "u div 1024 < 1024" using pair_b(2) by simp
      from assms(3) pair(3) pair_b(3)
      have "hex4 (55296 + v div 1024) @ CHR 0x5C # CHR ''u'' # hex4 (56320 + v mod 1024) @ r =
          hex4 (55296 + u div 1024) @ CHR 0x5C # CHR ''u'' # hex4 (56320 + u mod 1024) @ s" by simp
      from hex4_decodes [OF this] u v have hi: "v div 1024 = u div 1024"
        and rest: "hex4 (56320 + v mod 1024) @ r = hex4 (56320 + u mod 1024) @ s" by simp_all
      from hex4_decodes [OF rest] have "v mod 1024 = u mod 1024 \<and> r = s" by simp
      with hi have "v = u \<and> r = s" by (metis div_mult_mod_eq)
      with pair(1) pair_b(1) show ?thesis by simp
    qed (use pair assms(3) short_escape_not_u in auto)
  qed
qed

lemma json_string_decodes:
  assumes "utf8_text k" "utf8_text m" "json_string k @ r = json_string m @ s"
  shows "k = m \<and> r = s"
proof -
  let ?points = "set (utf8_decode k) \<union> set (utf8_decode m)"
  have cp: "code_point n" if "n \<in> ?points" for n
    using that assms(1,2) by (auto simp: utf8_text_def list_all_iff)
  have "list_all2 (=) (utf8_decode k) (utf8_decode m) \<and> r = s"
  proof (rule sequence_decodes [where item = json_escape and c = "CHR 0x22" and ends = "\<lambda>_. True"])
    show "concat (map json_escape (utf8_decode k)) @ CHR 0x22 # r = concat (map json_escape (utf8_decode m)) @ CHR 0x22 # s"
      using assms(3) by (simp add: json_string_def)
    show "\<exists>a t. json_escape n = a # t \<and> a \<noteq> CHR 0x22" if "n \<in> ?points" for n
      using cp [OF that] by (cases rule: json_escape_forms) auto
    show "a = b \<and> r = s" if "a \<in> set (utf8_decode k)" "b \<in> set (utf8_decode m)" "json_escape a @ r = json_escape b @ s"
      for a b r s
      by (rule json_escape_decodes) (use that cp in auto)
  qed simp_all
  with assms(1,2) show ?thesis by (simp add: list.rel_eq utf8_text_decode)
qed

section \<open>Scalars\<close>

text \<open>What can follow a value: nothing, a comma or a closing bracket.\<close>

definition value_ends :: "string \<Rightarrow> bool" where
  "value_ends r \<longleftrightarrow> r = [] \<or> hd r \<in> {CHR '','', CHR '']'', CHR ''}''}"

lemma value_ends_Cons [simp]: "value_ends (a # r) \<longleftrightarrow> a = CHR '','' \<or> a = CHR '']'' \<or> a = CHR ''}''"
  by (simp add: value_ends_def)

lemma span_decodes:
  assumes "x @ r = y @ s" "set x \<subseteq> A" "set y \<subseteq> A" "r = [] \<or> hd r \<notin> A" "s = [] \<or> hd s \<notin> A"
  shows "x = y \<and> r = s"
proof -
  have "takeWhile (\<lambda>c. c \<in> A) (x @ r) = x" "takeWhile (\<lambda>c. c \<in> A) (y @ s) = y"
    using assms(2-5) by (cases r; cases s; auto simp: takeWhile_append2 subset_iff)+
  with assms(1) show ?thesis by simp
qed

lemma nat_str_digits: "set (nat_str n) \<subseteq> set ''0123456789''"
proof (induction n rule: nat_str.induct)
  case (1 n)
  have digit: "char_of (48 + d) \<in> set ''0123456789''" if "d < 10" for d :: nat
  proof -
    have "list_all (\<lambda>d. char_of (48 + d) \<in> set ''0123456789'') [0..<10 :: nat]" by code_simp
    with that show ?thesis by (simp add: list_all_iff)
  qed
  with 1 show ?case by (subst nat_str.simps) auto
qed

lemma nat_str_value: "foldl (\<lambda>a c. a * 10 + (byte_of c - 48)) 0 (nat_str n) = n"
proof (induction n rule: nat_str.induct)
  case (1 n)
  have "byte_of (char_of (48 + d) :: char) = 48 + d" if "d < 10" for d :: nat
    using that by (simp add: take_bit_nat_eq_self)
  with 1 show ?case by (subst nat_str.simps) (simp add: mult.commute)
qed

lemma nat_str_inj: "nat_str n = nat_str m \<longleftrightarrow> n = m"
  by (metis nat_str_value)

lemma nat_str_unsigned: "CHR ''-'' \<notin> set (nat_str n)"
  using nat_str_digits [of n] by auto

lemma int_str_inj: "int_str i = int_str j \<longleftrightarrow> i = j"
proof -
  have "CHR ''-'' # t \<noteq> nat_str n" "nat_str n \<noteq> CHR ''-'' # t" for t n
    using nat_str_unsigned [of n] by (metis list.set_intros(1))+
  then show ?thesis by (cases "i < 0"; cases "j < 0") (simp_all add: int_str_def nat_str_inj eq_nat_nat_iff)
qed

lemma nat_str_not_Nil: "nat_str n \<noteq> []"
  by (subst nat_str.simps) simp

lemma int_str_chars: "set (int_str i) \<subseteq> number_chars" "int_str i \<noteq> []"
proof -
  have digits: "set ''0123456789'' \<subseteq> number_chars" and minus: "CHR ''-'' \<in> number_chars" by (simp_all add: number_chars_def)
  have "set (nat_str n) \<subseteq> number_chars" for n using nat_str_digits digits by (rule order_trans)
  with minus show "set (int_str i) \<subseteq> number_chars" by (simp add: int_str_def)
  show "int_str i \<noteq> []" by (simp add: int_str_def nat_str_not_Nil)
qed

fun json_scalar :: "json \<Rightarrow> bool" where
  "json_scalar JNull = True"
| "json_scalar (JBool b) = True"
| "json_scalar (JInt n) = True"
| "json_scalar (JFloat x) = True"
| "json_scalar _ = False"

text \<open>Numbers and the words are told apart by their characters.\<close>

definition json_word :: "string \<Rightarrow> bool" where
  "json_word t \<longleftrightarrow> t \<in> {''null'', ''true'', ''false'', ''Infinity'', ''-Infinity'', ''NaN''}"

lemma json_word_not_number: "json_word t \<Longrightarrow> \<not> set t \<subseteq> number_chars"
  by (auto simp: json_word_def number_chars_def)

lemma json_scalar_form:
  assumes "repr_exact repr" and "json_scalar v"
  obtains (word) "json_word (json_dumps repr v)" "\<And>n. v \<noteq> JInt n" "\<And>q. v \<noteq> JFloat (Fin q)"
  | (int) n where "v = JInt n"
  | (float) q where "v = JFloat (Fin q)"
proof (cases v)
  case (JFloat x)
  then show thesis by (cases x) (auto intro: word float simp: json_word_def)
qed (use assms(2) word int in \<open>auto simp: json_word_def\<close>)

lemma json_number_chars:
  "repr_exact repr \<Longrightarrow> set (json_dumps repr (JInt n)) \<subseteq> number_chars"
  "repr_exact repr \<Longrightarrow> set (json_dumps repr (JFloat (Fin q))) \<subseteq> number_chars"
  by (simp_all add: int_str_chars repr_exact_def)

lemma json_scalar_inj:
  assumes repr: "repr_exact repr" and "json_scalar v" "json_scalar w" "json_dumps repr v = json_dumps repr w"
  shows "v = w"
proof -
  have words: "u = JNull \<or> (\<exists>b. u = JBool b) \<or> u = JFloat PInf \<or> u = JFloat NInf \<or> u = JFloat NaN"
    if "json_scalar u" "\<And>n. u \<noteq> JInt n" "\<And>q. u \<noteq> JFloat (Fin q)" for u
    using that by (cases u; simp) (metis pyfloat.exhaust)
  have apart: False if "json_word (json_dumps repr u)" "json_dumps repr u = json_dumps repr u'"
    "(\<exists>n. u' = JInt n) \<or> (\<exists>q. u' = JFloat (Fin q))" for u u'
    using that json_word_not_number json_number_chars [OF repr] by metis
  have exact: "inj repr" "repr q \<noteq> int_str n" "int_str n \<noteq> repr q" for q n
    using repr by (auto simp: repr_exact_def) metis
  from repr assms(2) show ?thesis
  proof (cases rule: json_scalar_form)
    case word
    from repr assms(3) show ?thesis
    proof (cases rule: json_scalar_form)
      case word_w: word
      from words [OF assms(2) word(2,3)] words [OF assms(3) word_w(2,3)] assms(4) show ?thesis
        by (auto split: if_splits)
    qed (use word(1) apart [OF _ assms(4)] in auto)
  next
    case (int n)
    from repr assms(3) show ?thesis
      by (cases rule: json_scalar_form)
        (use int apart [OF _ assms(4) [symmetric]] assms(4) in \<open>auto simp: int_str_inj exact\<close>)
  next
    case (float q)
    from repr assms(3) show ?thesis
      by (cases rule: json_scalar_form)
        (use float apart [OF _ assms(4) [symmetric]] assms(4) in \<open>auto simp: inj_eq exact\<close>)
  qed
qed

lemma json_scalar_chars:
  assumes "repr_exact repr" and "json_scalar v"
  shows "set (json_dumps repr v) \<inter> {CHR '','', CHR '']'', CHR ''}'', CHR ''['', CHR ''{'', CHR 0x22} = {}"
    and "json_dumps repr v \<noteq> []"
proof -
  have word: "set t \<inter> {CHR '','', CHR '']'', CHR ''}'', CHR ''['', CHR ''{'', CHR 0x22} = {} \<and> t \<noteq> []" if "json_word t" for t
    using that by (auto simp: json_word_def)
  have number: "set t \<inter> {CHR '','', CHR '']'', CHR ''}'', CHR ''['', CHR ''{'', CHR 0x22} = {}" if "set t \<subseteq> number_chars" for t
    using that by (auto simp: number_chars_def)
  from assms show "set (json_dumps repr v) \<inter> {CHR '','', CHR '']'', CHR ''}'', CHR ''['', CHR ''{'', CHR 0x22} = {}"
    by (cases rule: json_scalar_form) (use word number json_number_chars [OF assms(1)] in \<open>metis+\<close>)
  from assms show "json_dumps repr v \<noteq> []"
    by (cases rule: json_scalar_form) (use word int_str_chars(2) assms(1) in \<open>auto simp: repr_exact_def\<close>)
qed

section \<open>Values\<close>

text \<open>The first character of a value tells what kind it is.\<close>

lemma json_dumps_head:
  assumes "repr_exact repr"
  obtains (scalar) a t where "json_scalar v" "json_dumps repr v = a # t"
      "a \<notin> {CHR '','', CHR '']'', CHR ''}'', CHR ''['', CHR ''{'', CHR 0x22}"
  | (string) k where "v = JStr k" | (list) xs where "v = JList xs" | (dict) d where "v = JDict d"
proof (cases "json_scalar v")
  case True
  with json_scalar_chars [OF assms] obtain a t where "json_dumps repr v = a # t"
    "a \<notin> {CHR '','', CHR '']'', CHR ''}'', CHR ''['', CHR ''{'', CHR 0x22}"
    by (cases "json_dumps repr v") fastforce+
  with True show thesis by (intro scalar)
next
  case False
  then show thesis by (cases v) (simp_all add: string list dict)
qed

lemma json_dumps_starts:
  assumes "repr_exact repr"
  shows "\<exists>a t. json_dumps repr v = a # t \<and> a \<notin> {CHR '','', CHR '']'', CHR ''}''}"
  by (cases v rule: json_dumps_head [OF assms]) (auto simp: json_string_def)

text \<open>The items of a list or an object, separated by commas.\<close>

lemma join_with_Cons: "join_with sep (x # xs) = x @ concat (map (\<lambda>y. sep @ y) xs)"
  by (induction xs arbitrary: x) auto

lemma join_decodes:
  assumes eq: "join_with '','' (map item xs) @ c # r = join_with '','' (map item ys) @ c # s"
    and c: "c = CHR '']'' \<or> c = CHR ''}''"
    and items: "\<And>x y r s. x \<in> set xs \<Longrightarrow> y \<in> set ys \<Longrightarrow> value_ends r \<Longrightarrow> value_ends s \<Longrightarrow>
      item x @ r = item y @ s \<Longrightarrow> same x y \<and> r = s"
    and starts: "\<And>x. x \<in> set xs \<union> set ys \<Longrightarrow> \<exists>a t. item x = a # t \<and> a \<noteq> c"
  shows "list_all2 same xs ys \<and> r = s"
proof -
  let ?rest = "\<lambda>zs t. concat (map (\<lambda>z. CHR '','' # item z) zs) @ c # t"
  have ends: "value_ends (?rest zs t)" for zs t using c by (cases zs) auto
  have join: "join_with '','' (map item (z # zs)) @ c # t = item z @ ?rest zs t" for z zs t
    by (simp add: join_with_Cons comp_def)
  consider "xs = []" "ys = []" | y vs where "xs = []" "ys = y # vs" | x us where "xs = x # us" "ys = []"
    | x us y vs where "xs = x # us" "ys = y # vs"
    by (cases xs; cases ys) auto
  then show ?thesis
  proof cases
    case (2 y vs)
    with eq starts [of y] show ?thesis unfolding 2 join by auto
  next
    case (3 x us)
    with eq starts [of x] show ?thesis unfolding 3 join by auto
  next
    case (4 x us y vs)
    from eq have "item x @ ?rest us r = item y @ ?rest vs s" unfolding 4 join .
    with items [of x y] ends 4 have xy: "same x y" and rest: "?rest us r = ?rest vs s" by auto
    from rest have "list_all2 same us vs \<and> r = s"
    proof (rule sequence_decodes [where ends = value_ends])
      fix u v r s
      assume "u \<in> set us" "v \<in> set vs" "value_ends r" "value_ends s" "(CHR '','' # item u) @ r = (CHR '','' # item v) @ s"
      then show "same u v \<and> r = s" using items [of u v r s] by (simp add: 4)
    qed (use c in auto)
    with xy 4 show ?thesis by simp
  qed (use eq in simp)
qed

lemma json_dumps_JDict:
  "json_dumps repr (JDict d) =
     CHR ''{'' # join_with '','' (map (\<lambda>kv. json_string (fst kv) @ CHR '':'' # json_dumps repr (snd kv)) (sort_key fst d)) @ ''}''"
  by (simp add: sort_key_fst_map comp_def)

lemma json_dumps_norm: "json_dumps repr (json_norm v) = json_dumps repr v"
proof (induction v)
  case (JDict d)
  have "json_dumps repr (json_norm (snd kv)) = json_dumps repr (snd kv)" if "kv \<in> set d" for kv
    using JDict [OF that, of "snd kv"] by (simp add: snds.simps)
  then have "map (\<lambda>kv. json_string (fst kv) @ CHR '':'' # json_dumps repr (json_norm (snd kv))) (sort_key fst d) =
      map (\<lambda>kv. json_string (fst kv) @ CHR '':'' # json_dumps repr (snd kv)) (sort_key fst d)" by simp
  then show ?case
    by (simp only: json_norm_JDict json_dumps_JDict sort_key_fst_map sort_key_idem map_map comp_def fst_conv snd_conv)
qed (auto simp: comp_def cong: map_cong)

lemma json_scalar_decodes:
  assumes repr: "repr_exact repr" and "json_scalar v" "value_ends r" "value_ends s"
    and eq: "json_dumps repr v @ r = json_dumps repr w @ s"
  shows "v = w \<and> r = s"
proof -
  let ?A = "- {CHR '','', CHR '']'', CHR ''}''}"
  have chars: "set (json_dumps repr u) \<subseteq> ?A" if "json_scalar u" for u using json_scalar_chars(1) [OF repr that] by auto
  obtain a t where at: "json_dumps repr v = a # t" "a \<notin> {CHR ''['', CHR ''{'', CHR 0x22}"
    using assms(2) by (cases v rule: json_dumps_head [OF repr]) auto
  with repr have "json_scalar w"
    by (cases w rule: json_dumps_head [OF repr]) (use at eq in \<open>auto simp: json_string_def\<close>)
  with span_decodes [OF eq chars chars] assms(2-4) have "json_dumps repr v = json_dumps repr w \<and> r = s"
    by (auto simp: value_ends_def)
  with json_scalar_inj [OF repr assms(2) \<open>json_scalar w\<close>] show ?thesis by simp
qed

lemma json_dumps_decodes:
  assumes repr: "repr_exact repr" and "json_text v" "json_text w" "value_ends r" "value_ends s"
    and "json_dumps repr v @ r = json_dumps repr w @ s"
  shows "json_norm v = json_norm w \<and> r = s"
  using assms(2-)
proof (induction v arbitrary: w r s)
  case (JStr k)
  from JStr(5) obtain m where w: "w = JStr m"
    by (cases w rule: json_dumps_head [OF repr]) (auto simp: json_string_def)
  with JStr json_string_decodes [of k m r s] show ?case by simp
next
  case (JList xs)
  from JList(6) obtain ys where w: "w = JList ys"
    by (cases w rule: json_dumps_head [OF repr]) (auto simp: json_string_def)
  from JList(6) have "list_all2 (\<lambda>x y. json_norm x = json_norm y) xs ys \<and> r = s"
  proof (intro join_decodes [where item = "json_dumps repr" and c = "CHR '']''"])
    fix x y r s
    assume "x \<in> set xs" "y \<in> set ys" "value_ends r" "value_ends s" "json_dumps repr x @ r = json_dumps repr y @ s"
    then show "json_norm x = json_norm y \<and> r = s"
      using JList.IH [of x y r s] JList(2,3) by (simp add: w list_all_iff)
  next
    show "\<exists>a t. json_dumps repr x = a # t \<and> a \<noteq> CHR '']''" if "x \<in> set xs \<union> set ys" for x using json_dumps_starts [OF repr, of x] by blast
  qed (simp_all add: w)
  then show ?case by (auto simp: w list_all2_conv_all_nth intro: nth_equalityI)
next
  case (JDict d)
  from JDict(6) obtain e where w: "w = JDict e"
    by (cases w rule: json_dumps_head [OF repr]) (auto simp: json_string_def)
  let ?item = "\<lambda>kv. json_string (fst kv) @ CHR '':'' # json_dumps repr (snd kv)"
  let ?same = "\<lambda>x y. fst x = fst y \<and> json_norm (snd x) = json_norm (snd y)"
  from JDict(6) have "list_all2 ?same (sort_key fst d) (sort_key fst e) \<and> r = s"
  proof (intro join_decodes [where item = ?item and c = "CHR ''}''"])
    fix x y r s
    assume xy: "x \<in> set (sort_key fst d)" "y \<in> set (sort_key fst e)" and ends: "value_ends r" "value_ends s"
      and eq: "?item x @ r = ?item y @ s"
    from xy JDict(2,3) have "utf8_text (fst x)" "utf8_text (fst y)" "json_text (snd x)" "json_text (snd y)"
      by (auto simp: w list_all_iff)
    with eq json_string_decodes [of "fst x" "fst y" "CHR '':'' # json_dumps repr (snd x) @ r"
        "CHR '':'' # json_dumps repr (snd y) @ s"] JDict.IH [of x "snd x" "snd y" r s] xy ends
    show "?same x y \<and> r = s" by (cases x) auto
  qed (auto simp: w json_dumps_JDict json_string_def simp del: json_dumps.simps(7))
  then show ?case
    by (auto simp: w json_norm_JDict list_all2_conv_all_nth intro: nth_equalityI simp del: json_norm.simps(2))
qed (metis json_scalar_decodes [OF repr] json_scalar.simps)+

text \<open>The text determines the value up to the order of keys, and nothing else does.\<close>

lemma json_dumps_exact:
  assumes "repr_exact repr" and "json_text v" "json_text w"
  shows "json_dumps repr v = json_dumps repr w \<longleftrightarrow> json_norm v = json_norm w"
proof
  assume "json_dumps repr v = json_dumps repr w"
  with json_dumps_decodes [OF assms, of "[]" "[]"] show "json_norm v = json_norm w" by (simp add: value_ends_def)
next
  assume "json_norm v = json_norm w"
  with json_dumps_norm show "json_dumps repr v = json_dumps repr w" by metis
qed

abbreviation unsigned :: "dump \<Rightarrow> dump" where
  "unsigned d \<equiv> filter (\<lambda>kv. fst kv \<noteq> ''signature'') d"

lemma json_text_unsigned: "json_text (JDict d) \<Longrightarrow> json_text (JDict (unsigned d))"
  by (auto simp: list_all_iff)

section \<open>Properties\<close>

text \<open>
  C23. The canonical text is unambiguous: for dumps whose texts are Unicode, and a rendering of floats that
  reads back, two dumps have the same canonical text exactly when, without their signatures, they are equal
  up to the order of the keys of objects. A signature over the text therefore binds the rest of the dump.
\<close>

theorem canonical_text_exact:
  assumes "repr_exact (float_repr E)" and "json_text (JDict d)" "json_text (JDict e)"
  shows "canonical_json E d = canonical_json E e \<longleftrightarrow> json_norm (JDict (unsigned d)) = json_norm (JDict (unsigned e))"
  using json_dumps_exact [OF assms(1) json_text_unsigned json_text_unsigned] assms(2,3)
  by (simp add: canonical_json_def del: json_dumps.simps json_norm.simps json_text.simps)

end
