(* ===== verification/Message_Binding.thy ===== *)
theory Message_Binding
  imports Canonical_Form Gate_Stores
begin

text \<open>
  What a signature over a message fixes. The messages that are signed somewhere in the program are told
  apart by their canonical text: a text belongs to one class only, and to one value of every field.
\<close>

section \<open>The signed messages\<close>

datatype protocol_message =
    SignedLease capability_lease
  | SignedCommand edge_command
  | SignedRequest capability_request
  | SignedRevocation lease_revocation
  | SignedState robot_state_assertion
  | SignedReachability control_plane_reachability_assertion
  | SignedAttestation agent_attestation
  | SignedFallback fallback_declaration
  | SignedBatch audit_batch_commit

fun signed_dump :: "env \<Rightarrow> protocol_message \<Rightarrow> dump" where
  "signed_dump E (SignedLease l) = lease_dump E l"
| "signed_dump E (SignedCommand c) = command_dump E c"
| "signed_dump E (SignedRequest r) = request_dump E r"
| "signed_dump E (SignedRevocation r) = revocation_dump E r"
| "signed_dump E (SignedState s) = robot_state_dump E s"
| "signed_dump E (SignedReachability a) = control_plane_dump E a"
| "signed_dump E (SignedAttestation a) = attestation_dump E a"
| "signed_dump E (SignedFallback d) = fallback_dump E d"
| "signed_dump E (SignedBatch b) = audit_batch_dump E b"

fun signed_type :: "protocol_message \<Rightarrow> string" where
  "signed_type (SignedLease l) = ''capability_lease''"
| "signed_type (SignedCommand c) = ''edge_command''"
| "signed_type (SignedRequest r) = ''capability_request''"
| "signed_type (SignedRevocation r) = ''lease_revocation''"
| "signed_type (SignedState s) = ''robot_state_assertion''"
| "signed_type (SignedReachability a) = ''control_plane_reachability_assertion''"
| "signed_type (SignedAttestation a) = ''agent_attestation''"
| "signed_type (SignedFallback d) = ''fallback_declaration''"
| "signed_type (SignedBatch b) = ''audit_batch_commit''"

lemmas signed_dump_defs =
  lease_dump_def command_dump_def request_dump_def revocation_dump_def robot_state_dump_def control_plane_dump_def
  attestation_dump_def fallback_dump_def audit_batch_dump_def base_dump_def signature_dump_def

lemma signed_dump_distinct: "distinct (map fst (signed_dump E m))"
  by (cases m) (simp_all add: signed_dump_defs)

lemma signed_dump_type: "dict_get (signed_dump E m) ''message_type'' = Some (JStr (signed_type m))"
  by (cases m) (simp_all add: signed_dump_defs dict_get_def)

section \<open>What equal texts share\<close>

lemma dict_get_filter: "k \<noteq> x \<Longrightarrow> dict_get (filter (\<lambda>kv. fst kv \<noteq> x) d) k = dict_get d k"
  unfolding dict_get_def by (induction d) auto

lemma dict_get_norm:
  assumes "json_norm (JDict d) = json_norm (JDict e)" "distinct (map fst d)" "distinct (map fst e)"
  shows "map_option json_norm (dict_get d k) = map_option json_norm (dict_get e k)"
proof -
  have "map_option json_norm (dict_get x k) = map_of (map (\<lambda>kv. (fst kv, json_norm (snd kv))) (sort_key fst x)) k"
    if "distinct (map fst x)" for x
  proof -
    have "map_of (map (\<lambda>kv. (fst kv, json_norm (snd kv))) y) k = map_option json_norm (map_of y k)" for y
      by (induction y) auto
    with that show ?thesis by (simp add: dict_get_def map_of_sort_key)
  qed
  with assms show ?thesis by (simp add: json_norm_JDict del: json_norm.simps(2))
qed

lemma canonical_json_binds:
  assumes "repr_exact (float_repr E)" and "json_text (JDict d)" "json_text (JDict e)"
    and "distinct (map fst d)" "distinct (map fst e)" and "canonical_json E d = canonical_json E e" and "k \<noteq> ''signature''"
  shows "map_option json_norm (dict_get d k) = map_option json_norm (dict_get e k)"
proof -
  from assms(6) have "json_norm (JDict (unsigned d)) = json_norm (JDict (unsigned e))"
    using json_dumps_exact [OF assms(1) json_text_unsigned json_text_unsigned] assms(2,3)
    by (simp add: canonical_json_def del: json_dumps.simps json_norm.simps json_text.simps)
  from dict_get_norm [OF this, of k] assms(4,5,7) show ?thesis
    by (simp add: dict_get_filter distinct_map_filter)
qed

text \<open>
  The authority of a lease as it is signed: whom it binds to what, under which constraints, for which time
  and by which policy.
\<close>

definition lease_authority :: "env \<Rightarrow> capability_lease \<Rightarrow>
  (string \<times> string \<times> string \<times> string \<times> string \<times> string \<times> capability \<times> string) \<times> json \<times> string \<times> string \<times> string \<times> string" where
  "lease_authority E l =
     ((lease_id l, lease_issuer_id l, lease_agent_id l, lease_edge_agent_id l, lease_robot_id l, lease_mission_id l,
       lease_capability l, lease_nonce l),
      JDict (lease_constraints_dump (lease_constraints l)), datetime_json E (issued_at l), datetime_json E (expires_at l),
      lease_policy_id l, lease_policy_digest l)"

lemma constraints_norm_inj:
  "json_norm (JDict (lease_constraints_dump c)) = json_norm (JDict (lease_constraints_dump d)) \<longleftrightarrow>
     lease_constraints_dump c = lease_constraints_dump d"
proof
  assume eq: "json_norm (JDict (lease_constraints_dump c)) = json_norm (JDict (lease_constraints_dump d))"
  have "distinct (map fst (lease_constraints_dump x))" for x by (simp add: lease_constraints_dump_def)
  note get = dict_get_norm [OF eq this this]
  have norm: "json_norm (jopt f v) = jopt f v" if "\<And>x. json_norm (f x) = f x" for f and v :: "'x option"
    using that by (cases v) (simp_all add: jopt_def)
  from get [of "''geofence_id''"] get [of "''max_latency_ms_p95''"] get [of "''max_packet_loss_pct''"]
    get [of "''min_uplink_mbps''"] get [of "''fallback_on_degrade''"] get [of "''max_speed_mps''"]
  show "lease_constraints_dump c = lease_constraints_dump d"
    by (simp add: lease_constraints_dump_def dict_get_def norm)
qed simp

lemma lease_text_binds:
  assumes "repr_exact (float_repr E)" and "json_text (JDict (lease_dump E a))" "json_text (JDict (lease_dump E b))"
    and "canonical_json E (lease_dump E a) = canonical_json E (lease_dump E b)"
  shows "lease_authority E a = lease_authority E b"
proof -
  have "distinct (map fst (lease_dump E x))" for x by (simp add: signed_dump_defs)
  note get = canonical_json_binds [OF assms(1-3) this this assms(4)]
  from get [of "''lease_id''"] get [of "''issuer_id''"] get [of "''agent_id''"] get [of "''edge_agent_id''"]
    get [of "''robot_id''"] get [of "''mission_id''"] get [of "''capability''"] get [of "''nonce''"]
    get [of "''constraints''"] get [of "''issued_at''"] get [of "''expires_at''"] get [of "''policy_id''"]
    get [of "''policy_digest''"]
  show ?thesis
    by (simp add: lease_dump_def base_dump_def signature_dump_def dict_get_def lease_authority_def constraints_norm_inj
        del: json_norm.simps(2))
qed

section \<open>Properties\<close>

text \<open>
  C13. A signature binds its message: when two signed messages have the same text under the signature, they
  are of the same class and agree in every field of their wire form but the signature itself, up to the
  order of keys in a free-form payload. So what was signed as a request, a state or a revocation is never
  accepted as a command, a lease or anything else.
\<close>

theorem signature_binds_message:
  assumes "repr_exact (float_repr E)" and "json_text (JDict (signed_dump E m))" "json_text (JDict (signed_dump E n))"
    and "canonical_json E (signed_dump E m) = canonical_json E (signed_dump E n)"
  shows "signed_type m = signed_type n \<and>
    (\<forall>k. k \<noteq> ''signature'' \<longrightarrow>
       map_option json_norm (dict_get (signed_dump E m) k) = map_option json_norm (dict_get (signed_dump E n) k))"
proof -
  note binds = canonical_json_binds [OF assms(1-3) signed_dump_distinct signed_dump_distinct assms(4)]
  from binds [of "''message_type''"] have "signed_type m = signed_type n" by (simp add: signed_dump_type)
  with binds show ?thesis by blast
qed

end
