(* ===== verification/Authority_Chain.thy ===== *)
theory Authority_Chain
  imports Shared_Stores Issuance Message_Binding
begin

text \<open>
  The whole path of authority: decision points that evaluate requests and issue leases, and gates that admit
  commands under them, with anything in between that does not have the issuer's key. The decision points
  share the file of used requests, the gates share theirs. An admitted command goes back to a granted
  request, and no request to more than one command.
\<close>

section \<open>Deciding and issuing\<close>

definition on_issuer_world :: "(world \<Rightarrow> 'a res \<times> world) \<Rightarrow> (issuer_state, 'a) op" where
  "on_issuer_world f t = (let (r, w) = f (is_world t) in (r, t\<lparr>is_world := w\<rparr>))"

text \<open>The evaluation of a request, and the lease when it is to allow (\<^verbatim>\<open>rclp_agents/demo_remote_assist.py\<close>).\<close>

definition grant_lease ::
  "env \<Rightarrow> string \<Rightarrow> string \<Rightarrow> policy_call \<Rightarrow> (issuer_state, capability_lease option) op" where
  "grant_lease E issuer sk call =
     (case call of (k, actor, rq, s, p, cp, now) \<Rightarrow>
        bindo (evaluate_policy E k actor rq s p cp now) (\<lambda>(out, _).
          case out of
            (ALLOW, _, _, Some constraints) \<Rightarrow>
              bindo (on_issuer_world (issue_lease E rq constraints issuer sk (lease_ttl_seconds p) (policy_id p)
                (policy_digest E p))) (\<lambda>l. ret (Some l))
          | _ \<Rightarrow> ret None))"

lemma on_issuer_world_eq:
  "on_issuer_world f t = (r, t') \<longleftrightarrow> (\<exists>w. f (is_world t) = (r, w) \<and> t' = t\<lparr>is_world := w\<rparr>)"
  by (auto simp: on_issuer_world_def Let_def split: prod.splits)

definition requests_kept :: "issuer_state \<Rightarrow> issuer_state \<Rightarrow> bool" where
  "requests_kept t t' \<longleftrightarrow> used_request_keys t \<subseteq> used_request_keys t'"

interpretation requests: effect_relation requests_kept
  by unfold_locales (auto simp: requests_kept_def)

lemma issuing_keeps: "keeps requests_kept (on_issuer_world f)"
  by (auto simp: keeps_def on_issuer_world_def requests_kept_def used_request_keys_def case_prod_beta Let_def)

lemma deciding_keeps: "keeps requests_kept (evaluate_policy E k actor rq s p cp now)"
  using evaluate_policy_keeps [of E k actor rq s p cp now]
  by (fastforce simp: keeps_def issuer_progress_def requests_kept_def)

lemma grant_lease_keeps: "keeps requests_kept (grant_lease E issuer sk call)"
  unfolding grant_lease_def
  by (cases call) (auto intro!: requests.keeps_rules deciding_keeps issuing_keeps split: prod.splits decision.splits option.splits)

text \<open>A granted request was granted by its policy and is used up.\<close>

lemma grant_lease_SomeE:
  assumes "grant_lease E issuer sk (k, actor, rq, s, p, cp, now) t = (Inr (Some l), t')"
  obtains n w w' where "policy_grants E k n rq s p cp"
    "issue_lease E rq (apply_requested_constraints (policy_constraints p s) (rq_requested_constraints rq)) issuer sk
       (lease_ttl_seconds p) (policy_id p) (policy_digest E p) w = (Inr l, w')"
    "request_key rq \<notin> used_request_keys t" "request_key rq \<in> used_request_keys t'" "is_cache t \<noteq> None"
proof -
  from assms obtain d reason alts co ev t1 where
    eval0: "evaluate_policy E k actor rq s p cp now t = (Inr ((d, reason, alts, co), ev), t1)"
    and rest: "(case (d, reason, alts, co) of
        (ALLOW, _, _, Some constraints) \<Rightarrow>
          bindo (on_issuer_world (issue_lease E rq constraints issuer sk (lease_ttl_seconds p) (policy_id p)
            (policy_digest E p))) (\<lambda>l. ret (Some l))
      | _ \<Rightarrow> ret None) t1 = (Inr (Some l), t')"
    by (auto simp: grant_lease_def res_simps)
  from rest obtain c w' where "d = ALLOW" "co = Some c"
    and issued: "issue_lease E rq c issuer sk (lease_ttl_seconds p) (policy_id p) (policy_digest E p) (is_world t1) = (Inr l, w')"
    and t': "t' = t1\<lparr>is_world := w'\<rparr>"
    by (cases d; cases co) (auto simp: on_issuer_world_eq res_simps)
  with eval0 have eval: "evaluate_policy E k actor rq s p cp now t = (Inr ((ALLOW, reason, alts, Some c), ev), t1)" by simp
  from eval show thesis
    by (rule evaluate_policy_allowE)
      (use issued in \<open>auto simp: policy_verdict_allow used_request_keys_def t' intro!: that\<close>)
qed

section \<open>The deployment\<close>

text \<open>
  An evaluation reaches the file of used requests once, in the one transaction of \<^verbatim>\<open>consume\<close>. So it is one
  step, taken at that transaction, whatever other processes do before and after. A process without a cache
  does not reach the file.
\<close>

type_synonym request_table = "string \<times> string \<rightharpoonup> request_replay_row"

definition connected_issuer :: "request_table \<Rightarrow> issuer_state \<Rightarrow> issuer_state" where
  "connected_issuer T t = t\<lparr>is_cache := map_option (\<lambda>c. c\<lparr>rc_table := T\<rparr>) (is_cache t)\<rparr>"

definition request_table_of :: "request_table \<Rightarrow> issuer_state \<Rightarrow> issuer_state \<Rightarrow> request_table" where
  "request_table_of T t t' = (case (is_cache t, is_cache t') of (Some _, Some c) \<Rightarrow> rc_table c | _ \<Rightarrow> T)"

record deployment =
  dp_requests :: request_table
  dp_issuers :: "nat \<Rightarrow> issuer_state"
  dp_fleet :: fleet

abbreviation issuer_view :: "deployment \<Rightarrow> nat \<Rightarrow> issuer_state" where
  "issuer_view D i \<equiv> connected_issuer (dp_requests D) (dp_issuers D i)"

definition issuer_moved :: "nat \<Rightarrow> issuer_state \<Rightarrow> deployment \<Rightarrow> deployment" where
  "issuer_moved i t D =
     D\<lparr>dp_requests := request_table_of (dp_requests D) (dp_issuers D i) t, dp_issuers := (dp_issuers D)(i := t)\<rparr>"

datatype deployment_label =
    Decided nat policy_call "capability_lease option res"
  | DecisionLost nat
  | AtGate fleet_label

text \<open>A decision is lost when the process stops after the transaction; its log was in memory.\<close>

inductive deployment_step ::
  "env \<Rightarrow> string \<Rightarrow> string \<Rightarrow> (nat \<Rightarrow> command_gate) \<Rightarrow> deployment \<Rightarrow> deployment_label \<Rightarrow> deployment \<Rightarrow> bool"
  for E issuer sk G where
  decides: "grant_lease E issuer sk call (issuer_view D i) = (res, t) \<Longrightarrow>
    deployment_step E issuer sk G D (Decided i call res) (issuer_moved i t D)"
| loses: "grant_lease E issuer sk call (issuer_view D i) = (res, t) \<Longrightarrow>
    deployment_step E issuer sk G D (DecisionLost i) (issuer_moved i (t\<lparr>is_log := AuditLog\<rparr>) D)"
| gates: "fleet_step E G (dp_fleet D) x F \<Longrightarrow> deployment_step E issuer sk G D (AtGate x) (D\<lparr>dp_fleet := F\<rparr>)"

inductive_cases decidedE: "deployment_step E issuer sk G D (Decided i call res) D'"
inductive_cases at_gateE: "deployment_step E issuer sk G D (AtGate x) D'"

lemma issuer_moved_simps [simp]:
  "dp_fleet (issuer_moved i t D) = dp_fleet D"
  "dp_requests (issuer_moved i t D) = request_table_of (dp_requests D) (dp_issuers D i) t"
  by (simp_all add: issuer_moved_def)

lemma request_table_kept:
  assumes "grant_lease E issuer sk call (connected_issuer T t) = (res, t')"
  shows "dom T \<subseteq> dom (request_table_of T t t')" "request_table_of T t (t'\<lparr>is_log := lg\<rparr>) = request_table_of T t t'"
  using keepsD [OF grant_lease_keeps assms]
  by (auto simp: requests_kept_def used_request_keys_def request_table_of_def connected_issuer_def
      split: option.splits)

lemma request_table_granted:
  assumes "grant_lease E issuer sk (k, actor, rq, s, p, cp, now) (connected_issuer T t) = (Inr (Some l), t')"
  shows "request_key rq \<notin> dom T \<and> request_key rq \<in> dom (request_table_of T t t')"
  using assms by (rule grant_lease_SomeE)
    (auto simp: used_request_keys_def connected_issuer_def request_table_of_def split: option.splits)

text \<open>What a run has granted and what it has admitted.\<close>

fun grant_of :: "deployment_label \<Rightarrow> (policy_call \<times> capability_lease) option" where
  "grant_of (Decided i call (Inr (Some l))) = Some (call, l)"
| "grant_of _ = None"

definition grants :: "deployment_label list \<Rightarrow> (policy_call \<times> capability_lease) list" where
  "grants xs = List.map_filter grant_of xs"

fun admission_at :: "fleet_label \<Rightarrow> (edge_command \<times> capability_lease) option" where
  "admission_at (AnsweredAt p cmd (Some l) (Inr r)) = (if gr_allowed r then Some (cmd, l) else None)"
| "admission_at _ = None"

fun gate_label_of :: "deployment_label \<Rightarrow> fleet_label option" where
  "gate_label_of (AtGate x) = Some x"
| "gate_label_of _ = None"

definition admissions :: "deployment_label list \<Rightarrow> (edge_command \<times> capability_lease) list" where
  "admissions xs = List.map_filter admission_at (List.map_filter gate_label_of xs)"

lemma grants_simps [simp]:
  "grants [] = []"
  "grants (x # xs) = (case grant_of x of None \<Rightarrow> grants xs | Some g \<Rightarrow> g # grants xs)"
  by (simp_all add: grants_def map_filter_simps split: option.splits)

lemma set_grants: "set (grants xs) = {g. \<exists>x \<in> set xs. grant_of x = Some g}"
  by (induction xs) (auto split: option.splits)

section \<open>Single use along a run\<close>

lemma deployment_fleet:
  "path (deployment_step E issuer sk G) D xs D' \<Longrightarrow>
     path (fleet_step E G) (dp_fleet D) (List.map_filter gate_label_of xs) (dp_fleet D')"
proof (induction xs arbitrary: D)
  case (Cons x xs)
  then obtain D1 where step: "deployment_step E issuer sk G D x D1" and rest: "path (deployment_step E issuer sk G) D1 xs D'"
    by auto
  from step Cons.IH [OF rest] show ?case
    by (cases rule: deployment_step.cases) (auto simp: map_filter_simps)
qed (simp add: map_filter_simps)

definition nonce_key :: "capability_lease \<Rightarrow> replay_key" where
  "nonce_key l = (lease_nonce_replay_scope, ''lease_nonce'', lease_nonce l)"

lemma nonce_key_used: "nonce_key l \<in> use_keys cmd l"
  by (simp add: nonce_key_def use_keys_def use_entries_def)

lemma admission_at_Some:
  "admission_at x = Some (cmd, l) \<longleftrightarrow> (\<exists>p r. x = AnsweredAt p cmd (Some l) (Inr r) \<and> gr_allowed r)"
  by (cases x rule: admission_at.cases) auto

lemma spec_admissions_once:
  "path fleet_spec a ys b \<Longrightarrow>
     distinct (map (lease_nonce \<circ> snd) (List.map_filter admission_at ys)) \<and>
     (\<forall>x \<in> set (List.map_filter admission_at ys). nonce_key (snd x) \<notin> fa_used a)"
proof (induction ys arbitrary: a)
  case (Cons y ys)
  then obtain t where y: "fleet_spec a y t" and rest: "path fleet_spec t ys b" by auto
  note IH = Cons.IH [OF rest]
  have grown: "fa_used a \<subseteq> fa_used t" using fleet_spec_mono [OF y] by blast
  show ?case
  proof (cases "admission_at y")
    case None
    with IH grown show ?thesis by (auto simp: map_filter_simps)
  next
    case (Some x)
    obtain cmd l where x: "x = (cmd, l)" by (cases x)
    with Some obtain p r where label: "y = AnsweredAt p cmd (Some l) (Inr r)" "gr_allowed r"
      by (auto simp: admission_at_Some)
    from spec_granted_unused [OF y [unfolded label(1)] label(2)] nonce_key_used
    have "nonce_key l \<notin> fa_used a" "nonce_key l \<in> fa_used t" by blast+
    moreover from this(2) IH have "lease_nonce l \<notin> (lease_nonce \<circ> snd) ` set (List.map_filter admission_at ys)"
      by (auto simp: nonce_key_def)
    ultimately show ?thesis using IH grown Some x by (auto simp: map_filter_simps)
  qed
qed (simp add: map_filter_simps)

text \<open>No two grants are for the same request.\<close>

lemma grants_once:
  "path (deployment_step E issuer sk G) D xs D' \<Longrightarrow>
     distinct (map (request_key \<circ> call_request \<circ> fst) (grants xs)) \<and>
     (\<forall>g \<in> set (grants xs). request_key (call_request (fst g)) \<notin> dom (dp_requests D))"
proof (induction xs arbitrary: D)
  case (Cons x xs)
  then obtain D1 where x: "deployment_step E issuer sk G D x D1" and rest: "path (deployment_step E issuer sk G) D1 xs D'"
    by auto
  note IH = Cons.IH [OF rest]
  have grown: "dom (dp_requests D) \<subseteq> dom (dp_requests D1)"
    using x by cases (simp_all add: request_table_kept)
  show ?case
  proof (cases "grant_of x")
    case None
    with IH grown show ?thesis by (auto dest: subsetD)
  next
    case (Some g)
    obtain call l where g: "g = (call, l)" by (cases g)
    with Some obtain i where label: "x = Decided i call (Inr (Some l))" by (cases x rule: grant_of.cases) auto
    obtain k actor rq s p cp now where call: "call = (k, actor, rq, s, p, cp, now)" by (cases call)
    from x obtain t where "grant_lease E issuer sk (k, actor, rq, s, p, cp, now) (issuer_view D i) = (Inr (Some l), t)"
      "D1 = issuer_moved i t D" by (auto simp: label call elim: decidedE)
    then have "request_key rq \<notin> dom (dp_requests D)" "request_key rq \<in> dom (dp_requests D1)"
      using request_table_granted by auto
    moreover from this(2) IH have "request_key rq \<notin> (request_key \<circ> call_request \<circ> fst) ` set (grants xs)" by auto
    moreover have "\<forall>h \<in> set (grants xs). request_key (call_request (fst h)) \<notin> dom (dp_requests D)"
      using IH grown by blast
    ultimately show ?thesis using IH Some g by (simp add: call call_request_def comp_def)
  qed
qed simp

section \<open>Keys and texts\<close>

text \<open>The only issuer key that the gates hold is the one of the decision points.\<close>

definition gates_trust :: "env \<Rightarrow> string \<Rightarrow> (nat \<Rightarrow> command_gate) \<Rightarrow> bool" where
  "gates_trust E sk G \<longleftrightarrow>
     (\<forall>p i pk. issuer_public_keys_by_id (G p) i = Some pk \<longrightarrow> pk = public_key_b64 E sk)"

text \<open>
  What Ed25519 promises while the issuer's key is secret: a signature that verifies under it is over a text
  that the issuer has signed. The text need not come with the signature that the issuer made.
\<close>

definition leases_unforged :: "env \<Rightarrow> string \<Rightarrow> deployment_label list \<Rightarrow> bool" where
  "leases_unforged E sk xs \<longleftrightarrow>
     (\<forall>ys p cmd l res zs. xs = ys @ AtGate (AnsweredAt p cmd (Some l) res) # zs \<longrightarrow>
        verify_lease_signature E l (public_key_b64 E sk) \<longrightarrow>
        canonical_json E (lease_dump E l) \<in> (\<lambda>g. canonical_json E (lease_dump E (snd g))) ` set (grants ys))"

text \<open>The texts of all leases are Unicode.\<close>

fun label_leases :: "deployment_label \<Rightarrow> capability_lease set" where
  "label_leases (Decided i call (Inr (Some l))) = {l}"
| "label_leases (AtGate (AnsweredAt p cmd (Some l) res)) = {l}"
| "label_leases _ = {}"

definition leases_text :: "env \<Rightarrow> deployment_label list \<Rightarrow> bool" where
  "leases_text E xs \<longleftrightarrow> (\<forall>x \<in> set xs. \<forall>l \<in> label_leases x. json_text (JDict (lease_dump E l)))"

lemma admitted_lease_authorizes:
  assumes "fleet_step E G F (AnsweredAt p cmd (Some l) (Inr r)) F'" and "gr_allowed r"
  obtains s st n where "lease_authorizes E (gate_lease_checks (G p) s) (command_context_of cmd st) n l"
  using assms(1)
proof (cases rule: fleet_step.cases)
  case (answers st now s)
  with begin_answers assms(2) show ?thesis by blast
next
  case (finishes c s)
  then have "evaluate_lease E (G p) cmd l (pc_state c) (pc_now c) (process_view F p) = (Inr r, s)"
    by (simp add: evaluate_finish_def flip: finishes(2))
  then show ?thesis using assms(2) by (rule evaluate_lease_allowedE) (rule that)
qed

lemma admitted_lease_granted:
  assumes "repr_exact (float_repr E)" and "gates_trust E sk G" and "leases_unforged E sk (ys @ x # zs)"
    and "leases_text E (ys @ x # zs)"
    and x: "x = AtGate (AnsweredAt p cmd (Some l) (Inr r))" and "deployment_step E issuer sk G D x D'" and "gr_allowed r"
  obtains i call l0 s st n where "Decided i call (Inr (Some l0)) \<in> set ys" "lease_authority E l = lease_authority E l0"
    "lease_authorizes E (gate_lease_checks (G p) s) (command_context_of cmd st) n l"
proof -
  from assms(6) obtain F where "fleet_step E G (dp_fleet D) (AnsweredAt p cmd (Some l) (Inr r)) F"
    by (auto simp: x elim: at_gateE)
  from admitted_lease_authorizes [OF this assms(7)] obtain s st n where
    auth: "lease_authorizes E (gate_lease_checks (G p) s) (command_context_of cmd st) n l" .
  then have "issuer_vouches E (gate_lease_checks (G p) s) l" by (simp add: lease_authorizes_def)
  then obtain pk where "issuer_public_keys_by_id (G p) (lease_issuer_id l) = Some pk" "verify_lease_signature E l pk"
    by (auto simp: issuer_vouches_def gate_lease_checks_def issuer_key_registry_def)
  with assms(2) have "verify_lease_signature E l (public_key_b64 E sk)" by (auto simp: gates_trust_def)
  with assms(3) [unfolded leases_unforged_def x, rule_format, OF refl]
  have "canonical_json E (lease_dump E l) \<in> (\<lambda>g. canonical_json E (lease_dump E (snd g))) ` set (grants ys)" by simp
  then obtain call l0 where granted: "(call, l0) \<in> set (grants ys)"
    and signed: "canonical_json E (lease_dump E l) = canonical_json E (lease_dump E l0)" by auto
  from granted obtain y where y: "y \<in> set ys" "grant_of y = Some (call, l0)" by (auto simp: set_grants)
  then obtain i where label: "y = Decided i call (Inr (Some l0))" by (cases y rule: grant_of.cases) auto
  have "\<forall>m \<in> label_leases x \<union> label_leases y. json_text (JDict (lease_dump E m))"
    using assms(4) y(1) by (auto simp: leases_text_def simp del: json_text.simps)
  then have "json_text (JDict (lease_dump E l))" "json_text (JDict (lease_dump E l0))"
    by (simp_all add: x label del: json_text.simps)
  from lease_text_binds [OF assms(1) this signed] auth y(1) label show thesis by (intro that) auto
qed

section \<open>Properties\<close>

text \<open>
  C3. No authority without a grant: in every run of any number of decision points and gates, with an
  arbitrary network between them, a command that a gate admits comes under a lease that carries exactly the
  authority of one that a decision point issued earlier in the run, on a request that the policy granted. The
  command is by the agent of that request, for its edge, robot, mission and capability, and the constraints
  in force are the policy's as narrowed by the request.
\<close>

theorem no_authority_without_grant:
  assumes "path (deployment_step E issuer sk G) D (xs @ [AtGate (AnsweredAt q cmd (Some l) (Inr r))]) D'"
    and "gr_allowed r" and "repr_exact (float_repr E)" and "gates_trust E sk G"
    and "leases_unforged E sk (xs @ [AtGate (AnsweredAt q cmd (Some l) (Inr r))])"
    and "leases_text E (xs @ [AtGate (AnsweredAt q cmd (Some l) (Inr r))])"
  shows "\<exists>i k actor rq s p cp now n l0.
    Decided i (k, actor, rq, s, p, cp, now) (Inr (Some l0)) \<in> set xs \<and> policy_grants E k n rq s p cp \<and>
    lease_authority E l = lease_authority E l0 \<and>
    cmd_agent_id cmd = rq_requesting_agent_id rq \<and> cmd_edge_agent_id cmd = rq_edge_agent_id rq \<and>
    cmd_robot_id cmd = rq_robot_id rq \<and> cmd_mission_id cmd = rq_mission_id rq \<and>
    cmd_capability cmd = capability_str (rq_capability rq) \<and>
    lease_constraints_dump (lease_constraints l) =
      lease_constraints_dump (apply_requested_constraints (policy_constraints p s) (rq_requested_constraints rq))"
proof -
  from assms(1) obtain D1 where before: "path (deployment_step E issuer sk G) D xs D1"
    and last: "deployment_step E issuer sk G D1 (AtGate (AnsweredAt q cmd (Some l) (Inr r))) D'" by auto
  from admitted_lease_granted [OF assms(3,4,5,6) refl last assms(2)] obtain i call l0 s0 st n0 where
    granted: "Decided i call (Inr (Some l0)) \<in> set xs" and same: "lease_authority E l = lease_authority E l0"
    and auth: "lease_authorizes E (gate_lease_checks (G q) s0) (command_context_of cmd st) n0 l" .
  obtain k actor rq s p cp now where call: "call = (k, actor, rq, s, p, cp, now)" by (cases call)
  from granted obtain us vs where "xs = us @ Decided i call (Inr (Some l0)) # vs" by (auto simp: in_set_conv_decomp)
  with before obtain D2 D3 where "deployment_step E issuer sk G D2 (Decided i call (Inr (Some l0))) D3" by auto
  then obtain t where "grant_lease E issuer sk (k, actor, rq, s, p, cp, now) (issuer_view D2 i) = (Inr (Some l0), t)"
    by (auto simp: call elim: decidedE)
  then obtain n w w' where grants: "policy_grants E k n rq s p cp"
    and issued: "issue_lease E rq (apply_requested_constraints (policy_constraints p s) (rq_requested_constraints rq)) issuer sk
       (lease_ttl_seconds p) (policy_id p) (policy_digest E p) w = (Inr l0, w')"
    by (rule grant_lease_SomeE)
  from auth same issue_lease_Inr(1,3) [OF issued]
  have "cmd_agent_id cmd = rq_requesting_agent_id rq \<and> cmd_edge_agent_id cmd = rq_edge_agent_id rq \<and>
    cmd_robot_id cmd = rq_robot_id rq \<and> cmd_mission_id cmd = rq_mission_id rq \<and>
    cmd_capability cmd = capability_str (rq_capability rq) \<and>
    lease_constraints_dump (lease_constraints l) =
      lease_constraints_dump (apply_requested_constraints (policy_constraints p s) (rq_requested_constraints rq))"
    by (auto simp: lease_authorizes_def lease_matches_context_def command_context_of_def lease_authority_def)
  with granted grants same show ?thesis unfolding call by blast
qed

text \<open>
  C4. One request, at most one command: in such a run there are no more admitted commands than different
  requests, by agent and nonce, that the decision points have granted, whatever is replayed, restarted or
  presented to several gates at once.
\<close>

theorem commands_bounded_by_requests:
  assumes "path (deployment_step E issuer sk G) D xs D'" and "fleet_ok E (dp_fleet D)"
    and "repr_exact (float_repr E)" and "gates_trust E sk G" and "leases_unforged E sk xs" and "leases_text E xs"
  shows "length (admissions xs) \<le> card ((\<lambda>g. request_key (call_request (fst g))) ` set (grants xs))"
proof -
  let ?nonce = "lease_nonce \<circ> snd"
  have "distinct (map ?nonce (admissions xs))"
    using spec_admissions_once [OF conjunct1 [OF fleet_run.path_simulated [OF deployment_fleet [OF assms(1)] assms(2)]]]
    by (simp add: admissions_def)
  then have "length (admissions xs) = card (?nonce ` set (admissions xs))" using distinct_card by fastforce
  also have "?nonce ` set (admissions xs) \<subseteq> ?nonce ` set (grants xs)"
  proof (intro image_subsetI)
    fix a assume "a \<in> set (admissions xs)"
    then obtain x where x: "x \<in> set xs" "\<exists>y. gate_label_of x = Some y \<and> admission_at y = Some a"
      by (auto simp: admissions_def List.map_filter_def)
    obtain cmd l where a: "a = (cmd, l)" by (cases a)
    with x(2) obtain q r where label: "x = AtGate (AnsweredAt q cmd (Some l) (Inr r))" "gr_allowed r"
      by (cases x) (auto simp: admission_at_Some)
    from x(1) obtain ys zs where xs: "xs = ys @ x # zs" by (auto simp: in_set_conv_decomp)
    with assms(1) obtain D1 D2 where step: "deployment_step E issuer sk G D1 x D2" by auto
    from admitted_lease_granted [OF assms(3,4) assms(5,6) [unfolded xs] label(1) step label(2)] obtain i call l0 where
      "Decided i call (Inr (Some l0)) \<in> set ys" "lease_authority E l = lease_authority E l0" .
    then have "(call, l0) \<in> set (grants xs)" "lease_nonce l = lease_nonce l0"
      by (auto simp: set_grants xs intro!: bexI [of _ "Decided i call (Inr (Some l0))"], simp add: lease_authority_def)
    then show "?nonce a \<in> ?nonce ` set (grants xs)" by (intro image_eqI [of _ _ "(call, l0)"]) (simp_all add: a)
  qed
  then have "card (?nonce ` set (admissions xs)) \<le> card (?nonce ` set (grants xs))" by (simp add: card_mono)
  also have "\<dots> \<le> length (grants xs)" by (rule order_trans [OF card_image_le card_length]) simp
  also have "\<dots> = card ((\<lambda>g. request_key (call_request (fst g))) ` set (grants xs))"
  proof -
    have "distinct (map (\<lambda>g. request_key (call_request (fst g))) (grants xs))"
      using grants_once [OF assms(1)] by (simp add: comp_def)
    from distinct_card [OF this] show ?thesis by simp
  qed
  finally show ?thesis .
qed

end
