(* ===== verification/Chain_Scenario.thy ===== *)
theory Chain_Scenario
  imports Fleet_Scenario Issuance_Scenario Authority_Chain
begin

text \<open>
  The scenario as one deployment: a decision point grants the request of the session, and a gate admits a
  command under the lease that it issued.
\<close>

section \<open>Texts\<close>

lemma ascii_text: "list_all (\<lambda>c. byte_of c < 128) k \<Longrightarrow> utf8_text k"
proof (induction k)
  case (Cons c k)
  then have "utf8_text k" by simp
  with Cons.prems show ?case by (simp add: utf8_text_def code_point_def utf8_bytes_def)
qed (simp add: utf8_text_def)

lemma demo_repr_exact: "repr_exact demo_repr"
proof -
  have point: "CHR ''.'' \<notin> set (int_str n)" for n
  proof -
    have "CHR ''.'' \<notin> set (nat_str m)" for m using nat_str_digits [of m] by auto
    then show ?thesis by (simp add: int_str_def)
  qed
  have "demo_repr q = demo_repr r \<Longrightarrow> q = r" for q r
  proof -
    assume "demo_repr q = demo_repr r"
    then have "int_str (fst (quotient_of q)) = int_str (fst (quotient_of r)) \<and>
        CHR ''.'' # int_str (snd (quotient_of q)) = CHR ''.'' # int_str (snd (quotient_of r))"
      by (intro span_decodes [where A = "- {CHR ''.''}"]) (use point in \<open>auto simp: demo_repr_def\<close>)
    then have "quotient_of q = quotient_of r" by (simp add: int_str_inj prod_eq_iff)
    then show "q = r" by (rule quotient_of_inject)
  qed
  moreover have "set (demo_repr q) \<subseteq> number_chars" for q
    using int_str_chars(1) by (simp add: demo_repr_def) (simp add: number_chars_def)
  moreover have "demo_repr q \<noteq> int_str n" for q n using point [of n] by (metis demo_repr_def in_set_conv_decomp append_Cons append_Nil)
  ultimately show ?thesis by (auto simp: repr_exact_def inj_def demo_repr_def)
qed

lemma issued_lease_text: "json_text (JDict (lease_dump demo_env (issued_lease_at w)))"
proof -
  have "utf8_text (k @ replicate n (CHR ''a''))" if "list_all (\<lambda>c. byte_of c < 128) k" for k n
    by (rule ascii_text) (use that in \<open>auto simp: list_all_iff\<close>)
  then have uuid: "utf8_text (uuid_text demo_env k v)" if "list_all (\<lambda>c. byte_of c < 128) k" for k v
    using that by (simp add: uuid_text_def demo_env_def)
  have "utf8_text demo_sig" by (rule ascii_text) (use b64_ascii in \<open>auto simp: demo_sig_def list_all_iff\<close>)
  then show ?thesis
    by (simp add: lease_dump_def base_dump_def signature_dump_def issued_lease_at_def lease_of_request_def
        lease_constraints_dump_def jopt_def policy_constraints_def demo_policy_for_def demo_robot_state_at_def
        demo_request_def uuid ascii_text demo_env_def [THEN arg_cong, of datetime_json] SUPPORTED_PROTOCOL_VERSION_def
        ED25519_SIGNATURE_ALGORITHM_def)
qed

section \<open>The run\<close>

abbreviation demo_call :: policy_call where
  "demo_call \<equiv> (demo_checks, ''issuer-1'', demo_request ''nonce-1'', demo_robot_state, demo_policy, None, None)"

definition demo_deployment :: deployment where
  "demo_deployment = \<lparr>dp_requests = Map.empty, dp_issuers = (\<lambda>_. demo_issuer), dp_fleet = demo_fleet\<rparr>"

abbreviation demo_deployment_step :: "deployment \<Rightarrow> deployment_label \<Rightarrow> deployment \<Rightarrow> bool" where
  "demo_deployment_step \<equiv> deployment_step demo_env ''issuer-1'' ''key'' (\<lambda>_. demo_gate)"

lemma demo_granted:
  obtains w t where "grant_lease demo_env ''issuer-1'' ''key'' demo_call demo_issuer = (Inr (Some (issued_lease_at w)), t)"
    "uuid_draws w = 2"
proof (rule demo_evaluation [OF demo_issuer_drawn demo_issuer_admitted(1), of "''nonce-1''"])
  fix ev t
  assume eval: "evaluate_policy demo_env demo_checks ''issuer-1'' (demo_request ''nonce-1'') demo_robot_state
      demo_policy None None demo_issuer = (Inr ((ALLOW, ''POLICY_SATISFIED'', [], Some demo_constraints), ev), t)"
  have "lease_ttl_seconds demo_policy = 120" "policy_id demo_policy = ''policy-1''"
    by (simp_all add: demo_policy_for_def)
  with eval have "\<exists>t'. grant_lease demo_env ''issuer-1'' ''key'' demo_call demo_issuer =
      (Inr (Some (issued_lease_at (is_world t))), t')"
    by (simp add: grant_lease_def bindo_def on_issuer_world_def demo_issued_at demo_simps)
  moreover have "uuid_draws (is_world t) = 2"
    using evaluate_policy_draws [OF eval] by (simp add: demo_issuer_def demo_world_def)
  ultimately show thesis using that by blast
qed (simp_all add: demo_cache_def request_cache_durable_def)

lemma issued_lease_admits:
  assumes "uuid_draws w = 2" and "gs_revocations s = Map.empty" and "used_keys s = {}"
  shows "command_authorized demo_env demo_gate cmd_1 (issued_lease_at w) (Some demo_robot_state) None s"
proof -
  have grants: "policy_grants demo_env demo_checks demo_time (demo_request ''nonce-1'') demo_robot_state demo_policy None"
    by (rule demo_policy_grants)
  have "lease_authorizes demo_env (gate_lease_checks demo_gate s)
      (context_of_request (demo_request ''nonce-1'') demo_robot_state [(''speed_mps'', JFloat (Fin 1))]) demo_time (issued_lease_at w)"
    by (rule granted_lease_authorizes [OF demo_ed25519 grants _ demo_gate_follows])
      (use assms issued_small [of w] issued_window(1) [of w] issued_window(2) issued_payload demo_issued_at [of w] in
        \<open>simp_all add: gate_lease_checks_def demo_simps revoked_lease_ids_def demo_checks_def\<close>,
       simp_all add: demo_robot_state_at_def demo_policy_for_def)
  moreover have "command_context_of cmd_1 (Some demo_robot_state) =
      context_of_request (demo_request ''nonce-1'') demo_robot_state [(''speed_mps'', JFloat (Fin 1))]"
    by (simp add: command_context_of_def context_of_request_def demo_command_def demo_request_def)
  moreover have "command_time_violation 30 demo_time cmd_1 = Inr None"
    by (rule command_fresh.complete) (auto simp: COMMAND_CLOCK_SKEW_SECONDS_def demo_command_def demo_simps)
  moreover have "cmd_edge_agent_id cmd_1 = ''edge-1''" "lease_edge_agent_id (issued_lease_at w) = ''edge-1''"
    by (simp_all add: demo_command_def issued_lease_at_def lease_of_request_def demo_request_def)
  ultimately show ?thesis
    using demo_command_authentic [of "''cmd-1''" "''cnonce-1''"] assms(3)
    by (simp add: command_authorized_def lease_check_time_def demo_simps del: py_blank.simps)
qed

text \<open>The run: the decision, the first part of the call, the answer.\<close>

abbreviation demo_trace :: "capability_lease \<Rightarrow> gate_result \<Rightarrow> deployment_label list" where
  "demo_trace l r \<equiv> [Decided 0 demo_call (Inr (Some l)), AtGate (Begun 0)] @ [AtGate (AnsweredAt 0 cmd_1 (Some l) (Inr r))]"

lemma demo_deployment_run:
  obtains w r D where "path demo_deployment_step demo_deployment (demo_trace (issued_lease_at w) r) D" "gr_allowed r"
proof (rule demo_granted)
  fix w t
  assume granted: "grant_lease demo_env ''issuer-1'' ''key'' demo_call demo_issuer = (Inr (Some (issued_lease_at w)), t)"
    and w: "uuid_draws w = 2"
  let ?l = "issued_lease_at w" and ?D = "issuer_moved 0 t demo_deployment"
  have "issuer_view demo_deployment 0 = demo_issuer"
    by (simp add: connected_issuer_def demo_deployment_def demo_issuer_def demo_cache_def)
  with granted have decided: "demo_deployment_step demo_deployment (Decided 0 demo_call (Inr (Some ?l))) ?D"
    by (intro decides) simp
  have "gs_revocations (process_view demo_fleet 0) = Map.empty" "used_keys (process_view demo_fleet 0) = {}"
    by (simp_all add: demo_start_def tables_of_def demo_command_cache_def)
  from issued_lease_admits [OF w this]
  have auth: "command_authorized demo_env demo_gate cmd_1 ?l (Some demo_robot_state) None (process_view demo_fleet 0)" .
  have "draws_distinct demo_env (process_view demo_fleet 0) 2" by simp
  from evaluate_authorized_open [OF fleet_ok_process(1,2) [OF demo_fleet_ok] this auth]
  obtain r s where "evaluate demo_env demo_gate cmd_1 (Some ?l) (Some demo_robot_state) None (process_view demo_fleet 0) = (Inr r, s)"
    and allowed: "gr_allowed r" by blast
  then obtain F where "path demo_fleet_step demo_fleet [Begun 0, AnsweredAt 0 cmd_1 (Some ?l) (Inr r)] F"
    using uninterrupted_call [where F = demo_fleet and p = 0 and G = "\<lambda>_. demo_gate"]
    by (metis demo_fleet_simps(3) append_Cons append_Nil)
  then obtain F1 where begun: "demo_fleet_step demo_fleet (Begun 0) F1"
    and answered: "demo_fleet_step F1 (AnsweredAt 0 cmd_1 (Some ?l) (Inr r)) F" by auto
  from begun have first: "demo_deployment_step ?D (AtGate (Begun 0)) (?D\<lparr>dp_fleet := F1\<rparr>)"
    by (intro gates) (simp add: demo_deployment_def)
  from answered have last: "demo_deployment_step (?D\<lparr>dp_fleet := F1\<rparr>) (AtGate (AnsweredAt 0 cmd_1 (Some ?l) (Inr r)))
      (?D\<lparr>dp_fleet := F1\<rparr>\<lparr>dp_fleet := F\<rparr>)"
    by (intro gates) simp
  from decided first last
  have "path demo_deployment_step demo_deployment (demo_trace ?l r) (?D\<lparr>dp_fleet := F1\<rparr>\<lparr>dp_fleet := F\<rparr>)"
    unfolding append_Cons append_Nil path.simps by blast
  then show thesis using allowed by (rule that)
qed

lemma demo_trace_ok:
  "repr_exact (float_repr demo_env)" "gates_trust demo_env ''key'' (\<lambda>_. demo_gate)"
  "leases_unforged demo_env ''key'' (demo_trace (issued_lease_at w) r)" "leases_text demo_env (demo_trace (issued_lease_at w) r)"
proof -
  show "repr_exact (float_repr demo_env)" by (simp add: demo_simps demo_repr_exact)
  show "gates_trust demo_env ''key'' (\<lambda>_. demo_gate)" by (simp add: gates_trust_def demo_simps)
  show "leases_unforged demo_env ''key'' (demo_trace (issued_lease_at w) r)"
    unfolding leases_unforged_def by (auto simp: Cons_eq_append_conv)
  show "leases_text demo_env (demo_trace (issued_lease_at w) r)"
    by (simp add: leases_text_def issued_lease_text del: json_text.simps)
qed

theorem no_authority_without_grant_witness:
  "\<exists>l r D i k actor rq s p cp now n l0.
     path demo_deployment_step demo_deployment (demo_trace l r) D \<and> gr_allowed r \<and>
     Decided i (k, actor, rq, s, p, cp, now) (Inr (Some l0)) \<in> set (demo_trace l r) \<and> policy_grants demo_env k n rq s p cp \<and>
     lease_authority demo_env l = lease_authority demo_env l0 \<and> cmd_agent_id cmd_1 = rq_requesting_agent_id rq"
proof (rule demo_deployment_run)
  fix w r D
  assume run: "path demo_deployment_step demo_deployment (demo_trace (issued_lease_at w) r) D" and allowed: "gr_allowed r"
  from no_authority_without_grant [OF run allowed demo_trace_ok] run allowed show ?thesis by fastforce
qed

theorem commands_bounded_by_requests_witness:
  "\<exists>l r D. path demo_deployment_step demo_deployment (demo_trace l r) D \<and>
     length (admissions (demo_trace l r)) = 1 \<and>
     length (admissions (demo_trace l r)) \<le> card ((\<lambda>g. request_key (call_request (fst g))) ` set (grants (demo_trace l r)))"
proof (rule demo_deployment_run)
  fix w r D
  assume run: "path demo_deployment_step demo_deployment (demo_trace (issued_lease_at w) r) D" and allowed: "gr_allowed r"
  have "fleet_ok demo_env (dp_fleet demo_deployment)" by (simp add: demo_deployment_def demo_fleet_ok)
  from commands_bounded_by_requests [OF run this demo_trace_ok] run allowed show ?thesis
    by (intro exI [of _ "issued_lease_at w"] exI [of _ r] exI [of _ D]) (simp add: admissions_def map_filter_simps)
qed

section \<open>What a text fixes\<close>

text \<open>The same payload with its keys in another order, and with a number in place of a text.\<close>

theorem canonical_text_exact_witness:
  "canonical_json demo_env [(''a'', JInt 1), (''b'', JFloat (Fin (1 / 2)))] =
     canonical_json demo_env [(''b'', JFloat (Fin (1 / 2))), (''signature'', JNull), (''a'', JInt 1)] \<and>
   canonical_json demo_env [(''a'', JInt 1)] \<noteq> canonical_json demo_env [(''a'', JStr ''1'')]"
proof (intro conjI)
  have exact: "repr_exact (float_repr demo_env)" by (simp add: demo_simps demo_repr_exact)
  have same: "json_text (JDict [(''a'', JInt 1), (''b'', JFloat (Fin (1 / 2)))])"
      "json_text (JDict [(''b'', JFloat (Fin (1 / 2))), (''signature'', JNull), (''a'', JInt 1)])"
    and other: "json_text (JDict [(''a'', JInt 1)])" "json_text (JDict [(''a'', JStr ''1'')])"
    by (simp_all add: ascii_text)
  show "canonical_json demo_env [(''a'', JInt 1), (''b'', JFloat (Fin (1 / 2)))] =
     canonical_json demo_env [(''b'', JFloat (Fin (1 / 2))), (''signature'', JNull), (''a'', JInt 1)]"
    unfolding canonical_text_exact [OF exact same] by simp
  show "canonical_json demo_env [(''a'', JInt 1)] \<noteq> canonical_json demo_env [(''a'', JStr ''1'')]"
    unfolding canonical_text_exact [OF exact other] by simp
qed

text \<open>The signature is no part of the text: a lease and its copy with another signature agree in the rest.\<close>

theorem signature_binds_message_witness:
  "canonical_json demo_env (signed_dump demo_env (SignedLease issued_lease)) =
     canonical_json demo_env (signed_dump demo_env (SignedLease (issued_lease\<lparr>signature := None\<rparr>))) \<and>
   dict_get (signed_dump demo_env (SignedLease issued_lease)) ''signature'' \<noteq>
     dict_get (signed_dump demo_env (SignedLease (issued_lease\<lparr>signature := None\<rparr>))) ''signature'' \<and>
   map_option json_norm (dict_get (signed_dump demo_env (SignedLease issued_lease)) ''agent_id'') =
     map_option json_norm (dict_get (signed_dump demo_env (SignedLease (issued_lease\<lparr>signature := None\<rparr>))) ''agent_id'')"
proof -
  let ?m = "SignedLease issued_lease" and ?n = "SignedLease (issued_lease\<lparr>signature := None\<rparr>)"
  have signed: "json_text (JDict (signed_dump demo_env ?m))" using issued_lease_text by (simp del: json_text.simps)
  then have unsigned: "json_text (JDict (signed_dump demo_env ?n))"
    by (simp add: lease_dump_def base_dump_def signature_dump_def jopt_def)
  have same: "canonical_json demo_env (signed_dump demo_env ?m) = canonical_json demo_env (signed_dump demo_env ?n)"
    by (simp add: canonical_json_def lease_dump_def base_dump_def signature_dump_def del: json_dumps.simps)
  have "repr_exact (float_repr demo_env)" by (simp add: demo_simps demo_repr_exact)
  from signature_binds_message [OF this signed unsigned same] same show ?thesis
    by (simp add: lease_dump_def base_dump_def signature_dump_def jopt_def dict_get_def issued_lease_at_def
        del: json_dumps.simps json_norm.simps)
qed

end
