(* ===== verification/Spec2Isabelle.thy ===== *)
theory Spec2Isabelle
  imports Policy_Scenario Parity_Report Chain_Scenario
begin

text \<open>
  A verification of RCLP, the robot capability lease protocol: an authority layer between a central agent
  that wants to steer a robot and the robot's edge agent. All paths below are under \<^verbatim>\<open>src/\<close>.

  \<^bold>\<open>The program.\<close> A central agent signs a capability request. The policy decision point
  (\<^verbatim>\<open>src/rclp_core/policy.py\<close>) checks the request and a signed robot state against a policy, consumes the
  request's nonce in a durable store, decides ALLOW, DEGRADE or DENY and records the decision in a
  hash-chained audit log (\<^verbatim>\<open>src/rclp_core/audit.py\<close>). On ALLOW the issuer signs a lease
  (\<^verbatim>\<open>src/rclp_core/leases.py\<close>) that binds agent, edge, robot, mission, capability, constraints and a time
  window. At the edge the command gate (\<^verbatim>\<open>src/rclp_ros2/command_gate.py\<close>) takes signed commands and signed
  revocations. A command passes its signature and freshness checks, the check for this edge, the replay
  store and the conformance check of its lease (\<^verbatim>\<open>src/rclp_core/conformance.py\<close>); its identifiers and the
  lease's nonce are used up; everything is audited, and a refusal may declare a signed fallback action
  (\<^verbatim>\<open>src/rclp_core/fallback.py\<close>). A revocation enters the lease in a durable table. The daemon
  (\<^verbatim>\<open>src/rclp_agents/edge_agent_daemon.py\<close>) owns a gate; the demonstration
  (\<^verbatim>\<open>src/rclp_agents/demo_remote_assist.py\<close>) plays a whole session; a script compares this implementation with
  a second one in Rust (\<^verbatim>\<open>scripts/run_cross_language_conformance.py\<close>).

  \<^bold>\<open>The theories and the code.\<close>
  \<^item> \<^verbatim>\<open>Rclp_Prelude\<close>, \<^verbatim>\<open>Py_Values\<close>: exceptions as values (\<^verbatim>\<open>'a res\<close>), early returns, strings, floats, JSON
    values with Python's equality and printer, dates with their range errors.
  \<^item> \<^verbatim>\<open>Models\<close>, \<^verbatim>\<open>Wire\<close>: \<^verbatim>\<open>models.py\<close>. One record per message class, inheritance as record extension, the
    validators, and the JSON dump of each message.
  \<^item> \<^verbatim>\<open>Crypto\<close>: \<^verbatim>\<open>crypto.py\<close>, canonical JSON, base64, key pairs, verification, and the text budget that
    every module applies before it verifies. \<^verbatim>\<open>Canonical_Form\<close> reads the canonical text back, and
    \<^verbatim>\<open>Message_Binding\<close> draws from it what a signature fixes of each of the nine signed message classes.
  \<^item> \<^verbatim>\<open>Freshness\<close>: the two contracts \<open>freshness_check\<close> and \<open>authentication_check\<close> as locales; the six time
    checks and seven signature checks of the program are interpretations in their own theories.
  \<^item> \<^verbatim>\<open>State_Assertions\<close> (\<^verbatim>\<open>state.py\<close>), \<^verbatim>\<open>Leases\<close> (\<^verbatim>\<open>leases.py\<close>), \<^verbatim>\<open>Attestation\<close> (\<^verbatim>\<open>attestation.py\<close>), \<^verbatim>\<open>Fallback\<close>
    (\<^verbatim>\<open>fallback.py\<close>, \<^verbatim>\<open>network.py\<close>), \<^verbatim>\<open>Conformance\<close> (\<^verbatim>\<open>conformance.py\<close>): one definition per function.
  \<^item> \<^verbatim>\<open>Effects\<close>: state operations that may raise, the locale \<open>effect_relation\<close> that carries a relation between
    states through composed operations, and the locale \<open>replay_guard\<close> for stores of used identifiers.
  \<^item> \<^verbatim>\<open>Audit_Log\<close>, \<^verbatim>\<open>Audit_Export\<close>: \<^verbatim>\<open>audit.py\<close>. The log is the record \<open>audit_log\<close>; export and import go down to
    the text and its lines. The locale \<open>chain_source\<close> states what every accepted chain guarantees.
  \<^item> \<^verbatim>\<open>Policy\<close>: \<^verbatim>\<open>policy.py\<close>. The state \<open>issuer_state\<close> holds replay cache, log and outside world;
    \<open>evaluate_policy\<close> is the whole evaluation. \<^verbatim>\<open>Issuance\<close> joins it with \<open>issue_lease\<close> and the edge's check.
  \<^item> \<^verbatim>\<open>Gate_Stores\<close>, \<^verbatim>\<open>Command_Gate\<close>: \<^verbatim>\<open>command_gate.py\<close> and the daemon. The state \<open>gate_state\<close> holds the
    stores, the table of revocations, the declared fallbacks and the log; \<open>evaluate\<close> and \<open>revoke\<close> are the two
    handlers with every rejection path.
  \<^item> \<^verbatim>\<open>Policy_Document\<close>: how a policy is read from its YAML document (\<^verbatim>\<open>Policy.from_yaml\<close>). The locale
    \<open>document_class\<close> states what the four classes share; each is an interpretation.
  \<^item> \<^verbatim>\<open>Gate_Invariants\<close>, \<^verbatim>\<open>Gate_Runs\<close>, \<^verbatim>\<open>Gate_Liveness\<close>, \<^verbatim>\<open>Authority_Spec\<close>: the proofs about the gate. Its life is
    the step relation \<open>gate_step\<close> over commands, revocations and restarts on the durable stores.
  \<^item> \<^verbatim>\<open>Shared_Stores\<close>: several gate processes on the same SQLite files. A call of \<^verbatim>\<open>evaluate\<close> is split at its
    look-up and its transaction; \<open>fleet_step\<close> interleaves the parts, revocations, restarts and crashes, and
    is simulated by the abstract machine \<open>fleet_spec\<close>.
  \<^item> \<^verbatim>\<open>Authority_Chain\<close>: decision points and gates in one deployment. \<open>grant_lease\<close> is the evaluation with the
    issue of the lease, as \<^verbatim>\<open>main\<close> of the demonstration joins them (\<open>session_grant_step\<close> below); \<open>deployment_step\<close>
    interleaves decisions, their loss, and the steps of the fleet. Leases travel as they like in between.
  \<^item> \<^verbatim>\<open>Remote_Assist\<close>, \<^verbatim>\<open>Demo_Cli\<close>: \<^verbatim>\<open>central_agent_mock.py\<close> and \<^verbatim>\<open>demo_remote_assist.py\<close>, the session and its
    command line. \<^verbatim>\<open>Parity_Report\<close>: the script, from its commands to the file it writes and its exit code.
  \<^item> \<^verbatim>\<open>Scenario\<close>, \<^verbatim>\<open>Gate_Scenario\<close>, \<^verbatim>\<open>Fleet_Scenario\<close>, \<^verbatim>\<open>Issuance_Scenario\<close>, \<^verbatim>\<open>Session_Scenario\<close>, \<^verbatim>\<open>Policy_Scenario\<close>, \<^verbatim>\<open>Chain_Scenario\<close>:
    one concrete deployment in which the hypotheses of the properties hold, up to a complete run of the
    demonstration on the policy of the example file and a run from the request to the admitted command.

  \<^bold>\<open>What the properties show.\<close>
  \<^item> The whole path: behind every admitted command is an earlier grant of a decision point to the same agent,
    edge, robot, mission and capability, with the constraints that the policy allowed (C3), and no more
    commands are admitted than requests were granted (C4), in any deployment of decision points and gates on
    shared stores with an untrusted network between them. What carries it across the network: the canonical
    text is unambiguous (C23) and a signature binds class and fields of its message (C13).
  \<^item> Commands: the gate allows only what is authorized (C1) and allows what is (C2); every command
    whose payload can be written out is answered (C16), and every answer is audited (C15). In a fleet of gates on shared stores an identifier or a lease nonce is
    used at most once, however calls, restarts and crashes interleave (C5).
  \<^item> Revocations: only authorized ones change the table (C9), those take effect (C17) and are known again
    after a restart (C25). In a fleet a revocation binds the process that took it and every process
    restarted after it (C6). The gate refines an abstract machine of used identifiers and revoked leases
    (C8); its invariant holds in every reachable state (C14).
  \<^item> Decisions: ALLOW only when the policy grants (C10), and then (C11); constraints stay inside the policy's
    bounds (C19), and so do accepted commands where thresholds are set or required (C18); decisions are audited and carry constraints exactly when they allow (C29).
  \<^item> Policy documents: a loaded policy is well formed (C40), and a policy written as a document is read back
    (C28).
  \<^item> Leases: what is issued is well formed (C33) and accepted at an edge that follows the policy, for requests
    without constraints of their own and inside the geofence (C7); the
    conformance check is exactly its declarative condition (C12).
  \<^item> Audit: the log is a hash chain (C20), the validators accept exactly chains (C21, C22), export and import
    are inverse on events of one line each (C36), signed batches verify (C24).
  \<^item> Codecs and loops: base64 is canonical (C39); the payload loop ends with the right answer (C27).
  \<^item> The demonstration (C34) and the parity report (C35) mean what they print.
  \<^item> Where the code falls short of its purpose: C26 (a running gate misses the revocations that other
    processes record in the shared store), C30 (under a speed limit, an integer speed beyond the doubles
    raises through the gate, unrecorded and without using up the command), C16 (so does measuring a payload
    that cannot be written out), C31 (the state an exclusion zone is granted on never satisfies the lease), C32 (large
    signed batches never authenticate), C37 (a line separator in a text makes the exported log unreadable),
    C38 (states made from a network profile are stale a minute after the import), C40 (the declared default
    of a policy's requirements is always refused).

  \<^bold>\<open>Parameters.\<close> What is not in the repository is a field of the record \<open>env\<close> or an argument: SHA-256, the
  rendering of floats and dates, the Ed25519 operations, the clock and the UUID generator (streams read at
  the counters of the record \<open>world\<close>), pydantic's \<^verbatim>\<open>model_dump_json\<close> and \<^verbatim>\<open>model_validate\<close>, \<^verbatim>\<open>json.loads\<close>, the
  first element that a set iteration yields, the fallback signer and sink, the YAML reader, \<^verbatim>\<open>subprocess.run\<close> and
  the interpreter's \<^verbatim>\<open>repr\<close> and \<^verbatim>\<open>str\<close> in the script. Assumptions on them are named
  hypotheses: \<open>ed25519_correct\<close> (a key's own signature is 64 bytes and verifies), \<open>draws_distinct\<close> and injectivity
  of the UUID stream as far as it is drawn, \<open>fallback_hooks_ok\<close> (signer and sink do not raise), \<open>repr_exact\<close> (the
  text of a finite float reads back as the float, and no integer has it), \<open>leases_unforged\<close> (under the issuer's
  secret key only texts that the issuer signed verify), \<open>gates_trust\<close> (the gates hold no other issuer key) and
  \<open>leases_text\<close> (strings are the UTF-8 form of Unicode texts, as every Python string that can be sent is).

  \<^bold>\<open>Conventions.\<close> A string is its UTF-8 bytes, a lone surrogate in it the three bytes of its code point. Encoding
  raises for it, as printing an integer of more than 4300 digits does; both are written out for the payload of
  a command and for a raw revocation, which no class validates. A finite double is a rational number and the two zeros are one;
  only \<^verbatim>\<open>float(n)\<close> of an integer rounds, which is written out. Sets and dicts are sets and maps, dicts whose
  order or dump matters are association lists. A SQLite table is a map from its primary key or a list of
  rows; a violated key rolls back. The clock that \<^verbatim>\<open>validate_lease_for_command\<close> reads when it is given none is
  read before its first check; the time checks of states and attestations are given the time, as their callers
  do. A loop that ends on structure is recursion on it; the payload loop with its
  explicit stack and \<^verbatim>\<open>str.splitlines\<close> have termination proofs. No definition uses fuel.

  \<^bold>\<open>Not modelled.\<close> Pydantic's parsing of raw messages beyond the validators the program defines, and the text
  of its errors; the syntax of YAML; the generation and the PEM form of a key inside its package; opening and
  writing of files, the parsing of argument vectors and the layout of what the demonstration prints;
  SQLite's schema migrations beyond their effect on the tables and its lock time-outs (each transaction is
  atomic, and the processes of a deployment interleave between transactions); Python's limit on the digits of an
  integer text outside a command's payload (the declared integer fields of other messages); the Rust crate, tests and documents.
\<close>

section \<open>The session in the chain of authority\<close>

text \<open>
  The decision of the session under the normal network, with the lease that it issues, is the step of a
  decision point in a deployment.
\<close>

lemma session_grant_step:
  "bindo (on_issuer True (evaluate_policy E k actor request state p None None)) (\<lambda>(out, _).
     case out of
       (ALLOW, _, _, Some constraints) \<Rightarrow>
         bindo (on_world (issue_lease E request constraints issuer sk (lease_ttl_seconds p)
           (policy_id p) (policy_digest E p))) (\<lambda>l. ret (Some l))
     | _ \<Rightarrow> ret None) d =
   on_issuer True (grant_lease E issuer sk (k, actor, request, state, p, None, None)) d"
proof -
  let ?t = "\<lparr>is_cache = Some (ds_requests d), is_log = AuditLog, is_world = gs_world (ds_gate d)\<rparr>"
  obtain r t where eval: "evaluate_policy E k actor request state p None None ?t = (r, t)" by fastforce
  show ?thesis
  proof (cases r)
    case (Inl e)
    with eval show ?thesis by (simp add: on_issuer_def grant_lease_def bindo_def)
  next
    case (Inr a)
    obtain dec reason alts co ev where a: "a = ((dec, reason, alts, co), ev)" by (cases a) auto
    show ?thesis
      using eval by (cases dec; cases co)
        (auto simp: Inr a on_issuer_def on_world_def grant_lease_def bindo_def on_issuer_world_def ret_def Let_def
          split: prod.splits sum.splits)
  qed
qed

end
